(* ===== verification/Prelude.thy ===== *)
theory Prelude
  imports Main "HOL-Library.Word"
begin

text \<open>
  Shared vocabulary of the development: the machine integers of the Rust
  sources, faults (a Rust panic, or undefined behaviour of the generated code),
  the sequencing operator for fallible computations, byte strings and their
  big- and little-endian readings, and the list facts the components share.
\<close>

unbundle bit_operations_syntax

named_theorems result_simps \<open>unfolding of sequenced fallible computations\<close>

named_theorems byte_simps \<open>facts about byte strings and slices\<close>

section \<open>Machine integers\<close>

type_synonym u8 = "8 word"
type_synonym u32 = "32 word"
type_synonym u64 = "64 word"
type_synonym u128 = "128 word"
type_synonym u256 = "256 word"
type_synonym address = "160 word"
type_synonym b256 = "256 word"
type_synonym bytes = "u8 list"

text \<open>Rust's \<open>saturating_sub\<close>, \<open>checked_add\<close> and \<open>checked_sub\<close>.\<close>

definition saturating_sub :: "'a::len word \<Rightarrow> 'a word \<Rightarrow> 'a word" where
  "saturating_sub a b = (if a < b then 0 else a - b)"

definition checked_add :: "'a::len word \<Rightarrow> 'a word \<Rightarrow> 'a word option" where
  "checked_add a b = (if unat a + unat b < 2 ^ LENGTH('a) then Some (a + b) else None)"

definition checked_sub :: "'a::len word \<Rightarrow> 'a word \<Rightarrow> 'a word option" where
  "checked_sub a b = (if b \<le> a then Some (a - b) else None)"

lemma unat_saturating_sub: "unat (saturating_sub a b) = unat a - unat b"
  by (simp add: saturating_sub_def unat_sub word_le_nat_alt word_less_nat_alt not_less)

lemma saturating_sub_le: "saturating_sub a b \<le> a"
  by (simp add: word_le_nat_alt unat_saturating_sub)

lemma checked_add_SomeD: "checked_add a b = Some c \<Longrightarrow> unat c = unat a + unat b"
  by (auto simp: checked_add_def unat_word_ariths split: if_splits)

lemma checked_sub_SomeD: "checked_sub a b = Some c \<Longrightarrow> unat c + unat b = unat a"
  by (auto simp: checked_sub_def unat_sub word_le_nat_alt split: if_splits)

lemma unat_less_pow: "unat (w :: 'a::len word) < 2 ^ LENGTH('a)"
  by (rule unsigned_less)

lemma unat_ucast_up:
  "LENGTH('a) \<le> LENGTH('b) \<Longrightarrow> unat (ucast (w :: 'a::len word) :: 'b::len word) = unat w"
proof -
  assume "LENGTH('a) \<le> LENGTH('b)"
  then have "(2::nat) ^ LENGTH('a) \<le> 2 ^ LENGTH('b)" by (intro power_increasing) simp_all
  then have "unat w < 2 ^ LENGTH('b)" using unat_less_pow [of w] by (rule less_le_trans [rotated])
  then show ?thesis by (simp add: unsigned_ucast_eq take_bit_nat_eq_self_iff)
qed

section \<open>Faults and sequencing\<close>

text \<open>
  A computation of the model ends in a value (\<open>Inr\<close>) or in a fault (\<open>Inl\<close>).
  \<open>Panic\<close> is a Rust panic (an \<open>unwrap\<close> on nothing, an index out of range, an
  overflow the number type checks). \<open>Undefined_Behaviour\<close> is an access of the
  generated code outside its stack or memory, a division that LLVM leaves
  undefined, or a poisoned shift. \<open>Out_Of_Fuel\<close> ends a run whose bound on steps was too small.
\<close>

datatype fault = Panic | Undefined_Behaviour | Out_Of_Fuel

type_synonym 'a res = "fault + 'a"

fun and_then :: "'e + 'a \<Rightarrow> ('a \<Rightarrow> 'e + 'b) \<Rightarrow> 'e + 'b" where
  "and_then (Inl e) f = Inl e"
| "and_then (Inr x) f = f x"

definition no_fault :: "'a res \<Rightarrow> bool" where
  "no_fault r \<longleftrightarrow> (\<exists>x. r = Inr x)"

lemma and_then_eq_Inr [result_simps]:
  "and_then m f = Inr y \<longleftrightarrow> (\<exists>x. m = Inr x \<and> f x = Inr y)"
  by (cases m) auto

lemma and_then_assoc: "and_then (and_then m f) g = and_then m (\<lambda>x. and_then (f x) g)"
  by (cases m) auto

lemma and_then_Inr_right [simp]: "and_then m Inr = m"
  by (cases m) auto

lemma and_then_cong [fundef_cong]:
  "m = m' \<Longrightarrow> (\<And>x. m' = Inr x \<Longrightarrow> f x = f' x) \<Longrightarrow> and_then m f = and_then m' f'"
  by (cases m') auto

lemma no_fault_Inr [simp]: "no_fault (Inr x)"
  by (simp add: no_fault_def)

lemma no_fault_Inl [simp]: "\<not> no_fault (Inl e)"
  by (simp add: no_fault_def)

lemma no_fault_and_then:
  "no_fault m \<Longrightarrow> (\<And>x. m = Inr x \<Longrightarrow> no_fault (f x)) \<Longrightarrow> no_fault (and_then m f)"
  by (cases m) auto

section \<open>Byte strings\<close>

text \<open>\<open>u64::from_be_bytes\<close> and its kin: the value of a byte string, read big-endian.\<close>

definition be_nat :: "bytes \<Rightarrow> nat" where
  "be_nat bs = foldl (\<lambda>a b. a * 256 + unat b) 0 bs"

definition le_nat :: "bytes \<Rightarrow> nat" where
  "le_nat bs = be_nat (rev bs)"

text \<open>\<open>to_be_bytes\<close> of an integer that is \<open>n\<close> bytes wide.\<close>

primrec nat_to_be :: "nat \<Rightarrow> nat \<Rightarrow> bytes" where
  "nat_to_be 0 v = []"
| "nat_to_be (Suc n) v = nat_to_be n (v div 256) @ [of_nat (v mod 256)]"

definition word_to_be :: "'a::len word \<Rightarrow> bytes" where
  "word_to_be w = nat_to_be (LENGTH('a) div 8) (unat w)"

definition word_from_be :: "bytes \<Rightarrow> 'a::len word" where
  "word_from_be bs = of_nat (be_nat bs)"

definition word_to_le :: "'a::len word \<Rightarrow> bytes" where
  "word_to_le w = rev (word_to_be w)"

definition word_from_le :: "bytes \<Rightarrow> 'a::len word" where
  "word_from_le bs = of_nat (le_nat bs)"

lemma be_nat_Nil [simp]: "be_nat [] = 0"
  by (simp add: be_nat_def)

lemma be_nat_snoc [simp]: "be_nat (bs @ [b]) = be_nat bs * 256 + unat b"
  by (simp add: be_nat_def)

lemma unat_u8_less: "unat (b :: u8) < 256"
  using unat_less_pow [of b] by simp

lemma be_nat_append: "be_nat (xs @ ys) = be_nat xs * 256 ^ length ys + be_nat ys"
proof (induction ys rule: rev_induct)
  case Nil
  then show ?case by simp
next
  case (snoc y ys)
  have "be_nat (xs @ ys @ [y]) = be_nat (xs @ ys) * 256 + unat y"
    by (metis append_assoc be_nat_snoc)
  then show ?case by (simp add: snoc.IH algebra_simps)
qed

lemma be_nat_Cons: "be_nat (b # bs) = unat b * 256 ^ length bs + be_nat bs"
  using be_nat_append [of "[b]" bs] by (simp add: be_nat_def)

lemma be_nat_bound: "be_nat bs < 256 ^ length bs"
proof (induction bs rule: rev_induct)
  case Nil
  then show ?case by simp
next
  case (snoc b bs)
  then have "be_nat bs * 256 + unat b < 256 ^ length bs * 256"
    using unat_u8_less [of b] by linarith
  then show ?case by simp
qed

lemma length_nat_to_be [simp]: "length (nat_to_be n v) = n"
  by (induction n arbitrary: v) auto

lemma be_nat_to_be: "be_nat (nat_to_be n v) = v mod 256 ^ n"
proof (induction n arbitrary: v)
  case 0
  then show ?case by simp
next
  case (Suc n)
  have u: "unat (of_nat (v mod 256) :: u8) = v mod 256"
    by (simp add: unat_of_nat)
  have "be_nat (nat_to_be (Suc n) v) = (v div 256 mod 256 ^ n) * 256 + v mod 256"
    using Suc.IH u by simp
  then show ?case
    by (simp add: mod_mult2_eq [of v 256 "256 ^ n"] algebra_simps)
qed

lemma nat_to_be_be_nat: "nat_to_be (length bs) (be_nat bs) = bs"
proof (induction bs rule: rev_induct)
  case Nil
  then show ?case by simp
next
  case (snoc b bs)
  have "(be_nat bs * 256 + unat b) div 256 = be_nat bs"
    and "(be_nat bs * 256 + unat b) mod 256 = unat b"
    using unat_u8_less [of b] by simp_all
  then show ?case using snoc by simp
qed

lemma be_nat_inject:
  "length xs = length ys \<Longrightarrow> be_nat xs = be_nat ys \<longleftrightarrow> xs = ys"
  by (metis nat_to_be_be_nat)

lemma be_nat_replicate_0 [simp]: "be_nat (replicate n 0) = 0"
  by (induction n) (simp_all add: replicate_append_same [symmetric])

lemma nat_to_be_0 [simp]: "nat_to_be n 0 = replicate n 0"
  by (induction n) (simp_all add: replicate_append_same)

lemma nat_to_be_split:
  "nat_to_be (m + n) v = nat_to_be m (v div 256 ^ n) @ nat_to_be n v"
proof (induction n arbitrary: v)
  case 0
  then show ?case by simp
next
  case (Suc n)
  show ?case using Suc.IH [of "v div 256"] by (simp add: div_mult2_eq)
qed

lemma nat_to_be_pad:
  assumes "v < 256 ^ n" and "n \<le> m"
  shows "nat_to_be m v = replicate (m - n) 0 @ nat_to_be n v"
proof -
  have "nat_to_be ((m - n) + n) v = nat_to_be (m - n) 0 @ nat_to_be n v"
    using assms by (simp only: nat_to_be_split div_less)
  then show ?thesis using assms(2) by simp
qed

section \<open>Lists\<close>

text \<open>\<open>&v[a..b]\<close>: a panic when the range is not inside the slice.\<close>

definition slice :: "'a list \<Rightarrow> nat \<Rightarrow> nat \<Rightarrow> 'a list res" where
  "slice xs a b = (if a \<le> b \<and> b \<le> length xs then Inr (take (b - a) (drop a xs)) else Inl Panic)"

text \<open>\<open>v[a..].copy_from_slice(w)\<close> at a place where it fits, else a panic.\<close>

definition splice :: "'a list \<Rightarrow> nat \<Rightarrow> 'a list \<Rightarrow> 'a list res" where
  "splice xs a ys =
     (if a + length ys \<le> length xs
      then Inr (take a xs @ ys @ drop (a + length ys) xs) else Inl Panic)"

lemma slice_Inr [byte_simps]:
  "a \<le> b \<Longrightarrow> b \<le> length xs \<Longrightarrow> slice xs a b = Inr (take (b - a) (drop a xs))"
  by (simp add: slice_def)

lemma splice_Inr [byte_simps]:
  "a + length ys \<le> length xs \<Longrightarrow>
   splice xs a ys = Inr (take a xs @ ys @ drop (a + length ys) xs)"
  by (simp add: splice_def)

lemma length_splice: "splice xs a ys = Inr zs \<Longrightarrow> length zs = length xs"
  by (auto simp: splice_def split: if_splits)

lemma nth_splice:
  assumes "splice xs a ys = Inr zs" and "i < length xs"
  shows "zs ! i = (if a \<le> i \<and> i < a + length ys then ys ! (i - a) else xs ! i)"
  using assms by (auto simp: splice_def nth_append split: if_splits)

section \<open>Keyed stores\<close>

text \<open>
  The interface of everything that is read and written by key: the storage of
  the database and of the journal, the cells of the stack. \<open>ok s k\<close> says that
  the key can be used in the state.
\<close>

locale kv_store =
  fixes rd :: "'s \<Rightarrow> 'k \<Rightarrow> 'v" and wr :: "'s \<Rightarrow> 'k \<Rightarrow> 'v \<Rightarrow> 's" and ok :: "'s \<Rightarrow> 'k \<Rightarrow> bool"
  assumes ok_wr: "ok s k \<Longrightarrow> ok (wr s k v) k' \<longleftrightarrow> ok s k'"
    and rd_wr: "ok s k \<Longrightarrow> ok s k' \<Longrightarrow> rd (wr s k v) k' = (if k' = k then v else rd s k')"
begin

lemma rd_wr_same: "ok s k \<Longrightarrow> rd (wr s k v) k = v"
  by (simp add: rd_wr)

lemma rd_wr_other: "ok s k \<Longrightarrow> ok s k' \<Longrightarrow> k' \<noteq> k \<Longrightarrow> rd (wr s k v) k' = rd s k'"
  by (simp add: rd_wr)

text \<open>After a sequence of writes a key holds the last value written to it.\<close>

lemma ok_writes:
  "(\<And>k v. (k, v) \<in> set ws \<Longrightarrow> ok s k) \<Longrightarrow> ok (foldl (\<lambda>s (k, v). wr s k v) s ws) k' \<longleftrightarrow> ok s k'"
proof (induction ws arbitrary: s)
  case (Cons w ws)
  obtain k v where w: "w = (k, v)" by fastforce
  then have "ok s k" using Cons.prems [of k v] by simp
  moreover have "\<And>j u. (j, u) \<in> set ws \<Longrightarrow> ok (wr s k v) j"
    using Cons.prems \<open>ok s k\<close> by (auto simp: ok_wr)
  ultimately show ?case using Cons.IH [of "wr s k v"] by (simp add: w ok_wr)
qed simp

lemma rd_writes:
  assumes "\<And>k v. (k, v) \<in> set ws \<Longrightarrow> ok s k" and "ok s k'"
  shows "rd (foldl (\<lambda>s (k, v). wr s k v) s ws) k' =
         (case map_of (rev ws) k' of Some v \<Rightarrow> v | None \<Rightarrow> rd s k')"
  using assms
proof (induction ws arbitrary: s)
  case (Cons w ws)
  obtain k v where w: "w = (k, v)" by fastforce
  then have ok: "ok s k" using Cons.prems(1) [of k v] by simp
  have "\<And>j u. (j, u) \<in> set ws \<Longrightarrow> ok (wr s k v) j" "ok (wr s k v) k'"
    using Cons.prems ok by (auto simp: ok_wr)
  then show ?case
    using Cons.IH [of "wr s k v"] ok Cons.prems(2)
    by (auto simp: w rd_wr map_add_def split: option.splits)
qed simp

end

end
