(* ===== verification/Constants.thy ===== *)
theory Constants
  imports Prelude
begin

text \<open>
  The constants and cost functions of \<open>constants.rs\<close>: gas costs, call and return
  codes, precompile parameters, call types. The gas costs of the module
  \<open>gas_cost\<close> carry the prefix \<open>gas_\<close>; they are 64-bit words, the width of the
  gas counter they are subtracted from.
\<close>

named_theorems gas_consts \<open>values of the program's constants\<close>

section \<open>Constants\<close>

definition MAX_STACK_SIZE :: nat where [gas_consts]: "MAX_STACK_SIZE = 1024"
definition VERSIONED_HASH_VERSION_KZG :: u8 where [gas_consts]: "VERSIONED_HASH_VERSION_KZG = 0x01"
definition MAX_BLOB_NUMBER_PER_BLOCK :: u8 where [gas_consts]: "MAX_BLOB_NUMBER_PER_BLOCK = 0x01"

text \<open>The hash of the empty code, \<open>EMPTY_CODE_HASH_STR\<close>.\<close>

definition EMPTY_CODE_HASH :: b256 where
  "EMPTY_CODE_HASH = 0xc5d2460186f7233c927e7db2dcc703c0e500b653ca82273b7bfad8045d85a470"

subsection \<open>Module \<open>gas_cost\<close>\<close>

definition gas_ADD :: u64 where [gas_consts]: "gas_ADD = 3"
definition gas_MUL :: u64 where [gas_consts]: "gas_MUL = 5"
definition gas_SUB :: u64 where [gas_consts]: "gas_SUB = 3"
definition gas_DIV :: u64 where [gas_consts]: "gas_DIV = 5"
definition gas_SDIV :: u64 where [gas_consts]: "gas_SDIV = 5"
definition gas_MOD :: u64 where [gas_consts]: "gas_MOD = 5"
definition gas_SMOD :: u64 where [gas_consts]: "gas_SMOD = 5"
definition gas_ADDMOD :: u64 where [gas_consts]: "gas_ADDMOD = 8"
definition gas_MULMOD :: u64 where [gas_consts]: "gas_MULMOD = 8"
definition gas_EXP :: u64 where [gas_consts]: "gas_EXP = 10"
definition gas_SIGNEXTEND :: u64 where [gas_consts]: "gas_SIGNEXTEND = 5"
definition gas_LT :: u64 where [gas_consts]: "gas_LT = 3"
definition gas_GT :: u64 where [gas_consts]: "gas_GT = 3"
definition gas_SLT :: u64 where [gas_consts]: "gas_SLT = 3"
definition gas_SGT :: u64 where [gas_consts]: "gas_SGT = 3"
definition gas_EQ :: u64 where [gas_consts]: "gas_EQ = 3"
definition gas_ISZERO :: u64 where [gas_consts]: "gas_ISZERO = 3"
definition gas_AND :: u64 where [gas_consts]: "gas_AND = 3"
definition gas_OR :: u64 where [gas_consts]: "gas_OR = 3"
definition gas_XOR :: u64 where [gas_consts]: "gas_XOR = 3"
definition gas_NOT :: u64 where [gas_consts]: "gas_NOT = 3"
definition gas_BYTE :: u64 where [gas_consts]: "gas_BYTE = 3"
definition gas_SHL :: u64 where [gas_consts]: "gas_SHL = 3"
definition gas_SAR :: u64 where [gas_consts]: "gas_SAR = 3"
definition gas_BALANCE_WARM :: u64 where [gas_consts]: "gas_BALANCE_WARM = 100"
definition gas_BALANCE_COLD :: u64 where [gas_consts]: "gas_BALANCE_COLD = 2600"
definition gas_ORIGIN :: u64 where [gas_consts]: "gas_ORIGIN = 2"
definition gas_CALLER :: u64 where [gas_consts]: "gas_CALLER = 2"
definition gas_CALLVALUE :: u64 where [gas_consts]: "gas_CALLVALUE = 2"
definition gas_CALLDATALOAD :: u64 where [gas_consts]: "gas_CALLDATALOAD = 3"
definition gas_CALLDATASIZE :: u64 where [gas_consts]: "gas_CALLDATASIZE = 2"
definition gas_CALLDATACOPY :: u64 where [gas_consts]: "gas_CALLDATACOPY = 3"
definition gas_CODESIZE :: u64 where [gas_consts]: "gas_CODESIZE = 2"
definition gas_COINBASE :: u64 where [gas_consts]: "gas_COINBASE = 2"
definition gas_GASPRICE :: u64 where [gas_consts]: "gas_GASPRICE = 2"
definition gas_SELFBALANCE :: u64 where [gas_consts]: "gas_SELFBALANCE = 5"
definition gas_NUMBER :: u64 where [gas_consts]: "gas_NUMBER = 2"
definition gas_PREVRANDAO :: u64 where [gas_consts]: "gas_PREVRANDAO = 2"
definition gas_BLOBBASEFEE :: u64 where [gas_consts]: "gas_BLOBBASEFEE = 2"
definition gas_CHAINID :: u64 where [gas_consts]: "gas_CHAINID = 2"
definition gas_BASEFEE :: u64 where [gas_consts]: "gas_BASEFEE = 2"
definition gas_BLOBHASH :: u64 where [gas_consts]: "gas_BLOBHASH = 3"
definition gas_POP :: u64 where [gas_consts]: "gas_POP = 2"
definition gas_MLOAD :: u64 where [gas_consts]: "gas_MLOAD = 3"
definition gas_MSTORE :: u64 where [gas_consts]: "gas_MSTORE = 3"
definition gas_MSTORE8 :: u64 where [gas_consts]: "gas_MSTORE8 = 3"
definition gas_SLOAD_WARM :: u64 where [gas_consts]: "gas_SLOAD_WARM = 100"
definition gas_SLOAD_COLD :: u64 where [gas_consts]: "gas_SLOAD_COLD = 2100"
definition gas_JUMP :: u64 where [gas_consts]: "gas_JUMP = 8"
definition gas_JUMPI :: u64 where [gas_consts]: "gas_JUMPI = 10"
definition gas_PC :: u64 where [gas_consts]: "gas_PC = 2"
definition gas_MSIZE :: u64 where [gas_consts]: "gas_MSIZE = 2"
definition gas_GAS :: u64 where [gas_consts]: "gas_GAS = 2"
definition gas_JUMPDEST :: u64 where [gas_consts]: "gas_JUMPDEST = 1"
definition gas_MCOPY :: u64 where [gas_consts]: "gas_MCOPY = 3"
definition gas_PUSH0 :: u64 where [gas_consts]: "gas_PUSH0 = 2"
definition gas_PUSHN :: u64 where [gas_consts]: "gas_PUSHN = 3"
definition gas_DUPN :: u64 where [gas_consts]: "gas_DUPN = 3"
definition gas_SWAPN :: u64 where [gas_consts]: "gas_SWAPN = 3"
definition gas_TIMESTAMP :: u64 where [gas_consts]: "gas_TIMESTAMP = 2"
definition gas_KECCAK256 :: u64 where [gas_consts]: "gas_KECCAK256 = 30"
definition gas_CODECOPY :: u64 where [gas_consts]: "gas_CODECOPY = 3"
definition gas_LOG :: u64 where [gas_consts]: "gas_LOG = 375"
definition gas_BLOCKHASH :: u64 where [gas_consts]: "gas_BLOCKHASH = 20"
definition gas_CALL_WARM :: u64 where [gas_consts]: "gas_CALL_WARM = 100"
definition gas_CALL_COLD :: u64 where [gas_consts]: "gas_CALL_COLD = 2600"
definition gas_EXTCODEHASH_WARM :: u64 where [gas_consts]: "gas_EXTCODEHASH_WARM = 100"
definition gas_EXTCODEHASH_COLD :: u64 where [gas_consts]: "gas_EXTCODEHASH_COLD = 2600"
definition gas_EXTCODESIZE_WARM :: u64 where [gas_consts]: "gas_EXTCODESIZE_WARM = 100"
definition gas_EXTCODESIZE_COLD :: u64 where [gas_consts]: "gas_EXTCODESIZE_COLD = 2600"
definition gas_EXTCODECOPY_WARM :: u64 where [gas_consts]: "gas_EXTCODECOPY_WARM = 100"
definition gas_EXTCODECOPY_COLD :: u64 where [gas_consts]: "gas_EXTCODECOPY_COLD = 2600"
definition gas_RETURNDATASIZE :: u64 where [gas_consts]: "gas_RETURNDATASIZE = 2"
definition gas_RETURNDATACOPY :: u64 where [gas_consts]: "gas_RETURNDATACOPY = 3"
definition gas_ADDRESS :: u64 where [gas_consts]: "gas_ADDRESS = 2"
definition gas_GASLIMIT :: u64 where [gas_consts]: "gas_GASLIMIT = 2"
definition gas_SSTORE_MIN_REMAINING_GAS :: u64 where [gas_consts]: "gas_SSTORE_MIN_REMAINING_GAS = 2300"
definition gas_CREATE :: u64 where [gas_consts]: "gas_CREATE = 32000"
definition gas_TLOAD :: u64 where [gas_consts]: "gas_TLOAD = 100"
definition gas_TSTORE :: u64 where [gas_consts]: "gas_TSTORE = 100"
definition gas_SELFDESTRUCT :: u64 where [gas_consts]: "gas_SELFDESTRUCT = 5000"
definition gas_SELFDESTRUCT_DYNAMIC_GAS :: u64 where [gas_consts]: "gas_SELFDESTRUCT_DYNAMIC_GAS = 25000"
definition gas_MIN_BLOB_GASPRICE :: u64 where [gas_consts]: "gas_MIN_BLOB_GASPRICE = 1"
definition gas_BLOB_GASPRICE_UPDATE_FRACTION :: u64 where [gas_consts]: "gas_BLOB_GASPRICE_UPDATE_FRACTION = 3338477"
definition gas_BYTE_DEPOSIT_COST :: u64 where [gas_consts]: "gas_BYTE_DEPOSIT_COST = 200"
definition gas_INIT_WORD_COST :: u64 where [gas_consts]: "gas_INIT_WORD_COST = 2"
definition gas_HASH_WORD_COST :: u64 where [gas_consts]: "gas_HASH_WORD_COST = 6"
definition gas_TX_BASE_COST :: u64 where [gas_consts]: "gas_TX_BASE_COST = 21000"
definition gas_TX_DATA_COST_PER_NON_ZERO :: u64 where [gas_consts]: "gas_TX_DATA_COST_PER_NON_ZERO = 16"
definition gas_TX_DATA_COST_PER_ZERO :: u64 where [gas_consts]: "gas_TX_DATA_COST_PER_ZERO = 4"
definition gas_TX_CREATE_COST :: u64 where [gas_consts]: "gas_TX_CREATE_COST = 32000"
definition gas_TX_ACCESS_LIST_ADDRESS_COST :: u64 where [gas_consts]: "gas_TX_ACCESS_LIST_ADDRESS_COST = 2400"
definition gas_TX_ACCESS_LIST_STORAGE_KEY_COST :: u64 where [gas_consts]: "gas_TX_ACCESS_LIST_STORAGE_KEY_COST = 1900"
definition MAX_CODE_SIZE :: nat where [gas_consts]: "MAX_CODE_SIZE = 0x6000"

subsection \<open>Module \<open>call_opcode\<close>\<close>

definition WARM_MEMORY_ACCESS_COST :: u64 where [gas_consts]: "WARM_MEMORY_ACCESS_COST = 100"
definition NOT_ZERO_VALUE_COST :: u64 where [gas_consts]: "NOT_ZERO_VALUE_COST = 9000"
definition EMPTY_CALLEE_COST :: u64 where [gas_consts]: "EMPTY_CALLEE_COST = 25000"
definition STIPEND_GAS_ADDITION :: u64 where [gas_consts]: "STIPEND_GAS_ADDITION = 2300"
definition GAS_CAP_DIVISION_FACTOR :: u64 where [gas_consts]: "GAS_CAP_DIVISION_FACTOR = 64"

subsection \<open>Module \<open>return_codes\<close>\<close>

definition REVERT_RETURN_CODE :: u8 where [gas_consts]: "REVERT_RETURN_CODE = 0"
definition SUCCESS_RETURN_CODE :: u8 where [gas_consts]: "SUCCESS_RETURN_CODE = 1"
definition HALT_RETURN_CODE :: u8 where [gas_consts]: "HALT_RETURN_CODE = 2"

subsection \<open>Module \<open>precompiles\<close>\<close>

definition ECR_HASH_END :: nat where [gas_consts]: "ECR_HASH_END = 32"
definition ECR_V_POS :: nat where [gas_consts]: "ECR_V_POS = 63"
definition ECR_V_BASE :: nat where [gas_consts]: "ECR_V_BASE = 27"
definition ECR_SIG_END :: nat where [gas_consts]: "ECR_SIG_END = 128"
definition ECR_PARAMS_OFFSET :: nat where [gas_consts]: "ECR_PARAMS_OFFSET = 128"
definition ECR_PADDING_LEN :: nat where [gas_consts]: "ECR_PADDING_LEN = 12"
definition ECRECOVER_COST :: u64 where [gas_consts]: "ECRECOVER_COST = 3000"
definition ECRECOVER_ADDRESS :: u64 where [gas_consts]: "ECRECOVER_ADDRESS = 0x01"
definition SHA2_256_STATIC_COST :: u64 where [gas_consts]: "SHA2_256_STATIC_COST = 60"
definition SHA2_256_ADDRESS :: u64 where [gas_consts]: "SHA2_256_ADDRESS = 0x02"
definition RIPEMD_OUTPUT_LEN :: nat where [gas_consts]: "RIPEMD_OUTPUT_LEN = 32"
definition RIPEMD_PADDING_LEN :: nat where [gas_consts]: "RIPEMD_PADDING_LEN = 12"
definition RIPEMD_160_COST :: u64 where [gas_consts]: "RIPEMD_160_COST = 600"
definition RIPEMD_160_ADDRESS :: u64 where [gas_consts]: "RIPEMD_160_ADDRESS = 0x03"
definition IDENTITY_STATIC_COST :: u64 where [gas_consts]: "IDENTITY_STATIC_COST = 15"
definition IDENTITY_ADDRESS :: u64 where [gas_consts]: "IDENTITY_ADDRESS = 0x04"
definition BSIZE_END :: nat where [gas_consts]: "BSIZE_END = 32"
definition ESIZE_END :: nat where [gas_consts]: "ESIZE_END = 64"
definition MSIZE_END :: nat where [gas_consts]: "MSIZE_END = 96"
definition MXP_PARAMS_OFFSET :: nat where [gas_consts]: "MXP_PARAMS_OFFSET = 96"
definition MODEXP_ADDRESS :: u64 where [gas_consts]: "MODEXP_ADDRESS = 0x05"
definition MIN_MODEXP_COST :: u64 where [gas_consts]: "MIN_MODEXP_COST = 200"
definition ECADD_PARAMS_OFFSET :: nat where [gas_consts]: "ECADD_PARAMS_OFFSET = 128"
definition ECADD_X1_END :: nat where [gas_consts]: "ECADD_X1_END = 32"
definition ECADD_Y1_END :: nat where [gas_consts]: "ECADD_Y1_END = 64"
definition ECADD_X2_END :: nat where [gas_consts]: "ECADD_X2_END = 96"
definition ECADD_Y2_END :: nat where [gas_consts]: "ECADD_Y2_END = 128"
definition ECADD_ADDRESS :: u64 where [gas_consts]: "ECADD_ADDRESS = 0x06"
definition ECADD_COST :: u64 where [gas_consts]: "ECADD_COST = 150"
definition ECMUL_PARAMS_OFFSET :: nat where [gas_consts]: "ECMUL_PARAMS_OFFSET = 96"
definition ECMUL_X1_END :: nat where [gas_consts]: "ECMUL_X1_END = 32"
definition ECMUL_Y1_END :: nat where [gas_consts]: "ECMUL_Y1_END = 64"
definition ECMUL_S_END :: nat where [gas_consts]: "ECMUL_S_END = 96"
definition ECMUL_ADDRESS :: u64 where [gas_consts]: "ECMUL_ADDRESS = 0x07"
definition ECMUL_COST :: u64 where [gas_consts]: "ECMUL_COST = 6000"
definition ECP_INPUT_SIZE :: nat where [gas_consts]: "ECP_INPUT_SIZE = 192"
definition ECP_FIELD_SIZE :: nat where [gas_consts]: "ECP_FIELD_SIZE = 32"
definition G1_POINT_POS :: nat where [gas_consts]: "G1_POINT_POS = 64"
definition G2_POINT_POS :: nat where [gas_consts]: "G2_POINT_POS = 128"
definition ECPAIRING_ADDRESS :: u64 where [gas_consts]: "ECPAIRING_ADDRESS = 0x08"
definition ECPAIRING_STATIC_COST :: u64 where [gas_consts]: "ECPAIRING_STATIC_COST = 45000"
definition ECPAIRING_PAIRING_COST :: u64 where [gas_consts]: "ECPAIRING_PAIRING_COST = 34000"
definition BF2_ROUND_END :: nat where [gas_consts]: "BF2_ROUND_END = 4"
definition BF2_BLOCK_FLAG :: nat where [gas_consts]: "BF2_BLOCK_FLAG = 212"
definition BF2_VEC_ELEM_SIZE :: nat where [gas_consts]: "BF2_VEC_ELEM_SIZE = 8"
definition BF2_STATEVEC_INIT :: nat where [gas_consts]: "BF2_STATEVEC_INIT = 4"
definition BF2_MSGVEC_INIT :: nat where [gas_consts]: "BF2_MSGVEC_INIT = 68"
definition BF2_OFFSET_COUNT_INIT :: nat where [gas_consts]: "BF2_OFFSET_COUNT_INIT = 196"
definition BLAKE2F_ADDRESS :: u64 where [gas_consts]: "BLAKE2F_ADDRESS = 0x09"

section \<open>Cost functions\<close>

text \<open>EIP-3860; the \<open>assert!\<close> is a panic.\<close>

definition init_code_cost :: "u64 \<Rightarrow> u64 res" where
  "init_code_cost init_code_length =
     (if init_code_length \<le> of_nat (MAX_CODE_SIZE * 2)
      then let saturated = (if unat init_code_length + 31 < 2 ^ 64
                            then init_code_length + 31 else - 1);
               number_of_words = saturated div 32
           in Inr (gas_INIT_WORD_COST * number_of_words)
      else Inl Panic)"

text \<open>The 32-bit additions and products wrap; the difference is widened at the end.\<close>

definition memory_cost32 :: "u32 \<Rightarrow> u32" where
  "memory_cost32 sz = (let w = (sz + 31) div 32 in (w * w) div 512 + 3 * w)"

definition memory_expansion_cost :: "u32 \<Rightarrow> u32 \<Rightarrow> u64" where
  "memory_expansion_cost last_size new_size =
     ucast (memory_cost32 new_size - memory_cost32 last_size)"

definition memory_copy_cost :: "u32 \<Rightarrow> u64" where
  "memory_copy_cost sz = ucast ((sz + 31) div 32 * 3)"

definition log_dynamic_gas_cost :: "u32 \<Rightarrow> u32 \<Rightarrow> u64" where
  "log_dynamic_gas_cost sz topic_count = gas_LOG * ucast topic_count + 8 * ucast sz"

text \<open>\<open>64 - exponent.leading_zeros()\<close> is the number of bits of the exponent.\<close>

fun bit_count :: "nat \<Rightarrow> nat" where
  "bit_count n = (if n = 0 then 0 else Suc (bit_count (n div 2)))"

declare bit_count.simps [simp del]

definition leading_zeros :: "'a::len word \<Rightarrow> nat" where
  "leading_zeros x = LENGTH('a) - bit_count (unat x)"

definition exponent_byte_size :: "u64 \<Rightarrow> u64" where
  "exponent_byte_size exponent = of_nat (((64 - leading_zeros exponent) + 7) div 8)"

definition exp_dynamic_cost :: "u64 \<Rightarrow> u64" where
  "exp_dynamic_cost exponent = 10 + 50 * exponent_byte_size exponent"

definition identity_dynamic_cost :: "u64 \<Rightarrow> u64" where
  "identity_dynamic_cost len = (len + 31) div 32 * 3"

definition sha2_256_dynamic_cost :: "u64 \<Rightarrow> u64" where
  "sha2_256_dynamic_cost len = (len + 31) div 32 * 12"

definition ripemd_160_dynamic_cost :: "u64 \<Rightarrow> u64" where
  "ripemd_160_dynamic_cost len = (len + 31) div 32 * 120"

definition ecpairing_dynamic_cost :: "u64 \<Rightarrow> u64" where
  "ecpairing_dynamic_cost len = ECPAIRING_PAIRING_COST * (len div 192)"

definition blake2_gas_cost :: "u32 \<Rightarrow> u64" where
  "blake2_gas_cost rounds = ucast rounds"

definition double_field_size :: nat where
  "double_field_size = ECP_FIELD_SIZE * 2"

definition ecpairing_g2_point1_start :: "nat \<Rightarrow> nat" where
  "ecpairing_g2_point1_start pos = pos + ECP_FIELD_SIZE"

definition ecpairing_g2_point1_end :: "nat \<Rightarrow> nat" where
  "ecpairing_g2_point1_end pos = pos + double_field_size"

section \<open>Call types\<close>

datatype call_type = Call_Call | Call_StaticCall | Call_DelegateCall | Call_CallCode

primrec call_type_u8 :: "call_type \<Rightarrow> u8" where
  "call_type_u8 Call_Call = 0"
| "call_type_u8 Call_StaticCall = 1"
| "call_type_u8 Call_DelegateCall = 2"
| "call_type_u8 Call_CallCode = 3"

text \<open>\<open>TryFrom<u8>\<close>; \<open>None\<close> is the parse error.\<close>

definition call_type_try_from :: "u8 \<Rightarrow> call_type option" where
  "call_type_try_from x =
     (if x = call_type_u8 Call_Call then Some Call_Call
      else if x = call_type_u8 Call_StaticCall then Some Call_StaticCall
      else if x = call_type_u8 Call_DelegateCall then Some Call_DelegateCall
      else if x = call_type_u8 Call_CallCode then Some Call_CallCode
      else None)"

section \<open>Facts\<close>

lemma call_type_round_trip [simp]: "call_type_try_from (call_type_u8 t) = Some t"
  by (cases t) (simp_all add: call_type_try_from_def)

lemma call_type_try_from_Some: "call_type_try_from x = Some t \<longleftrightarrow> x = call_type_u8 t"
  by (cases t) (auto simp: call_type_try_from_def split: if_splits)

lemma bit_count_le: "n < 2 ^ k \<Longrightarrow> bit_count n \<le> k"
proof (induction n arbitrary: k rule: bit_count.induct)
  case (1 n)
  show ?case
  proof (cases "n = 0")
    case False
    then obtain j where k: "k = Suc j" using 1(2) by (cases k) auto
    then have "n div 2 < 2 ^ j" using 1(2) by (simp add: less_mult_imp_div_less)
    then show ?thesis using 1(1) [of j] False k by (simp add: bit_count.simps [of n])
  qed (simp add: bit_count.simps [of 0])
qed

lemma bit_count_lower: "0 < n \<Longrightarrow> 2 ^ (bit_count n - 1) \<le> n"
proof (induction n rule: bit_count.induct)
  case (1 n)
  show ?case
  proof (cases "n div 2 = 0")
    case True
    then show ?thesis using 1(2) by (simp add: bit_count.simps [of n] bit_count.simps [of 0])
  next
    case False
    then have "2 ^ (bit_count (n div 2) - 1) \<le> n div 2" using 1 by simp
    moreover have "bit_count (n div 2) = Suc (bit_count (n div 2) - 1)"
      using False by (simp add: bit_count.simps [of "n div 2"])
    ultimately have "2 ^ bit_count (n div 2) \<le> 2 * (n div 2)"
      by (metis mult_le_mono2 power_Suc)
    then show ?thesis using 1(2) by (simp add: bit_count.simps [of n])
  qed
qed

lemma bit_count_upper: "n < 2 ^ bit_count n"
proof (induction n rule: bit_count.induct)
  case (1 n)
  then show ?case by (cases "n = 0") (auto simp: bit_count.simps [of n])
qed

lemma leading_zeros_u64: "64 - leading_zeros (x :: u64) = bit_count (unat x)"
proof -
  have "unat x < 2 ^ 64" using unsigned_less [of x] by simp
  then have "bit_count (unat x) \<le> 64" by (rule bit_count_le)
  then show ?thesis by (simp add: leading_zeros_def)
qed

lemma byte_count: "(LEAST k. n < 256 ^ k) = (bit_count n + 7) div 8"
proof (rule Least_equality)
  have p: "(256 :: nat) ^ j = 2 ^ (8 * j)" for j by (simp add: power_mult)
  have "bit_count n \<le> 8 * ((bit_count n + 7) div 8)" by simp
  then have "(2::nat) ^ bit_count n \<le> 2 ^ (8 * ((bit_count n + 7) div 8))" by (rule power_increasing) simp
  then show "n < 256 ^ ((bit_count n + 7) div 8)" unfolding p by (rule less_le_trans [OF bit_count_upper])
  fix j assume "n < 256 ^ j"
  then have "bit_count n \<le> 8 * j" unfolding p by (rule bit_count_le)
  then show "(bit_count n + 7) div 8 \<le> j" by simp
qed

section \<open>Properties\<close>

text \<open>The yellow paper's cost of a memory of \<open>n\<close> bytes, on natural numbers.\<close>

definition memory_cost_spec :: "nat \<Rightarrow> nat" where
  "memory_cost_spec n = (let w = (n + 31) div 32 in w * w div 512 + 3 * w)"

lemma memory_cost_spec_mono: "m \<le> n \<Longrightarrow> memory_cost_spec m \<le> memory_cost_spec n"
  by (simp add: memory_cost_spec_def Let_def add_mono div_le_mono mult_le_mono)

lemma unat_memory_cost32:
  assumes "unat sz \<le> 2097120"
  shows "unat (memory_cost32 sz) = memory_cost_spec (unat sz)"
proof -
  define w where "w = (unat sz + 31) div 32"
  have w: "w \<le> 65535" using assms by (simp add: w_def)
  define v where "v = (sz + 31) div 32"
  have uv: "unat v = w"
    using assms by (simp add: v_def w_def unat_div unat_word_ariths)
  have ww: "w * w \<le> 65535 * 65535" using w by (intro mult_le_mono)
  have "unat (v * v) = w * w" using ww by (simp add: unat_word_ariths uv)
  moreover have "unat (3 * v) = 3 * w" using w by (simp add: unat_word_ariths uv)
  moreover have "w * w div 512 \<le> 65535 * 65535 div 512" using ww by (rule div_le_mono)
  ultimately have "unat (v * v div 512 + 3 * v) = w * w div 512 + 3 * w"
    using w by (simp add: unat_word_ariths(1) unat_div)
  then show ?thesis
    by (simp add: memory_cost32_def memory_cost_spec_def Let_def v_def w_def)
qed

text \<open>Up to 65535 words the helper \<open>memory_expansion_cost\<close> is the yellow paper's
  price of growing the memory; above that its 32-bit square wraps.\<close>

theorem memory_expansion_cost_exact:
  assumes "unat last_size \<le> unat new_size" and "unat new_size \<le> 2097120"
  shows "unat (memory_expansion_cost last_size new_size) =
         memory_cost_spec (unat new_size) - memory_cost_spec (unat last_size)"
proof -
  have "memory_cost32 last_size \<le> memory_cost32 new_size"
    using assms by (simp add: word_le_nat_alt unat_memory_cost32 memory_cost_spec_mono)
  then have "unat (memory_cost32 new_size - memory_cost32 last_size) =
      memory_cost_spec (unat new_size) - memory_cost_spec (unat last_size)"
    using assms by (simp add: unat_sub unat_memory_cost32)
  then show ?thesis
    by (simp add: memory_expansion_cost_def unat_ucast_up)
qed

text \<open>The price of an exponentiation grows by 50 for every byte of the exponent.\<close>

theorem exp_dynamic_cost_bytes:
  "unat (exp_dynamic_cost e) = 10 + 50 * (LEAST k. unat e < 256 ^ k)"
proof -
  have "unat e < 2 ^ 64" using unsigned_less [of e] by simp
  then have "bit_count (unat e) \<le> 64" by (rule bit_count_le)
  then show ?thesis
    by (simp add: byte_count exp_dynamic_cost_def exponent_byte_size_def leading_zeros_u64 unat_word_ariths unat_of_nat)
qed

end
