(* ===== verification/State_Db.thy ===== *)
theory State_Db
  imports Constants "HOL-Library.Multiset"
begin

text \<open>
  Accounts and their status flags (\<open>state.rs\<close>) and the in-memory database
  (\<open>db.rs\<close>). A \<open>HashMap\<close> is a map; where the source iterates over one
  (\<open>Db::commit\<close>) the model folds over the list of entries in the order the
  iterator yields them, and the order is shown not to matter. The hash function
  \<open>Keccak256\<close> is a parameter.
\<close>

section \<open>Account status\<close>

type_synonym account_status = u8

definition Loaded :: account_status where "Loaded = 0"
definition Created :: account_status where "Created = 1"
definition SelfDestructed :: account_status where "SelfDestructed = 2"
definition Touched :: account_status where "Touched = 4"
definition LoadedAsNotExisting :: account_status where "LoadedAsNotExisting = 8"
definition Cold :: account_status where "Cold = 16"

lemmas status_defs = Loaded_def Created_def SelfDestructed_def Touched_def
  LoadedAsNotExisting_def Cold_def

text \<open>\<open>contains\<close>, \<open>|=\<close> and \<open>&= !\<close> of the \<open>bitflags\<close> struct.\<close>

definition contains :: "account_status \<Rightarrow> account_status \<Rightarrow> bool" where
  "contains s f \<longleftrightarrow> s AND f = f"

definition status_insert :: "account_status \<Rightarrow> account_status \<Rightarrow> account_status" where
  "status_insert s f = s OR f"

definition status_remove :: "account_status \<Rightarrow> account_status \<Rightarrow> account_status" where
  "status_remove s f = s AND NOT f"

section \<open>Accounts\<close>

record account_info =
  info_balance :: u256
  info_nonce :: u64
  info_code_hash :: b256
  info_code :: "bytes option"

record evm_storage_slot =
  evm_original_value :: u256
  evm_present_value :: u256
  evm_is_cold :: bool

record account =
  acct_info :: account_info
  acct_storage :: "u256 \<rightharpoonup> evm_storage_slot"
  acct_status :: account_status

record db_account =
  db_nonce :: u64
  db_balance :: u256
  db_storage :: "u256 \<rightharpoonup> u256"
  db_bytecode_hash :: b256
  db_status :: account_status

definition is_selfdestructed :: "account \<Rightarrow> bool" where
  "is_selfdestructed a = contains (acct_status a) SelfDestructed"

definition is_created :: "account \<Rightarrow> bool" where
  "is_created a = contains (acct_status a) Created"

definition is_touched :: "account \<Rightarrow> bool" where
  "is_touched a = contains (acct_status a) Touched"

definition account_from_info :: "account_info \<Rightarrow> account" where
  "account_from_info i = \<lparr>acct_info = i, acct_storage = Map.empty, acct_status = Loaded\<rparr>"

definition evm_storage_slot_from :: "u256 \<Rightarrow> evm_storage_slot" where
  "evm_storage_slot_from v =
     \<lparr>evm_original_value = v, evm_present_value = v, evm_is_cold = True\<rparr>"

definition db_account_empty :: db_account where
  "db_account_empty = \<lparr>db_nonce = 0, db_balance = 0, db_storage = Map.empty,
     db_bytecode_hash = EMPTY_CODE_HASH, db_status = Created\<rparr>"

definition info_from_db_account :: "db_account \<Rightarrow> account_info" where
  "info_from_db_account d = \<lparr>info_balance = db_balance d, info_nonce = db_nonce d,
     info_code_hash = db_bytecode_hash d, info_code = None\<rparr>"

definition info_empty :: account_info where
  "info_empty = info_from_db_account db_account_empty"

definition info_is_empty :: "account_info \<Rightarrow> bool" where
  "info_is_empty i \<longleftrightarrow>
     info_balance i = 0 \<and> info_nonce i = 0 \<and> info_code_hash i = EMPTY_CODE_HASH"

definition has_code :: "account_info \<Rightarrow> bool" where
  "has_code i \<longleftrightarrow> \<not> (info_code_hash i = 0 \<or> info_code_hash i = EMPTY_CODE_HASH)"

section \<open>The database\<close>

record db =
  db_accounts :: "address \<rightharpoonup> db_account"
  db_contracts :: "b256 \<rightharpoonup> bytes"
  db_block_hashes :: "u256 \<rightharpoonup> b256"

definition db_new :: db where
  "db_new = \<lparr>db_accounts = Map.empty, db_contracts = Map.empty, db_block_hashes = Map.empty\<rparr>"

text \<open>\<open>entry(address).or_insert(DbAccount::empty())\<close> followed by an update in place.\<close>

definition db_modify :: "db \<Rightarrow> address \<Rightarrow> (db_account \<Rightarrow> db_account) \<Rightarrow> db" where
  "db_modify d a f = d\<lparr>db_accounts := (db_accounts d)(a \<mapsto>
     f (case db_accounts d a of Some acc \<Rightarrow> acc | None \<Rightarrow> db_account_empty))\<rparr>"

definition db_insert_block_hash :: "db \<Rightarrow> u256 \<Rightarrow> b256 \<Rightarrow> db" where
  "db_insert_block_hash d n h = d\<lparr>db_block_hashes := (db_block_hashes d)(n \<mapsto> h)\<rparr>"

definition db_set_account ::
  "db \<Rightarrow> address \<Rightarrow> u64 \<Rightarrow> u256 \<Rightarrow> (u256 \<rightharpoonup> u256) \<Rightarrow> db" where
  "db_set_account d a nonce balance storage = db_modify d a (\<lambda>acc.
     acc\<lparr>db_nonce := nonce, db_balance := balance, db_storage := storage\<rparr>)"

definition db_set_balance :: "db \<Rightarrow> address \<Rightarrow> u256 \<Rightarrow> db" where
  "db_set_balance d a balance = db_modify d a (\<lambda>acc. acc\<lparr>db_balance := balance\<rparr>)"

definition db_get_balance :: "db \<Rightarrow> address \<Rightarrow> u256 option" where
  "db_get_balance d a = map_option db_balance (db_accounts d a)"

definition db_address_is_created :: "db \<Rightarrow> address \<Rightarrow> bool" where
  "db_address_is_created d a =
     (case db_accounts d a of Some acc \<Rightarrow> contains (db_status acc) Created | None \<Rightarrow> False)"

definition db_set_status :: "db \<Rightarrow> address \<Rightarrow> account_status \<Rightarrow> db" where
  "db_set_status d a status = db_modify d a (\<lambda>acc. acc\<lparr>db_status := status\<rparr>)"

definition db_insert_contract ::
  "(bytes \<Rightarrow> b256) \<Rightarrow> db \<Rightarrow> address \<Rightarrow> bytes \<Rightarrow> u256 \<Rightarrow> db" where
  "db_insert_contract keccak256 d a bytecode balance =
     (let h = keccak256 bytecode;
          acc = \<lparr>db_nonce = 1, db_balance = balance, db_storage = Map.empty,
                 db_bytecode_hash = h, db_status = Created\<rparr>
      in d\<lparr>db_accounts := (db_accounts d)(a \<mapsto> acc),
           db_contracts := (db_contracts d)(h \<mapsto> bytecode)\<rparr>)"

definition db_with_contract :: "(bytes \<Rightarrow> b256) \<Rightarrow> db \<Rightarrow> address \<Rightarrow> bytes \<Rightarrow> db" where
  "db_with_contract keccak256 d a bytecode = db_insert_contract keccak256 d a bytecode 0"

definition db_write_storage :: "db \<Rightarrow> address \<Rightarrow> u256 \<Rightarrow> u256 \<Rightarrow> db" where
  "db_write_storage d a key v =
     db_modify d a (\<lambda>acc. acc\<lparr>db_storage := (db_storage acc)(key \<mapsto> v)\<rparr>)"

definition db_read_storage :: "db \<Rightarrow> address \<Rightarrow> u256 \<Rightarrow> u256" where
  "db_read_storage d a key =
     (case Option.bind (db_accounts d a) (\<lambda>acc. db_storage acc key) of
        Some v \<Rightarrow> v | None \<Rightarrow> 0)"

definition db_into_state :: "db \<Rightarrow> (address \<rightharpoonup> account)" where
  "db_into_state d a = map_option (\<lambda>acc. \<lparr>acct_info = info_from_db_account acc,
     acct_storage = (\<lambda>k. map_option evm_storage_slot_from (db_storage acc k)),
     acct_status = db_status acc\<rparr>) (db_accounts d a)"

definition db_store_contract :: "db \<Rightarrow> account_info \<Rightarrow> db" where
  "db_store_contract d i =
     (if \<not> has_code i then d
      else case info_code i of
        None \<Rightarrow> d
      | Some code \<Rightarrow>
          (case db_contracts d (info_code_hash i) of
             Some _ \<Rightarrow> d
           | None \<Rightarrow> d\<lparr>db_contracts := (db_contracts d)(info_code_hash i \<mapsto> code)\<rparr>))"

text \<open>The body of the loop of \<open>commit\<close>, then the loop.\<close>

definition commit_skips :: "account \<Rightarrow> bool" where
  "commit_skips acc \<longleftrightarrow>
     (is_created acc \<and> is_selfdestructed acc) \<or>
     (\<not> is_touched acc \<and> \<not> is_created acc \<and> \<not> is_selfdestructed acc)"

definition commit_account :: "account \<Rightarrow> db_account \<Rightarrow> db_account" where
  "commit_account acc d = d\<lparr>
     db_nonce := info_nonce (acct_info acc),
     db_balance := info_balance (acct_info acc),
     db_status := Cold,
     db_bytecode_hash := info_code_hash (acct_info acc),
     db_storage := db_storage d ++ (\<lambda>k. map_option evm_present_value (acct_storage acc k))\<rparr>"

definition commit_entry :: "db \<Rightarrow> address \<times> account \<Rightarrow> db" where
  "commit_entry d = (\<lambda>(a, acc).
     if commit_skips acc then d
     else let d = (if is_created acc then db_store_contract d (acct_info acc) else d)
          in db_modify d a (commit_account acc))"

definition commit :: "db \<Rightarrow> (address \<times> account) list \<Rightarrow> db" where
  "commit d changes = foldl commit_entry d changes"

subsection \<open>The trait \<open>Database\<close>\<close>

definition db_basic :: "db \<Rightarrow> address \<Rightarrow> account_info option" where
  "db_basic d a = map_option info_from_db_account (db_accounts d a)"

definition db_code_by_hash :: "db \<Rightarrow> b256 \<Rightarrow> bytes" where
  "db_code_by_hash d h = (case db_contracts d h of Some c \<Rightarrow> c | None \<Rightarrow> [])"

definition db_storage_at :: "db \<Rightarrow> address \<Rightarrow> u256 \<Rightarrow> u256" where
  "db_storage_at d a index = db_read_storage d a index"

definition db_block_hash :: "db \<Rightarrow> u256 \<Rightarrow> b256" where
  "db_block_hash d n = (case db_block_hashes d n of Some h \<Rightarrow> h | None \<Rightarrow> 0)"

definition db_code_by_address :: "db \<Rightarrow> address \<Rightarrow> bytes" where
  "db_code_by_address d a =
     (case db_basic d a of
        None \<Rightarrow> []
      | Some acc \<Rightarrow> (case info_code acc of
            Some c \<Rightarrow> c | None \<Rightarrow> db_code_by_hash d (info_code_hash acc)))"

section \<open>Facts\<close>

lemma contains_insert [simp]: "contains (status_insert s f) f"
  by (simp add: contains_def status_insert_def bit_eq_iff bit_simps)

lemma contains_insert_other: "contains s g \<Longrightarrow> contains (status_insert s f) g"
  by (simp add: contains_def status_insert_def bit_eq_iff bit_simps) blast

lemma not_cold_after_remove [simp]: "\<not> contains (status_remove s Cold) Cold"
proof
  assume "contains (status_remove s Cold) Cold"
  then have "bit (s AND NOT Cold AND Cold) 4 = bit Cold 4"
    by (simp add: contains_def status_remove_def and.assoc)
  then show False by (simp add: bit_simps Cold_def)
qed

lemma db_modify_accounts [simp]:
  "db_accounts (db_modify d a f) b =
     (if b = a then Some (f (case db_accounts d a of Some acc \<Rightarrow> acc | None \<Rightarrow> db_account_empty))
      else db_accounts d b)"
  by (simp add: db_modify_def)

lemma db_modify_contracts [simp]: "db_contracts (db_modify d a f) = db_contracts d"
  by (simp add: db_modify_def)

lemma db_modify_block_hashes [simp]: "db_block_hashes (db_modify d a f) = db_block_hashes d"
  by (simp add: db_modify_def)

lemma db_store_contract_accounts [simp]:
  "db_accounts (db_store_contract d i) = db_accounts d"
  "db_block_hashes (db_store_contract d i) = db_block_hashes d"
  by (simp_all add: db_store_contract_def split: option.splits)

text \<open>The database is a store of storage slots.\<close>

lemma db_read_write:
  "db_read_storage (db_write_storage d a k v) b j =
     (if b = a \<and> j = k then v else db_read_storage d b j)"
proof (cases "b = a")
  case True
  then show ?thesis
    by (cases "db_accounts d a")
      (simp_all add: db_read_storage_def db_write_storage_def db_account_empty_def)
qed (simp add: db_read_storage_def db_write_storage_def)

interpretation db_slots: kv_store
  "\<lambda>d (a, k). db_read_storage d a k" "\<lambda>d (a, k) v. db_write_storage d a k v" "\<lambda>d k. True"
  by unfold_locales (auto simp: db_read_write split: if_splits)

text \<open>A block of facts on \<open>commit\<close>: what one entry does to each address.\<close>

lemma commit_entry_accounts:
  "db_accounts (commit_entry d (a, acc)) b =
     (if b = a \<and> \<not> commit_skips acc
      then Some (commit_account acc
             (case db_accounts d a of Some x \<Rightarrow> x | None \<Rightarrow> db_account_empty))
      else db_accounts d b)"
  by (simp add: commit_entry_def Let_def)

lemma commit_block_hashes [simp]: "db_block_hashes (commit d changes) = db_block_hashes d"
  unfolding commit_def
  by (induction changes arbitrary: d) (auto simp: commit_entry_def Let_def)

lemma commit_accounts:
  assumes "distinct (map fst changes)"
  shows "db_accounts (commit d changes) a =
    (case map_of changes a of
       None \<Rightarrow> db_accounts d a
     | Some acc \<Rightarrow> if commit_skips acc then db_accounts d a
         else Some (commit_account acc
                (case db_accounts d a of Some x \<Rightarrow> x | None \<Rightarrow> db_account_empty)))"
  using assms unfolding commit_def
proof (induction changes arbitrary: d)
  case (Cons c changes)
  obtain b acc where c: "c = (b, acc)" by fastforce
  then have "map_of changes b = None" using Cons.prems by (simp add: map_of_eq_None_iff)
  then show ?case
    using Cons c by (auto simp: commit_entry_accounts split: option.splits)
qed simp

lemma commit_entry_contracts:
  "db_contracts (commit_entry d (a, acc)) h =
     (case db_contracts d h of
        Some c \<Rightarrow> Some c
      | None \<Rightarrow> if \<not> commit_skips acc \<and> is_created acc \<and> has_code (acct_info acc) \<and>
                   info_code_hash (acct_info acc) = h
                then info_code (acct_info acc) else None)"
  by (auto simp: commit_entry_def Let_def db_store_contract_def split: option.splits)

lemma commit_contracts:
  assumes "\<And>a x. (a, x) \<in> set changes \<Longrightarrow> has_code (acct_info x) \<Longrightarrow>
    info_code (acct_info x) = codes (info_code_hash (acct_info x))"
  shows "db_contracts (commit d changes) h =
     (case db_contracts d h of
        Some c \<Rightarrow> Some c
      | None \<Rightarrow> if \<exists>(a, x) \<in> set changes. \<not> commit_skips x \<and> is_created x \<and> has_code (acct_info x) \<and> info_code_hash (acct_info x) = h
                then codes h else None)"
  using assms unfolding commit_def
proof (induction changes arbitrary: d)
  case (Cons c changes)
  obtain a x where c: "c = (a, x)" by fastforce
  have code: "has_code (acct_info x) \<Longrightarrow> info_code (acct_info x) = codes (info_code_hash (acct_info x))"
    using Cons.prems c by auto
  have IH: "db_contracts (foldl commit_entry d' changes) h =
     (case db_contracts d' h of
        Some c \<Rightarrow> Some c
      | None \<Rightarrow> if \<exists>(a, x) \<in> set changes. \<not> commit_skips x \<and> is_created x \<and> has_code (acct_info x) \<and> info_code_hash (acct_info x) = h
                then codes h else None)" for d'
    by (rule Cons.IH) (use Cons.prems in auto)
  show ?case
    using code by (auto simp: c IH [of "commit_entry d (a, x)"] commit_entry_contracts split: option.splits)
qed (simp split: option.splits)

lemma commit_entry_commute:
  assumes "a \<noteq> b"
    and "info_code_hash (acct_info x) = info_code_hash (acct_info y) \<Longrightarrow>
         info_code (acct_info x) = info_code (acct_info y)"
  shows "commit_entry (commit_entry d (a, x)) (b, y) = commit_entry (commit_entry d (b, y)) (a, x)"
proof (rule db.equality)
  show "db_accounts (commit_entry (commit_entry d (a, x)) (b, y)) =
        db_accounts (commit_entry (commit_entry d (b, y)) (a, x))"
    using assms(1) by (simp add: fun_eq_iff commit_entry_accounts)
  show "db_contracts (commit_entry (commit_entry d (a, x)) (b, y)) =
        db_contracts (commit_entry (commit_entry d (b, y)) (a, x))"
    using assms(2) by (simp add: fun_eq_iff commit_entry_contracts split: option.splits)
  show "db_block_hashes (commit_entry (commit_entry d (a, x)) (b, y)) =
        db_block_hashes (commit_entry (commit_entry d (b, y)) (a, x))"
    by (simp add: commit_entry_def Let_def)
qed simp

lemma commit_read_storage:
  assumes "distinct (map fst changes)"
  shows "db_read_storage (commit d changes) a k =
    (case map_of changes a of
       None \<Rightarrow> db_read_storage d a k
     | Some acc \<Rightarrow> if commit_skips acc then db_read_storage d a k
         else (case map_option evm_present_value (acct_storage acc k) of
                 Some v \<Rightarrow> v
               | None \<Rightarrow> db_read_storage d a k))"
  by (auto simp: db_read_storage_def commit_accounts [OF assms] commit_account_def
      db_account_empty_def map_add_def split: option.splits)

section \<open>Properties\<close>

text \<open>The order in which \<open>commit\<close> visits the changed accounts, which is the
  arbitrary order of a hash map, does not matter when accounts with the same
  code hash carry the same code.\<close>

theorem commit_order_independent:
  assumes "mset xs = mset ys" and "distinct (map fst xs)"
    and "\<And>a x b y. (a, x) \<in> set xs \<Longrightarrow> (b, y) \<in> set xs \<Longrightarrow>
           info_code_hash (acct_info x) = info_code_hash (acct_info y) \<Longrightarrow>
           info_code (acct_info x) = info_code (acct_info y)"
  shows "commit d xs = commit d ys"
proof -
  have "fold (\<lambda>c d. commit_entry d c) xs = fold (\<lambda>c d. commit_entry d c) ys"
  proof (rule fold_multiset_equiv [OF _ assms(1)])
    fix c e assume ce: "c \<in> set xs" "e \<in> set xs"
    obtain a x b y where cs: "c = (a, x)" "e = (b, y)" by fastforce
    show "(\<lambda>d. commit_entry d c) \<circ> (\<lambda>d. commit_entry d e) =
          (\<lambda>d. commit_entry d e) \<circ> (\<lambda>d. commit_entry d c)"
    proof (cases "a = b")
      case True
      then have "x = y" using ce cs assms(2) by (metis eq_key_imp_eq_value)
      then show ?thesis using True cs by simp
    next
      case False
      have "commit_entry (commit_entry d (b, y)) (a, x) = commit_entry (commit_entry d (a, x)) (b, y)"
        for d
        using False [symmetric] assms(3) [of b y a x] ce cs by (intro commit_entry_commute) auto
      then show ?thesis using cs by (simp add: fun_eq_iff)
    qed
  qed
  then show ?thesis by (simp add: commit_def foldl_conv_fold)
qed

text \<open>After a commit, a slot of an account that was not skipped holds the present
  value of the change set, or its old value where the change set does not have
  it; the slots of every other account are unchanged.\<close>

theorem commit_storage:
  assumes "distinct (map fst changes)"
  shows "db_read_storage (commit d changes) a k =
    (case map_of changes a of
       None \<Rightarrow> db_read_storage d a k
     | Some acc \<Rightarrow> if commit_skips acc then db_read_storage d a k
         else (case acct_storage acc k of
                 Some slot \<Rightarrow> evm_present_value slot
               | None \<Rightarrow> db_read_storage d a k))"
  using commit_read_storage [OF assms] by (simp split: option.splits)

end
