(* ===== verification/Result.thy ===== *)
theory Result
  imports State_Db
begin

text \<open>
  Results and errors (\<open>result.rs\<close>) and the log records of \<open>syscall.rs\<close> they carry.
\<close>

section \<open>Logs\<close>

text \<open>\<open>syscall::U256\<close>: the two halves of a 256-bit value, as the generated code lays it out.\<close>

record sysu256 =
  lo :: u128
  hi :: u128

record log_data =
  topics :: "sysu256 list"
  log_bytes :: bytes

record log_entry =
  log_address :: address
  log_payload :: log_data

section \<open>Errors\<close>

datatype invalid_transaction =
    PriorityFeeGreaterThanMaxFee
  | GasPriceLessThanBasefee
  | CallerGasLimitMoreThanBlock
  | CallGasCostMoreThanGasLimit
  | RejectCallerWithCode
  | LackOfFundForMaxFee u256 u256
  | OverflowPaymentInTransaction
  | NonceOverflowInTransaction
  | NonceTooHigh u64 u64
  | NonceTooLow u64 u64
  | Tx_CreateInitCodeSizeLimit
  | InvalidChainId
  | AccessListNotSupported
  | MaxFeePerBlobGasNotSupported
  | BlobVersionedHashesNotSupported
  | BlobGasPriceGreaterThanMax
  | EmptyBlobs
  | BlobCreateTransaction
  | TooManyBlobs nat nat
  | BlobVersionNotSupported
  | EofCrateShouldHaveToAddress

datatype invalid_header = PrevrandaoNotSet | ExcessBlobGasNotSet

datatype evm_error =
    Err_Transaction invalid_transaction
  | Err_Header invalid_header
  | Err_Database
  | Err_Custom string
  | Err_Precompile string

datatype out_of_gas_error = OOG_Basic | OOG_MemoryLimit | OOG_Memory | OOG_InvalidOperand
  | OOG_RecursiveCreate

datatype halt_reason =
    OutOfGas out_of_gas_error
  | OpcodeNotFound
  | InvalidFEOpcode
  | InvalidJump
  | NotActivated
  | StackUnderflow
  | StackOverflow
  | OutOfOffset
  | CreateCollision
  | PrecompileFailed
  | NonceOverflow
  | CreateContractSizeLimit
  | CreateContractStartingWithEF
  | CreateInitCodeSizeLimit
  | OverflowPayment
  | StateChangeDuringStaticCall
  | CallNotAllowedInsideStatic
  | OutOfFunds
  | CallTooDeep

datatype precompile_error = InvalidCalldata | NotEnoughGas | Secp256k1Error | InvalidEcPoint

section \<open>Execution results\<close>

datatype success_reason = Reason_Stop | Reason_Return | Reason_SelfDestruct | Reason_EofReturnContract

datatype tx_output = Output_Call bytes | Output_Create bytes "address option"

primrec output_data :: "tx_output \<Rightarrow> bytes" where
  "output_data (Output_Call d) = d"
| "output_data (Output_Create d _) = d"

primrec output_address :: "tx_output \<Rightarrow> address option" where
  "output_address (Output_Call _) = None"
| "output_address (Output_Create _ a) = a"

datatype execution_result =
    Success success_reason u64 u64 "log_entry list" tx_output
  | Reverted u64 bytes
  | Halt halt_reason u64

record result_and_state =
  res_result :: execution_result
  res_state :: "address \<rightharpoonup> account"

primrec is_success :: "execution_result \<Rightarrow> bool" where
  "is_success (Success _ _ _ _ _) = True"
| "is_success (Reverted _ _) = False"
| "is_success (Halt _ _) = False"

primrec is_revert :: "execution_result \<Rightarrow> bool" where
  "is_revert (Success _ _ _ _ _) = False"
| "is_revert (Reverted _ _) = True"
| "is_revert (Halt _ _) = False"

primrec is_halt :: "execution_result \<Rightarrow> bool" where
  "is_halt (Success _ _ _ _ _) = False"
| "is_halt (Reverted _ _) = False"
| "is_halt (Halt _ _) = True"

primrec into_output :: "execution_result \<Rightarrow> bytes option" where
  "into_output (Success _ _ _ _ out) = Some (output_data out)"
| "into_output (Reverted _ out) = Some out"
| "into_output (Halt _ _) = None"

text \<open>\<open>output\<close>: an empty output is reported as none.\<close>

definition result_output :: "execution_result \<Rightarrow> bytes option" where
  "result_output r = Option.bind (into_output r) (\<lambda>data. if data = [] then None else Some data)"

primrec result_logs :: "execution_result \<Rightarrow> log_entry list" where
  "result_logs (Success _ _ _ logs _) = logs"
| "result_logs (Reverted _ _) = []"
| "result_logs (Halt _ _) = []"

primrec gas_used :: "execution_result \<Rightarrow> u64" where
  "gas_used (Success _ g _ _ _) = g"
| "gas_used (Reverted g _) = g"
| "gas_used (Halt _ g) = g"

primrec gas_refunded :: "execution_result \<Rightarrow> u64" where
  "gas_refunded (Success _ _ g _ _) = g"
| "gas_refunded (Reverted _ _) = 0"
| "gas_refunded (Halt _ _) = 0"

lemma result_kinds: "is_success r \<longleftrightarrow> \<not> is_revert r \<and> \<not> is_halt r"
  by (cases r) simp_all

lemma into_output_None: "into_output r = None \<longleftrightarrow> is_halt r"
  by (cases r) simp_all

lemma refund_only_on_success: "\<not> is_success r \<Longrightarrow> gas_refunded r = 0 \<and> result_logs r = []"
  by (cases r) simp_all

end
