(* ===== verification/Env.thy ===== *)
theory Env
  imports Result
begin

text \<open>
  The transaction environment (\<open>env.rs\<close>) and the helpers of \<open>utils/misc.rs\<close> that
  prepare a transaction: blob gas price, access list cost, contract addresses.
  64-bit and 128-bit additions wrap, as in a release build.
\<close>

section \<open>Data\<close>

type_synonym access_list = "(address \<times> u256 list) list"

datatype transact_to = TransactTo_Call address | TransactTo_Create

record cfg_env =
  chain_id :: u64

record block_env =
  number :: u256
  coinbase :: address
  timestamp :: u256
  basefee :: u256
  prevrandao :: "b256 option"
  excess_blob_gas :: "u64 option"
  blob_gasprice :: "u128 option"

record tx_env =
  tx_caller :: address
  gas_limit :: u64
  gas_price :: u256
  transact_to :: transact_to
  tx_value :: u256
  tx_data :: bytes
  tx_access_list :: access_list
  blob_hashes :: "b256 list"
  max_fee_per_blob_gas :: "u256 option"

record env =
  cfg :: cfg_env
  block :: block_env
  tx :: tx_env

definition cfg_env_default :: cfg_env where
  "cfg_env_default = \<lparr>chain_id = 0\<rparr>"

definition block_env_default :: block_env where
  "block_env_default = \<lparr>number = 0, coinbase = 0, timestamp = 0, basefee = 0, prevrandao = None,
     excess_blob_gas = None, blob_gasprice = None\<rparr>"

definition tx_env_default :: tx_env where
  "tx_env_default = \<lparr>tx_caller = 0, gas_limit = 0x7FFFFFFFFFFFFFFF, gas_price = 0,
     transact_to = TransactTo_Call 0, tx_value = 0, tx_data = [], tx_access_list = [],
     blob_hashes = [], max_fee_per_blob_gas = None\<rparr>"

definition env_default :: env where
  "env_default = \<lparr>cfg = cfg_env_default, block = block_env_default, tx = tx_env_default\<rparr>"

definition get_address :: "tx_env \<Rightarrow> address" where
  "get_address t = (case transact_to t of TransactTo_Call a \<Rightarrow> a | TransactTo_Create \<Rightarrow> tx_caller t)"

section \<open>Helpers of \<open>utils/misc.rs\<close>\<close>

text \<open>
  The Taylor loop of \<open>fake_exponential\<close>; \<open>None\<close> is a loop that does not end.
  The products and sums of 128 bits wrap.
\<close>

partial_function (option) fake_exponential_loop ::
  "u128 \<Rightarrow> u128 \<Rightarrow> u128 \<Rightarrow> u128 \<Rightarrow> u128 \<Rightarrow> u128 res option" where
  "fake_exponential_loop numerator denominator i output numerator_accum =
     (if numerator_accum > 0
      then if denominator * i = 0 then Some (Inl Panic)
      else fake_exponential_loop numerator denominator (i + 1) (output + numerator_accum)
             ((numerator_accum * numerator) div (denominator * i))
      else Some (Inr output))"

definition fake_exponential :: "u64 \<Rightarrow> u64 \<Rightarrow> u64 \<Rightarrow> u128 res option" where
  "fake_exponential factor numerator denominator =
     (if denominator = 0 then Some (Inl Panic)
      else let f = ucast factor; n = ucast numerator; d = ucast denominator
           in map_option (\<lambda>r. and_then r (\<lambda>output. Inr (output div d)))
                (fake_exponential_loop n d 1 0 (f * d)))"

definition calc_blob_gasprice :: "u64 \<Rightarrow> u128 res option" where
  "calc_blob_gasprice excess =
     fake_exponential gas_MIN_BLOB_GASPRICE excess gas_BLOB_GASPRICE_UPDATE_FRACTION"

definition set_blob_base_fee :: "block_env \<Rightarrow> u64 \<Rightarrow> block_env res option" where
  "set_blob_base_fee b excess = map_option (\<lambda>r. and_then r (\<lambda>price.
     Inr (b\<lparr>excess_blob_gas := Some excess, blob_gasprice := Some price\<rparr>)))
       (calc_blob_gasprice excess)"

definition encode_rlp_u64 :: "u64 \<Rightarrow> bytes" where
  "encode_rlp_u64 n =
     (if n = 0 then [0x80]
      else if n \<le> 0x7F then [ucast n]
      else let bs = dropWhile (\<lambda>x. x = 0) (word_to_be n)
           in (0x80 + of_nat (length bs)) # bs)"

text \<open>\<open>encoded_nonce.len().to_be_bytes()\<close> is eight bytes: \<open>len()\<close> is a \<open>usize\<close>.\<close>

definition contract_address_preimage :: "address \<Rightarrow> u64 \<Rightarrow> bytes" where
  "contract_address_preimage a nonce =
     (let encoded_nonce = encode_rlp_u64 nonce
      in [0xd5] @ nat_to_be 8 (length encoded_nonce) @ [0x94] @ word_to_be a @ encoded_nonce)"

definition compute_contract_address :: "(bytes \<Rightarrow> b256) \<Rightarrow> address \<Rightarrow> u64 \<Rightarrow> address" where
  "compute_contract_address keccak256 a nonce =
     ucast (keccak256 (contract_address_preimage a nonce))"

definition compute_contract_address2 ::
  "(bytes \<Rightarrow> b256) \<Rightarrow> address \<Rightarrow> u256 \<Rightarrow> bytes \<Rightarrow> address" where
  "compute_contract_address2 keccak256 a salt initialization_code =
     ucast (keccak256 ([0xff] @ word_to_be a @ word_to_be salt @
       word_to_be (keccak256 initialization_code)))"

definition access_list_cost :: "access_list \<Rightarrow> u64" where
  "access_list_cost al = foldl (\<lambda>acc (_, keys).
     acc + gas_TX_ACCESS_LIST_ADDRESS_COST +
     of_nat (length keys) * gas_TX_ACCESS_LIST_STORAGE_KEY_COST) 0 al"

definition precompiled_addresses :: access_list where
  "precompiled_addresses =
     map (\<lambda>a. (ucast a, []))
       [ECRECOVER_ADDRESS, SHA2_256_ADDRESS, RIPEMD_160_ADDRESS, IDENTITY_ADDRESS,
        MODEXP_ADDRESS, ECADD_ADDRESS, ECMUL_ADDRESS, ECPAIRING_ADDRESS, BLAKE2F_ADDRESS]"

definition left_pad :: "bytes \<Rightarrow> nat \<Rightarrow> bytes" where
  "left_pad calldata target_len =
     (if length calldata < target_len
      then replicate (target_len - length calldata) 0 @ calldata else calldata)"

definition right_pad :: "bytes \<Rightarrow> nat \<Rightarrow> bytes" where
  "right_pad calldata target_len =
     (if length calldata < target_len
      then calldata @ replicate (target_len - length calldata) 0 else calldata)"

section \<open>Validation and intrinsic cost\<close>

text \<open>The cost of the transaction data, byte by byte.\<close>

definition data_cost :: "bytes \<Rightarrow> u64" where
  "data_cost bs = foldl (\<lambda>acc b.
     acc + (if b = 0 then gas_TX_DATA_COST_PER_ZERO else gas_TX_DATA_COST_PER_NON_ZERO)) 0 bs"

definition calculate_intrinsic_cost :: "env \<Rightarrow> u64 res" where
  "calculate_intrinsic_cost e =
     and_then (case transact_to (tx e) of
         TransactTo_Call _ \<Rightarrow> Inr 0
       | TransactTo_Create \<Rightarrow>
           and_then (init_code_cost (of_nat (length (tx_data (tx e)))))
             (\<lambda>c. Inr (gas_TX_CREATE_COST + c))) (\<lambda>create_cost.
     Inr (gas_TX_BASE_COST + data_cost (tx_data (tx e)) + create_cost +
          access_list_cost (tx_access_list (tx e))))"

text \<open>The inner sum is the \<open>Result\<close> of the source.\<close>

definition consume_intrinsic_cost :: "env \<Rightarrow> (invalid_transaction + u64 \<times> env) res" where
  "consume_intrinsic_cost e =
     and_then (calculate_intrinsic_cost e) (\<lambda>intrinsic_cost.
       Inr (if gas_limit (tx e) \<ge> intrinsic_cost
            then Inr (intrinsic_cost,
                   e\<lparr>tx := (tx e)\<lparr>gas_limit := gas_limit (tx e) - intrinsic_cost\<rparr>\<rparr>)
            else Inl CallGasCostMoreThanGasLimit))"

definition blob_version :: "b256 \<Rightarrow> u8" where
  "blob_version h = ucast (drop_bit 248 h)"

definition validate_transaction :: "env \<Rightarrow> (invalid_transaction + unit) res" where
  "validate_transaction e =
     (let is_create = (transact_to (tx e) = TransactTo_Create);
          num_blobs = length (blob_hashes (tx e))
      in if is_create \<and> length (tx_data (tx e)) > 2 * MAX_CODE_SIZE
         then Inr (Inl Tx_CreateInitCodeSizeLimit)
         else case max_fee_per_blob_gas (tx e) of
           None \<Rightarrow> Inr (Inr ())
         | Some max_fee \<Rightarrow> (case blob_gasprice (block e) of
             None \<Rightarrow> Inl Panic
           | Some price \<Rightarrow>
               if (ucast price :: u256) > max_fee then Inr (Inl BlobGasPriceGreaterThanMax)
               else if blob_hashes (tx e) = [] then Inr (Inl EmptyBlobs)
               else if is_create then Inr (Inl BlobCreateTransaction)
               else if \<exists>blob \<in> set (blob_hashes (tx e)). blob_version blob \<noteq> VERSIONED_HASH_VERSION_KZG
               then Inr (Inl BlobVersionNotSupported)
               else if num_blobs > unat MAX_BLOB_NUMBER_PER_BLOCK
               then Inr (Inl (TooManyBlobs (unat MAX_BLOB_NUMBER_PER_BLOCK) num_blobs))
               else Inr (Inr ())))"

section \<open>Facts\<close>

lemma length_left_pad [simp]: "length (left_pad bs n) = max (length bs) n"
  by (simp add: left_pad_def)

lemma length_right_pad [simp]: "length (right_pad bs n) = max (length bs) n"
  by (simp add: right_pad_def)

lemma be_nat_left_pad: "be_nat (left_pad bs n) = be_nat bs"
  by (simp add: left_pad_def be_nat_append)

lemma data_cost_foldl:
  "foldl (\<lambda>acc b. acc + (if b = 0 then gas_TX_DATA_COST_PER_ZERO
      else gas_TX_DATA_COST_PER_NON_ZERO)) a bs =
   a + of_nat (4 * length (filter (\<lambda>b. b = 0) bs) + 16 * length (filter (\<lambda>b. b \<noteq> 0) bs))"
  by (induction bs arbitrary: a) (simp_all add: gas_consts algebra_simps)

lemma data_cost_eq:
  "data_cost bs =
     of_nat (4 * length (filter (\<lambda>b. b = 0) bs) + 16 * length (filter (\<lambda>b. b \<noteq> 0) bs))"
  by (simp add: data_cost_def data_cost_foldl)

lemma access_list_cost_foldl:
  "foldl (\<lambda>acc (_, keys). acc + gas_TX_ACCESS_LIST_ADDRESS_COST +
     of_nat (length keys) * gas_TX_ACCESS_LIST_STORAGE_KEY_COST) a al =
   a + of_nat (2400 * length al + 1900 * sum_list (map (length \<circ> snd) al))"
  by (induction al arbitrary: a) (auto simp: gas_consts algebra_simps)

lemma access_list_cost_eq:
  "access_list_cost al = of_nat (2400 * length al + 1900 * sum_list (map (length \<circ> snd) al))"
  by (simp add: access_list_cost_def access_list_cost_foldl)

lemma init_code_cost_eq:
  assumes "n \<le> 2 * MAX_CODE_SIZE"
  shows "init_code_cost (of_nat n) = Inr (of_nat (2 * ((n + 31) div 32)))"
proof -
  have n: "n \<le> 49152" using assms by (simp add: gas_consts)
  then have u: "unat (of_nat n :: u64) = n" by (simp add: unat_of_nat)
  have "(of_nat n + 31 :: u64) div 32 = of_nat ((n + 31) div 32)"
    using n by (intro word_unat_eq_iff [THEN iffD2]) (simp add: unat_div unat_word_ariths u unat_of_nat)
  then show ?thesis
    using n by (simp add: init_code_cost_def Let_def gas_consts word_le_nat_alt u)
qed

text \<open>The intrinsic cost on natural numbers.\<close>

definition intrinsic_cost_spec :: "env \<Rightarrow> nat" where
  "intrinsic_cost_spec e =
     21000 + 4 * length (filter (\<lambda>b. b = 0) (tx_data (tx e)))
     + 16 * length (filter (\<lambda>b. b \<noteq> 0) (tx_data (tx e)))
     + (if transact_to (tx e) = TransactTo_Create
        then 32000 + 2 * ((length (tx_data (tx e)) + 31) div 32) else 0)
     + 2400 * length (tx_access_list (tx e))
     + 1900 * sum_list (map (length \<circ> snd) (tx_access_list (tx e)))"

lemma calculate_intrinsic_cost_eq:
  assumes "transact_to (tx e) = TransactTo_Create \<Longrightarrow> length (tx_data (tx e)) \<le> 2 * MAX_CODE_SIZE"
  shows "calculate_intrinsic_cost e = Inr (of_nat (intrinsic_cost_spec e))"
  using assms
  by (cases "transact_to (tx e)")
    (simp_all add: calculate_intrinsic_cost_def intrinsic_cost_spec_def data_cost_eq
      access_list_cost_eq init_code_cost_eq gas_TX_BASE_COST_def gas_TX_CREATE_COST_def)

lemma validate_transaction_code_size:
  "validate_transaction e = Inr (Inr u) \<Longrightarrow> transact_to (tx e) = TransactTo_Create \<Longrightarrow>
   length (tx_data (tx e)) \<le> 2 * MAX_CODE_SIZE"
  by (auto simp: validate_transaction_def Let_def split: if_splits)

section \<open>Properties\<close>

text \<open>C28: a transaction passes validation exactly when it is no oversized creation and,
  for a blob transaction, the blob price is affordable, there is a blob (and no more
  than the limit), every blob has the KZG version and it is no creation. The
  only panic is a blob transaction in a block without a blob price.\<close>

theorem validate_transaction_iff:
  "(validate_transaction e = Inr (Inr ()) \<longleftrightarrow>
      (transact_to (tx e) = TransactTo_Create \<longrightarrow> length (tx_data (tx e)) \<le> 2 * MAX_CODE_SIZE) \<and>
      (\<forall>fee. max_fee_per_blob_gas (tx e) = Some fee \<longrightarrow>
         transact_to (tx e) \<noteq> TransactTo_Create \<and>
         (\<exists>price. blob_gasprice (block e) = Some price \<and> unat price \<le> unat fee) \<and>
         blob_hashes (tx e) \<noteq> [] \<and> length (blob_hashes (tx e)) \<le> 1 \<and>
         (\<forall>h \<in> set (blob_hashes (tx e)). blob_version h = VERSIONED_HASH_VERSION_KZG))) \<and>
   (validate_transaction e = Inl Panic \<longrightarrow>
      max_fee_per_blob_gas (tx e) \<noteq> None \<and> blob_gasprice (block e) = None)"
  by (auto simp: validate_transaction_def Let_def MAX_BLOB_NUMBER_PER_BLOCK_def
      word_less_nat_alt unat_ucast_up split: option.splits if_splits)

theorem validate_transaction_iff_witness:
  "validate_transaction env_default = Inr (Inr ()) \<and>
   length (tx_data (tx env_default)) \<le> 2 * MAX_CODE_SIZE"
  using validate_transaction_iff [of env_default]
  by (simp add: env_default_def tx_env_default_def)

text \<open>C27: a validated transaction never trips the assertion in the intrinsic cost. The
  cost is the sum of the base, data, creation and access list prices; it is taken off the
  gas limit exactly when the limit covers it, and nothing else changes.\<close>

theorem consume_intrinsic_cost_exact:
  assumes "validate_transaction e = Inr (Inr ())" and "intrinsic_cost_spec e < 2 ^ 64"
  shows "if intrinsic_cost_spec e \<le> unat (gas_limit (tx e))
    then \<exists>c e'. consume_intrinsic_cost e = Inr (Inr (c, e')) \<and> unat c = intrinsic_cost_spec e \<and>
           unat (gas_limit (tx e')) + unat c = unat (gas_limit (tx e)) \<and>
           e' = e\<lparr>tx := (tx e)\<lparr>gas_limit := gas_limit (tx e')\<rparr>\<rparr>
    else consume_intrinsic_cost e = Inr (Inl CallGasCostMoreThanGasLimit)"
proof -
  have c: "calculate_intrinsic_cost e = Inr (of_nat (intrinsic_cost_spec e))"
    using assms(1) by (intro calculate_intrinsic_cost_eq) (simp add: validate_transaction_code_size)
  have u: "unat (of_nat (intrinsic_cost_spec e) :: u64) = intrinsic_cost_spec e"
    using assms(2) by (simp add: unat_of_nat)
  show ?thesis
    by (auto simp: consume_intrinsic_cost_def c word_le_nat_alt u unat_sub)
qed

theorem consume_intrinsic_cost_exact_witness:
  "\<exists>c e'. consume_intrinsic_cost env_default = Inr (Inr (c, e')) \<and> unat c = 21000 \<and>
     unat (gas_limit (tx e')) + unat c = 0x7FFFFFFFFFFFFFFF"
proof -
  have v: "validate_transaction env_default = Inr (Inr ())"
    and s: "intrinsic_cost_spec env_default = 21000"
    and g: "unat (gas_limit (tx env_default)) = 0x7FFFFFFFFFFFFFFF"
    by (simp_all add: validate_transaction_def env_default_def tx_env_default_def
        intrinsic_cost_spec_def)
  show ?thesis using consume_intrinsic_cost_exact [OF v] unfolding s g by auto
qed

text \<open>The decoder of RLP strings for the values the encoder is used on.\<close>

definition decode_rlp_u64 :: "bytes \<Rightarrow> nat option" where
  "decode_rlp_u64 bs = (case bs of
     [] \<Rightarrow> None
   | b # rest \<Rightarrow>
       if b < 0x80 then (if rest = [] then Some (unat b) else None)
       else if unat b = 0x80 + length rest \<and> (rest = [] \<or> hd rest \<noteq> 0)
       then Some (be_nat rest) else None)"

lemma be_nat_dropWhile_zero: "be_nat (dropWhile (\<lambda>x. x = 0) bs) = be_nat bs"
  by (induction bs) (simp_all add: be_nat_Cons)

text \<open>The nonce encoding of contract addresses is canonical RLP: it decodes to
  the nonce, and takes at most nine bytes.\<close>

theorem encode_rlp_u64_decodes:
  "decode_rlp_u64 (encode_rlp_u64 n) = Some (unat n) \<and> length (encode_rlp_u64 n) \<le> 9"
proof -
  let ?bs = "dropWhile (\<lambda>x. x = 0) (word_to_be n)"
  have len: "length ?bs \<le> 8"
    using length_dropWhile_le [of "\<lambda>x. x = 0" "word_to_be n"] by (simp add: word_to_be_def)
  have val: "be_nat ?bs = unat n"
    using unat_less_pow [of n] by (simp add: be_nat_dropWhile_zero word_to_be_def be_nat_to_be)
  have hd: "?bs \<noteq> [] \<Longrightarrow> hd ?bs \<noteq> 0" using hd_dropWhile [of "\<lambda>x. x = 0"] by blast
  have u: "unat (0x80 + of_nat (length ?bs) :: u8) = 0x80 + length ?bs"
    using len by (simp add: unat_word_ariths unat_of_nat)
  consider "n = 0" | "n \<noteq> 0" "n \<le> 0x7F" | "n \<noteq> 0" "\<not> n \<le> 0x7F" by blast
  then show ?thesis
  proof cases
    case 2
    then have "unat n \<le> 127" by (simp add: word_le_nat_alt)
    then have "unat (ucast n :: u8) = unat n"
      by (simp add: unsigned_ucast_eq take_bit_nat_eq_self_iff)
    then show ?thesis
      using 2 \<open>unat n \<le> 127\<close> by (simp add: encode_rlp_u64_def decode_rlp_u64_def word_less_nat_alt)
  next
    case 3
    have "\<not> 0x80 + of_nat (length ?bs) < (0x80 :: u8)" using u by (simp add: word_less_nat_alt)
    then show ?thesis
      using 3 len val hd u by (auto simp: encode_rlp_u64_def decode_rlp_u64_def Let_def)
  qed (simp add: encode_rlp_u64_def decode_rlp_u64_def)
qed

end
