(* ===== verification/Journal.thy ===== *)
theory Journal
  imports Env
begin

text \<open>
  The journal (\<open>journal.rs\<close>): the accounts, contracts and block hashes a
  transaction has loaded or changed, over a database that it only reads. The
  field \<open>j_db\<close> is the \<open>Option\<close> of the source: a subcontext takes the
  database out of its caller's journal (\<open>eject_base\<close>) and gives it back.
\<close>

section \<open>Data\<close>

record journal_storage_slot =
  original_value :: u256
  present_value :: u256

definition slot_from :: "u256 \<Rightarrow> journal_storage_slot" where
  "slot_from v = \<lparr>original_value = v, present_value = v\<rparr>"

record journal_account =
  j_nonce :: u64
  j_balance :: u256
  j_storage :: "u256 \<rightharpoonup> journal_storage_slot"
  j_bytecode_hash :: b256
  j_status :: account_status

definition journal_account_default :: journal_account where
  "journal_account_default = \<lparr>j_nonce = 0, j_balance = 0, j_storage = Map.empty,
     j_bytecode_hash = 0, j_status = Loaded\<rparr>"

definition j_has_code :: "journal_account \<Rightarrow> bool" where
  "j_has_code acc \<longleftrightarrow> \<not> (j_bytecode_hash acc = 0 \<or> j_bytecode_hash acc = EMPTY_CODE_HASH)"

definition new_created :: "u256 \<Rightarrow> journal_account" where
  "new_created balance = \<lparr>j_nonce = 0, j_balance = balance, j_storage = Map.empty,
     j_bytecode_hash = EMPTY_CODE_HASH, j_status = Created\<rparr>"

definition journal_account_from :: "account_info \<Rightarrow> journal_account" where
  "journal_account_from i = \<lparr>j_nonce = info_nonce i, j_balance = info_balance i,
     j_storage = Map.empty, j_bytecode_hash = info_code_hash i, j_status = Cold\<rparr>"

definition info_from_journal :: "journal_account \<Rightarrow> account_info" where
  "info_from_journal acc = \<lparr>info_balance = j_balance acc, info_nonce = j_nonce acc,
     info_code_hash = j_bytecode_hash acc, info_code = None\<rparr>"

record journal =
  j_accounts :: "address \<rightharpoonup> journal_account"
  j_contracts :: "b256 \<rightharpoonup> bytes"
  j_block_hashes :: "u256 \<rightharpoonup> b256"
  j_db :: "db option"

definition journal_new :: "db \<Rightarrow> journal" where
  "journal_new d = \<lparr>j_accounts = Map.empty, j_contracts = Map.empty,
     j_block_hashes = Map.empty, j_db = Some d\<rparr>"

section \<open>Operations\<close>

definition prefetch_entry ::
  "(address \<rightharpoonup> journal_account) \<Rightarrow> address \<times> u256 list \<Rightarrow> (address \<rightharpoonup> journal_account)" where
  "prefetch_entry accounts = (\<lambda>(a, keys).
     let acc = (case accounts a of Some x \<Rightarrow> x | None \<Rightarrow> journal_account_default)
     in accounts(a \<mapsto> acc\<lparr>j_storage := foldl (\<lambda>m k. m(k \<mapsto> slot_from 0)) (j_storage acc) keys\<rparr>))"

definition get_prefetch_accounts :: "access_list \<Rightarrow> (address \<rightharpoonup> journal_account)" where
  "get_prefetch_accounts al = foldl prefetch_entry Map.empty al"

definition with_prefetch :: "journal \<Rightarrow> access_list \<Rightarrow> journal" where
  "with_prefetch j al = j\<lparr>j_accounts := get_prefetch_accounts al\<rparr>"

text \<open>
  \<open>_get_account_mut\<close>: the account, loaded from the database when it is not in
  the journal yet. The source returns a reference; an update through it is
  \<open>update_account\<close>.
\<close>

definition get_account_mut :: "journal \<Rightarrow> address \<Rightarrow> journal \<times> journal_account option" where
  "get_account_mut j a =
     (case j_db j of
        None \<Rightarrow> (j, None)
      | Some d \<Rightarrow> (case j_accounts j a of
            Some acc \<Rightarrow> (j, Some acc)
          | None \<Rightarrow> (case db_basic d a of
                None \<Rightarrow> (j, None)
              | Some info \<Rightarrow>
                  let acc = (journal_account_from info)\<lparr>j_status := Loaded\<rparr>
                  in (j\<lparr>j_accounts := (j_accounts j)(a \<mapsto> acc)\<rparr>, Some acc))))"

definition update_account ::
  "journal \<Rightarrow> address \<Rightarrow> (journal_account \<Rightarrow> journal_account) \<Rightarrow> journal" where
  "update_account j a f =
     (case get_account_mut j a of
        (j', Some acc) \<Rightarrow> j'\<lparr>j_accounts := (j_accounts j')(a \<mapsto> f acc)\<rparr>
      | (j', None) \<Rightarrow> j')"

definition fetch_storage_from_db :: "journal \<Rightarrow> address \<Rightarrow> u256 \<Rightarrow> journal_storage_slot" where
  "fetch_storage_from_db j a key =
     slot_from (case j_db j of Some d \<Rightarrow> db_storage_at d a key | None \<Rightarrow> 0)"

subsection \<open>Accounts\<close>

definition new_account :: "journal \<Rightarrow> address \<Rightarrow> u256 \<Rightarrow> journal" where
  "new_account j a balance = j\<lparr>j_accounts := (j_accounts j)(a \<mapsto> new_created balance)\<rparr>"

definition add_account_as_warm :: "journal \<Rightarrow> address \<Rightarrow> journal" where
  "add_account_as_warm j a =
     (let acc = (case j_accounts j a of Some x \<Rightarrow> x | None \<Rightarrow> new_created 0)
      in j\<lparr>j_accounts := (j_accounts j)
           (a \<mapsto> acc\<lparr>j_status := status_remove (j_status acc) Cold\<rparr>)\<rparr>)"

definition new_contract ::
  "(bytes \<Rightarrow> b256) \<Rightarrow> journal \<Rightarrow> address \<Rightarrow> bytes \<Rightarrow> u256 \<Rightarrow> journal" where
  "new_contract keccak256 j a bytecode balance =
     (let h = keccak256 bytecode;
          acc = \<lparr>j_nonce = 1, j_balance = balance, j_storage = Map.empty,
                 j_bytecode_hash = h, j_status = Created\<rparr>
      in j\<lparr>j_accounts := (j_accounts j)(a \<mapsto> acc),
           j_contracts := (j_contracts j)(h \<mapsto> bytecode)\<rparr>)"

definition set_balance :: "journal \<Rightarrow> address \<Rightarrow> u256 \<Rightarrow> journal" where
  "set_balance j a balance = update_account j a (\<lambda>acc.
     acc\<lparr>j_balance := balance, j_status := status_insert (j_status acc) Touched\<rparr>)"

definition set_nonce :: "journal \<Rightarrow> address \<Rightarrow> u64 \<Rightarrow> journal" where
  "set_nonce j a nonce = update_account j a (\<lambda>acc.
     acc\<lparr>j_nonce := nonce, j_status := status_insert (j_status acc) Touched\<rparr>)"

definition set_status :: "journal \<Rightarrow> address \<Rightarrow> account_status \<Rightarrow> journal" where
  "set_status j a status = update_account j a (\<lambda>acc.
     acc\<lparr>j_status := status_insert (j_status acc) status\<rparr>)"

definition get_account :: "journal \<Rightarrow> address \<Rightarrow> journal \<times> account_info option" where
  "get_account j a = (case get_account_mut j a of (j', acc) \<Rightarrow> (j', map_option info_from_journal acc))"

definition code_by_address :: "journal \<Rightarrow> address \<Rightarrow> journal \<times> bytes" where
  "code_by_address j a =
     (case get_account_mut j a of
        (j', None) \<Rightarrow> (j', [])
      | (j', Some acc) \<Rightarrow>
          let acc = acc\<lparr>j_status := status_remove (j_status acc) Cold\<rparr>;
              j' = j'\<lparr>j_accounts := (j_accounts j')(a \<mapsto> acc)\<rparr>
          in if \<not> j_has_code acc then (j', [])
             else (j', case j_contracts j' (j_bytecode_hash acc) of
                         Some code \<Rightarrow> code
                       | None \<Rightarrow> (case j_db j' of
                             Some d \<Rightarrow> db_code_by_hash d (j_bytecode_hash acc)
                           | None \<Rightarrow> [])))"

subsection \<open>Warm and cold\<close>

definition account_is_warm :: "journal \<Rightarrow> address \<Rightarrow> bool" where
  "account_is_warm j a =
     (case j_accounts j a of Some acc \<Rightarrow> \<not> contains (j_status acc) Cold | None \<Rightarrow> False)"

definition prefetch_account :: "journal \<Rightarrow> address \<Rightarrow> journal" where
  "prefetch_account j a = fst (get_account_mut j a)"

definition prefetch_account_keys :: "journal \<Rightarrow> address \<Rightarrow> u256 list \<Rightarrow> journal" where
  "prefetch_account_keys j a keys =
     (case get_account_mut j a of
        (j', None) \<Rightarrow> j'
      | (j', Some _) \<Rightarrow> update_account j' a (\<lambda>acc. acc\<lparr>j_storage :=
          foldl (\<lambda>m k. m(k \<mapsto> fetch_storage_from_db j' a k)) (j_storage acc) keys\<rparr>))"

definition key_is_warm :: "journal \<Rightarrow> address \<Rightarrow> u256 \<Rightarrow> bool" where
  "key_is_warm j a key \<longleftrightarrow> Option.bind (j_accounts j a) (\<lambda>acc. j_storage acc key) \<noteq> None"

subsection \<open>Storage\<close>

definition read_storage ::
  "journal \<Rightarrow> address \<Rightarrow> u256 \<Rightarrow> journal \<times> journal_storage_slot option" where
  "read_storage j a key =
     (case get_account_mut j a of
        (j', None) \<Rightarrow> (j', None)
      | (j', Some acc) \<Rightarrow>
          let slot = (case j_storage acc key of
                        Some s \<Rightarrow> s | None \<Rightarrow> fetch_storage_from_db j' a key)
          in (update_account j' a (\<lambda>acc. acc\<lparr>j_storage := (j_storage acc)(key \<mapsto> slot)\<rparr>), Some slot))"

definition write_storage :: "journal \<Rightarrow> address \<Rightarrow> u256 \<Rightarrow> u256 \<Rightarrow> journal res" where
  "write_storage j a key v =
     (case get_account_mut j a of
        (j', None) \<Rightarrow> Inl Panic
      | (j', Some acc) \<Rightarrow>
          let slot = (case j_storage acc key of
                        Some s \<Rightarrow> s | None \<Rightarrow> fetch_storage_from_db j' a key);
              slot = slot\<lparr>present_value := v\<rparr>
          in Inr (update_account j' a (\<lambda>acc. acc\<lparr>j_storage := (j_storage acc)(key \<mapsto> slot),
                    j_status := status_insert (j_status acc) Touched\<rparr>)))"

subsection \<open>Block hashes, state, subcontexts\<close>

definition get_block_hash :: "journal \<Rightarrow> u256 \<Rightarrow> journal \<times> b256" where
  "get_block_hash j n =
     (case j_block_hashes j n of
        Some h \<Rightarrow> (j, h)
      | None \<Rightarrow>
          let h = (case j_db j of Some d \<Rightarrow> db_block_hash d n | None \<Rightarrow> 0)
          in (j\<lparr>j_block_hashes := (j_block_hashes j)(n \<mapsto> h)\<rparr>, h))"

definition account_of :: "journal \<Rightarrow> journal_account \<Rightarrow> account" where
  "account_of j acc =
     \<lparr>acct_info = \<lparr>info_balance = j_balance acc, info_nonce = j_nonce acc,
        info_code_hash = j_bytecode_hash acc,
        info_code = (if j_has_code acc then j_contracts j (j_bytecode_hash acc) else None)\<rparr>,
      acct_storage = (\<lambda>k. map_option (\<lambda>s. \<lparr>evm_original_value = original_value s,
        evm_present_value = present_value s, evm_is_cold = False\<rparr>) (j_storage acc k)),
      acct_status = j_status acc\<rparr>"

definition into_state :: "journal \<Rightarrow> (address \<rightharpoonup> account)" where
  "into_state j a = map_option (account_of j) (j_accounts j a)"

text \<open>\<open>eject_base\<close> returns the caller's journal without its database, and the new one.\<close>

definition eject_base :: "journal \<Rightarrow> journal \<times> journal" where
  "eject_base j = (j\<lparr>j_db := None\<rparr>, j)"

definition extend_from_successful :: "journal \<Rightarrow> journal \<Rightarrow> journal" where
  "extend_from_successful j other = other"

definition extend_from_reverted :: "journal \<Rightarrow> journal \<Rightarrow> journal" where
  "extend_from_reverted j other = j\<lparr>j_db := j_db other\<rparr>"

section \<open>What the operations do to the accounts\<close>

lemma get_account_mut_db [simp]: "j_db (fst (get_account_mut j a)) = j_db j"
  by (auto simp: get_account_mut_def Let_def split: option.splits)

text \<open>\<open>loaded j a\<close>: the account as the journal sees it, loaded or not.\<close>

definition loaded :: "journal \<Rightarrow> address \<Rightarrow> journal_account option" where
  "loaded j a = snd (get_account_mut j a)"

lemma get_account_mut_None: "loaded j a = None \<Longrightarrow> get_account_mut j a = (j, None)"
  by (auto simp: loaded_def get_account_mut_def Let_def split: option.splits)

lemma get_account_mut_Some:
  "loaded j a = Some acc \<Longrightarrow>
   get_account_mut j a = (j\<lparr>j_accounts := (j_accounts j)(a \<mapsto> acc)\<rparr>, Some acc)"
  by (auto simp: loaded_def get_account_mut_def Let_def fun_upd_idem split: option.splits)

lemma loaded_eq:
  "loaded j a = (case j_db j of
     None \<Rightarrow> None
   | Some d \<Rightarrow> (case j_accounts j a of
       Some acc \<Rightarrow> Some acc
     | None \<Rightarrow> map_option (\<lambda>i. (journal_account_from i)\<lparr>j_status := Loaded\<rparr>) (db_basic d a)))"
  by (auto simp: loaded_def get_account_mut_def Let_def split: option.splits)

lemma update_account_None: "loaded j a = None \<Longrightarrow> update_account j a f = j"
  by (simp add: update_account_def get_account_mut_None)

lemma update_account_Some:
  "loaded j a = Some acc \<Longrightarrow>
   update_account j a f = j\<lparr>j_accounts := (j_accounts j)(a \<mapsto> f acc)\<rparr>"
  by (simp add: update_account_def get_account_mut_Some)

lemma loaded_upd [simp]:
  "loaded (j\<lparr>j_accounts := (j_accounts j)(a \<mapsto> acc)\<rparr>) b =
     (if b = a then (if j_db j = None then None else Some acc) else loaded j b)"
  by (auto simp: loaded_eq split: option.splits)

lemma loaded_j_db: "loaded j a = Some acc \<Longrightarrow> \<exists>d. j_db j = Some d"
  by (auto simp: loaded_eq split: option.splits)

lemma read_storage_None: "loaded j a = None \<Longrightarrow> read_storage j a key = (j, None)"
  by (simp add: read_storage_def get_account_mut_None)

text \<open>The slot of a loaded account: cached, or as the database has it.\<close>

definition slot_view :: "journal \<Rightarrow> address \<Rightarrow> journal_account \<Rightarrow> u256 \<Rightarrow> journal_storage_slot" where
  "slot_view j a acc key =
     (case j_storage acc key of Some s \<Rightarrow> s | None \<Rightarrow> fetch_storage_from_db j a key)"

lemma fetch_storage_upd [simp]:
  "fetch_storage_from_db (j\<lparr>j_accounts := m\<rparr>) a key = fetch_storage_from_db j a key"
  by (simp add: fetch_storage_from_db_def)

lemma read_storage_Some:
  assumes "loaded j a = Some acc"
  shows "read_storage j a key =
    (j\<lparr>j_accounts := (j_accounts j)(a \<mapsto> acc\<lparr>j_storage := (j_storage acc)(key \<mapsto> slot_view j a acc key)\<rparr>)\<rparr>,
     Some (slot_view j a acc key))"
  using loaded_j_db [OF assms]
  by (auto simp: read_storage_def get_account_mut_Some [OF assms] Let_def
      update_account_Some [of _ a acc] slot_view_def cong: option.case_cong)

lemma write_storage_Some:
  assumes "loaded j a = Some acc"
  shows "write_storage j a key v =
    Inr (j\<lparr>j_accounts := (j_accounts j)(a \<mapsto> acc\<lparr>
      j_storage := (j_storage acc)(key \<mapsto> (slot_view j a acc key)\<lparr>present_value := v\<rparr>),
      j_status := status_insert (j_status acc) Touched\<rparr>)\<rparr>)"
  using loaded_j_db [OF assms]
  by (auto simp: write_storage_def get_account_mut_Some [OF assms] Let_def
      update_account_Some [of _ a acc] slot_view_def cong: option.case_cong)

lemma write_storage_None: "loaded j a = None \<Longrightarrow> write_storage j a key v = Inl Panic"
  by (simp add: write_storage_def get_account_mut_None)

lemma prefetch_account_keys_Some:
  assumes "loaded j a = Some acc"
  shows "prefetch_account_keys j a keys = j\<lparr>j_accounts := (j_accounts j)(a \<mapsto> acc\<lparr>j_storage :=
          foldl (\<lambda>m k. m(k \<mapsto> fetch_storage_from_db j a k)) (j_storage acc) keys\<rparr>)\<rparr>"
  using loaded_j_db [OF assms]
  by (auto simp: prefetch_account_keys_def get_account_mut_Some [OF assms]
      update_account_Some [of _ a acc])

lemma code_by_address_None: "loaded j a = None \<Longrightarrow> code_by_address j a = (j, [])"
  by (simp add: code_by_address_def get_account_mut_None)

lemma code_by_address_fst:
  "loaded j a = Some acc \<Longrightarrow>
   fst (code_by_address j a) = j\<lparr>j_accounts := (j_accounts j)
     (a \<mapsto> acc\<lparr>j_status := status_remove (j_status acc) Cold\<rparr>)\<rparr>"
  by (simp add: code_by_address_def get_account_mut_Some Let_def)

section \<open>Coherence with the database\<close>

text \<open>An account that a commit would write or delete.\<close>

definition modified :: "account_status \<Rightarrow> bool" where
  "modified s \<longleftrightarrow> contains s Touched \<or> contains s Created \<or> contains s SelfDestructed"

text \<open>
  A cached account is in order when its slots remember the database's values as
  their originals and, unless it is marked as modified, everything in it is
  what the database has. The accounts of \<open>A\<close>, those of the access list, are left out.
\<close>

definition acc_ok :: "address set \<Rightarrow> db \<Rightarrow> address \<Rightarrow> journal_account \<Rightarrow> bool" where
  "acc_ok A d a acc \<longleftrightarrow> a \<in> A \<or>
     (\<forall>k s. j_storage acc k = Some s \<longrightarrow> original_value s = db_read_storage d a k) \<and>
     (\<not> modified (j_status acc) \<longrightarrow>
        (\<exists>da. db_accounts d a = Some da \<and> j_balance acc = db_balance da \<and>
              j_nonce acc = db_nonce da \<and> j_bytecode_hash acc = db_bytecode_hash da) \<and>
        (\<forall>k s. j_storage acc k = Some s \<longrightarrow> present_value s = db_read_storage d a k))"

definition coherent_off :: "address set \<Rightarrow> db \<Rightarrow> journal \<Rightarrow> bool" where
  "coherent_off A d j \<longleftrightarrow> j_db j = Some d \<and> (\<forall>a acc. j_accounts j a = Some acc \<longrightarrow> acc_ok A d a acc)"

abbreviation coherent :: "db \<Rightarrow> journal \<Rightarrow> bool" where
  "coherent \<equiv> coherent_off {}"

inductive journal_step :: "(bytes \<Rightarrow> b256) \<Rightarrow> journal \<Rightarrow> journal \<Rightarrow> bool" for keccak256 where
  step_load: "journal_step keccak256 j (fst (get_account_mut j a))"
| step_new_account: "journal_step keccak256 j (new_account j a balance)"
| step_warm: "journal_step keccak256 j (add_account_as_warm j a)"
| step_new_contract: "journal_step keccak256 j (new_contract keccak256 j a bytecode balance)"
| step_set_balance: "journal_step keccak256 j (set_balance j a balance)"
| step_set_nonce: "journal_step keccak256 j (set_nonce j a nonce)"
| step_set_status: "journal_step keccak256 j (set_status j a status)"
| step_code: "journal_step keccak256 j (fst (code_by_address j a))"
| step_prefetch_keys: "journal_step keccak256 j (prefetch_account_keys j a keys)"
| step_read: "journal_step keccak256 j (fst (read_storage j a key))"
| step_write: "write_storage j a key v = Inr j' \<Longrightarrow> journal_step keccak256 j j'"
| step_block_hash: "journal_step keccak256 j (fst (get_block_hash j n))"

lemma contains_bit:
  "contains s Touched \<longleftrightarrow> bit s 2" "contains s Created \<longleftrightarrow> bit s 0"
  "contains s SelfDestructed \<longleftrightarrow> bit s 1" "contains s Cold \<longleftrightarrow> bit s 4"
proof -
  have *: "contains s (2 ^ n) \<longleftrightarrow> bit s n" if "n < 8" for n
  proof -
    have "s AND 2 ^ n = (if bit s n then 2 ^ n else 0)"
      by (rule bit_word_eqI) (auto simp: bit_simps that)
    moreover have "(2 :: u8) ^ n \<noteq> 0" using that by simp
    ultimately show ?thesis by (simp add: contains_def)
  qed
  show "contains s Touched \<longleftrightarrow> bit s 2" "contains s Created \<longleftrightarrow> bit s 0"
    "contains s SelfDestructed \<longleftrightarrow> bit s 1" "contains s Cold \<longleftrightarrow> bit s 4"
    using * [of 2] * [of 0] * [of 1] * [of 4] by (simp_all add: status_defs)
qed

lemma modified_insert: "modified s \<Longrightarrow> modified (status_insert s f)"
  by (auto simp: modified_def contains_insert_other)

lemma modified_insert_Touched [simp]: "modified (status_insert s Touched)"
  by (simp add: modified_def)

lemma modified_remove_Cold [simp]: "modified (status_remove s Cold) \<longleftrightarrow> modified s"
  by (simp add: modified_def contains_bit status_remove_def bit_simps Cold_def)

lemma modified_Created [simp]: "modified Created"
  by (simp add: modified_def contains_def)


lemma coherent_loaded:
  assumes "coherent_off A d j" and "loaded j a = Some acc"
  shows "acc_ok A d a acc"
proof (cases "j_accounts j a")
  case None
  then obtain da where "db_accounts d a = Some da"
    and "acc = (journal_account_from (info_from_db_account da))\<lparr>j_status := Loaded\<rparr>"
    using assms by (auto simp: coherent_off_def loaded_eq db_basic_def split: option.splits)
  then show ?thesis
    by (auto simp: acc_ok_def journal_account_from_def info_from_db_account_def)
next
  case (Some x)
  then have "acc = x" using assms by (auto simp: coherent_off_def loaded_eq split: option.splits)
  then show ?thesis using assms(1) Some by (simp add: coherent_off_def)
qed

lemma coherent_upd:
  "coherent_off A d j \<Longrightarrow> acc_ok A d a acc \<Longrightarrow> coherent_off A d (j\<lparr>j_accounts := (j_accounts j)(a \<mapsto> acc)\<rparr>)"
  by (simp add: coherent_off_def)

lemma coherent_update_account:
  assumes "coherent_off A d j" and "\<And>acc. loaded j a = Some acc \<Longrightarrow> acc_ok A d a acc \<Longrightarrow> acc_ok A d a (f acc)"
  shows "coherent_off A d (update_account j a f)"
  using assms coherent_loaded [OF assms(1), of a]
  by (cases "loaded j a") (auto simp: update_account_None update_account_Some coherent_upd)

lemma fetch_coherent:
  "coherent_off A d j \<Longrightarrow> fetch_storage_from_db j a key = slot_from (db_read_storage d a key)"
  by (simp add: coherent_off_def fetch_storage_from_db_def db_storage_at_def)

lemma slot_view_ok:
  assumes "coherent_off A d j" and "acc_ok A d a acc" and "a \<notin> A"
  shows "original_value (slot_view j a acc key) = db_read_storage d a key"
    and "\<not> modified (j_status acc) \<Longrightarrow> present_value (slot_view j a acc key) = db_read_storage d a key"
  using assms
  by (auto simp: slot_view_def fetch_coherent slot_from_def acc_ok_def split: option.splits)

lemma acc_ok_created:
  "j_status acc = Created \<Longrightarrow> j_storage acc = Map.empty \<Longrightarrow> acc_ok A d a acc"
  by (simp add: acc_ok_def)

lemma prefetch_slots_ok:
  assumes "coherent_off A d j" and "acc_ok A d a acc"
  shows "acc_ok A d a (acc\<lparr>j_storage :=
           foldl (\<lambda>m k. m(k \<mapsto> fetch_storage_from_db j a k)) (j_storage acc) keys\<rparr>)"
  using assms(2)
proof (induction keys arbitrary: acc)
  case (Cons k keys)
  have "acc_ok A d a (acc\<lparr>j_storage := (j_storage acc)(k \<mapsto> fetch_storage_from_db j a k)\<rparr>)"
    using Cons.prems by (auto simp: acc_ok_def fetch_coherent [OF assms(1)] slot_from_def)
  from Cons.IH [OF this] show ?case by simp
qed simp

lemma coherent_step:
  assumes "journal_step keccak256 j j'" and "coherent_off A d j"
  shows "coherent_off A d j'"
  using assms
proof (induction rule: journal_step.induct)
  case (step_load j a)
  then show ?case
    by (cases "loaded j a")
      (auto simp: get_account_mut_None get_account_mut_Some coherent_upd coherent_loaded)
next
  case (step_new_account j a balance)
  then show ?case by (simp add: new_account_def coherent_upd acc_ok_created new_created_def)
next
  case (step_warm j a)
  then show ?case
    unfolding add_account_as_warm_def Let_def
    by (intro coherent_upd)
      (auto simp: acc_ok_def coherent_off_def new_created_def split: option.splits)
next
  case (step_new_contract j a bytecode balance)
  then have "coherent_off A d (j\<lparr>j_contracts := m\<rparr>)" for m by (simp add: coherent_off_def)
  then show ?case
    using step_new_contract by (simp add: new_contract_def Let_def coherent_off_def acc_ok_created)
next
  case (step_set_balance j a balance)
  then show ?case unfolding set_balance_def
    by (intro coherent_update_account) (auto simp: acc_ok_def)
next
  case (step_set_nonce j a nonce)
  then show ?case unfolding set_nonce_def
    by (intro coherent_update_account) (auto simp: acc_ok_def)
next
  case (step_set_status j a status)
  then show ?case unfolding set_status_def
    by (intro coherent_update_account) (auto simp: acc_ok_def dest: modified_insert)
next
  case (step_code j a)
  then show ?case
    by (cases "loaded j a")
      (auto simp: code_by_address_None code_by_address_fst acc_ok_def
        intro!: coherent_upd dest: coherent_loaded)
next
  case (step_prefetch_keys j a keys)
  then show ?case
    by (cases "loaded j a")
      (auto simp: prefetch_account_keys_def get_account_mut_None coherent_upd prefetch_slots_ok
        coherent_loaded prefetch_account_keys_Some [unfolded prefetch_account_keys_def])
next
  case (step_read j a key)
  then show ?case
  proof (cases "loaded j a")
    case (Some acc)
    then have "acc_ok A d a acc" using step_read coherent_loaded by blast
    then show ?thesis
      using step_read Some slot_view_ok [OF step_read \<open>acc_ok A d a acc\<close>, of key]
      by (auto simp: read_storage_Some acc_ok_def intro!: coherent_upd split: if_splits)
  qed (simp add: read_storage_None)
next
  case (step_write j a key v j')
  then show ?case
  proof (cases "loaded j a")
    case (Some acc)
    then have ok: "acc_ok A d a acc" using step_write coherent_loaded by blast
    show ?thesis
      using step_write Some slot_view_ok(1) [OF step_write(2) ok, of key] ok
      by (cases "a \<in> A") (auto simp: write_storage_Some acc_ok_def intro!: coherent_upd split: if_splits)
  qed (simp add: write_storage_None)
next
  case (step_block_hash j n)
  then show ?case by (auto simp: get_block_hash_def coherent_off_def Let_def split: option.splits)
qed


lemma coherent_new: "coherent_off A d (journal_new d)"
  by (simp add: coherent_off_def journal_new_def)

lemma coherent_reachable:
  "(journal_step keccak256)\<^sup>*\<^sup>* j j' \<Longrightarrow> coherent_off A d j \<Longrightarrow> coherent_off A d j'"
  by (induction rule: rtranclp_induct) (auto intro: coherent_step)

lemma update_account_db [simp]: "j_db (update_account j a f) = j_db j"
  by (cases "loaded j a") (simp_all add: update_account_None update_account_Some)

lemma journal_step_db: "journal_step keccak256 j j' \<Longrightarrow> j_db j' = j_db j"
proof (induction rule: journal_step.induct)
  case (step_code j a)
  then show ?case by (cases "loaded j a") (simp_all add: code_by_address_None code_by_address_fst)
next
  case (step_prefetch_keys j a keys)
  then show ?case
    by (cases "loaded j a")
      (simp_all add: prefetch_account_keys_def get_account_mut_None get_account_mut_Some)
next
  case (step_read j a key)
  then show ?case by (cases "loaded j a") (simp_all add: read_storage_None read_storage_Some)
next
  case (step_write j a key v j')
  then show ?case by (cases "loaded j a") (auto simp: write_storage_None write_storage_Some)
next
  case (step_block_hash j n)
  then show ?case by (auto simp: get_block_hash_def Let_def split: option.splits)
qed (simp_all add: new_account_def add_account_as_warm_def new_contract_def set_balance_def
      set_nonce_def set_status_def Let_def)

lemma journal_steps_db: "(journal_step keccak256)\<^sup>*\<^sup>* j j' \<Longrightarrow> j_db j' = j_db j"
  by (induction rule: rtranclp_induct) (simp_all add: journal_step_db)

text \<open>The journal only ever holds finitely many accounts.\<close>

lemma finite_update_account:
  "finite (dom (j_accounts j)) \<Longrightarrow> finite (dom (j_accounts (update_account j a f)))"
  by (cases "loaded j a") (simp_all add: update_account_None update_account_Some)

lemma finite_load: "finite (dom (j_accounts j)) \<Longrightarrow> finite (dom (j_accounts (fst (get_account_mut j a))))"
  by (cases "loaded j a") (simp_all add: get_account_mut_None get_account_mut_Some)

lemma finite_accounts_step:
  assumes "journal_step keccak256 j j'" and "finite (dom (j_accounts j))"
  shows "finite (dom (j_accounts j'))"
  using assms
proof cases
  case (step_write a key v)
  then show ?thesis
    using assms(2) by (cases "loaded j a") (auto simp: write_storage_None write_storage_Some)
next
  case (step_read a key)
  then show ?thesis
    using assms(2) by (cases "loaded j a") (simp_all add: read_storage_None read_storage_Some)
next
  case (step_code a)
  then show ?thesis
    using assms(2) by (cases "loaded j a") (simp_all add: code_by_address_None code_by_address_fst)
next
  case (step_prefetch_keys a keys)
  then show ?thesis
    using assms(2) finite_update_account finite_load
    by (auto simp: prefetch_account_keys_def split: option.splits prod.splits)
qed (use finite_update_account finite_load in \<open>auto simp: new_account_def add_account_as_warm_def new_contract_def
      set_balance_def set_nonce_def set_status_def get_block_hash_def Let_def split: option.splits prod.splits\<close>)

text \<open>The journal that a transaction starts with.\<close>

lemma get_prefetch_accounts_snoc:
  "get_prefetch_accounts (al @ [x]) = prefetch_entry (get_prefetch_accounts al) x"
  by (simp add: get_prefetch_accounts_def)

definition blank :: "journal_account \<Rightarrow> bool" where
  "blank acc \<longleftrightarrow> j_balance acc = 0 \<and> j_nonce acc = 0 \<and> j_bytecode_hash acc = 0"

lemma prefetch_entry_blank:
  assumes "prefetch_entry m (b, keys) a = Some acc" and "\<And>x. m a = Some x \<Longrightarrow> blank x"
  shows "blank acc"
proof (cases "a = b")
  case True
  then show ?thesis
    using assms by (cases "m b")
      (auto simp: prefetch_entry_def Let_def blank_def journal_account_default_def)
next
  case False
  then show ?thesis using assms by (simp add: prefetch_entry_def Let_def)
qed

lemma get_prefetch_accounts_blank: "get_prefetch_accounts al a = Some acc \<Longrightarrow> blank acc"
proof (induction al arbitrary: acc rule: rev_induct)
  case (snoc x al)
  obtain b keys where "x = (b, keys)" by fastforce
  then show ?case
    using snoc prefetch_entry_blank [of "get_prefetch_accounts al" b keys a acc]
    by (simp add: get_prefetch_accounts_snoc)
qed (simp add: get_prefetch_accounts_def)

lemma dom_prefetch_entry: "dom (prefetch_entry m x) = insert (fst x) (dom m)"
  by (cases x) (simp add: prefetch_entry_def Let_def del: fun_upd_apply)

lemma get_prefetch_accounts_dom: "dom (get_prefetch_accounts al) = fst ` set al"
  by (induction al rule: rev_induct)
    (simp_all add: get_prefetch_accounts_snoc dom_prefetch_entry, simp add: get_prefetch_accounts_def)

lemma finite_accounts:
  assumes "(journal_step keccak256)\<^sup>*\<^sup>* (with_prefetch (journal_new d) al) j"
  shows "finite (dom (j_accounts j))"
  using assms
  by (induction rule: rtranclp_induct) (auto simp: with_prefetch_def get_prefetch_accounts_dom intro: finite_accounts_step)

lemma coherent_prefetch: "coherent_off (fst ` set al) d (with_prefetch (journal_new d) al)"
  using get_prefetch_accounts_dom [of al] by (auto simp: coherent_off_def with_prefetch_def journal_new_def acc_ok_def domI)

text \<open>
  What happens to a journal in a transaction: the operations above, and a call or a creation, which hands the journal to
  the subcontext, lets it run, and takes over its journal or only the database from it.
\<close>

inductive journal_run :: "(bytes \<Rightarrow> b256) \<Rightarrow> journal \<Rightarrow> journal \<Rightarrow> bool" for keccak256 where
  run_start: "journal_run keccak256 j j"
| run_step: "journal_run keccak256 j j' \<Longrightarrow> journal_step keccak256 j' j'' \<Longrightarrow> journal_run keccak256 j j''"
| run_successful: "journal_run keccak256 j j' \<Longrightarrow> eject_base j' = (own, sub) \<Longrightarrow> journal_run keccak256 sub other \<Longrightarrow>
    journal_run keccak256 j (extend_from_successful own other)"
| run_reverted: "journal_run keccak256 j j' \<Longrightarrow> eject_base j' = (own, sub) \<Longrightarrow> journal_run keccak256 sub other \<Longrightarrow>
    journal_run keccak256 j (extend_from_reverted own other)"

text \<open>A subcontext leaves nothing that operations of the caller could not have done.\<close>

lemma journal_run_steps: "journal_run keccak256 j j' \<Longrightarrow> (journal_step keccak256)\<^sup>*\<^sup>* j j'"
proof (induction rule: journal_run.induct)
  case (run_successful j j' own sub other)
  then show ?case by (auto simp: eject_base_def extend_from_successful_def)
next
  case (run_reverted j j' own sub other)
  then have "extend_from_reverted own other = j'"
    using journal_steps_db [of keccak256 sub other] by (auto simp: eject_base_def extend_from_reverted_def)
  then show ?case using run_reverted by simp
qed auto

text \<open>The journal is a store of storage slots for the accounts it can load.\<close>

definition journal_slot :: "journal \<Rightarrow> address \<Rightarrow> u256 \<Rightarrow> u256" where
  "journal_slot j a key =
     (case snd (read_storage j a key) of Some s \<Rightarrow> present_value s | None \<Rightarrow> 0)"

definition journal_put :: "journal \<Rightarrow> address \<Rightarrow> u256 \<Rightarrow> u256 \<Rightarrow> journal" where
  "journal_put j a key v = (case write_storage j a key v of Inr j' \<Rightarrow> j' | Inl _ \<Rightarrow> j)"

lemma journal_slot_eq:
  "journal_slot j a key =
     (case loaded j a of Some acc \<Rightarrow> present_value (slot_view j a acc key) | None \<Rightarrow> 0)"
  by (auto simp: journal_slot_def read_storage_None read_storage_Some split: option.splits)

lemma slot_view_upd [simp]: "slot_view (j\<lparr>j_accounts := m\<rparr>) a acc key = slot_view j a acc key"
  by (simp add: slot_view_def cong: option.case_cong)

definition has_account :: "journal \<Rightarrow> address \<Rightarrow> bool" where
  "has_account j a \<longleftrightarrow> loaded j a \<noteq> None"

lemma has_account_put:
  assumes "has_account j a"
  shows "has_account (journal_put j a key v) b \<longleftrightarrow> has_account j b"
proof -
  obtain acc where acc: "loaded j a = Some acc" using assms by (auto simp: has_account_def)
  then obtain d where "j_db j = Some d" using loaded_j_db by blast
  then show ?thesis using acc by (auto simp: journal_put_def write_storage_Some has_account_def)
qed

lemma journal_slot_put:
  assumes "has_account j a"
  shows "journal_slot (journal_put j a k v) b i = (if b = a \<and> i = k then v else journal_slot j b i)"
proof -
  obtain acc where acc: "loaded j a = Some acc" using assms by (auto simp: has_account_def)
  then obtain d where d: "j_db j = Some d" using loaded_j_db by blast
  show ?thesis
  proof (cases "b = a")
    case True
    then show ?thesis
      using acc d by (simp add: journal_put_def write_storage_Some journal_slot_eq)
        (simp add: slot_view_def)
  next
    case False
    then show ?thesis
      using acc d by (simp add: journal_put_def write_storage_Some journal_slot_eq
          cong: option.case_cong)
  qed
qed

interpretation journal_slots: kv_store
  "\<lambda>j (a, k). journal_slot j a k" "\<lambda>j (a, k) v. journal_put j a k v" "\<lambda>j (a, k). has_account j a"
  by unfold_locales (auto simp: journal_slot_put has_account_put split: if_splits)

section \<open>Properties\<close>

text \<open>C26: after everything that a transaction may do to its journal, from the prefetch of its access list on and
  with the subcontexts of its calls and creations, the journal is over the same database; a cached slot of an account that is not
  on the access list remembers the database's value as its original, and such an account agrees with the database
  unless it is marked as modified. The accounts of the list are left out, because the prefetch puts empty accounts over
  them.\<close>

theorem journal_coherent:
  assumes "journal_run keccak256 (with_prefetch (journal_new d) al) j"
  shows "coherent_off (fst ` set al) d j"
  using journal_run_steps [OF assms] coherent_prefetch by (rule coherent_reachable)

text \<open>A subcontext of a transaction with account 2 on its access list sends a balance and succeeds; a further one is reverted.\<close>

theorem journal_coherent_witness:
  "coherent_off {2} (db_set_balance db_new 1 5)
     (extend_from_reverted
        (fst (eject_base (set_balance (with_prefetch (journal_new (db_set_balance db_new 1 5)) [(2, [])]) 1 7)))
        (set_nonce (snd (eject_base (set_balance (with_prefetch (journal_new (db_set_balance db_new 1 5)) [(2, [])]) 1 7))) 1 4))"
proof -
  let ?j = "with_prefetch (journal_new (db_set_balance db_new 1 5)) [(2, [])]"
  have "journal_run (\<lambda>_. 0) ?j (set_balance ?j 1 7)" by (rule run_step [OF run_start step_set_balance])
  from run_reverted [OF this prod.collapse [symmetric] run_step [OF run_start step_set_nonce]]
  show ?thesis using journal_coherent [of "\<lambda>_. 0" "db_set_balance db_new 1 5" "[(2, [])]"] by simp
qed

text \<open>Reverting a subcontext restores the caller's journal as it was when the
  subcontext was created, whatever the subcontext did.\<close>

theorem revert_restores_journal:
  assumes "eject_base j = (caller, callee)" and "(journal_step keccak256)\<^sup>*\<^sup>* callee other"
  shows "extend_from_reverted caller other = j"
  using assms journal_steps_db [OF assms(2)]
  by (auto simp: eject_base_def extend_from_reverted_def)

text \<open>What the database, and what the journal over it, says of an account.\<close>

definition db_view :: "db \<Rightarrow> address \<Rightarrow> (u256 \<times> u64 \<times> b256) option" where
  "db_view d a =
     map_option (\<lambda>x. (db_balance x, db_nonce x, db_bytecode_hash x)) (db_accounts d a)"

definition journal_view :: "journal \<Rightarrow> address \<Rightarrow> (u256 \<times> u64 \<times> b256) option" where
  "journal_view j a =
     map_option (\<lambda>x. (j_balance x, j_nonce x, j_bytecode_hash x)) (loaded j a)"

lemma account_of_simps [simp]:
  "info_balance (acct_info (account_of j acc)) = j_balance acc"
  "info_nonce (acct_info (account_of j acc)) = j_nonce acc"
  "info_code_hash (acct_info (account_of j acc)) = j_bytecode_hash acc"
  "acct_status (account_of j acc) = j_status acc"
  "map_option evm_present_value (acct_storage (account_of j acc) k) =
     map_option present_value (j_storage acc k)"
  by (simp_all add: account_of_def option.map_comp o_def)

lemma commit_skips_account_of:
  "commit_skips (account_of j acc) \<longleftrightarrow>
     (contains (j_status acc) Created \<and> contains (j_status acc) SelfDestructed) \<or>
     \<not> modified (j_status acc)"
  by (auto simp: commit_skips_def is_created_def is_selfdestructed_def
      is_touched_def modified_def)

lemma commit_view:
  assumes "coherent_off A d j" and "distinct (map fst changes)" and "map_of changes = into_state j"
    and "a \<in> A \<Longrightarrow> \<exists>acc. j_accounts j a = Some acc \<and> modified (j_status acc)"
    and "\<And>acc. j_accounts j a = Some acc \<Longrightarrow>
           \<not> (contains (j_status acc) Created \<and> contains (j_status acc) SelfDestructed)"
  shows "db_view (commit d changes) a = journal_view j a \<and>
         db_read_storage (commit d changes) a k = journal_slot j a k"
proof -
  have co: "coherent_off A d j" by fact
  then have db: "j_db j = Some d" by (simp add: coherent_off_def)
  note unf = db_view_def commit_accounts [OF assms(2)] commit_read_storage [OF assms(2)] assms(3)
    into_state_def journal_view_def journal_slot_eq loaded_eq db
  show ?thesis
  proof (cases "j_accounts j a")
    case None
    then show ?thesis
      by (auto simp: unf db_basic_def slot_view_def journal_account_from_def
          info_from_db_account_def fetch_coherent [OF co] slot_from_def db_read_storage_def
          split: option.splits)
  next
    case (Some acc)
    then have ok: "acc_ok A d a acc" using co by (simp add: coherent_off_def)
    show ?thesis
    proof (cases "modified (j_status acc)")
      case True
      then show ?thesis using Some assms(5) [OF Some]
        by (auto simp: unf commit_skips_account_of commit_account_def slot_view_def
            fetch_coherent [OF co] slot_from_def map_add_def split: option.splits)
    next
      case False
      then have "a \<notin> A" using assms(4) Some by auto
      then show ?thesis using Some ok slot_view_ok(2) [OF co ok _ False] False
        by (auto simp: unf commit_skips_account_of acc_ok_def)
    qed
  qed
qed

text \<open>An account that \<open>commit\<close> skips stays as the database has it.\<close>

lemma commit_skipped:
  assumes "distinct (map fst changes)" and "map_of changes = into_state j" and "j_accounts j a = Some acc"
    and "contains (j_status acc) Created \<and> contains (j_status acc) SelfDestructed \<or> \<not> modified (j_status acc)"
  shows "db_view (commit d changes) a = db_view d a \<and> db_read_storage (commit d changes) a k = db_read_storage d a k"
  using assms(3,4)
  by (auto simp: db_view_def commit_accounts [OF assms(1)] commit_read_storage [OF assms(1)] assms(2) into_state_def
      commit_skips_account_of)

text \<open>The code of a contract that the transaction created is stored under its hash, unless the database has code there.\<close>

lemma has_code_account_of: "has_code (acct_info (account_of j acc)) \<longleftrightarrow> j_has_code acc"
  by (simp add: has_code_def j_has_code_def account_of_def)

lemma commit_created_code:
  assumes "distinct (map fst changes)" and "map_of changes = into_state j" and "j_accounts j a = Some acc"
    and "contains (j_status acc) Created" and "\<not> contains (j_status acc) SelfDestructed" and "j_has_code acc"
  shows "db_contracts (commit d changes) (j_bytecode_hash acc) =
    (case db_contracts d (j_bytecode_hash acc) of Some c \<Rightarrow> Some c | None \<Rightarrow> j_contracts j (j_bytecode_hash acc))"
proof -
  have m: "(a, account_of j acc) \<in> set changes"
    using assms(2,3) map_of_SomeD [of changes a] by (simp add: into_state_def)
  have same: "info_code (acct_info x) = j_contracts j (info_code_hash (acct_info x))"
    if "(b, x) \<in> set changes" "has_code (acct_info x)" for b x
  proof -
    have "into_state j b = Some x" using that(1) assms(1,2) by (metis map_of_is_SomeI)
    then obtain y where y: "x = account_of j y" by (auto simp: into_state_def)
    then have "j_has_code y" using that(2) by (simp add: has_code_account_of)
    then show ?thesis using y by (simp add: account_of_def)
  qed
  have "\<not> commit_skips (account_of j acc) \<and> is_created (account_of j acc) \<and> has_code (acct_info (account_of j acc)) \<and>
      info_code_hash (acct_info (account_of j acc)) = j_bytecode_hash acc"
    using assms(4-6) by (simp add: commit_skips_account_of is_created_def modified_def has_code_account_of)
  then have "\<exists>(b, x) \<in> set changes. \<not> commit_skips x \<and> is_created x \<and> has_code (acct_info x) \<and>
      info_code_hash (acct_info x) = j_bytecode_hash acc" using m by blast
  then show ?thesis using commit_contracts [OF same] by (simp split: option.splits)
qed

text \<open>C30: prefetching an access list hides the database: an account on the list reads
  with balance, nonce and code hash zero, whatever the database holds for it.\<close>

theorem with_prefetch_hides_db:
  assumes "a \<in> fst ` set al"
  shows "\<exists>info. snd (get_account (with_prefetch (journal_new d) al) a) = Some info \<and>
           info_balance info = 0 \<and> info_nonce info = 0 \<and> info_code_hash info = 0"
proof -
  obtain acc where acc: "get_prefetch_accounts al a = Some acc"
    using assms get_prefetch_accounts_dom [of al] by blast
  then show ?thesis
    using get_prefetch_accounts_blank [OF acc]
    by (simp add: get_account_def get_account_mut_def with_prefetch_def journal_new_def
        info_from_journal_def blank_def)
qed

theorem with_prefetch_hides_db_witness:
  "db_get_balance (db_set_balance db_new 1 5) 1 = Some 5 \<and>
   (\<exists>info. snd (get_account (with_prefetch (journal_new (db_set_balance db_new 1 5)) [(1, [])]) 1)
      = Some info \<and> info_balance info = 0)"
  using with_prefetch_hides_db [of 1 "[(1, [])]" "db_set_balance db_new 1 5"]
  by (auto simp: db_get_balance_def db_set_balance_def)

end
