(* ===== verification/Program.thy ===== *)
theory Program
  imports Prelude
begin

text \<open>
  Bytecode programs (\<open>program.rs\<close>): the opcodes and their byte values, the
  operations, the parser from bytecode and the printer back to it.

  The opcode families \<open>PUSH1..PUSH32\<close>, \<open>DUP1..DUP16\<close>, \<open>SWAP1..SWAP16\<close> and
  \<open>LOG0..LOG4\<close> are constructors indexed by their number; every other opcode and
  every operation has the constructor of the source. A \<open>BigUint\<close> is a natural
  number.
\<close>

section \<open>Opcodes\<close>

datatype (plugins only: size) opcode =
    OP_STOP | OP_ADD | OP_MUL | OP_SUB | OP_DIV | OP_SDIV
  | OP_MOD | OP_SMOD | OP_ADDMOD | OP_MULMOD | OP_EXP | OP_SIGNEXTEND
  | OP_LT | OP_GT | OP_SLT | OP_SGT | OP_EQ | OP_ISZERO
  | OP_AND | OP_OR | OP_XOR | OP_NOT | OP_BYTE | OP_SHL
  | OP_SHR | OP_SAR | OP_KECCAK256 | OP_ADDRESS | OP_BALANCE | OP_ORIGIN
  | OP_CALLER | OP_CALLVALUE | OP_CALLDATALOAD | OP_CALLDATASIZE | OP_CALLDATACOPY | OP_CODESIZE
  | OP_CODECOPY | OP_GASPRICE | OP_EXTCODESIZE | OP_EXTCODECOPY | OP_RETURNDATASIZE | OP_RETURNDATACOPY
  | OP_EXTCODEHASH | OP_BLOCKHASH | OP_COINBASE | OP_TIMESTAMP | OP_NUMBER | OP_PREVRANDAO
  | OP_GASLIMIT | OP_CHAINID | OP_SELFBALANCE | OP_BASEFEE | OP_BLOBHASH | OP_BLOBBASEFEE
  | OP_POP | OP_MLOAD | OP_MSTORE | OP_MSTORE8 | OP_SLOAD | OP_SSTORE
  | OP_JUMP | OP_JUMPI | OP_PC | OP_MSIZE | OP_GAS | OP_JUMPDEST
  | OP_TLOAD | OP_TSTORE | OP_MCOPY | OP_PUSH0 | OP_PUSH nat | OP_DUP nat
  | OP_SWAP nat | OP_LOG nat | OP_CREATE | OP_CALL | OP_CALLCODE | OP_RETURN
  | OP_DELEGATECALL | OP_CREATE2 | OP_STATICCALL | OP_REVERT | OP_INVALID | OP_SELFDESTRUCT

text \<open>The cast \<open>opcode as u8\<close>.\<close>

primrec opcode_u8 :: "opcode \<Rightarrow> u8" where
  "opcode_u8 OP_STOP = 0x00"
| "opcode_u8 OP_ADD = 0x01"
| "opcode_u8 OP_MUL = 0x02"
| "opcode_u8 OP_SUB = 0x03"
| "opcode_u8 OP_DIV = 0x04"
| "opcode_u8 OP_SDIV = 0x05"
| "opcode_u8 OP_MOD = 0x06"
| "opcode_u8 OP_SMOD = 0x07"
| "opcode_u8 OP_ADDMOD = 0x08"
| "opcode_u8 OP_MULMOD = 0x09"
| "opcode_u8 OP_EXP = 0x0A"
| "opcode_u8 OP_SIGNEXTEND = 0x0B"
| "opcode_u8 OP_LT = 0x10"
| "opcode_u8 OP_GT = 0x11"
| "opcode_u8 OP_SLT = 0x12"
| "opcode_u8 OP_SGT = 0x13"
| "opcode_u8 OP_EQ = 0x14"
| "opcode_u8 OP_ISZERO = 0x15"
| "opcode_u8 OP_AND = 0x16"
| "opcode_u8 OP_OR = 0x17"
| "opcode_u8 OP_XOR = 0x18"
| "opcode_u8 OP_NOT = 0x19"
| "opcode_u8 OP_BYTE = 0x1A"
| "opcode_u8 OP_SHL = 0x1B"
| "opcode_u8 OP_SHR = 0x1C"
| "opcode_u8 OP_SAR = 0x1D"
| "opcode_u8 OP_KECCAK256 = 0x20"
| "opcode_u8 OP_ADDRESS = 0x30"
| "opcode_u8 OP_BALANCE = 0x31"
| "opcode_u8 OP_ORIGIN = 0x32"
| "opcode_u8 OP_CALLER = 0x33"
| "opcode_u8 OP_CALLVALUE = 0x34"
| "opcode_u8 OP_CALLDATALOAD = 0x35"
| "opcode_u8 OP_CALLDATASIZE = 0x36"
| "opcode_u8 OP_CALLDATACOPY = 0x37"
| "opcode_u8 OP_CODESIZE = 0x38"
| "opcode_u8 OP_CODECOPY = 0x39"
| "opcode_u8 OP_GASPRICE = 0x3A"
| "opcode_u8 OP_EXTCODESIZE = 0x3B"
| "opcode_u8 OP_EXTCODECOPY = 0x3C"
| "opcode_u8 OP_RETURNDATASIZE = 0x3D"
| "opcode_u8 OP_RETURNDATACOPY = 0x3E"
| "opcode_u8 OP_EXTCODEHASH = 0x3F"
| "opcode_u8 OP_BLOCKHASH = 0x40"
| "opcode_u8 OP_COINBASE = 0x41"
| "opcode_u8 OP_TIMESTAMP = 0x42"
| "opcode_u8 OP_NUMBER = 0x43"
| "opcode_u8 OP_PREVRANDAO = 0x44"
| "opcode_u8 OP_GASLIMIT = 0x45"
| "opcode_u8 OP_CHAINID = 0x46"
| "opcode_u8 OP_SELFBALANCE = 0x47"
| "opcode_u8 OP_BASEFEE = 0x48"
| "opcode_u8 OP_BLOBHASH = 0x49"
| "opcode_u8 OP_BLOBBASEFEE = 0x4A"
| "opcode_u8 OP_POP = 0x50"
| "opcode_u8 OP_MLOAD = 0x51"
| "opcode_u8 OP_MSTORE = 0x52"
| "opcode_u8 OP_MSTORE8 = 0x53"
| "opcode_u8 OP_SLOAD = 0x54"
| "opcode_u8 OP_SSTORE = 0x55"
| "opcode_u8 OP_JUMP = 0x56"
| "opcode_u8 OP_JUMPI = 0x57"
| "opcode_u8 OP_PC = 0x58"
| "opcode_u8 OP_MSIZE = 0x59"
| "opcode_u8 OP_GAS = 0x5A"
| "opcode_u8 OP_JUMPDEST = 0x5B"
| "opcode_u8 OP_TLOAD = 0x5C"
| "opcode_u8 OP_TSTORE = 0x5D"
| "opcode_u8 OP_MCOPY = 0x5E"
| "opcode_u8 OP_PUSH0 = 0x5F"
| "opcode_u8 (OP_PUSH n) = 0x60 + of_nat (n - 1)"
| "opcode_u8 (OP_DUP n) = 0x80 + of_nat (n - 1)"
| "opcode_u8 (OP_SWAP n) = 0x90 + of_nat (n - 1)"
| "opcode_u8 (OP_LOG n) = 0xA0 + of_nat n"
| "opcode_u8 OP_CREATE = 0xF0"
| "opcode_u8 OP_CALL = 0xF1"
| "opcode_u8 OP_CALLCODE = 0xF2"
| "opcode_u8 OP_RETURN = 0xF3"
| "opcode_u8 OP_DELEGATECALL = 0xF4"
| "opcode_u8 OP_CREATE2 = 0xF5"
| "opcode_u8 OP_STATICCALL = 0xFA"
| "opcode_u8 OP_REVERT = 0xFD"
| "opcode_u8 OP_INVALID = 0xFE"
| "opcode_u8 OP_SELFDESTRUCT = 0xFF"

text \<open>The arms of \<open>TryFrom<u8>\<close> in their order.\<close>

definition try_from_arms :: "opcode list" where
  "try_from_arms =
       [OP_STOP, OP_ADD, OP_MUL, OP_SUB, OP_DIV, OP_SDIV, OP_MOD, OP_SMOD, OP_ADDMOD,
        OP_MULMOD, OP_EXP, OP_SIGNEXTEND, OP_LT, OP_GT, OP_SLT, OP_SGT, OP_EQ,
        OP_ISZERO, OP_AND, OP_OR, OP_XOR, OP_NOT, OP_BYTE, OP_SHL, OP_SHR, OP_SAR,
        OP_KECCAK256, OP_ADDRESS, OP_BALANCE, OP_ORIGIN, OP_CALLER, OP_CALLVALUE,
        OP_CALLDATALOAD, OP_CALLDATASIZE, OP_CALLDATACOPY, OP_CODESIZE, OP_CODECOPY,
        OP_GASPRICE, OP_EXTCODESIZE, OP_EXTCODECOPY, OP_RETURNDATASIZE,
        OP_RETURNDATACOPY, OP_EXTCODEHASH, OP_BLOCKHASH, OP_COINBASE, OP_TIMESTAMP,
        OP_NUMBER, OP_PREVRANDAO, OP_GASLIMIT, OP_CHAINID, OP_SELFBALANCE, OP_BASEFEE,
        OP_BLOBHASH, OP_BLOBBASEFEE, OP_POP, OP_MLOAD, OP_MSTORE, OP_MSTORE8, OP_SLOAD,
        OP_SSTORE, OP_JUMP, OP_JUMPI, OP_PC, OP_MSIZE, OP_GAS, OP_JUMPDEST, OP_TLOAD,
        OP_TSTORE, OP_MCOPY, OP_PUSH0]
     @ map OP_PUSH [1..<33]
     @ map OP_DUP [1..<17]
     @ map OP_SWAP [1..<17]
     @ map OP_LOG [0..<5]
     @ [OP_CREATE, OP_CALL, OP_CALLCODE, OP_RETURN, OP_DELEGATECALL, OP_CREATE2,
        OP_STATICCALL, OP_REVERT, OP_SELFDESTRUCT]"

definition opcode_try_from :: "u8 \<Rightarrow> u8 + opcode" where
  "opcode_try_from x =
     (case find (\<lambda>op. x = opcode_u8 op) try_from_arms of
        Some op \<Rightarrow> Inr op
      | None \<Rightarrow> Inl x)"

section \<open>Operations\<close>

datatype (plugins only: size) operation =
    Stop | Add | Mul | Sub | Div | Sdiv | Mod
  | SMod | Addmod | Mulmod | Exp | SignExtend | Lt | Gt
  | Slt | Sgt | Eq | IsZero | And | Or | Xor
  | Not | Byte | Shl | Shr | Sar | Keccak256 | Address
  | Balance | Origin | Caller | Callvalue | CalldataLoad | CallDataSize | CallDataCopy
  | Codesize | Codecopy | Gasprice | ExtcodeSize | ExtcodeCopy | ReturnDataSize | ReturnDataCopy
  | ExtcodeHash | BlockHash | Coinbase | Timestamp | Number | Prevrandao | Gaslimit
  | Chainid | SelfBalance | Basefee | BlobHash | BlobBaseFee | Pop | Mload
  | Mstore | Mstore8 | Sload | Sstore | Jump | Jumpi | PC nat
  | Msize | Gas | Jumpdest nat | Tload | Tstore | Mcopy | Push0
  | Push u8 nat | Dup u8 | Swap u8 | Log u8 | Create | Call | CallCode
  | Return | DelegateCall | Create2 | StaticCall | Revert | Invalid | SelfDestruct

text \<open>\<open>BigUint::to_bytes_be\<close>: no leading zero byte, and one zero byte for zero.\<close>

fun biguint_to_bytes_be :: "nat \<Rightarrow> bytes" where
  "biguint_to_bytes_be v =
     (if v < 256 then [of_nat v]
      else biguint_to_bytes_be (v div 256) @ [of_nat (v mod 256)])"

declare biguint_to_bytes_be.simps [simp del]

primrec operation_to_bytecode :: "operation \<Rightarrow> bytes res" where
  "operation_to_bytecode Stop = Inr [opcode_u8 OP_STOP]"
| "operation_to_bytecode Add = Inr [opcode_u8 OP_ADD]"
| "operation_to_bytecode Mul = Inr [opcode_u8 OP_MUL]"
| "operation_to_bytecode Sub = Inr [opcode_u8 OP_SUB]"
| "operation_to_bytecode Div = Inr [opcode_u8 OP_DIV]"
| "operation_to_bytecode Sdiv = Inr [opcode_u8 OP_SDIV]"
| "operation_to_bytecode Mod = Inr [opcode_u8 OP_MOD]"
| "operation_to_bytecode SMod = Inr [opcode_u8 OP_SMOD]"
| "operation_to_bytecode Addmod = Inr [opcode_u8 OP_ADDMOD]"
| "operation_to_bytecode Mulmod = Inr [opcode_u8 OP_MULMOD]"
| "operation_to_bytecode Exp = Inr [opcode_u8 OP_EXP]"
| "operation_to_bytecode SignExtend = Inr [opcode_u8 OP_SIGNEXTEND]"
| "operation_to_bytecode Lt = Inr [opcode_u8 OP_LT]"
| "operation_to_bytecode Gt = Inr [opcode_u8 OP_GT]"
| "operation_to_bytecode Slt = Inr [opcode_u8 OP_SLT]"
| "operation_to_bytecode Sgt = Inr [opcode_u8 OP_SGT]"
| "operation_to_bytecode Eq = Inr [opcode_u8 OP_EQ]"
| "operation_to_bytecode IsZero = Inr [opcode_u8 OP_ISZERO]"
| "operation_to_bytecode And = Inr [opcode_u8 OP_AND]"
| "operation_to_bytecode Or = Inr [opcode_u8 OP_OR]"
| "operation_to_bytecode Xor = Inr [opcode_u8 OP_XOR]"
| "operation_to_bytecode Not = Inr [opcode_u8 OP_NOT]"
| "operation_to_bytecode Byte = Inr [opcode_u8 OP_BYTE]"
| "operation_to_bytecode Shl = Inr [opcode_u8 OP_SHL]"
| "operation_to_bytecode Shr = Inr [opcode_u8 OP_SHR]"
| "operation_to_bytecode Sar = Inr [opcode_u8 OP_SAR]"
| "operation_to_bytecode Keccak256 = Inr [opcode_u8 OP_KECCAK256]"
| "operation_to_bytecode Address = Inr [opcode_u8 OP_ADDRESS]"
| "operation_to_bytecode Balance = Inr [opcode_u8 OP_BALANCE]"
| "operation_to_bytecode Origin = Inr [opcode_u8 OP_ORIGIN]"
| "operation_to_bytecode Caller = Inr [opcode_u8 OP_CALLER]"
| "operation_to_bytecode Callvalue = Inr [opcode_u8 OP_CALLVALUE]"
| "operation_to_bytecode CalldataLoad = Inr [opcode_u8 OP_CALLDATALOAD]"
| "operation_to_bytecode CallDataSize = Inr [opcode_u8 OP_CALLDATASIZE]"
| "operation_to_bytecode CallDataCopy = Inr [opcode_u8 OP_CALLDATACOPY]"
| "operation_to_bytecode Codesize = Inr [opcode_u8 OP_CODESIZE]"
| "operation_to_bytecode Codecopy = Inr [opcode_u8 OP_CODECOPY]"
| "operation_to_bytecode Gasprice = Inr [opcode_u8 OP_GASPRICE]"
| "operation_to_bytecode ExtcodeCopy = Inr [opcode_u8 OP_EXTCODECOPY]"
| "operation_to_bytecode ReturnDataSize = Inr [opcode_u8 OP_RETURNDATASIZE]"
| "operation_to_bytecode ReturnDataCopy = Inr [opcode_u8 OP_RETURNDATACOPY]"
| "operation_to_bytecode ExtcodeHash = Inr [opcode_u8 OP_EXTCODEHASH]"
| "operation_to_bytecode BlockHash = Inr [opcode_u8 OP_BLOCKHASH]"
| "operation_to_bytecode ExtcodeSize = Inr [opcode_u8 OP_EXTCODESIZE]"
| "operation_to_bytecode Coinbase = Inr [opcode_u8 OP_COINBASE]"
| "operation_to_bytecode Timestamp = Inr [opcode_u8 OP_TIMESTAMP]"
| "operation_to_bytecode Number = Inr [opcode_u8 OP_NUMBER]"
| "operation_to_bytecode Prevrandao = Inr [opcode_u8 OP_PREVRANDAO]"
| "operation_to_bytecode Gaslimit = Inr [opcode_u8 OP_GASLIMIT]"
| "operation_to_bytecode Chainid = Inr [opcode_u8 OP_CHAINID]"
| "operation_to_bytecode SelfBalance = Inr [opcode_u8 OP_SELFBALANCE]"
| "operation_to_bytecode Basefee = Inr [opcode_u8 OP_BASEFEE]"
| "operation_to_bytecode BlobHash = Inr [opcode_u8 OP_BLOBHASH]"
| "operation_to_bytecode BlobBaseFee = Inr [opcode_u8 OP_BLOBBASEFEE]"
| "operation_to_bytecode Pop = Inr [opcode_u8 OP_POP]"
| "operation_to_bytecode Mload = Inr [opcode_u8 OP_MLOAD]"
| "operation_to_bytecode Mstore = Inr [opcode_u8 OP_MSTORE]"
| "operation_to_bytecode Mstore8 = Inr [opcode_u8 OP_MSTORE8]"
| "operation_to_bytecode Sload = Inr [opcode_u8 OP_SLOAD]"
| "operation_to_bytecode Sstore = Inr [opcode_u8 OP_SSTORE]"
| "operation_to_bytecode Jump = Inr [opcode_u8 OP_JUMP]"
| "operation_to_bytecode Jumpi = Inr [opcode_u8 OP_JUMPI]"
| "operation_to_bytecode (PC pc) = Inr [opcode_u8 OP_PC]"
| "operation_to_bytecode Msize = Inr [opcode_u8 OP_MSIZE]"
| "operation_to_bytecode Gas = Inr [opcode_u8 OP_GAS]"
| "operation_to_bytecode (Jumpdest pc) = Inr [opcode_u8 OP_JUMPDEST]"
| "operation_to_bytecode Tload = Inr [opcode_u8 OP_TLOAD]"
| "operation_to_bytecode Tstore = Inr [opcode_u8 OP_TSTORE]"
| "operation_to_bytecode Mcopy = Inr [opcode_u8 OP_MCOPY]"
| "operation_to_bytecode Push0 = Inr [opcode_u8 OP_PUSH0]"
| "operation_to_bytecode (Push n x) =
     (let len = 1 + unat n;
          opcode_bytes = (replicate len 0)[0 := opcode_u8 OP_PUSH0 + n];
          bytes = biguint_to_bytes_be x
      in if length bytes \<le> len
         then Inr (take (len - length bytes) opcode_bytes @ bytes) else Inl Panic)"
| "operation_to_bytecode (Dup n) = Inr [opcode_u8 (OP_DUP 1) + n - 1]"
| "operation_to_bytecode (Swap n) = Inr [opcode_u8 (OP_SWAP 1) + n - 1]"
| "operation_to_bytecode (Log n) = Inr [opcode_u8 (OP_LOG 0) + n]"
| "operation_to_bytecode Create = Inr [opcode_u8 OP_CREATE]"
| "operation_to_bytecode Call = Inr [opcode_u8 OP_CALL]"
| "operation_to_bytecode CallCode = Inr [opcode_u8 OP_CALLCODE]"
| "operation_to_bytecode Return = Inr [opcode_u8 OP_RETURN]"
| "operation_to_bytecode DelegateCall = Inr [opcode_u8 OP_DELEGATECALL]"
| "operation_to_bytecode Create2 = Inr [opcode_u8 OP_CREATE2]"
| "operation_to_bytecode StaticCall = Inr [opcode_u8 OP_STATICCALL]"
| "operation_to_bytecode Revert = Inr [opcode_u8 OP_REVERT]"
| "operation_to_bytecode Invalid = Inr [opcode_u8 OP_INVALID]"
| "operation_to_bytecode SelfDestruct = Inr [opcode_u8 OP_SELFDESTRUCT]"

section \<open>Programs\<close>

record program =
  operations :: "operation list"
  code_size :: u32

text \<open>
  The arms \<open>PUSH1\<close> to \<open>PUSH32\<close>: step to the operand, read what is left of it,
  step over the rest of it.
\<close>

definition parse_push :: "bytes \<Rightarrow> nat \<Rightarrow> nat \<Rightarrow> (operation \<times> nat) res" where
  "parse_push bytecode pc n =
     (let pc = pc + 1 in
      and_then (slice bytecode pc (min (length bytecode) (pc + n))) (\<lambda>x.
      let pc = pc + (n - 1) in
      Inr (Push (of_nat n) (be_nat x), pc + 1)))"

primrec parse_arm :: "bytes \<Rightarrow> nat \<Rightarrow> opcode \<Rightarrow> (operation \<times> nat) res" where
  "parse_arm bytecode pc OP_STOP = Inr (Stop, pc + 1)"
| "parse_arm bytecode pc OP_ADD = Inr (Add, pc + 1)"
| "parse_arm bytecode pc OP_MUL = Inr (Mul, pc + 1)"
| "parse_arm bytecode pc OP_SUB = Inr (Sub, pc + 1)"
| "parse_arm bytecode pc OP_DIV = Inr (Div, pc + 1)"
| "parse_arm bytecode pc OP_SDIV = Inr (Sdiv, pc + 1)"
| "parse_arm bytecode pc OP_MOD = Inr (Mod, pc + 1)"
| "parse_arm bytecode pc OP_SMOD = Inr (SMod, pc + 1)"
| "parse_arm bytecode pc OP_ADDMOD = Inr (Addmod, pc + 1)"
| "parse_arm bytecode pc OP_MULMOD = Inr (Mulmod, pc + 1)"
| "parse_arm bytecode pc OP_EXP = Inr (Exp, pc + 1)"
| "parse_arm bytecode pc OP_SIGNEXTEND = Inr (SignExtend, pc + 1)"
| "parse_arm bytecode pc OP_LT = Inr (Lt, pc + 1)"
| "parse_arm bytecode pc OP_GT = Inr (Gt, pc + 1)"
| "parse_arm bytecode pc OP_SLT = Inr (Slt, pc + 1)"
| "parse_arm bytecode pc OP_SGT = Inr (Sgt, pc + 1)"
| "parse_arm bytecode pc OP_EQ = Inr (Eq, pc + 1)"
| "parse_arm bytecode pc OP_ISZERO = Inr (IsZero, pc + 1)"
| "parse_arm bytecode pc OP_AND = Inr (And, pc + 1)"
| "parse_arm bytecode pc OP_OR = Inr (Or, pc + 1)"
| "parse_arm bytecode pc OP_XOR = Inr (Xor, pc + 1)"
| "parse_arm bytecode pc OP_NOT = Inr (Not, pc + 1)"
| "parse_arm bytecode pc OP_BYTE = Inr (Byte, pc + 1)"
| "parse_arm bytecode pc OP_SHL = Inr (Shl, pc + 1)"
| "parse_arm bytecode pc OP_SHR = Inr (Shr, pc + 1)"
| "parse_arm bytecode pc OP_SAR = Inr (Sar, pc + 1)"
| "parse_arm bytecode pc OP_KECCAK256 = Inr (Keccak256, pc + 1)"
| "parse_arm bytecode pc OP_ADDRESS = Inr (Address, pc + 1)"
| "parse_arm bytecode pc OP_BALANCE = Inr (Balance, pc + 1)"
| "parse_arm bytecode pc OP_ORIGIN = Inr (Origin, pc + 1)"
| "parse_arm bytecode pc OP_CALLER = Inr (Caller, pc + 1)"
| "parse_arm bytecode pc OP_CALLVALUE = Inr (Callvalue, pc + 1)"
| "parse_arm bytecode pc OP_CALLDATALOAD = Inr (CalldataLoad, pc + 1)"
| "parse_arm bytecode pc OP_CALLDATASIZE = Inr (CallDataSize, pc + 1)"
| "parse_arm bytecode pc OP_CALLDATACOPY = Inr (CallDataCopy, pc + 1)"
| "parse_arm bytecode pc OP_CODESIZE = Inr (Codesize, pc + 1)"
| "parse_arm bytecode pc OP_CODECOPY = Inr (Codecopy, pc + 1)"
| "parse_arm bytecode pc OP_GASPRICE = Inr (Gasprice, pc + 1)"
| "parse_arm bytecode pc OP_EXTCODESIZE = Inr (ExtcodeSize, pc + 1)"
| "parse_arm bytecode pc OP_EXTCODECOPY = Inr (ExtcodeCopy, pc + 1)"
| "parse_arm bytecode pc OP_RETURNDATASIZE = Inr (ReturnDataSize, pc + 1)"
| "parse_arm bytecode pc OP_RETURNDATACOPY = Inr (ReturnDataCopy, pc + 1)"
| "parse_arm bytecode pc OP_EXTCODEHASH = Inr (ExtcodeHash, pc + 1)"
| "parse_arm bytecode pc OP_BLOCKHASH = Inr (BlockHash, pc + 1)"
| "parse_arm bytecode pc OP_COINBASE = Inr (Coinbase, pc + 1)"
| "parse_arm bytecode pc OP_TIMESTAMP = Inr (Timestamp, pc + 1)"
| "parse_arm bytecode pc OP_NUMBER = Inr (Number, pc + 1)"
| "parse_arm bytecode pc OP_PREVRANDAO = Inr (Prevrandao, pc + 1)"
| "parse_arm bytecode pc OP_GASLIMIT = Inr (Gaslimit, pc + 1)"
| "parse_arm bytecode pc OP_CHAINID = Inr (Chainid, pc + 1)"
| "parse_arm bytecode pc OP_SELFBALANCE = Inr (SelfBalance, pc + 1)"
| "parse_arm bytecode pc OP_BASEFEE = Inr (Basefee, pc + 1)"
| "parse_arm bytecode pc OP_BLOBHASH = Inr (BlobHash, pc + 1)"
| "parse_arm bytecode pc OP_BLOBBASEFEE = Inr (BlobBaseFee, pc + 1)"
| "parse_arm bytecode pc OP_POP = Inr (Pop, pc + 1)"
| "parse_arm bytecode pc OP_MLOAD = Inr (Mload, pc + 1)"
| "parse_arm bytecode pc OP_MSTORE = Inr (Mstore, pc + 1)"
| "parse_arm bytecode pc OP_MSTORE8 = Inr (Mstore8, pc + 1)"
| "parse_arm bytecode pc OP_SLOAD = Inr (Sload, pc + 1)"
| "parse_arm bytecode pc OP_SSTORE = Inr (Sstore, pc + 1)"
| "parse_arm bytecode pc OP_JUMP = Inr (Jump, pc + 1)"
| "parse_arm bytecode pc OP_JUMPI = Inr (Jumpi, pc + 1)"
| "parse_arm bytecode pc OP_PC = Inr (PC pc, pc + 1)"
| "parse_arm bytecode pc OP_MSIZE = Inr (Msize, pc + 1)"
| "parse_arm bytecode pc OP_GAS = Inr (Gas, pc + 1)"
| "parse_arm bytecode pc OP_JUMPDEST = Inr (Jumpdest pc, pc + 1)"
| "parse_arm bytecode pc OP_TLOAD = Inr (Tload, pc + 1)"
| "parse_arm bytecode pc OP_TSTORE = Inr (Tstore, pc + 1)"
| "parse_arm bytecode pc OP_MCOPY = Inr (Mcopy, pc + 1)"
| "parse_arm bytecode pc OP_PUSH0 = Inr (Push0, pc + 1)"
| "parse_arm bytecode pc (OP_PUSH n) = parse_push bytecode pc n"
| "parse_arm bytecode pc (OP_DUP n) = Inr (Dup (of_nat n), pc + 1)"
| "parse_arm bytecode pc (OP_SWAP n) = Inr (Swap (of_nat n), pc + 1)"
| "parse_arm bytecode pc (OP_LOG n) = Inr (Log (of_nat n), pc + 1)"
| "parse_arm bytecode pc OP_CREATE = Inr (Create, pc + 1)"
| "parse_arm bytecode pc OP_CALL = Inr (Call, pc + 1)"
| "parse_arm bytecode pc OP_CALLCODE = Inr (CallCode, pc + 1)"
| "parse_arm bytecode pc OP_RETURN = Inr (Return, pc + 1)"
| "parse_arm bytecode pc OP_DELEGATECALL = Inr (DelegateCall, pc + 1)"
| "parse_arm bytecode pc OP_CREATE2 = Inr (Create2, pc + 1)"
| "parse_arm bytecode pc OP_STATICCALL = Inr (StaticCall, pc + 1)"
| "parse_arm bytecode pc OP_REVERT = Inr (Revert, pc + 1)"
| "parse_arm bytecode pc OP_INVALID = Inr (Invalid, pc + 1)"
| "parse_arm bytecode pc OP_SELFDESTRUCT = Inr (SelfDestruct, pc + 1)"

definition parse_operation :: "bytes \<Rightarrow> nat \<Rightarrow> (u8 + operation \<times> nat) res" where
  "parse_operation bytecode pc =
     (if pc < length bytecode
      then (case opcode_try_from (bytecode ! pc) of
              Inl e \<Rightarrow> Inr (Inl e)
            | Inr opcode \<Rightarrow> and_then (parse_arm bytecode pc opcode) (\<lambda>r. Inr (Inr r)))
      else Inl Panic)"

text \<open>The summand of \<open>get_codesize\<close>: an 8-bit addition, then a cast.\<close>

definition operation_codesize :: "operation \<Rightarrow> u32" where
  "operation_codesize op = (case op of Push n _ \<Rightarrow> ucast (n + 1) | _ \<Rightarrow> 1)"

definition get_codesize :: "operation list \<Rightarrow> u32" where
  "get_codesize ops = sum_list (map operation_codesize ops)"

text \<open>\<open>From<Vec<Operation>> for Program\<close>.\<close>

definition program_from :: "operation list \<Rightarrow> program" where
  "program_from ops = \<lparr>operations = ops, code_size = get_codesize ops\<rparr>"

primrec flat_map_bytecode :: "operation list \<Rightarrow> bytes res" where
  "flat_map_bytecode [] = Inr []"
| "flat_map_bytecode (op # ops) =
     and_then (operation_to_bytecode op) (\<lambda>b.
     and_then (flat_map_bytecode ops) (\<lambda>bs. Inr (b @ bs)))"

definition to_bytecode :: "program \<Rightarrow> bytes res" where
  "to_bytecode p = flat_map_bytecode (operations p)"

text \<open>An arm moves past the opcode it reads, so both parsing loops end.\<close>

lemma parse_arm_progress: "parse_arm bytecode pc opc = Inr (op, pc') \<Longrightarrow> pc < pc'"
  by (cases opc)
    (auto simp: parse_push_def Let_def result_simps)

lemma parse_operation_progress:
  "parse_operation bytecode pc = Inr (Inr (op, pc')) \<Longrightarrow> pc < pc' \<and> pc < length bytecode"
  by (auto simp: parse_operation_def result_simps parse_arm_progress
        split: if_splits sum.splits)

function from_bytecode_loop :: "bytes \<Rightarrow> nat \<Rightarrow> operation list \<Rightarrow> operation list res" where
  "from_bytecode_loop bytecode pc ops =
     (if pc < length bytecode
      then and_then (parse_operation bytecode pc) (\<lambda>r. case r of
             Inr (op, new_pc) \<Rightarrow> from_bytecode_loop bytecode new_pc (ops @ [op])
           | Inl e \<Rightarrow> from_bytecode_loop bytecode (pc + 1) (ops @ [Invalid]))
      else Inr ops)"
  by auto
termination
  by (relation "measure (\<lambda>(bytecode, pc, ops). length bytecode - pc)")
    (auto dest: parse_operation_progress)

definition from_bytecode :: "bytes \<Rightarrow> program res" where
  "from_bytecode bytecode =
     and_then (from_bytecode_loop bytecode 0 []) (\<lambda>ops. Inr (program_from ops))"

function from_bytecode_checked_loop ::
  "bytes \<Rightarrow> nat \<Rightarrow> operation list \<Rightarrow> u8 list \<Rightarrow> (operation list \<times> u8 list) res" where
  "from_bytecode_checked_loop bytecode pc ops failed_opcodes =
     (if pc < length bytecode
      then and_then (parse_operation bytecode pc) (\<lambda>r. case r of
             Inr (op, new_pc) \<Rightarrow>
               from_bytecode_checked_loop bytecode new_pc (ops @ [op]) failed_opcodes
           | Inl e \<Rightarrow>
               from_bytecode_checked_loop bytecode (pc + 1) ops (failed_opcodes @ [e]))
      else Inr (ops, failed_opcodes))"
  by auto
termination
  by (relation "measure (\<lambda>(bytecode, pc, ops, f). length bytecode - pc)")
    (auto dest: parse_operation_progress)

text \<open>The inner sum is the \<open>Result\<close> of the source: the opcodes that failed, or the program.\<close>

definition from_bytecode_checked :: "bytes \<Rightarrow> (u8 list + program) res" where
  "from_bytecode_checked bytecode =
     and_then (from_bytecode_checked_loop bytecode 0 [] []) (\<lambda>(ops, failed_opcodes).
       Inr (if failed_opcodes = [] then Inr (program_from ops) else Inl failed_opcodes))"

declare from_bytecode_loop.simps [simp del]
declare from_bytecode_checked_loop.simps [simp del]

section \<open>The opcode table\<close>

lemma find_key:
  assumes "distinct (map f xs)" and "x \<in> set xs"
  shows "find (\<lambda>y. f x = f y) xs = Some x"
  using assms by (induction xs) (auto simp: rev_image_eqI)

lemma strictly_increasing_distinct:
  assumes "successively (<) (xs :: 'a::linorder list)"
  shows "distinct xs"
  using assms
  by (metis strict_sorted_iff successively_conv_sorted_wrt transp_on_less)

lemma upt_33: "[1..<33] = [1,2,3,4,5,6,7,8,9,10,11,12,13,14,15,16,17,18,19,20,21,22,23,24,25,26,27,28,29,30,31,32::nat]"
  by (simp add: upt_rec)

lemma upt_17: "[1..<17] = [1,2,3,4,5,6,7,8,9,10,11,12,13,14,15,16::nat]"
  by (simp add: upt_rec)

lemma upt_5: "[0..<5] = [0,1,2,3,4::nat]"
  by (simp add: upt_rec)

lemma try_from_arms_ascending: "successively (<) (map opcode_u8 try_from_arms)"
  unfolding try_from_arms_def upt_33 upt_17 upt_5
  by simp

lemma opcode_try_from_arm:
  "op \<in> set try_from_arms \<Longrightarrow> opcode_try_from (opcode_u8 op) = Inr op"
  by (simp add: opcode_try_from_def find_key
       strictly_increasing_distinct [OF try_from_arms_ascending])

lemma opcode_try_from_Inr:
  assumes "opcode_try_from x = Inr op"
  shows "op \<in> set try_from_arms" and "opcode_u8 op = x"
  using assms by (auto simp: opcode_try_from_def find_Some_iff split: option.splits)

lemma opcode_try_from_Inl: "opcode_try_from x = Inl e \<Longrightarrow> e = x"
  by (auto simp: opcode_try_from_def split: option.splits)

lemma INVALID_not_an_arm: "opcode_try_from 0xFE = Inl 0xFE"
  unfolding opcode_try_from_def try_from_arms_def upt_33 upt_17 upt_5
  by simp


section \<open>Sizes and well-formed operations\<close>

text \<open>
  The bytes an operation takes, and the operations the parser can produce at the
  position \<open>pc\<close>: the recorded positions are right and the operands in range.
\<close>

definition op_size :: "operation \<Rightarrow> nat" where
  "op_size op = (case op of Push n _ \<Rightarrow> 1 + unat n | _ \<Rightarrow> 1)"

definition op_ok :: "nat \<Rightarrow> operation \<Rightarrow> bool" where
  "op_ok pc op = (case op of
     PC p \<Rightarrow> p = pc
   | Jumpdest p \<Rightarrow> p = pc
   | Push n x \<Rightarrow> 1 \<le> n \<and> n \<le> 32 \<and> x < 256 ^ unat n
   | Dup n \<Rightarrow> 1 \<le> n \<and> n \<le> 16
   | Swap n \<Rightarrow> 1 \<le> n \<and> n \<le> 16
   | Log n \<Rightarrow> n \<le> 4
   | _ \<Rightarrow> True)"

primrec canonical :: "nat \<Rightarrow> operation list \<Rightarrow> bool" where
  "canonical pc [] \<longleftrightarrow> True"
| "canonical pc (op # ops) \<longleftrightarrow> op_ok pc op \<and> canonical (pc + op_size op) ops"

definition ops_size :: "operation list \<Rightarrow> nat" where
  "ops_size ops = sum_list (map op_size ops)"

lemma op_size_pos [simp]: "0 < op_size op"
  by (cases op) (simp_all add: op_size_def)

lemma ops_size_simps [simp]:
  "ops_size [] = 0" "ops_size (op # ops) = op_size op + ops_size ops"
  by (simp_all add: ops_size_def)

lemma biguint_to_bytes_be_pad:
  assumes "x < 256 ^ n" and "0 < n"
  shows "length (biguint_to_bytes_be x) \<le> n \<and>
         replicate (n - length (biguint_to_bytes_be x)) 0 @ biguint_to_bytes_be x = nat_to_be n x"
  using assms
proof (induction x arbitrary: n rule: biguint_to_bytes_be.induct)
  case (1 x)
  obtain m where n: "n = Suc m" using 1(3) by (cases n) auto
  show ?case
  proof (cases "x < 256")
    case True
    then show ?thesis by (simp add: n biguint_to_bytes_be.simps [of x])
  next
    case False
    have lt: "x div 256 < 256 ^ m" using 1(2) n by (simp add: less_mult_imp_div_less)
    have "0 < m" using 1(2) n False by (cases m) auto
    then show ?thesis
      using 1(1) [OF False lt] False
      by (simp add: n biguint_to_bytes_be.simps [of x] Suc_diff_le)
  qed
qed

lemma push_to_bytecode:
  assumes "1 \<le> n" and "x < 256 ^ unat n"
  shows "operation_to_bytecode (Push n x) = Inr ((0x5F + n) # nat_to_be (unat n) x)"
proof -
  let ?b = "biguint_to_bytes_be x"
  have pos: "0 < unat n" using assms(1) by (simp add: word_le_nat_alt)
  note p = biguint_to_bytes_be_pad [OF assms(2) pos]
  then have "take (1 + unat n - length ?b) ((replicate (1 + unat n) 0)[0 := 0x5F + n])
     = (0x5F + n) # replicate (unat n - length ?b) 0"
    by (simp add: Suc_diff_le take_replicate)
  then show ?thesis using p by (simp add: Let_def)
qed


lemma families_in_arms:
  "OP_PUSH n \<in> set try_from_arms \<longleftrightarrow> 1 \<le> n \<and> n \<le> 32"
  "OP_DUP n \<in> set try_from_arms \<longleftrightarrow> 1 \<le> n \<and> n \<le> 16"
  "OP_SWAP n \<in> set try_from_arms \<longleftrightarrow> 1 \<le> n \<and> n \<le> 16"
  "OP_LOG n \<in> set try_from_arms \<longleftrightarrow> n \<le> 4"
  by (auto simp: try_from_arms_def)

text \<open>Every opcode but \<open>INVALID\<close> has an arm.\<close>

lemma in_try_from_arms:
  "opc \<in> set try_from_arms \<longleftrightarrow> (case opc of
     OP_PUSH n \<Rightarrow> 1 \<le> n \<and> n \<le> 32
   | OP_DUP n \<Rightarrow> 1 \<le> n \<and> n \<le> 16
   | OP_SWAP n \<Rightarrow> 1 \<le> n \<and> n \<le> 16
   | OP_LOG n \<Rightarrow> n \<le> 4
   | OP_INVALID \<Rightarrow> False
   | _ \<Rightarrow> True)"
  by (cases opc; simp add: families_in_arms; simp add: try_from_arms_def image_iff)

lemma of_nat_u8: "n < 256 \<Longrightarrow> unat (of_nat n :: u8) = n"
  by (simp add: unat_of_nat)

text \<open>What an arm of \<open>parse_operation\<close> does, in one statement for all opcodes.\<close>

definition arm_ok :: "bytes \<Rightarrow> nat \<Rightarrow> opcode \<Rightarrow> bool" where
  "arm_ok bs pc opc \<longleftrightarrow> (\<exists>op. parse_arm bs pc opc = Inr (op, pc + op_size op) \<and> op_ok pc op \<and>
     (pc + op_size op \<le> length bs \<longrightarrow>
        operation_to_bytecode op = Inr (take (op_size op) (drop pc bs))))"

lemma take_drop_nth: "pc < length bs \<Longrightarrow> take (Suc n) (drop pc bs) = bs ! pc # take n (drop (Suc pc) bs)"
  by (metis Cons_nth_drop_Suc take_Suc_Cons)

lemma arm_ok_push:
  assumes "1 \<le> n" and "n \<le> 32" and "pc < length bs" and "bs ! pc = opcode_u8 (OP_PUSH n)"
  shows "arm_ok bs pc (OP_PUSH n)"
proof -
  define x where "x = take (min (length bs) (pc + 1 + n) - (pc + 1)) (drop (pc + 1) bs)"
  let ?op = "Push (of_nat n) (be_nat x)"
  have un: "unat (of_nat n :: u8) = n" using assms(2) by (simp add: of_nat_u8)
  have len: "length x \<le> n" by (simp add: x_def)
  then have "be_nat x < 256 ^ n"
    by (meson be_nat_bound le_less_trans less_le_trans power_increasing one_le_numeral)
  then have ok: "op_ok pc ?op"
    using assms(1,2) by (simp add: op_ok_def un word_le_nat_alt)
  have parse: "parse_arm bs pc (OP_PUSH n) = Inr (?op, pc + op_size ?op)"
    using assms(1,3) by (simp add: parse_push_def slice_def x_def op_size_def un)
  have "operation_to_bytecode ?op = Inr (take (op_size ?op) (drop pc bs))"
    if "pc + op_size ?op \<le> length bs"
  proof -
    have x: "x = take n (drop (Suc pc) bs)" and lx: "length x = n"
      using that by (simp_all add: x_def op_size_def un)
    have "operation_to_bytecode ?op = Inr ((0x5F + of_nat n) # x)"
      using push_to_bytecode [of "of_nat n" "be_nat x"] ok nat_to_be_be_nat [of x]
      by (simp add: op_ok_def un lx del: operation_to_bytecode.simps)
    moreover have "(0x5F + of_nat n :: u8) = opcode_u8 (OP_PUSH n)"
      using assms(1) by (simp add: of_nat_diff)
    moreover have "take (op_size ?op) (drop pc bs) = bs ! pc # x"
      using assms(3) by (simp add: op_size_def un take_drop_nth x)
    ultimately show ?thesis by (simp only: assms(4))
  qed
  then show ?thesis using ok parse unfolding arm_ok_def by blast
qed

lemma parse_arm_spec:
  assumes "opc \<in> set try_from_arms" and "pc < length bs" and "bs ! pc = opcode_u8 opc"
  shows "arm_ok bs pc opc"
proof (cases opc)
  case (OP_PUSH n)
  then show ?thesis using assms by (simp add: arm_ok_push families_in_arms)
next
  case (OP_DUP n)
  then show ?thesis using assms
    by (simp add: arm_ok_def op_ok_def op_size_def families_in_arms take_drop_nth
         word_le_nat_alt of_nat_u8 of_nat_diff)
next
  case (OP_SWAP n)
  then show ?thesis using assms
    by (simp add: arm_ok_def op_ok_def op_size_def families_in_arms take_drop_nth
         word_le_nat_alt of_nat_u8 of_nat_diff)
next
  case (OP_LOG n)
  then show ?thesis using assms
    by (simp add: arm_ok_def op_ok_def op_size_def families_in_arms take_drop_nth
         word_le_nat_alt of_nat_u8)
qed (use assms in \<open>simp_all add: arm_ok_def op_ok_def op_size_def take_drop_nth\<close>)


section \<open>The parser\<close>

text \<open>What both loops read at a position: an operation, or a byte that is no opcode.\<close>

definition read_op :: "bytes \<Rightarrow> nat \<Rightarrow> u8 + operation" where
  "read_op bs pc = (case parse_operation bs pc of
     Inr (Inr (op, _)) \<Rightarrow> Inr op | _ \<Rightarrow> Inl (bs ! pc))"

lemma parse_operation_spec:
  assumes "pc < length bs"
  shows "(read_op bs pc = Inl (bs ! pc) \<and> opcode_try_from (bs ! pc) = Inl (bs ! pc) \<and>
            parse_operation bs pc = Inr (Inl (bs ! pc))) \<or>
         (\<exists>op. read_op bs pc = Inr op \<and>
            parse_operation bs pc = Inr (Inr (op, pc + op_size op)) \<and> op_ok pc op \<and>
            (pc + op_size op \<le> length bs \<longrightarrow>
               operation_to_bytecode op = Inr (take (op_size op) (drop pc bs))))"
proof (cases "opcode_try_from (bs ! pc)")
  case (Inl e)
  then show ?thesis
    using assms opcode_try_from_Inl [OF Inl] by (simp add: parse_operation_def read_op_def)
next
  case (Inr opc)
  then have "arm_ok bs pc opc"
    using assms opcode_try_from_Inr [OF Inr] by (simp add: parse_arm_spec)
  then show ?thesis
    using assms Inr by (auto simp: parse_operation_def arm_ok_def read_op_def)
qed

lemma parse_operation_cases [consumes 1, case_names fails parses]:
  assumes "pc < length bs"
  obtains "read_op bs pc = Inl (bs ! pc)" "opcode_try_from (bs ! pc) = Inl (bs ! pc)"
      "parse_operation bs pc = Inr (Inl (bs ! pc))"
  | op where "read_op bs pc = Inr op"
      "parse_operation bs pc = Inr (Inr (op, pc + op_size op))" "op_ok pc op"
      "pc + op_size op \<le> length bs \<Longrightarrow>
         operation_to_bytecode op = Inr (take (op_size op) (drop pc bs))"
  using parse_operation_spec [OF assms] by blast

text \<open>The loop without its accumulator: the operations from a position on.\<close>

definition op_at :: "bytes \<Rightarrow> nat \<Rightarrow> operation" where
  "op_at bs pc = (case read_op bs pc of Inr op \<Rightarrow> op | Inl _ \<Rightarrow> Invalid)"

function ops_from :: "bytes \<Rightarrow> nat \<Rightarrow> operation list" where
  "ops_from bs pc =
     (if pc < length bs then op_at bs pc # ops_from bs (pc + op_size (op_at bs pc)) else [])"
  by auto
termination
  by (relation "measure (\<lambda>(bs, pc). length bs - pc)")
    (use op_size_pos in \<open>auto intro: diff_less_mono2\<close>)

declare ops_from.simps [simp del]

lemma ops_from_end [simp]: "length bs \<le> pc \<Longrightarrow> ops_from bs pc = []"
  by (simp add: ops_from.simps [of bs pc])

lemma op_size_Invalid [simp]: "op_size Invalid = 1" and op_ok_Invalid [simp]: "op_ok pc Invalid"
  by (simp_all add: op_size_def op_ok_def)

lemma from_bytecode_loop_eq: "from_bytecode_loop bs pc acc = Inr (acc @ ops_from bs pc)"
proof (induction bs pc arbitrary: acc rule: ops_from.induct)
  case (1 bs pc)
  show ?case
  proof (cases "pc < length bs")
    case True
    then show ?thesis
    proof (cases rule: parse_operation_cases)
      case fails
      with 1 True show ?thesis
        by (simp add: from_bytecode_loop.simps [of bs pc] ops_from.simps [of bs pc] op_at_def)
    next
      case (parses op)
      with 1 True show ?thesis
        by (simp add: from_bytecode_loop.simps [of bs pc] ops_from.simps [of bs pc] op_at_def)
    qed
  qed (simp add: from_bytecode_loop.simps [of bs pc] ops_from.simps [of bs pc])
qed

lemma from_bytecode_eq: "from_bytecode bs = Inr (program_from (ops_from bs 0))"
  by (simp add: from_bytecode_def from_bytecode_loop_eq)

lemma op_at_ok: "pc < length bs \<Longrightarrow> op_ok pc (op_at bs pc)"
  by (cases rule: parse_operation_cases) (auto simp: op_at_def)

lemma op_size_bounds: "op_ok pc op \<Longrightarrow> op_size op \<le> 33"
  by (cases op) (auto simp: op_ok_def op_size_def word_le_nat_alt)

lemma canonical_ops_from: "canonical pc (ops_from bs pc)"
proof (induction bs pc rule: ops_from.induct)
  case (1 bs pc)
  then show ?case by (cases "pc < length bs") (simp_all add: ops_from.simps [of bs pc] op_at_ok)
qed

lemma ops_from_size:
  "pc \<le> length bs \<Longrightarrow>
   length bs \<le> pc + ops_size (ops_from bs pc) \<and> pc + ops_size (ops_from bs pc) \<le> length bs + 32"
proof (induction bs pc rule: ops_from.induct)
  case (1 bs pc)
  consider "pc = length bs" | "pc < length bs" "pc + op_size (op_at bs pc) \<le> length bs"
    | "pc < length bs" "length bs < pc + op_size (op_at bs pc)"
    using 1(2) by linarith
  then show ?case
  proof cases
    case 3
    then show ?thesis
      using op_size_bounds [OF op_at_ok [OF 3(1)]]
      by (simp add: ops_from.simps [of bs pc])
  next
    case 2
    then show ?thesis using 1(1) by (simp add: ops_from.simps [of bs pc])
  qed simp
qed

lemma operation_codesize_eq: "op_ok pc op \<Longrightarrow> operation_codesize op = of_nat (op_size op)"
proof (cases op)
  case (Push n x)
  assume "op_ok pc op"
  then have "unat (n + 1) = 1 + unat n"
    using Push by (auto simp: op_ok_def word_le_nat_alt unat_word_ariths)
  then show ?thesis using Push
    by (simp add: operation_codesize_def op_size_def)
      (metis of_nat_Suc of_nat_unat)
qed (simp_all add: operation_codesize_def op_size_def)

lemma get_codesize_canonical: "canonical pc ops \<Longrightarrow> get_codesize ops = of_nat (ops_size ops)"
  by (induction ops arbitrary: pc) (auto simp: get_codesize_def operation_codesize_eq)


section \<open>Printing and parsing back\<close>

lemma op_at_eqI:
  assumes "pc < length bs" and "bs ! pc = opcode_u8 opc" and "opc \<in> set try_from_arms"
    and "parse_arm bs pc opc = Inr (op, pc')"
  shows "op_at bs pc = op"
  using assms by (simp add: op_at_def read_op_def parse_operation_def opcode_try_from_arm)

lemma op_at_push:
  assumes "op_ok pc (Push n x)" and "pc = length pre"
  shows "op_at (pre @ ((0x5F + n) # nat_to_be (unat n) x) @ post) pc = Push n x"
proof (rule op_at_eqI)
  let ?bs = "pre @ ((0x5F + n) # nat_to_be (unat n) x) @ post"
  have n: "1 \<le> unat n" "unat n \<le> 32" and x: "x < 256 ^ unat n"
    using assms(1) by (auto simp: op_ok_def word_le_nat_alt)
  show "pc < length ?bs" using assms(2) by simp
  show "?bs ! pc = opcode_u8 (OP_PUSH (unat n))"
    using assms(2) n by (simp add: of_nat_diff)
  show "OP_PUSH (unat n) \<in> set try_from_arms" using n by (simp add: families_in_arms)
  show "parse_arm ?bs pc (OP_PUSH (unat n)) = Inr (Push n x, pc + 1 + (unat n - 1) + 1)"
    using assms(2) x by (simp add: parse_push_def slice_def be_nat_to_be)
qed

lemma op_at_print:
  assumes "op_ok pc op" and "pc = length pre" and "operation_to_bytecode op = Inr b"
  shows "op_at (pre @ b @ post) pc = op"
proof (cases op)
  case (Push n x)
  then have "b = (0x5F + n) # nat_to_be (unat n) x"
    using assms push_to_bytecode [of n x]
    by (simp add: op_ok_def del: operation_to_bytecode.simps)
  then show ?thesis using op_at_push [of pc n x pre post] assms Push by simp
next
  case (Dup n)
  then show ?thesis
    using assms by (intro op_at_eqI [where opc = "OP_DUP (unat n)"])
      (auto simp: op_ok_def word_le_nat_alt families_in_arms of_nat_diff)
next
  case (Swap n)
  then show ?thesis
    using assms by (intro op_at_eqI [where opc = "OP_SWAP (unat n)"])
      (auto simp: op_ok_def word_le_nat_alt families_in_arms of_nat_diff)
next
  case (Log n)
  then show ?thesis
    using assms by (intro op_at_eqI [where opc = "OP_LOG (unat n)"])
      (auto simp: op_ok_def word_le_nat_alt families_in_arms)
next
  case Invalid
  then show ?thesis
    using assms by (auto simp: op_at_def read_op_def parse_operation_def INVALID_not_an_arm)
qed (use assms in \<open>auto simp: op_ok_def in_try_from_arms op_at_def read_op_def parse_operation_def
       opcode_try_from_arm simp del: opcode_u8.simps\<close>)


lemma length_operation_to_bytecode:
  "op_ok pc op \<Longrightarrow> \<exists>b. operation_to_bytecode op = Inr b \<and> length b = op_size op"
proof (cases op)
  case (Push n x)
  assume "op_ok pc op"
  then show ?thesis
    using Push push_to_bytecode [of n x]
    by (simp add: op_ok_def op_size_def del: operation_to_bytecode.simps)
qed (simp_all add: op_size_def)

lemma canonical_print_parse:
  assumes "canonical pc ops"
  shows "\<exists>bs. flat_map_bytecode ops = Inr bs \<and> length bs = ops_size ops \<and>
           (\<forall>pre. length pre = pc \<longrightarrow> ops_from (pre @ bs) pc = ops)"
  using assms
proof (induction ops arbitrary: pc)
  case Nil
  then show ?case by simp
next
  case (Cons op ops)
  then have ok: "op_ok pc op" by simp
  obtain b where b: "operation_to_bytecode op = Inr b" "length b = op_size op"
    using length_operation_to_bytecode [OF ok] by blast
  obtain bs where bs: "flat_map_bytecode ops = Inr bs" "length bs = ops_size ops"
    "\<And>pre. length pre = pc + op_size op \<Longrightarrow> ops_from (pre @ bs) (pc + op_size op) = ops"
    using Cons.IH [of "pc + op_size op"] Cons.prems by auto
  have "ops_from (pre @ b @ bs) pc = op # ops" if "length pre = pc" for pre
  proof -
    have "op_at (pre @ b @ bs) pc = op" by (rule op_at_print [OF ok that [symmetric] b(1)])
    moreover have "pc < length (pre @ b @ bs)" using that b(2) op_size_pos [of op] by simp
    ultimately show ?thesis
      using bs(3) [of "pre @ b"] that b(2) by (simp add: ops_from.simps [of _ pc])
  qed
  then show ?case using b bs by auto
qed

text \<open>The positions at which both loops read.\<close>

function positions :: "bytes \<Rightarrow> nat \<Rightarrow> nat list" where
  "positions bs pc =
     (if pc < length bs then pc # positions bs (pc + op_size (op_at bs pc)) else [])"
  by auto
termination
  by (relation "measure (\<lambda>(bs, pc). length bs - pc)")
    (use op_size_pos in \<open>auto intro: diff_less_mono2\<close>)

declare positions.simps [simp del]

lemma positions_end [simp]: "length bs \<le> pc \<Longrightarrow> positions bs pc = []"
  by (simp add: positions.simps [of bs pc])

lemma ops_from_positions: "ops_from bs pc = map (op_at bs) (positions bs pc)"
proof (induction bs pc rule: ops_from.induct)
  case (1 bs pc)
  then show ?case
    by (cases "pc < length bs") (simp_all add: ops_from.simps [of bs pc] positions.simps [of bs pc])
qed

lemma from_bytecode_checked_loop_eq:
  "from_bytecode_checked_loop bs pc acc bad =
     Inr (acc @ map (op_at bs) (filter (\<lambda>i. \<exists>op. read_op bs i = Inr op) (positions bs pc)),
          bad @ map ((!) bs) (filter (\<lambda>i. \<forall>op. read_op bs i \<noteq> Inr op) (positions bs pc)))"
proof (induction bs pc arbitrary: acc bad rule: positions.induct)
  case (1 bs pc)
  note unf = from_bytecode_checked_loop.simps [of bs pc] positions.simps [of bs pc] op_at_def
  show ?case
  proof (cases "pc < length bs")
    case True
    then show ?thesis
    proof (cases rule: parse_operation_cases)
      case fails
      with 1 True show ?thesis by (simp add: unf)
    next
      case (parses op)
      with 1 True show ?thesis by (simp add: unf)
    qed
  qed (simp add: from_bytecode_checked_loop.simps [of bs pc])
qed

lemma undecoded_iff:
  "pc < length bs \<Longrightarrow> (\<forall>op. read_op bs pc \<noteq> Inr op) \<longleftrightarrow> opcode_try_from (bs ! pc) = Inl (bs ! pc)"
proof -
  assume "pc < length bs"
  then show ?thesis
  proof (cases rule: parse_operation_cases)
    case (parses op)
    then show ?thesis by (auto simp: parse_operation_def split: if_splits)
  qed simp
qed

lemma positions_less: "i \<in> set (positions bs pc) \<Longrightarrow> pc \<le> i \<and> i < length bs"
proof (induction bs pc rule: positions.induct)
  case (1 bs pc)
  then show ?case
    by (cases "pc < length bs") (auto simp: positions.simps [of bs pc])
qed

lemma flat_map_ops_from:
  assumes "\<And>i. i \<in> set (positions bs pc) \<Longrightarrow> \<exists>op. read_op bs i = Inr op"
    and "pc \<le> length bs" and "pc + ops_size (ops_from bs pc) = length bs"
  shows "flat_map_bytecode (ops_from bs pc) = Inr (drop pc bs)"
  using assms
proof (induction bs pc rule: ops_from.induct)
  case (1 bs pc)
  show ?case
  proof (cases "pc < length bs")
    case True
    let ?op = "op_at bs pc"
    have pos: "positions bs pc = pc # positions bs (pc + op_size ?op)"
      and ops: "ops_from bs pc = ?op # ops_from bs (pc + op_size ?op)"
      using True by (simp_all add: positions.simps [of bs pc] ops_from.simps [of bs pc])
    have le: "pc + op_size ?op \<le> length bs" using 1(4) by (simp add: ops)
    obtain op where op: "read_op bs pc = Inr op" using 1(2) [of pc] pos by auto
    then have "operation_to_bytecode ?op = Inr (take (op_size ?op) (drop pc bs))"
      using True
    proof (cases rule: parse_operation_cases [OF True])
      case (2 op')
      then show ?thesis using op le by (simp add: op_at_def)
    qed simp
    moreover have "flat_map_bytecode (ops_from bs (pc + op_size ?op))
        = Inr (drop (pc + op_size ?op) bs)"
      using 1(1) [OF True] 1(2,4) le by (simp add: pos ops)
    ultimately show ?thesis
      by (simp add: ops add.commute [of pc] flip: drop_drop)
  qed (use 1(3) in simp)
qed


section \<open>Jump destinations\<close>

text \<open>
  The destinations the EVM allows: the \<open>JUMPDEST\<close> bytes that are not inside the
  operand of a \<open>PUSH\<close>. The scan is the yellow paper's, on the bytes alone.
\<close>

function jumpdests :: "bytes \<Rightarrow> nat \<Rightarrow> nat set" where
  "jumpdests bs i =
     (if i < length bs
      then (if bs ! i = 0x5B then {i} else {}) \<union>
           jumpdests bs (if 0x60 \<le> bs ! i \<and> bs ! i \<le> 0x7F
                         then i + 1 + (unat (bs ! i) - 0x5F) else i + 1)
      else {})"
  by auto
termination
  by (relation "measure (\<lambda>(bs, i). length bs - i)") auto

declare jumpdests.simps [simp del]

lemma u8_0x7F: "unat (0x7F :: u8) = 127" "unat (0x60 :: u8) = 96" "unat (0x5F :: u8) = 95"
  by simp_all

definition arm_jump_ok :: "bytes \<Rightarrow> nat \<Rightarrow> opcode \<Rightarrow> bool" where
  "arm_jump_ok bs pc opc \<longleftrightarrow> (\<exists>op. parse_arm bs pc opc = Inr (op, pc + op_size op) \<and>
     (\<forall>p. op = Jumpdest p \<longleftrightarrow> opc = OP_JUMPDEST \<and> p = pc) \<and>
     op_size op = (case opc of OP_PUSH n \<Rightarrow> 1 + n | _ \<Rightarrow> 1))"

lemma arm_jump_ok:
  assumes "opc \<in> set try_from_arms" and "pc < length bs"
  shows "arm_jump_ok bs pc opc"
proof (cases opc)
  case (OP_PUSH n)
  then show ?thesis using assms
    by (simp add: arm_jump_ok_def parse_push_def slice_def op_size_def families_in_arms of_nat_u8)
qed (simp_all add: arm_jump_ok_def op_size_def eq_commute)

lemma try_from_push:
  "opcode_try_from b = Inr (OP_PUSH n) \<longleftrightarrow> 0x60 \<le> b \<and> b \<le> 0x7F \<and> n = unat b - 0x5F"
proof
  assume "opcode_try_from b = Inr (OP_PUSH n)"
  then have "OP_PUSH n \<in> set try_from_arms" and "b = opcode_u8 (OP_PUSH n)"
    using opcode_try_from_Inr by force+
  then have n: "1 \<le> n" "n \<le> 32" and b: "b = 0x60 + of_nat (n - 1)"
    by (simp_all add: families_in_arms)
  have "unat b = 96 + (n - 1)" using n unfolding b by (simp add: unat_word_ariths of_nat_u8)
  then show "0x60 \<le> b \<and> b \<le> 0x7F \<and> n = unat b - 0x5F" using n by (simp add: word_le_nat_alt)
next
  assume a: "0x60 \<le> b \<and> b \<le> 0x7F \<and> n = unat b - 0x5F"
  then have n: "1 \<le> n" "n \<le> 32" and u: "unat b = 96 + (n - 1)"
    by (auto simp: word_le_nat_alt)
  have "b = of_nat (unat b)" by simp
  also have "\<dots> = opcode_u8 (OP_PUSH n)" unfolding u using n by simp
  finally have "b = opcode_u8 (OP_PUSH n)" .
  then show "opcode_try_from b = Inr (OP_PUSH n)"
    using opcode_try_from_arm [of "OP_PUSH n"] n by (simp add: families_in_arms)
qed

lemma try_from_jumpdest: "opcode_try_from b = Inr OP_JUMPDEST \<longleftrightarrow> b = 0x5B"
  using opcode_try_from_arm [of OP_JUMPDEST] opcode_try_from_Inr(2) [of b OP_JUMPDEST]
  by (auto simp: in_try_from_arms)

lemma op_at_jump:
  assumes "pc < length bs"
  shows "(op_at bs pc = Jumpdest p) = (bs ! pc = 0x5B \<and> p = pc)"
    and "op_size (op_at bs pc) =
           (if 0x60 \<le> bs ! pc \<and> bs ! pc \<le> 0x7F then 1 + (unat (bs ! pc) - 0x5F) else 1)"
proof -
  have "(op_at bs pc = Jumpdest p) = (bs ! pc = 0x5B \<and> p = pc) \<and> op_size (op_at bs pc) =
          (if 0x60 \<le> bs ! pc \<and> bs ! pc \<le> 0x7F then 1 + (unat (bs ! pc) - 0x5F) else 1)"
  proof (cases "opcode_try_from (bs ! pc)")
    case (Inl e)
    then have "op_at bs pc = Invalid"
      using assms by (simp add: op_at_def read_op_def parse_operation_def)
    then show ?thesis
      using Inl try_from_push [of "bs ! pc"] try_from_jumpdest [of "bs ! pc"] by auto
  next
    case (Inr opc)
    then have "arm_jump_ok bs pc opc"
      using assms opcode_try_from_Inr(1) [OF Inr] arm_jump_ok by blast
    then obtain op where op: "op_at bs pc = op"
      "\<And>p. op = Jumpdest p \<longleftrightarrow> opc = OP_JUMPDEST \<and> p = pc"
      "op_size op = (case opc of OP_PUSH n \<Rightarrow> 1 + n | _ \<Rightarrow> 1)"
      using assms Inr
      by (auto simp: arm_jump_ok_def op_at_def read_op_def parse_operation_def)
    have "op_size op = (if 0x60 \<le> bs ! pc \<and> bs ! pc \<le> 0x7F then 1 + (unat (bs ! pc) - 0x5F) else 1)"
      using op(3) Inr try_from_push [of "bs ! pc"] by (cases opc) auto
    then show ?thesis using op(1,2) Inr try_from_jumpdest [of "bs ! pc"] by auto
  qed
  then show "(op_at bs pc = Jumpdest p) = (bs ! pc = 0x5B \<and> p = pc)"
    and "op_size (op_at bs pc) =
           (if 0x60 \<le> bs ! pc \<and> bs ! pc \<le> 0x7F then 1 + (unat (bs ! pc) - 0x5F) else 1)"
    by blast+
qed

lemma ops_from_jumpdests: "{p. Jumpdest p \<in> set (ops_from bs i)} = jumpdests bs i"
proof (induction bs i rule: ops_from.induct)
  case (1 bs i)
  show ?case
  proof (cases "i < length bs")
    case True
    have "{p. Jumpdest p \<in> set (ops_from bs i)} =
        {p. op_at bs i = Jumpdest p} \<union> jumpdests bs (i + op_size (op_at bs i))"
      using True 1 by (auto simp: ops_from.simps [of bs i])
    then show ?thesis
      using True by (simp add: op_at_jump jumpdests.simps [of bs i])
  qed (simp add: jumpdests.simps [of bs i])
qed

section \<open>Properties of the parser and the printer\<close>

text \<open>C23: parsing never panics. For every byte string it ends with a program whose
  operations are well formed at their positions, cover the string, run past its
  end by at most the 32 operand bytes of a last \<open>PUSH32\<close>, and whose code size is
  their total size.\<close>

theorem from_bytecode_total:
  "\<exists>p. from_bytecode bs = Inr p \<and> canonical 0 (operations p) \<and>
       length bs \<le> ops_size (operations p) \<and> ops_size (operations p) \<le> length bs + 32 \<and>
       code_size p = of_nat (ops_size (operations p))"
  using canonical_ops_from [of 0 bs] ops_from_size [of 0 bs]
  by (simp add: from_bytecode_eq program_from_def get_codesize_canonical)

text \<open>C24: printing a program of well-formed operations succeeds, and parsing the
  printed bytes gives the same program back.\<close>

theorem to_bytecode_from_bytecode:
  assumes "canonical 0 ops"
  shows "\<exists>bs. to_bytecode (program_from ops) = Inr bs \<and> length bs = ops_size ops \<and>
              from_bytecode bs = Inr (program_from ops)"
proof -
  obtain bs where "flat_map_bytecode ops = Inr bs" "length bs = ops_size ops"
    "ops_from ([] @ bs) 0 = ops"
    using canonical_print_parse [OF assms] by auto
  then show ?thesis
    by (simp add: to_bytecode_def from_bytecode_eq program_from_def)
qed

theorem to_bytecode_from_bytecode_witness:
  "\<exists>bs. to_bytecode (program_from [Push 2 0x0102, Jumpdest 3, Invalid, Dup 16]) = Inr bs \<and>
        length bs = ops_size [Push 2 0x0102, Jumpdest 3, Invalid, Dup 16] \<and>
        from_bytecode bs = Inr (program_from [Push 2 0x0102, Jumpdest 3, Invalid, Dup 16])"
  by (rule to_bytecode_from_bytecode) (simp add: op_ok_def op_size_def)

text \<open>C29: the checked parser reports exactly the bytes, in order, that it read where an
  opcode was expected and that no arm of the opcode table matches; when there
  are none it returns the program that the unchecked parser returns.\<close>

theorem from_bytecode_checked_spec:
  "\<exists>p. from_bytecode bs = Inr p \<and>
     from_bytecode_checked bs =
       (let bad = filter (\<lambda>b. opcode_try_from b = Inl b) (map ((!) bs) (positions bs 0))
        in Inr (if bad = [] then Inr p else Inl bad))"
proof -
  let ?P = "\<lambda>i. \<forall>op. read_op bs i \<noteq> Inr op"
  have f: "filter ?P (positions bs 0) = filter (\<lambda>i. opcode_try_from (bs ! i) = Inl (bs ! i)) (positions bs 0)"
    by (rule filter_cong) (use positions_less undecoded_iff in blast)+
  have g: "filter (\<lambda>i. \<exists>op. read_op bs i = Inr op) (positions bs 0) = positions bs 0"
    if "filter ?P (positions bs 0) = []"
    using that by (auto simp: filter_empty_conv filter_id_conv)
  show ?thesis
    using f g by (auto simp: from_bytecode_checked_def from_bytecode_checked_loop_eq Let_def
        filter_map o_def ops_from_positions from_bytecode_eq)
qed

text \<open>When the checked parser accepts a byte string whose last operand is complete,
  printing the program gives the byte string back.\<close>

theorem from_bytecode_checked_to_bytecode:
  assumes "from_bytecode_checked bs = Inr (Inr p)" and "ops_size (operations p) = length bs"
  shows "to_bytecode p = Inr bs"
proof -
  have all: "\<exists>op. read_op bs i = Inr op" if "i \<in> set (positions bs 0)" for i
    using assms(1) that
    by (auto simp: from_bytecode_checked_def from_bytecode_checked_loop_eq filter_empty_conv
        split: if_splits)
  then have "filter (\<lambda>i. \<exists>op. read_op bs i = Inr op) (positions bs 0) = positions bs 0"
    by (auto simp: filter_id_conv)
  then have p: "p = program_from (ops_from bs 0)"
    using assms(1) by (auto simp: from_bytecode_checked_def from_bytecode_checked_loop_eq
        ops_from_positions split: if_splits)
  then show ?thesis
    using flat_map_ops_from [of bs 0] all assms(2) by (simp add: to_bytecode_def program_from_def)
qed

text \<open>C25: the jump destinations of a parsed program are those that the EVM's scan of the
  bytes allows: a \<open>0x5B\<close> byte inside a push operand is none.\<close>

theorem from_bytecode_jumpdests:
  "\<exists>p. from_bytecode bs = Inr p \<and> {pc. Jumpdest pc \<in> set (operations p)} = jumpdests bs 0"
  by (simp add: from_bytecode_eq program_from_def ops_from_jumpdests)

end
