(* ===== verification/Precompiles.thy ===== *)
theory Precompiles
  imports Env Program
begin

text \<open>
  The precompiled contracts (\<open>precompiles.rs\<close>). Identity, modular exponentiation
  and the BLAKE2 compression function are modelled in full; the hash functions,
  the secp256k1 recovery and the BN254 curve are crates the code calls and are
  fields of the parameter \<open>host\<close>, next to the hash function of the database. Its last three
  fields are for the other components: whether an allocation of a size succeeds
  (\<open>try_reserve\<close>), what a dangling pointer to an address reads (\<open>stale_bytes\<close>), and
  \<open>math.ipowi\<close> of a negative exponent.

  A precompile returns its result together with the updated \<open>consumed_gas\<close>. A
  field element is its canonical value, a point its affine coordinates, an
  element of the target group of the pairing its coefficients.
\<close>

type_synonym fp2 = "nat \<times> nat"
type_synonym fp12 = "nat list"

record host =
  keccak256 :: "bytes \<Rightarrow> b256"
  sha256_digest :: "bytes \<Rightarrow> bytes"
  ripemd160_digest :: "bytes \<Rightarrow> bytes"
  secp256k1_recover :: "bytes \<Rightarrow> int \<Rightarrow> bytes \<Rightarrow> bytes option"
  bn_from_bytes :: "bytes \<Rightarrow> nat"
  bn_on_curve :: "nat \<Rightarrow> nat \<Rightarrow> bool"
  bn_add :: "nat \<times> nat \<Rightarrow> nat \<times> nat \<Rightarrow> nat \<times> nat"
  bn_mul :: "nat \<times> nat \<Rightarrow> nat \<Rightarrow> nat \<times> nat"
  tw_from_bytes :: "bytes \<Rightarrow> fp2 option"
  tw_on_curve :: "fp2 \<Rightarrow> fp2 \<Rightarrow> bool"
  pairing :: "nat \<times> nat \<Rightarrow> fp2 \<times> fp2 \<Rightarrow> fp12 option"
  gt_one :: fp12
  gt_mul :: "fp12 \<Rightarrow> fp12 \<Rightarrow> fp12"
  try_reserve :: "nat \<Rightarrow> bool"
  stale_bytes :: "bytes \<Rightarrow> bytes"
  ipowi_negative :: "u256 \<Rightarrow> u256 \<Rightarrow> u256"

type_synonym precompile_result = "(precompile_error + bytes) \<times> u64"

text \<open>\<open>usize\<close> arithmetic of 64 bits.\<close>

definition usz :: "nat \<Rightarrow> nat" where
  "usz n = n mod 2 ^ 64"

section \<open>Hashes, recovery, identity\<close>

definition ecrecover :: "host \<Rightarrow> bytes \<Rightarrow> u64 \<Rightarrow> u64 \<Rightarrow> precompile_result res" where
  "ecrecover h calldata limit consumed_gas =
     (if limit < ECRECOVER_COST then Inr (Inl NotEnoughGas, consumed_gas)
      else let calldata = right_pad calldata ECR_PARAMS_OFFSET in
        and_then (slice calldata 0 ECR_HASH_END) (\<lambda>hash.
        let v = int (unat (calldata ! ECR_V_POS)) - int ECR_V_BASE in
        and_then (slice calldata (ECR_V_POS + 1) ECR_SIG_END) (\<lambda>sig.
        case secp256k1_recover h hash v sig of
          None \<Rightarrow> Inr (Inl Secp256k1Error, consumed_gas)
        | Some public_key \<Rightarrow>
            let address_hash = word_to_be (keccak256 h (drop 1 public_key))
            in Inr (Inr (replicate ECR_PADDING_LEN 0 @ drop ECR_PADDING_LEN address_hash),
                    consumed_gas + ECRECOVER_COST))))"

definition sha2_256 :: "host \<Rightarrow> bytes \<Rightarrow> u64 \<Rightarrow> u64 \<Rightarrow> precompile_result" where
  "sha2_256 h calldata limit consumed_gas =
     (let gas_cost = SHA2_256_STATIC_COST + sha2_256_dynamic_cost (of_nat (length calldata))
      in if limit < gas_cost then (Inl NotEnoughGas, consumed_gas)
         else (Inr (sha256_digest h calldata), consumed_gas + gas_cost))"

definition ripemd_160 :: "host \<Rightarrow> bytes \<Rightarrow> u64 \<Rightarrow> u64 \<Rightarrow> precompile_result" where
  "ripemd_160 h calldata limit consumed_gas =
     (let gas_cost = RIPEMD_160_COST + ripemd_160_dynamic_cost (of_nat (length calldata))
      in if limit < gas_cost then (Inl NotEnoughGas, consumed_gas)
         else (Inr (replicate RIPEMD_PADDING_LEN 0 @ ripemd160_digest h calldata),
               consumed_gas + gas_cost))"

definition identity :: "bytes \<Rightarrow> u64 \<Rightarrow> u64 \<Rightarrow> precompile_result" where
  "identity calldata limit consumed_gas =
     (let gas_cost = IDENTITY_STATIC_COST + identity_dynamic_cost (of_nat (length calldata))
      in if limit < gas_cost then (Inl NotEnoughGas, consumed_gas)
         else (Inr calldata, consumed_gas + gas_cost))"

section \<open>Modular exponentiation\<close>

text \<open>\<open>usize::try_from(U256)\<close>.\<close>

definition size_param :: "bytes \<Rightarrow> nat option" where
  "size_param bs = (if be_nat bs < 2 ^ 64 then Some (be_nat bs) else None)"

definition modexp_gas :: "nat \<Rightarrow> nat \<Rightarrow> nat \<Rightarrow> nat \<Rightarrow> u64" where
  "modexp_gas b_size e_size m_size e =
     (let max_length = max b_size m_size;
          words = usz (max_length + 7) div 8;
          multiplication_complexity = of_nat (words * words) :: u64;
          iteration_count =
            (if e_size \<le> 32 \<and> e \<noteq> 0 then of_nat (bit_count e) - 1
             else if e_size > 32
             then 8 * (of_nat e_size - 32) + of_nat (max (bit_count e) 1) - 1
             else 0 :: u64);
          calculate_iteration_count = max iteration_count 1
      in max (multiplication_complexity * calculate_iteration_count div 3) MIN_MODEXP_COST)"

definition modexp_value :: "nat \<Rightarrow> nat \<Rightarrow> nat \<Rightarrow> nat" where
  "modexp_value b e m = (if m = 0 then 0 else if e = 0 then 1 mod m else b ^ e mod m)"

definition modexp :: "bytes \<Rightarrow> u64 \<Rightarrow> u64 \<Rightarrow> precompile_result res" where
  "modexp calldata limit consumed_gas =
     (if calldata = [] then Inr (Inr [], consumed_gas + MIN_MODEXP_COST)
      else let calldata = right_pad calldata MXP_PARAMS_OFFSET in
        and_then (slice calldata 0 BSIZE_END) (\<lambda>bs.
        and_then (slice calldata BSIZE_END ESIZE_END) (\<lambda>es.
        and_then (slice calldata ESIZE_END MSIZE_END) (\<lambda>ms.
        case (size_param bs, size_param es, size_param ms) of
          (Some b_size, Some e_size, Some m_size) \<Rightarrow>
            if b_size = 0 \<and> m_size = 0 then Inr (Inr [], consumed_gas + 200)
            else let params_len = usz (MXP_PARAMS_OFFSET + b_size + e_size + m_size) in
              if length calldata < params_len then Inr (Inl InvalidCalldata, consumed_gas)
              else
                and_then (slice calldata MXP_PARAMS_OFFSET (usz (MXP_PARAMS_OFFSET + b_size))) (\<lambda>b.
                and_then (slice calldata (usz (MXP_PARAMS_OFFSET + b_size))
                            (usz (MXP_PARAMS_OFFSET + b_size + e_size))) (\<lambda>e.
                and_then (slice calldata (usz (MXP_PARAMS_OFFSET + b_size + e_size)) params_len) (\<lambda>m.
                let gas_cost = modexp_gas b_size e_size m_size (be_nat e) in
                if limit < gas_cost then Inr (Inl NotEnoughGas, consumed_gas)
                else
                  and_then (slice (left_pad (biguint_to_bytes_be
                              (modexp_value (be_nat b) (be_nat e) (be_nat m))) m_size) 0 m_size)
                    (\<lambda>result. Inr (Inr result, consumed_gas + gas_cost)))))
        | _ \<Rightarrow> Inr (Inl InvalidCalldata, consumed_gas)))))"

section \<open>The BN254 curve\<close>

definition point_bytes :: "nat \<times> nat \<Rightarrow> bytes" where
  "point_bytes p = nat_to_be 32 (fst p) @ nat_to_be 32 (snd p)"

definition ecadd :: "host \<Rightarrow> bytes \<Rightarrow> u64 \<Rightarrow> u64 \<Rightarrow> precompile_result res" where
  "ecadd h calldata limit consumed_gas =
     (if limit < ECADD_COST then Inr (Inl NotEnoughGas, consumed_gas)
      else let calldata = right_pad calldata ECADD_PARAMS_OFFSET in
        and_then (slice calldata 0 ECADD_X1_END) (\<lambda>bx1.
        and_then (slice calldata ECADD_X1_END ECADD_Y1_END) (\<lambda>by1.
        and_then (slice calldata ECADD_Y1_END ECADD_X2_END) (\<lambda>bx2.
        and_then (slice calldata ECADD_X2_END ECADD_Y2_END) (\<lambda>by2.
        let x1 = bn_from_bytes h bx1; y1 = bn_from_bytes h by1;
            x2 = bn_from_bytes h bx2; y2 = bn_from_bytes h by2;
            p1_is_infinity = (x1 = 0 \<and> y1 = 0);
            p2_is_infinity = (x2 = 0 \<and> y2 = 0) in
        if p1_is_infinity \<and> p2_is_infinity
        then Inr (Inr (replicate 64 0), consumed_gas + ECADD_COST)
        else if p1_is_infinity then
          (if bn_on_curve h x2 y2 then Inr (Inr (point_bytes (x2, y2)), consumed_gas + ECADD_COST)
           else Inr (Inl InvalidEcPoint, consumed_gas))
        else if p2_is_infinity then
          (if bn_on_curve h x1 y1 then Inr (Inr (point_bytes (x1, y1)), consumed_gas + ECADD_COST)
           else Inr (Inl InvalidEcPoint, consumed_gas))
        else if bn_on_curve h x1 y1 \<and> bn_on_curve h x2 y2
        then Inr (Inr (point_bytes (bn_add h (x1, y1) (x2, y2))), consumed_gas + ECADD_COST)
        else Inr (Inl InvalidEcPoint, consumed_gas))))))"

definition ecmul :: "host \<Rightarrow> bytes \<Rightarrow> u64 \<Rightarrow> u64 \<Rightarrow> precompile_result res" where
  "ecmul h calldata limit consumed_gas =
     (if limit < ECMUL_COST then Inr (Inl NotEnoughGas, consumed_gas)
      else let calldata = right_pad calldata ECMUL_PARAMS_OFFSET in
        and_then (slice calldata 0 ECMUL_X1_END) (\<lambda>bx1.
        and_then (slice calldata ECMUL_X1_END ECMUL_Y1_END) (\<lambda>by1.
        and_then (slice calldata ECMUL_Y1_END ECMUL_S_END) (\<lambda>bs.
        let x1 = bn_from_bytes h bx1; y1 = bn_from_bytes h by1; s = be_nat bs in
        if x1 = 0 \<and> y1 = 0 then Inr (Inr (replicate 64 0), consumed_gas + ECMUL_COST)
        else if s = 0 \<and> bn_on_curve h x1 y1
        then Inr (Inr (replicate 64 0), consumed_gas + ECMUL_COST)
        else if bn_on_curve h x1 y1
        then Inr (Inr (point_bytes (bn_mul h (x1, y1) s)), consumed_gas + ECMUL_COST)
        else Inr (Inl InvalidEcPoint, consumed_gas)))))"

text \<open>One round of the loop of \<open>ecpairing\<close>: the factor of the product, or an invalid point.\<close>

definition ecpairing_round :: "host \<Rightarrow> bytes \<Rightarrow> nat \<Rightarrow> fp12 \<Rightarrow> (precompile_error + fp12) res" where
  "ecpairing_round h calldata start acc =
     and_then (slice calldata start (start + ECP_FIELD_SIZE)) (\<lambda>b1.
     and_then (slice calldata (start + ECP_FIELD_SIZE) (start + double_field_size)) (\<lambda>b2.
     and_then (slice calldata (start + ecpairing_g2_point1_start G1_POINT_POS)
                 (start + ecpairing_g2_point1_end G1_POINT_POS)) (\<lambda>b3.
     and_then (slice calldata (start + G1_POINT_POS)
                 (start + ecpairing_g2_point1_start G1_POINT_POS)) (\<lambda>b4.
     and_then (slice calldata (start + ecpairing_g2_point1_start G2_POINT_POS)
                 (start + ecpairing_g2_point1_end G2_POINT_POS)) (\<lambda>b5.
     and_then (slice calldata (start + G2_POINT_POS)
                 (start + ecpairing_g2_point1_start G2_POINT_POS)) (\<lambda>b6.
     let g1_x = bn_from_bytes h b1; g1_y = bn_from_bytes h b2 in
     case (tw_from_bytes h (b3 @ b4), tw_from_bytes h (b5 @ b6)) of
       (Some g2_x, Some g2_y) \<Rightarrow>
         if (g1_x = 0 \<and> g1_y = 0) \<or> (g2_x = (0, 0) \<and> g2_y = (0, 0)) then Inr (Inr acc)
         else if bn_on_curve h g1_x g1_y \<and> tw_on_curve h g2_x g2_y
         then (case pairing h (g1_x, g1_y) (g2_x, g2_y) of
                 None \<Rightarrow> Inr (Inl InvalidEcPoint)
               | Some p \<Rightarrow> Inr (Inr (gt_mul h acc p)))
         else Inr (Inl InvalidEcPoint)
     | _ \<Rightarrow> Inr (Inl InvalidEcPoint)))))))"

primrec ecpairing_loop :: "host \<Rightarrow> bytes \<Rightarrow> nat list \<Rightarrow> fp12 \<Rightarrow> (precompile_error + fp12) res" where
  "ecpairing_loop h calldata [] acc = Inr (Inr acc)"
| "ecpairing_loop h calldata (idx # idxs) acc =
     and_then (ecpairing_round h calldata (idx * ECP_INPUT_SIZE) acc) (\<lambda>r. case r of
       Inl e \<Rightarrow> Inr (Inl e)
     | Inr acc' \<Rightarrow> ecpairing_loop h calldata idxs acc')"

definition ecpairing :: "host \<Rightarrow> bytes \<Rightarrow> u64 \<Rightarrow> u64 \<Rightarrow> precompile_result res" where
  "ecpairing h calldata limit consumed_gas =
     (if length calldata mod ECP_INPUT_SIZE \<noteq> 0 then Inr (Inl InvalidCalldata, consumed_gas)
      else let gas_cost = ECPAIRING_STATIC_COST + ecpairing_dynamic_cost (of_nat (length calldata)) in
        if limit < gas_cost then Inr (Inl NotEnoughGas, consumed_gas)
        else and_then (ecpairing_loop h calldata [0..<length calldata div ECP_INPUT_SIZE] (gt_one h))
          (\<lambda>r. case r of
             Inl e \<Rightarrow> Inr (Inl e, consumed_gas)
           | Inr acc \<Rightarrow>
               Inr (Inr (replicate 31 0 @ [if acc = gt_one h then 1 else 0]),
                    consumed_gas + gas_cost)))"

section \<open>BLAKE2\<close>

definition BLAKE_SIGMA :: "nat list list" where
  "BLAKE_SIGMA =
     [ [0, 1, 2, 3, 4, 5, 6, 7, 8, 9, 10, 11, 12, 13, 14, 15],
      [14, 10, 4, 8, 9, 15, 13, 6, 1, 12, 0, 2, 11, 7, 5, 3],
      [11, 8, 12, 0, 5, 2, 15, 13, 10, 14, 3, 6, 7, 1, 9, 4],
      [7, 9, 3, 1, 13, 12, 11, 14, 2, 6, 5, 10, 4, 0, 15, 8],
      [9, 0, 5, 7, 2, 4, 10, 15, 14, 1, 11, 12, 6, 8, 3, 13],
      [2, 12, 6, 10, 0, 11, 8, 3, 4, 13, 7, 5, 15, 14, 1, 9],
      [12, 5, 1, 15, 14, 13, 4, 10, 0, 7, 6, 3, 9, 2, 8, 11],
      [13, 11, 7, 14, 12, 1, 3, 9, 5, 0, 15, 4, 8, 6, 2, 10],
      [6, 15, 14, 9, 11, 3, 0, 8, 12, 2, 13, 7, 1, 4, 10, 5],
      [10, 2, 8, 4, 7, 6, 1, 5, 15, 11, 9, 14, 3, 12, 13, 0] ]"

definition IV :: "u64 list" where
  "IV = [0x6a09e667f3bcc908, 0xbb67ae8584caa73b, 0x3c6ef372fe94f82b, 0xa54ff53a5f1d36f1,
         0x510e527fade682d1, 0x9b05688c2b3e6c1f, 0x1f83d9abfb41bd6b, 0x5be0cd19137e2179]"

definition blake_g ::
  "u64 list \<Rightarrow> nat \<Rightarrow> nat \<Rightarrow> nat \<Rightarrow> nat \<Rightarrow> u64 \<Rightarrow> u64 \<Rightarrow> u64 list" where
  "blake_g v a b c d x y =
     (let v = v[a := v ! a + v ! b + x];
          v = v[d := word_rotr 32 (v ! d XOR v ! a)];
          v = v[c := v ! c + v ! d];
          v = v[b := word_rotr 24 (v ! b XOR v ! c)];
          v = v[a := v ! a + v ! b + y];
          v = v[d := word_rotr 16 (v ! d XOR v ! a)];
          v = v[c := v ! c + v ! d]
      in v[b := word_rotr 63 (v ! b XOR v ! c)])"

definition blake_round :: "u64 list \<Rightarrow> u64 list \<Rightarrow> nat \<Rightarrow> u64 list" where
  "blake_round m v i =
     (let s = BLAKE_SIGMA ! (i mod 10);
          v = blake_g v 0 4 8 12 (m ! (s ! 0)) (m ! (s ! 1));
          v = blake_g v 1 5 9 13 (m ! (s ! 2)) (m ! (s ! 3));
          v = blake_g v 2 6 10 14 (m ! (s ! 4)) (m ! (s ! 5));
          v = blake_g v 3 7 11 15 (m ! (s ! 6)) (m ! (s ! 7));
          v = blake_g v 0 5 10 15 (m ! (s ! 8)) (m ! (s ! 9));
          v = blake_g v 1 6 11 12 (m ! (s ! 10)) (m ! (s ! 11));
          v = blake_g v 2 7 8 13 (m ! (s ! 12)) (m ! (s ! 13))
      in blake_g v 3 4 9 14 (m ! (s ! 14)) (m ! (s ! 15)))"

definition blake2f_compress ::
  "nat \<Rightarrow> u64 list \<Rightarrow> u64 list \<Rightarrow> u64 list \<Rightarrow> bool \<Rightarrow> u64 list" where
  "blake2f_compress rounds h m t f =
     (let v = h @ IV;
          v = v[12 := v ! 12 XOR t ! 0];
          v = v[13 := v ! 13 XOR t ! 1];
          v = (if f then v[14 := NOT (v ! 14)] else v);
          v = foldl (blake_round m) v [0..<rounds]
      in map (\<lambda>i. h ! i XOR v ! i XOR v ! (i + 8)) [0..<8])"

definition le_words :: "bytes \<Rightarrow> nat \<Rightarrow> nat \<Rightarrow> u64 list" where
  "le_words calldata init n =
     map (\<lambda>i. word_from_le (take BF2_VEC_ELEM_SIZE (drop (init + i * BF2_VEC_ELEM_SIZE) calldata))) [0..<n]"

definition CALLDATA_LEN :: nat where "CALLDATA_LEN = 213"

definition blake2f :: "bytes \<Rightarrow> u64 \<Rightarrow> u64 \<Rightarrow> precompile_result" where
  "blake2f calldata limit consumed_gas =
     (if length calldata \<noteq> CALLDATA_LEN then (Inl InvalidCalldata, consumed_gas)
      else let rounds = word_from_be (take BF2_ROUND_END calldata) :: u32;
               needed_gas = blake2_gas_cost rounds in
        if needed_gas > limit then (Inl NotEnoughGas, consumed_gas)
        else let f = calldata ! BF2_BLOCK_FLAG in
          if f > 1 then (Inl InvalidCalldata, consumed_gas)
          else let h = le_words calldata BF2_STATEVEC_INIT 8;
                   m = le_words calldata BF2_MSGVEC_INIT 16;
                   t = le_words calldata BF2_OFFSET_COUNT_INIT 2;
                   h = blake2f_compress (unat rounds) h m t (f = 1)
               in (Inr (concat (map word_to_le h)), consumed_gas + needed_gas))"

section \<open>Dispatch\<close>

definition is_precompile :: "address \<Rightarrow> bool" where
  "is_precompile a \<longleftrightarrow>
     take 12 (word_to_be a) = replicate 12 0 \<and>
     ECRECOVER_ADDRESS \<le> (ucast a :: u64) \<and> (ucast a :: u64) < 10"

definition run_precompile ::
  "host \<Rightarrow> address \<Rightarrow> bytes \<Rightarrow> u64 \<Rightarrow> u64 \<Rightarrow> precompile_result res" where
  "run_precompile h a calldata gas_to_send consumed_gas =
     (if a = ucast ECRECOVER_ADDRESS then ecrecover h calldata gas_to_send consumed_gas
      else if a = ucast IDENTITY_ADDRESS then Inr (identity calldata gas_to_send consumed_gas)
      else if a = ucast SHA2_256_ADDRESS then Inr (sha2_256 h calldata gas_to_send consumed_gas)
      else if a = ucast RIPEMD_160_ADDRESS then Inr (ripemd_160 h calldata gas_to_send consumed_gas)
      else if a = ucast MODEXP_ADDRESS then modexp calldata gas_to_send consumed_gas
      else if a = ucast ECADD_ADDRESS then ecadd h calldata gas_to_send consumed_gas
      else if a = ucast ECMUL_ADDRESS then ecmul h calldata gas_to_send consumed_gas
      else if a = ucast ECPAIRING_ADDRESS then ecpairing h calldata gas_to_send consumed_gas
      else if a = ucast BLAKE2F_ADDRESS then Inr (blake2f calldata gas_to_send consumed_gas)
      else Inl Panic)"

text \<open>Returns the return code, the output and the updated consumed gas.\<close>

definition execute_precompile ::
  "host \<Rightarrow> address \<Rightarrow> bytes \<Rightarrow> u64 \<Rightarrow> u64 \<Rightarrow> (u8 \<times> bytes \<times> u64) res" where
  "execute_precompile h a calldata gas_to_send consumed_gas =
     and_then (run_precompile h a calldata gas_to_send consumed_gas) (\<lambda>(result, consumed_gas).
       Inr (case result of
              Inr out \<Rightarrow> (SUCCESS_RETURN_CODE, out, consumed_gas)
            | Inl _ \<Rightarrow> (REVERT_RETURN_CODE, [], consumed_gas + gas_to_send)))"

section \<open>Facts\<close>

lemma nat_to_be_eq_zeros:
  assumes "v < 256 ^ n"
  shows "nat_to_be n v = replicate n 0 \<longleftrightarrow> v = 0"
proof
  assume "nat_to_be n v = replicate n 0"
  then have "be_nat (nat_to_be n v) = 0" by simp
  then show "v = 0" using assms by (simp add: be_nat_to_be)
qed simp

lemma is_precompile_range: "is_precompile a \<longleftrightarrow> 1 \<le> unat a \<and> unat a \<le> 9"
proof -
  have lt: "unat a < 2 ^ 160" using unat_less_pow [of a] by simp
  have "word_to_be a = nat_to_be 12 (unat a div 256 ^ 8) @ nat_to_be 8 (unat a)"
    using nat_to_be_split [of 12 8 "unat a"] by (simp add: word_to_be_def)
  moreover have "unat a div 256 ^ 8 < 256 ^ 12" using lt by (simp add: less_mult_imp_div_less)
  ultimately have hd: "take 12 (word_to_be a) = replicate 12 0 \<longleftrightarrow> unat a < 2 ^ 64"
    using nat_to_be_eq_zeros [of "unat a div 256 ^ 8" 12] by (simp add: div_eq_0_iff)
  have u: "unat a < 2 ^ 64 \<Longrightarrow> unat (ucast a :: u64) = unat a"
    by (simp add: unsigned_ucast_eq take_bit_nat_eq_self_iff)
  show ?thesis
    unfolding is_precompile_def hd using u
    by (auto simp: word_le_nat_alt word_less_nat_alt ECRECOVER_ADDRESS_def)
qed

lemma u160_cases:
  assumes "1 \<le> unat (a :: address)" and "unat a \<le> 9"
  shows "a \<in> {1, 2, 3, 4, 5, 6, 7, 8, 9}"
proof -
  have "unat a \<in> {1, 2, 3, 4, 5, 6, 7, 8, 9}" using assms by auto
  moreover have "a = of_nat (unat a)" by simp
  ultimately show ?thesis by (metis (no_types, lifting) insert_iff empty_iff of_nat_numeral of_nat_1)
qed

lemmas precompile_addresses = ECRECOVER_ADDRESS_def IDENTITY_ADDRESS_def SHA2_256_ADDRESS_def
  RIPEMD_160_ADDRESS_def MODEXP_ADDRESS_def ECADD_ADDRESS_def ECMUL_ADDRESS_def
  ECPAIRING_ADDRESS_def BLAKE2F_ADDRESS_def

lemma no_fault_ecrecover: "no_fault (ecrecover h calldata limit c)"
  by (simp add: ecrecover_def slice_def ECR_PARAMS_OFFSET_def ECR_HASH_END_def ECR_V_POS_def
      ECR_SIG_END_def le_max_iff_disj Let_def split: option.splits)

lemma no_fault_ecadd: "no_fault (ecadd h calldata limit c)"
  by (simp add: ecadd_def slice_def ECADD_PARAMS_OFFSET_def ECADD_X1_END_def ECADD_Y1_END_def
      ECADD_X2_END_def ECADD_Y2_END_def le_max_iff_disj Let_def)

lemma no_fault_ecmul: "no_fault (ecmul h calldata limit c)"
  by (simp add: ecmul_def slice_def ECMUL_PARAMS_OFFSET_def ECMUL_X1_END_def ECMUL_Y1_END_def
      ECMUL_S_END_def le_max_iff_disj Let_def)

lemma no_fault_ecpairing_round:
  "start + 192 \<le> length calldata \<Longrightarrow> no_fault (ecpairing_round h calldata start acc)"
  by (simp add: ecpairing_round_def slice_def ECP_FIELD_SIZE_def double_field_size_def
      ecpairing_g2_point1_start_def ecpairing_g2_point1_end_def G1_POINT_POS_def G2_POINT_POS_def
      Let_def split: option.splits)

lemma no_fault_ecpairing_loop:
  "(\<And>i. i \<in> set idxs \<Longrightarrow> i * 192 + 192 \<le> length calldata) \<Longrightarrow>
   no_fault (ecpairing_loop h calldata idxs acc)"
proof (induction idxs arbitrary: acc)
  case (Cons i idxs)
  then have "no_fault (ecpairing_round h calldata (i * ECP_INPUT_SIZE) acc)"
    by (intro no_fault_ecpairing_round) (simp add: ECP_INPUT_SIZE_def)
  then show ?case
    using Cons by (auto intro!: no_fault_and_then split: sum.splits)
qed simp

lemma no_fault_ecpairing: "no_fault (ecpairing h calldata limit c)"
proof -
  have "no_fault (ecpairing_loop h calldata [0..<length calldata div ECP_INPUT_SIZE] (gt_one h))"
    by (rule no_fault_ecpairing_loop) (auto simp: ECP_INPUT_SIZE_def)
  then show ?thesis
    by (auto simp: ecpairing_def Let_def intro!: no_fault_and_then split: sum.splits)
qed

section \<open>Properties\<close>

text \<open>C31: exactly the addresses 1 to 9 are precompiles, each runs its contract without a
  panic (the modular exponentiation at address 5 aside), and a failed one reverts
  with no output and takes all the gas it was sent.\<close>

theorem execute_precompile_total:
  "(is_precompile a \<longleftrightarrow> 1 \<le> unat a \<and> unat a \<le> 9) \<and>
   (is_precompile a \<and> a \<noteq> 5 \<longrightarrow>
      (\<exists>code out c'. execute_precompile h a calldata gas c = Inr (code, out, c') \<and>
         (code = SUCCESS_RETURN_CODE \<or> code = REVERT_RETURN_CODE \<and> out = [])))"
proof -
  have "no_fault (run_precompile h a calldata gas c)" if "is_precompile a" and "a \<noteq> 5"
  proof -
    have "a \<in> {1, 2, 3, 4, 5, 6, 7, 8, 9}"
      using that(1) u160_cases by (simp add: is_precompile_range)
    then show ?thesis
      using that(2)
      by (auto simp: run_precompile_def precompile_addresses no_fault_ecrecover no_fault_ecadd
          no_fault_ecmul no_fault_ecpairing)
  qed
  then show ?thesis
    by (auto simp: is_precompile_range execute_precompile_def no_fault_def split: sum.splits)
qed

text \<open>A host with simple functions, for the witnesses.\<close>

definition sample_host :: host where
  "sample_host = \<lparr>keccak256 = (\<lambda>bs. of_nat (length bs)), sha256_digest = (\<lambda>_. replicate 32 0),
     ripemd160_digest = (\<lambda>_. replicate 20 0), secp256k1_recover = (\<lambda>_ _ _. None),
     bn_from_bytes = be_nat, bn_on_curve = (\<lambda>x y. x = 1 \<and> y = 2), bn_add = (\<lambda>p q. p),
     bn_mul = (\<lambda>p n. p), tw_from_bytes = (\<lambda>_. None), tw_on_curve = (\<lambda>_ _. False),
     pairing = (\<lambda>_ _. None), gt_one = [1], gt_mul = (\<lambda>p q. p), try_reserve = (\<lambda>_. True),
     stale_bytes = (\<lambda>bs. bs),
     ipowi_negative = (\<lambda>_ _. 0)\<rparr>"

theorem execute_precompile_total_witness:
  "\<exists>code out c'. execute_precompile sample_host 4 [1, 2, 3] 100 0 = Inr (code, out, c') \<and>
     (code = SUCCESS_RETURN_CODE \<or> code = REVERT_RETURN_CODE \<and> out = [])"
  using execute_precompile_total [of 4 sample_host "[1, 2, 3]" 100 0] by simp

text \<open>What a run may add to the consumed gas.\<close>

definition charges_at_most :: "u64 \<Rightarrow> u64 \<Rightarrow> u64 \<Rightarrow> bool" where
  "charges_at_most limit c c' \<longleftrightarrow> (\<exists>k \<le> limit. c' = c + k)"

lemma charges_self [simp]: "charges_at_most limit c c"
  unfolding charges_at_most_def by (rule exI [of _ 0]) simp

lemma charges_add [simp]: "k \<le> limit \<Longrightarrow> charges_at_most limit c (c + k)"
  by (auto simp: charges_at_most_def)

lemma charges_mono: "charges_at_most l c c' \<Longrightarrow> l \<le> l' \<Longrightarrow> charges_at_most l' c c'"
  by (auto simp: charges_at_most_def intro: order_trans)

text \<open>A run that leaves the consumed gas alone when it fails.\<close>

definition frugal :: "u64 \<Rightarrow> u64 \<Rightarrow> precompile_result res \<Rightarrow> bool" where
  "frugal limit c r \<longleftrightarrow> (case r of
     Inl _ \<Rightarrow> True
   | Inr (Inl _, c') \<Rightarrow> c' = c
   | Inr (Inr _, c') \<Rightarrow> charges_at_most limit c c')"

lemma frugal_simps [simp]:
  "frugal limit c (Inl f)" "frugal limit c (Inr (Inl e, c))"
  "frugal limit c (Inr (Inr out, c')) \<longleftrightarrow> charges_at_most limit c c'"
  by (simp_all add: frugal_def)

lemma frugal_and_then: "(\<And>x. m = Inr x \<Longrightarrow> frugal limit c (f x)) \<Longrightarrow> frugal limit c (and_then m f)"
  by (cases m) simp_all

lemma frugal_if: "(P \<Longrightarrow> frugal l c x) \<Longrightarrow> (\<not> P \<Longrightarrow> frugal l c y) \<Longrightarrow> frugal l c (if P then x else y)"
  by simp

lemmas frugal_intros = frugal_and_then frugal_if

lemma frugal_ecrecover: "frugal limit c (ecrecover h calldata limit c)"
  unfolding ecrecover_def Let_def
  by (intro frugal_intros) (simp_all split: option.splits)

lemma frugal_ecadd: "frugal limit c (ecadd h calldata limit c)"
  unfolding ecadd_def Let_def by (intro frugal_intros) simp_all

lemma frugal_ecmul: "frugal limit c (ecmul h calldata limit c)"
  unfolding ecmul_def Let_def by (intro frugal_intros) simp_all

lemma frugal_ecpairing: "frugal limit c (ecpairing h calldata limit c)"
  unfolding ecpairing_def Let_def
  by (intro frugal_intros) (simp_all split: sum.splits)

lemma frugal_simple:
  "frugal limit c (Inr (identity calldata limit c))"
  "frugal limit c (Inr (sha2_256 h calldata limit c))"
  "frugal limit c (Inr (ripemd_160 h calldata limit c))"
  "frugal limit c (Inr (blake2f calldata limit c))"
  by (simp_all add: identity_def sha2_256_def ripemd_160_def blake2f_def Let_def)

lemma frugal_run: "a \<noteq> 5 \<Longrightarrow> frugal limit c (run_precompile h a calldata limit c)"
  unfolding run_precompile_def
  by (intro frugal_if)
    (simp_all add: frugal_ecrecover frugal_ecadd frugal_ecmul frugal_ecpairing frugal_simple
      MODEXP_ADDRESS_def)

text \<open>C32: a precompile other than the modular exponentiation never charges more than
  the gas it was sent; a failing one charges exactly that.\<close>

theorem execute_precompile_gas:
  assumes "execute_precompile h a calldata gas c = Inr (code, out, c')" and "a \<noteq> 5"
  shows "(\<exists>k \<le> gas. c' = c + k) \<and> (code = REVERT_RETURN_CODE \<longrightarrow> c' = c + gas)"
proof -
  obtain r d where rd: "run_precompile h a calldata gas c = Inr (r, d)"
    using assms(1) by (auto simp: execute_precompile_def result_simps)
  have fr: "frugal gas c (Inr (r, d))" using frugal_run [OF assms(2)] rd by metis
  show ?thesis
  proof (cases r)
    case (Inl e)
    then show ?thesis using assms(1) rd fr by (auto simp: execute_precompile_def frugal_def)
  next
    case (Inr x)
    then show ?thesis
      using assms rd fr
      by (auto simp: execute_precompile_def charges_at_most_def REVERT_RETURN_CODE_def
          SUCCESS_RETURN_CODE_def)
  qed
qed

theorem execute_precompile_gas_witness:
  "execute_precompile sample_host 4 [1, 2, 3] 100 7 = Inr (SUCCESS_RETURN_CODE, [1, 2, 3], 25) \<and>
   (\<exists>k \<le> 100. (25 :: u64) = 7 + k) \<and>
   execute_precompile sample_host 4 [1, 2, 3] 17 7 = Inr (REVERT_RETURN_CODE, [], 7 + 17)"
proof -
  have ok: "execute_precompile sample_host 4 [1, 2, 3] 100 7 = Inr (SUCCESS_RETURN_CODE, [1, 2, 3], 25)"
    by (simp add: execute_precompile_def run_precompile_def precompile_addresses identity_def
        identity_dynamic_cost_def IDENTITY_STATIC_COST_def)
  obtain c' where fails: "execute_precompile sample_host 4 [1, 2, 3] 17 7 = Inr (REVERT_RETURN_CODE, [], c')"
    by (simp add: execute_precompile_def run_precompile_def precompile_addresses identity_def
        identity_dynamic_cost_def IDENTITY_STATIC_COST_def)
  show ?thesis using ok fails execute_precompile_gas [OF ok] execute_precompile_gas [OF fails] by simp
qed

lemma left_pad_biguint:
  assumes "v < 256 ^ n"
  shows "slice (left_pad (biguint_to_bytes_be v) n) 0 n = Inr (nat_to_be n v)"
proof (cases "n = 0")
  case True
  then show ?thesis by (simp add: slice_def)
next
  case False
  then show ?thesis
    using biguint_to_bytes_be_pad [OF assms] by (auto simp: left_pad_def slice_def)
qed

lemma modexp_value_less: "m < 256 ^ n \<Longrightarrow> modexp_value b e m < 256 ^ n"
  by (auto simp: modexp_value_def intro: order_le_less_trans [OF mod_le_divisor]
      order_le_less_trans [OF less_imp_le [OF mod_less_divisor]])

text \<open>The shape of a complete call: three sizes, then the three numbers.\<close>

definition modexp_input :: "bytes \<Rightarrow> bytes \<Rightarrow> bytes \<Rightarrow> bytes \<Rightarrow> bytes" where
  "modexp_input b e m rest =
     nat_to_be 32 (length b) @ nat_to_be 32 (length e) @ nat_to_be 32 (length m) @ b @ e @ m @ rest"

lemma size_param_nat_to_be: "n < 2 ^ 64 \<Longrightarrow> size_param (nat_to_be 32 n) = Some n"
proof -
  assume n: "n < 2 ^ 64"
  also have "(2::nat) ^ 64 \<le> 256 ^ 32" by simp
  finally have "n mod 256 ^ 32 = n" by simp
  then show ?thesis using n by (simp add: size_param_def be_nat_to_be)
qed

text \<open>C33: on a complete input the modular exponentiation returns \<open>b ^ e mod m\<close> as a
  big-endian number of the size of the modulus (all zeros for a zero modulus), for
  the price of the call; with too little gas it fails.\<close>

theorem modexp_correct:
  assumes "length (modexp_input b e m rest) < 2 ^ 64" and "b \<noteq> [] \<or> m \<noteq> []"
  shows "modexp (modexp_input b e m rest) limit c =
    (let price = modexp_gas (length b) (length e) (length m) (be_nat e) in
     if limit < price then Inr (Inl NotEnoughGas, c)
     else Inr (Inr (nat_to_be (length m)
            (if be_nat m = 0 then 0 else be_nat b ^ be_nat e mod be_nat m)), c + price))"
proof -
  let ?cd = "modexp_input b e m rest"
  have cd: "right_pad ?cd 96 = ?cd" by (simp add: right_pad_def modexp_input_def)
  have lens: "96 + length b + length e + length m < 2 ^ 64"
    using assms(1) by (simp add: modexp_input_def)
  then have sz: "usz (96 + length b + length e + length m) = 96 + length b + length e + length m"
    "usz (96 + length b + length e) = 96 + length b + length e"
    "usz (96 + length b) = 96 + length b"
    by (simp_all add: usz_def)
  have sl: "slice ?cd 0 32 = Inr (nat_to_be 32 (length b))"
    "slice ?cd 32 64 = Inr (nat_to_be 32 (length e))"
    "slice ?cd 64 96 = Inr (nat_to_be 32 (length m))"
    "slice ?cd 96 (96 + length b) = Inr b"
    "slice ?cd (96 + length b) (96 + length b + length e) = Inr e"
    "slice ?cd (96 + length b + length e) (96 + length b + length e + length m) = Inr m"
    by (simp_all add: slice_def modexp_input_def)
  have ps: "size_param (nat_to_be 32 (length b)) = Some (length b)"
    "size_param (nat_to_be 32 (length e)) = Some (length e)"
    "size_param (nat_to_be 32 (length m)) = Some (length m)"
    using lens by (simp_all add: size_param_nat_to_be)
  have v: "modexp_value (be_nat b) (be_nat e) (be_nat m) =
      (if be_nat m = 0 then 0 else be_nat b ^ be_nat e mod be_nat m)"
    by (simp add: modexp_value_def)
  have ne: "?cd \<noteq> []" and le: "96 + length b + length e + length m \<le> length ?cd"
    by (auto simp: modexp_input_def simp flip: length_0_conv)
  have pad: "slice (left_pad (biguint_to_bytes_be (modexp_value (be_nat b) (be_nat e) (be_nat m)))
      (length m)) 0 (length m) = Inr (nat_to_be (length m) (modexp_value (be_nat b) (be_nat e) (be_nat m)))"
    by (intro left_pad_biguint modexp_value_less be_nat_bound)
  have nz: "\<not> (length b = 0 \<and> length m = 0)" using assms(2) by simp
  show ?thesis
    unfolding modexp_def MXP_PARAMS_OFFSET_def BSIZE_END_def ESIZE_END_def MSIZE_END_def
    using le
    by (simp only: ne if_False cd Let_def sl ps and_then.simps option.case prod.case nz sz pad [unfolded v] v
        not_less if_P if_not_P cong: if_cong)
qed

theorem modexp_correct_witness:
  "modexp (modexp_input [3] [5] [7] []) 1000 0 = Inr (Inr [5], 200)"
proof -
  have g: "modexp_gas 1 1 1 5 = 200"
    by (simp add: modexp_gas_def usz_def bit_count.simps Let_def MIN_MODEXP_COST_def max_def)
  have "be_nat [3] = 3" "be_nat [5] = 5" "be_nat [7] = 7" by (simp_all add: be_nat_def)
  then show ?thesis
    using modexp_correct [of "[3]" "[5]" "[7]" "[]" 1000 0] g
    by (simp add: modexp_input_def Let_def)
qed

text \<open>The three sizes that a call names, and the slices between them when their sum wraps around.\<close>

definition modexp_sizes :: "bytes \<Rightarrow> nat \<times> nat \<times> nat" where
  "modexp_sizes calldata =
     (let cd = right_pad calldata 96 in (be_nat (take 32 cd), be_nat (take 32 (drop 32 cd)), be_nat (take 32 (drop 64 cd))))"

lemma usz_ge: "a < 2 ^ 64 \<Longrightarrow> x < 2 ^ 64 \<Longrightarrow> a \<le> usz (a + x) \<longleftrightarrow> a + x < 2 ^ 64"
  unfolding usz_def by (subst mod_if) (auto simp: le_mod_geq)

lemma usz_step: "usz (a + x) = usz (usz a + x)"
  by (simp add: usz_def mod_add_left_eq)

lemma modexp_slices_iff:
  assumes "b < 2 ^ 64" "e < 2 ^ 64" "m < 2 ^ 64"
  shows "96 \<le> usz (96 + b) \<and> usz (96 + b) \<le> usz (96 + b + e) \<and> usz (96 + b + e) \<le> usz (96 + b + e + m) \<longleftrightarrow>
    96 + b + e + m < 2 ^ 64"
proof -
  have lt: "usz k < 2 ^ 64" for k by (simp add: usz_def)
  have 1: "96 \<le> usz (96 + b) \<longleftrightarrow> 96 + b < 2 ^ 64" using assms(1) by (intro usz_ge) simp_all
  have 2: "usz (96 + b) \<le> usz (96 + b + e) \<longleftrightarrow> usz (96 + b) + e < 2 ^ 64"
    unfolding usz_step [of "96 + b" e] by (rule usz_ge [OF lt assms(2)])
  have 3: "usz (96 + b + e) \<le> usz (96 + b + e + m) \<longleftrightarrow> usz (96 + b + e) + m < 2 ^ 64"
    unfolding usz_step [of "96 + b + e" m] by (rule usz_ge [OF lt assms(3)])
  have "usz k = k" if "k < 2 ^ 64" for k using that by (simp add: usz_def)
  then show ?thesis unfolding 1 2 3 using assms by (metis add_lessD1)
qed

text \<open>From the sizes on: after the length check, only the slices of the operands can panic.\<close>

lemma modexp_tail:
  assumes "b < 2 ^ 64" "e < 2 ^ 64" "m < 2 ^ 64" and "usz (96 + b + e + m) \<le> length cd"
  shows "and_then (slice cd 96 (usz (96 + b))) (\<lambda>bs.
       and_then (slice cd (usz (96 + b)) (usz (96 + b + e))) (\<lambda>es.
       and_then (slice cd (usz (96 + b + e)) (usz (96 + b + e + m))) (\<lambda>ms.
         let gas_cost = modexp_gas b e m (be_nat es) in
         if limit < gas_cost then Inr (Inl NotEnoughGas, c)
         else and_then (slice (left_pad (biguint_to_bytes_be (modexp_value (be_nat bs) (be_nat es) (be_nat ms))) m) 0 m)
                (\<lambda>result. Inr (Inr result, c + gas_cost))))) = Inl Panic \<longleftrightarrow>
    2 ^ 64 \<le> 96 + b + e + m"
proof (cases "96 + b + e + m < 2 ^ 64")
  case True
  then have u: "usz (96 + b) = 96 + b" "usz (96 + b + e) = 96 + b + e" "usz (96 + b + e + m) = 96 + b + e + m"
    by (simp_all add: usz_def)
  let ?m = "take m (drop (96 + b + e) cd)"
  have "length ?m = m" using assms(4) u by simp
  then have "modexp_value x y (be_nat ?m) < 256 ^ m" for x y using be_nat_bound [of ?m] by (intro modexp_value_less) simp
  then show ?thesis using True assms(4) u by (simp add: slice_def [of cd] left_pad_biguint Let_def)
next
  case False
  then have "\<not> (96 \<le> usz (96 + b) \<and> usz (96 + b) \<le> usz (96 + b + e) \<and> usz (96 + b + e) \<le> usz (96 + b + e + m))"
    using modexp_slices_iff [OF assms(1-3)] by simp
  then show ?thesis using False by (auto simp: slice_def [of cd])
qed

lemma modexp_panics_iff:
  "modexp calldata limit c = Inl Panic \<longleftrightarrow>
     (case modexp_sizes calldata of (b, e, m) \<Rightarrow>
        calldata \<noteq> [] \<and> b < 2 ^ 64 \<and> e < 2 ^ 64 \<and> m < 2 ^ 64 \<and> (b \<noteq> 0 \<or> m \<noteq> 0) \<and>
        2 ^ 64 \<le> 96 + b + e + m \<and> (96 + b + e + m) mod 2 ^ 64 \<le> max 96 (length calldata))"
proof (cases "calldata = []")
  case False
  let ?cd = "right_pad calldata 96"
  obtain b e m where bem: "modexp_sizes calldata = (b, e, m)" by (metis prod_cases3)
  have sz: "b = be_nat (take 32 ?cd)" "e = be_nat (take 32 (drop 32 ?cd))" "m = be_nat (take 32 (drop 64 ?cd))"
    using bem by (simp_all add: modexp_sizes_def Let_def)
  have sl: "slice ?cd 0 32 = Inr (take 32 ?cd)" "slice ?cd 32 64 = Inr (take 32 (drop 32 ?cd))"
    "slice ?cd 64 96 = Inr (take 32 (drop 64 ?cd))"
    by (simp_all add: slice_def)
  note unf = modexp_def MXP_PARAMS_OFFSET_def BSIZE_END_def ESIZE_END_def MSIZE_END_def sl sz [symmetric] size_param_def Let_def
  show ?thesis
  proof (cases "b < 2 ^ 64 \<and> e < 2 ^ 64 \<and> m < 2 ^ 64 \<and> (b \<noteq> 0 \<or> m \<noteq> 0) \<and> usz (96 + b + e + m) \<le> length ?cd")
    case True
    then show ?thesis using False bem modexp_tail [of b e m ?cd limit c]
      by (auto simp: unf usz_def [of "96 + b + e + m"] max.commute)
  next
    case no_slices: False
    then show ?thesis using False bem by (auto simp: unf usz_def [of "96 + b + e + m"] max.commute)
  qed
qed (simp add: modexp_def split: prod.split)

text \<open>C40: when a call to address 5 brings the virtual machine down: it panics exactly when it names sizes
  that each fit 64 bits, not both of base and modulus zero, whose sum with the 96 bytes of the header does not fit, but wraps around to
  at most the length of the call data, padded to 96 bytes. The length check has passed then, and a slice ends before it begins.\<close>

theorem modexp_size_overflow_panics:
  "execute_precompile h 5 calldata limit c = Inl Panic \<longleftrightarrow>
     (case modexp_sizes calldata of (b, e, m) \<Rightarrow>
        calldata \<noteq> [] \<and> b < 2 ^ 64 \<and> e < 2 ^ 64 \<and> m < 2 ^ 64 \<and> (b \<noteq> 0 \<or> m \<noteq> 0) \<and>
        2 ^ 64 \<le> 96 + b + e + m \<and> (96 + b + e + m) mod 2 ^ 64 \<le> max 96 (length calldata))"
proof -
  have "execute_precompile h 5 calldata limit c = Inl Panic \<longleftrightarrow> modexp calldata limit c = Inl Panic"
    by (cases "modexp calldata limit c") (auto simp: execute_precompile_def run_precompile_def precompile_addresses)
  then show ?thesis by (simp only: modexp_panics_iff)
qed

text \<open>Such a call: a base of 2 to the 64 minus 96 bytes.\<close>

theorem modexp_size_overflow_panics_witness:
  "execute_precompile sample_host 5 (nat_to_be 32 (2 ^ 64 - 96) @ replicate 64 0) 0 0 = Inl Panic"
proof -
  let ?cd = "nat_to_be 32 (2 ^ 64 - 96) @ replicate 64 0"
  have "be_nat (nat_to_be 32 (2 ^ 64 - 96)) = 2 ^ 64 - 96" by (subst be_nat_to_be) simp
  then have "modexp_sizes ?cd = (2 ^ 64 - 96, 0, 0)" by (simp add: modexp_sizes_def right_pad_def Let_def)
  moreover have "?cd \<noteq> []" by simp
  ultimately show ?thesis using modexp_size_overflow_panics [of sample_host ?cd 0 0] by simp
qed

lemma length_blake_g [simp]: "length (blake_g v a b c d x y) = length v"
  by (simp add: blake_g_def Let_def)

lemma length_word_to_le [simp]: "length (word_to_le (w :: 'a::len word)) = LENGTH('a) div 8"
  by (simp add: word_to_le_def word_to_be_def)

text \<open>C34: the BLAKE2 precompile accepts exactly the calls of 213 bytes with a final flag of
  0 or 1 whose rounds the gas covers; it charges one gas per round and returns 64 bytes.\<close>

theorem blake2f_spec:
  "let rounds = be_nat (take 4 calldata);
       r = blake2f calldata limit c
   in if length calldata = 213 \<and> rounds \<le> unat limit \<and> unat (calldata ! 212) \<le> 1
      then \<exists>out. r = (Inr out, c + of_nat rounds) \<and> length out = 64
      else \<exists>e. r = (Inl e, c)"
proof -
  have b: "be_nat (take 4 calldata) < 2 ^ 32"
    using be_nat_bound [of "take 4 calldata"]
      power_increasing [of "length (take 4 calldata)" 4 "256 :: nat"] by simp
  then have u: "unat (word_from_be (take 4 calldata) :: u32) = be_nat (take 4 calldata)"
    by (simp add: word_from_be_def unat_of_nat)
  have g: "blake2_gas_cost (word_from_be (take 4 calldata)) = of_nat (be_nat (take 4 calldata))"
    by (metis blake2_gas_cost_def u of_nat_unat)
  have ug: "unat (of_nat (be_nat (take 4 calldata)) :: u64) = be_nat (take 4 calldata)"
    using b by (simp add: unat_of_nat)
  show ?thesis
    by (auto simp: blake2f_def Let_def CALLDATA_LEN_def BF2_ROUND_END_def BF2_BLOCK_FLAG_def g u
        word_less_nat_alt ug blake2f_compress_def length_concat comp_def sum_list_triv)
qed

end
