(* ===== verification/Syscall.thy ===== *)
theory Syscall
  imports Journal Precompiles
begin

text \<open>
  The context of a running contract and the system calls that the generated code
  makes on it (\<open>syscall.rs\<close>), without the symbol tables that bind them.

  A handler takes the context and returns it updated; what the source writes
  through a pointer argument is a further result. \<open>call\<close> and \<open>create_aux\<close> run
  another program: they take the executor as a parameter \<open>exec\<close>.
\<close>

section \<open>256-bit values in two halves\<close>

definition from_fixed_be_bytes :: "bytes \<Rightarrow> sysu256" where
  "from_fixed_be_bytes bs = \<lparr>lo = word_from_be (take 16 (drop 16 bs)), hi = word_from_be (take 16 bs)\<rparr>"

definition copy_from :: "address \<Rightarrow> sysu256" where
  "copy_from a = from_fixed_be_bytes (replicate 12 0 @ word_to_be a)"

definition to_primitive_u256 :: "sysu256 \<Rightarrow> u256" where
  "to_primitive_u256 v = push_bit 128 (ucast (hi v)) + ucast (lo v)"

definition sysu256_zero :: sysu256 where
  "sysu256_zero = \<lparr>lo = 0, hi = 0\<rparr>"

definition address_from :: "sysu256 \<Rightarrow> address" where
  "address_from v = word_from_be (drop 12 (word_to_be (hi v)) @ word_to_be (lo v))"

text \<open>\<open>x.low_u128()\<close> and \<open>(x >> 128).low_u128()\<close>, stored as the two halves.\<close>

definition halves :: "u256 \<Rightarrow> sysu256" where
  "halves x = \<lparr>lo = ucast x, hi = ucast (drop_bit 128 x)\<rparr>"

section \<open>Contexts\<close>

datatype exit_status_code = Exit_Return | Exit_Stop | Exit_Revert | Exit_Error | Exit_Default

primrec exit_status_u8 :: "exit_status_code \<Rightarrow> u8" where
  "exit_status_u8 Exit_Return = 0"
| "exit_status_u8 Exit_Stop = 1"
| "exit_status_u8 Exit_Revert = 2"
| "exit_status_u8 Exit_Error = 3"
| "exit_status_u8 Exit_Default = 4"

definition exit_status_from_u8 :: "u8 \<Rightarrow> exit_status_code" where
  "exit_status_from_u8 x =
     (if x = exit_status_u8 Exit_Return then Exit_Return
      else if x = exit_status_u8 Exit_Stop then Exit_Stop
      else if x = exit_status_u8 Exit_Revert then Exit_Revert
      else if x = exit_status_u8 Exit_Error then Exit_Error
      else Exit_Default)"

record inner_context =
  memory :: bytes
  return_data :: "(nat \<times> nat) option"
  ic_program :: bytes
  gas_remaining :: "u64 option"
  gas_refund :: u64
  exit_status :: "exit_status_code option"
  ic_logs :: "log_data list"

definition inner_context_default :: inner_context where
  "inner_context_default = \<lparr>memory = [], return_data = None, ic_program = [],
     gas_remaining = None, gas_refund = 0, exit_status = None, ic_logs = []\<rparr>"

record call_frame =
  caller :: address
  ctx_is_static :: bool
  last_call_return_data :: bytes

definition call_frame_new :: "address \<Rightarrow> call_frame" where
  "call_frame_new a = \<lparr>caller = a, ctx_is_static = False, last_call_return_data = []\<rparr>"

record syscall_context =
  ctx_env :: env
  ctx_journal :: journal
  ctx_frame :: call_frame
  ctx_inner :: inner_context
  ctx_halt_reason :: "halt_reason option"
  ctx_initial_gas :: u64
  transient_storage :: "address \<times> u256 \<rightharpoonup> u256"

definition syscall_context_new :: "env \<Rightarrow> journal \<Rightarrow> call_frame \<Rightarrow> u64 \<Rightarrow> syscall_context" where
  "syscall_context_new e j frame gas = \<lparr>ctx_env = e, ctx_journal = j, ctx_frame = frame,
     ctx_inner = inner_context_default, ctx_halt_reason = None, ctx_initial_gas = gas,
     transient_storage = Map.empty\<rparr>"

abbreviation map_inner :: "(inner_context \<Rightarrow> inner_context) \<Rightarrow> syscall_context \<Rightarrow> syscall_context" where
  "map_inner f c \<equiv> c\<lparr>ctx_inner := f (ctx_inner c)\<rparr>"

abbreviation this_address :: "syscall_context \<Rightarrow> address" where
  "this_address c \<equiv> get_address (tx (ctx_env c))"

section \<open>Memory\<close>

definition get_memory_slice :: "inner_context \<Rightarrow> nat \<Rightarrow> nat \<Rightarrow> bytes res" where
  "get_memory_slice ic off n = slice (memory ic) off (off + n)"

definition resize_memory_if_necessary :: "inner_context \<Rightarrow> nat \<Rightarrow> nat \<Rightarrow> inner_context" where
  "resize_memory_if_necessary ic off data_size =
     (if off + data_size > length (memory ic)
      then ic\<lparr>memory := memory ic @ replicate (off + data_size - length (memory ic)) 0\<rparr>
      else ic)"

text \<open>\<open>get_memory_slice(..).fill(0)\<close> and \<open>.copy_from_slice\<close> are \<open>splice\<close>s of the memory.\<close>

definition write_memory :: "inner_context \<Rightarrow> nat \<Rightarrow> bytes \<Rightarrow> inner_context res" where
  "write_memory ic off bs = and_then (splice (memory ic) off bs) (\<lambda>m. Inr (ic\<lparr>memory := m\<rparr>))"

definition set_value_to_memory ::
  "inner_context \<Rightarrow> nat \<Rightarrow> nat \<Rightarrow> nat \<Rightarrow> bytes \<Rightarrow> inner_context res" where
  "set_value_to_memory ic memory_offset value_offset sz v =
     (if value_offset \<ge> length v then write_memory ic memory_offset (replicate sz 0)
      else let value_memory_end = min (length v) (value_offset + sz);
               value_memory_size = value_memory_end - value_offset in
        and_then (slice v value_offset value_memory_end) (\<lambda>data.
        and_then (write_memory ic memory_offset data) (\<lambda>ic.
        write_memory ic (memory_offset + value_memory_size) (replicate (sz - value_memory_size) 0))))"

section \<open>Results\<close>

definition GAS_REFUND_DENOMINATOR :: u64 where "GAS_REFUND_DENOMINATOR = 5"

definition return_values :: "syscall_context \<Rightarrow> bytes" where
  "return_values c =
     (let (off, n) = (case return_data (ctx_inner c) of Some r \<Rightarrow> r | None \<Rightarrow> (0, 0));
          m = memory (ctx_inner c)
      in if off + n > length m then [] else take n (drop off m))"

definition context_logs :: "syscall_context \<Rightarrow> log_entry list" where
  "context_logs c =
     map (\<lambda>d. \<lparr>log_address = this_address c, log_payload = d\<rparr>) (ic_logs (ctx_inner c))"

definition get_result :: "syscall_context \<Rightarrow> result_and_state" where
  "get_result c =
     (let remaining = (case gas_remaining (ctx_inner c) of Some g \<Rightarrow> g | None \<Rightarrow> 0);
          used = saturating_sub (ctx_initial_gas c) remaining;
          refunded = min (gas_refund (ctx_inner c)) (used div GAS_REFUND_DENOMINATOR);
          status = (case exit_status (ctx_inner c) of Some s \<Rightarrow> s | None \<Rightarrow> Exit_Default);
          out = return_values c;
          reason = (case ctx_halt_reason c of Some r \<Rightarrow> r | None \<Rightarrow> OpcodeNotFound);
          result = (case status of
              Exit_Return \<Rightarrow> Success Reason_Return used refunded (context_logs c) (Output_Call out)
            | Exit_Stop \<Rightarrow> Success Reason_Stop used refunded (context_logs c) (Output_Call out)
            | Exit_Revert \<Rightarrow> Reverted used out
            | Exit_Error \<Rightarrow> Halt reason used
            | Exit_Default \<Rightarrow> Halt reason used)
      in \<lparr>res_result = result, res_state = into_state (ctx_journal c)\<rparr>)"

section \<open>System calls\<close>

definition write_result :: "syscall_context \<Rightarrow> u32 \<Rightarrow> u32 \<Rightarrow> u64 \<Rightarrow> u8 \<Rightarrow> syscall_context" where
  "write_result c off bytes_len remaining_gas execution_result = map_inner (\<lambda>ic. ic\<lparr>
     return_data := Some (unat off, unat bytes_len),
     gas_remaining := Some remaining_gas,
     exit_status := Some (exit_status_from_u8 execution_result)\<rparr>) c"

definition get_return_data_size :: "syscall_context \<Rightarrow> u32" where
  "get_return_data_size c = of_nat (length (last_call_return_data (ctx_frame c)))"

definition put_in_memory :: "syscall_context \<Rightarrow> nat \<Rightarrow> nat \<Rightarrow> nat \<Rightarrow> bytes \<Rightarrow> syscall_context res" where
  "put_in_memory c dest_offset off n data =
     and_then (set_value_to_memory (resize_memory_if_necessary (ctx_inner c) dest_offset n)
                 dest_offset off n data) (\<lambda>ic. Inr (c\<lparr>ctx_inner := ic\<rparr>))"

definition copy_return_data_into_memory ::
  "syscall_context \<Rightarrow> u32 \<Rightarrow> u32 \<Rightarrow> u32 \<Rightarrow> syscall_context res" where
  "copy_return_data_into_memory c dest_offset off n =
     put_in_memory c (unat dest_offset) (unat off) (unat n) (last_call_return_data (ctx_frame c))"

definition default_info :: account_info where
  "default_info = \<lparr>info_balance = 0, info_nonce = 0, info_code_hash = 0, info_code = None\<rparr>"

definition account_or_default :: "account_info option \<Rightarrow> account_info" where
  "account_or_default i = (case i of Some x \<Rightarrow> x | None \<Rightarrow> default_info)"

definition store_in_selfbalance_ptr :: "syscall_context \<Rightarrow> syscall_context \<times> sysu256" where
  "store_in_selfbalance_ptr c =
     (case transact_to (tx (ctx_env c)) of
        TransactTo_Call a \<Rightarrow>
          (let (j, i) = get_account (ctx_journal c) a
           in (c\<lparr>ctx_journal := j\<rparr>, halves (info_balance (account_or_default i))))
      | TransactTo_Create \<Rightarrow> (c, halves (info_balance default_info)))"

definition keccak256_hasher ::
  "host \<Rightarrow> syscall_context \<Rightarrow> u32 \<Rightarrow> u32 \<Rightarrow> (syscall_context \<times> sysu256) res" where
  "keccak256_hasher h c off n =
     (let c = map_inner (\<lambda>ic. resize_memory_if_necessary ic (unat off) (unat n)) c
      in and_then (slice (memory (ctx_inner c)) (unat off) (unat off + unat n)) (\<lambda>data.
         Inr (c, from_fixed_be_bytes (word_to_be (keccak256 h data)))))"

definition store_in_callvalue_ptr :: "syscall_context \<Rightarrow> sysu256" where
  "store_in_callvalue_ptr c = halves (tx_value (tx (ctx_env c)))"

definition store_in_blobbasefee_ptr :: "syscall_context \<Rightarrow> u128" where
  "store_in_blobbasefee_ptr c =
     (case blob_gasprice (block (ctx_env c)) of Some p \<Rightarrow> p | None \<Rightarrow> 0)"

definition get_gaslimit :: "syscall_context \<Rightarrow> u64" where
  "get_gaslimit c = gas_limit (tx (ctx_env c))"

definition store_in_caller_ptr :: "syscall_context \<Rightarrow> sysu256" where
  "store_in_caller_ptr c = copy_from (caller (ctx_frame c))"

definition store_in_gasprice_ptr :: "syscall_context \<Rightarrow> sysu256" where
  "store_in_gasprice_ptr c = halves (gas_price (tx (ctx_env c)))"

definition get_chainid :: "syscall_context \<Rightarrow> u64" where
  "get_chainid c = chain_id (cfg (ctx_env c))"

definition get_calldata_size_syscall :: "syscall_context \<Rightarrow> u32" where
  "get_calldata_size_syscall c = of_nat (length (tx_data (tx (ctx_env c))))"

definition get_origin :: "syscall_context \<Rightarrow> sysu256" where
  "get_origin c = copy_from (tx_caller (tx (ctx_env c)))"

text \<open>
  The returned pointer is the length of the buffer it points into: the buffer
  only grows, and a buffer that grew may have moved. \<open>None\<close> is the null pointer.
\<close>

definition extend_memory :: "host \<Rightarrow> syscall_context \<Rightarrow> u32 \<Rightarrow> syscall_context \<times> nat option" where
  "extend_memory h c new_size =
     (let m = memory (ctx_inner c); n = unat new_size
      in if n \<le> length m then (c, Some (length m))
         else if try_reserve h (n - length m)
         then (map_inner (\<lambda>ic. ic\<lparr>memory := m @ replicate (n - length m) 0\<rparr>) c, Some n)
         else (c, None))"

definition copy_code_to_memory ::
  "syscall_context \<Rightarrow> u32 \<Rightarrow> u32 \<Rightarrow> u32 \<Rightarrow> syscall_context res" where
  "copy_code_to_memory c code_offset n dest_offset =
     put_in_memory c (unat dest_offset) (unat code_offset) (unat n) (ic_program (ctx_inner c))"

definition syscall_read_storage ::
  "syscall_context \<Rightarrow> sysu256 \<Rightarrow> syscall_context \<times> sysu256 \<times> u64" where
  "syscall_read_storage c stg_key =
     (let a = this_address c; key = to_primitive_u256 stg_key;
          is_cold = \<not> key_is_warm (ctx_journal c) a key;
          (j, slot) = read_storage (ctx_journal c) a key;
          result = (case slot of Some s \<Rightarrow> present_value s | None \<Rightarrow> 0)
      in (c\<lparr>ctx_journal := j\<rparr>, halves result, if is_cold then gas_SLOAD_COLD else gas_SLOAD_WARM))"

text \<open>The cost and the refund of \<open>write_storage\<close>; the refund is signed.\<close>

definition sstore_cost :: "u256 \<Rightarrow> u256 \<Rightarrow> u256 \<Rightarrow> bool \<Rightarrow> u64" where
  "sstore_cost original current v is_cold =
     (if original = 0 \<and> current = 0 \<and> current \<noteq> v then 20000
      else if original = current \<and> current \<noteq> v then 2900
      else 100) + (if is_cold then 2100 else 0)"

definition sstore_refund :: "u256 \<Rightarrow> u256 \<Rightarrow> u256 \<Rightarrow> int" where
  "sstore_refund original current v =
     (let reset_non_zero_to_zero = original \<noteq> 0 \<and> current \<noteq> 0 \<and> v = 0;
          undo_reset_to_zero = original \<noteq> 0 \<and> current = 0 \<and> v \<noteq> 0;
          undo_reset_to_zero_into_original = undo_reset_to_zero \<and> v = original;
          reset_back_to_zero = original = 0 \<and> current \<noteq> 0 \<and> v = 0;
          reset_to_original = current \<noteq> v \<and> original = v
      in if reset_non_zero_to_zero then 4800
         else if undo_reset_to_zero_into_original then - 2000
         else if undo_reset_to_zero then - 4800
         else if reset_back_to_zero then 19900
         else if reset_to_original then 2800
         else 0)"

definition add_refund :: "u64 \<Rightarrow> int \<Rightarrow> u64" where
  "add_refund g r = (if r > 0 then g + of_int r else saturating_sub g (of_int (- r)))"

definition syscall_write_storage ::
  "syscall_context \<Rightarrow> sysu256 \<Rightarrow> sysu256 \<Rightarrow> (syscall_context \<times> u64) res" where
  "syscall_write_storage c stg_key stg_value =
     (let key = to_primitive_u256 stg_key; v = to_primitive_u256 stg_value
      in case transact_to (tx (ctx_env c)) of
        TransactTo_Create \<Rightarrow> Inr (c, 0)
      | TransactTo_Call a \<Rightarrow>
          (let is_cold = \<not> key_is_warm (ctx_journal c) a key;
               (j, slot) = read_storage (ctx_journal c) a key
           in and_then (write_storage j a key v) (\<lambda>j.
              let (original, current) = (case slot of
                     Some s \<Rightarrow> (original_value s, present_value s) | None \<Rightarrow> (v, v));
                  c = map_inner (\<lambda>ic. ic\<lparr>gas_refund :=
                        add_refund (gas_refund ic) (sstore_refund original current v)\<rparr>)
                        (c\<lparr>ctx_journal := j\<rparr>)
              in Inr (c, sstore_cost original current v is_cold))))"

definition create_log ::
  "syscall_context \<Rightarrow> u32 \<Rightarrow> u32 \<Rightarrow> sysu256 list \<Rightarrow> syscall_context res" where
  "create_log c off n tops =
     (let c = map_inner (\<lambda>ic. resize_memory_if_necessary ic (unat off) (unat n)) c
      in and_then (slice (memory (ctx_inner c)) (unat off) (unat off + unat n)) (\<lambda>data.
         Inr (map_inner (\<lambda>ic. ic\<lparr>ic_logs := ic_logs ic @ [\<lparr>topics = tops, log_bytes = data\<rparr>]\<rparr>) c)))"

definition append_log :: "syscall_context \<Rightarrow> u32 \<Rightarrow> u32 \<Rightarrow> syscall_context res" where
  "append_log c off n = create_log c off n []"

definition append_log_with_one_topic ::
  "syscall_context \<Rightarrow> u32 \<Rightarrow> u32 \<Rightarrow> sysu256 \<Rightarrow> syscall_context res" where
  "append_log_with_one_topic c off n t1 = create_log c off n [t1]"

definition append_log_with_two_topics ::
  "syscall_context \<Rightarrow> u32 \<Rightarrow> u32 \<Rightarrow> sysu256 \<Rightarrow> sysu256 \<Rightarrow> syscall_context res" where
  "append_log_with_two_topics c off n t1 t2 = create_log c off n [t1, t2]"

definition append_log_with_three_topics ::
  "syscall_context \<Rightarrow> u32 \<Rightarrow> u32 \<Rightarrow> sysu256 \<Rightarrow> sysu256 \<Rightarrow> sysu256 \<Rightarrow> syscall_context res" where
  "append_log_with_three_topics c off n t1 t2 t3 = create_log c off n [t1, t2, t3]"

definition append_log_with_four_topics ::
  "syscall_context \<Rightarrow> u32 \<Rightarrow> u32 \<Rightarrow> sysu256 \<Rightarrow> sysu256 \<Rightarrow> sysu256 \<Rightarrow> sysu256 \<Rightarrow> syscall_context res" where
  "append_log_with_four_topics c off n t1 t2 t3 t4 = create_log c off n [t1, t2, t3, t4]"

definition get_block_number :: "syscall_context \<Rightarrow> sysu256" where
  "get_block_number c = halves (number (block (ctx_env c)))"

definition syscall_get_block_hash :: "syscall_context \<Rightarrow> sysu256 \<Rightarrow> syscall_context \<times> sysu256" where
  "syscall_get_block_hash c n =
     (let n = to_primitive_u256 n; current = number (block (ctx_env c))
      in if n < saturating_sub current 256 \<or> n \<ge> current
         then (c, from_fixed_be_bytes (word_to_be (0 :: b256)))
         else let (j, h) = get_block_hash (ctx_journal c) n
              in (c\<lparr>ctx_journal := j\<rparr>, from_fixed_be_bytes (word_to_be h)))"

definition get_codesize_from_address ::
  "syscall_context \<Rightarrow> sysu256 \<Rightarrow> syscall_context \<times> u64 \<times> u64" where
  "get_codesize_from_address c addr =
     (let a = address_from addr;
          is_cold = \<not> account_is_warm (ctx_journal c) a;
          (j, code) = code_by_address (ctx_journal c) a;
          (j, gas) = (if is_cold then (add_account_as_warm j a, gas_EXTCODESIZE_COLD)
                      else (j, gas_EXTCODESIZE_WARM))
      in (c\<lparr>ctx_journal := j\<rparr>, of_nat (length code), gas))"

text \<open>
  \<open>get_address_ptr\<close> returns a pointer into a temporary that is dead when the
  caller reads it; \<open>stale_bytes\<close> says what is found there.
\<close>

definition get_address_ptr :: "host \<Rightarrow> syscall_context \<Rightarrow> bytes" where
  "get_address_ptr h c = stale_bytes h (word_to_be (this_address c))"

definition get_prevrandao :: "syscall_context \<Rightarrow> sysu256" where
  "get_prevrandao c = from_fixed_be_bytes (word_to_be
     (case prevrandao (block (ctx_env c)) of Some r \<Rightarrow> r | None \<Rightarrow> 0))"

definition get_coinbase_ptr :: "syscall_context \<Rightarrow> bytes" where
  "get_coinbase_ptr c = word_to_be (coinbase (block (ctx_env c)))"

definition store_in_timestamp_ptr :: "syscall_context \<Rightarrow> sysu256" where
  "store_in_timestamp_ptr c = halves (timestamp (block (ctx_env c)))"

definition store_in_basefee_ptr :: "syscall_context \<Rightarrow> sysu256" where
  "store_in_basefee_ptr c = halves (basefee (block (ctx_env c)))"

definition store_in_balance :: "syscall_context \<Rightarrow> sysu256 \<Rightarrow> syscall_context \<times> sysu256 \<times> u64" where
  "store_in_balance c addr =
     (if drop_bit 32 (hi addr) \<noteq> 0 then (c, sysu256_zero, gas_BALANCE_COLD)
      else let a = address_from addr;
               is_cold = \<not> account_is_warm (ctx_journal c) a;
               (j, i) = get_account (ctx_journal c) a;
               balance = (case i of Some x \<Rightarrow> halves (info_balance x) | None \<Rightarrow> sysu256_zero);
               (j, gas) = (if is_cold then (add_account_as_warm j a, gas_BALANCE_COLD)
                           else (j, gas_BALANCE_WARM))
           in (c\<lparr>ctx_journal := j\<rparr>, balance, gas))"

definition get_blob_hash_at_index :: "syscall_context \<Rightarrow> sysu256 \<Rightarrow> sysu256" where
  "get_blob_hash_at_index c index =
     (if hi index \<noteq> 0 then sysu256_zero
      else let hs = blob_hashes (tx (ctx_env c)) in
        if unat (lo index) < 2 ^ 64 \<and> unat (lo index) < length hs
        then from_fixed_be_bytes (word_to_be (hs ! unat (lo index)))
        else sysu256_zero)"

definition copy_ext_code_to_memory ::
  "syscall_context \<Rightarrow> sysu256 \<Rightarrow> u32 \<Rightarrow> u32 \<Rightarrow> u32 \<Rightarrow> (syscall_context \<times> u64) res" where
  "copy_ext_code_to_memory c address_value code_offset n dest_offset =
     (let a = address_from address_value;
          (j, code) = code_by_address (ctx_journal c) a;
          code_off = min (unat code_offset) (length code)
      in and_then (put_in_memory (c\<lparr>ctx_journal := j\<rparr>) (unat dest_offset) code_off (unat n) code) (\<lambda>c.
         let is_cold = \<not> account_is_warm (ctx_journal c) a
         in Inr (if is_cold
                 then (c\<lparr>ctx_journal := add_account_as_warm (ctx_journal c) a\<rparr>, gas_EXTCODECOPY_COLD)
                 else (c, gas_EXTCODECOPY_WARM))))"

text \<open>The variable the source calls \<open>is_cold\<close> holds \<open>account_is_warm\<close>.\<close>

definition get_code_hash :: "syscall_context \<Rightarrow> sysu256 \<Rightarrow> syscall_context \<times> sysu256 \<times> u64" where
  "get_code_hash c addr =
     (let a = address_from addr;
          is_cold = account_is_warm (ctx_journal c) a;
          gas_cost = (if is_cold then gas_EXTCODEHASH_COLD else gas_EXTCODEHASH_WARM);
          (j, i) = get_account (ctx_journal c) a;
          (j, hash) = (case i of
              Some x \<Rightarrow> (j, info_code_hash x)
            | None \<Rightarrow> (add_account_as_warm j a, 0))
      in (c\<lparr>ctx_journal := j\<rparr>, from_fixed_be_bytes (word_to_be hash), gas_cost))"

definition selfdestruct :: "syscall_context \<Rightarrow> sysu256 \<Rightarrow> (syscall_context \<times> u64) res" where
  "selfdestruct c receiver =
     (let sender_address = this_address c; receiver_address = address_from receiver;
          (j, i) = get_account (ctx_journal c) sender_address;
          sender_balance = info_balance (account_or_default i);
          (j, r) = get_account j receiver_address
      in and_then (case r of
           Some x \<Rightarrow> (case checked_add (info_balance x) sender_balance of
               None \<Rightarrow> Inl Panic
             | Some new_balance \<Rightarrow> Inr (set_balance j receiver_address new_balance, info_is_empty x))
         | None \<Rightarrow> Inr (new_account j receiver_address sender_balance, True)) (\<lambda>(j, receiver_is_empty).
         let j = set_balance j sender_address 0;
             (j, s) = get_account j sender_address;
             j = (if s \<noteq> None then set_status j sender_address SelfDestructed else j)
         in Inr (c\<lparr>ctx_journal := j\<rparr>,
              if sender_balance \<noteq> 0 \<and> receiver_is_empty then gas_SELFDESTRUCT_DYNAMIC_GAS else 0)))"

definition read_transient_storage :: "syscall_context \<Rightarrow> sysu256 \<Rightarrow> sysu256" where
  "read_transient_storage c stg_key =
     halves (case transient_storage c (this_address c, to_primitive_u256 stg_key) of
               Some v \<Rightarrow> v | None \<Rightarrow> 0)"

definition write_transient_storage :: "syscall_context \<Rightarrow> sysu256 \<Rightarrow> sysu256 \<Rightarrow> syscall_context" where
  "write_transient_storage c stg_key stg_value =
     c\<lparr>transient_storage := (transient_storage c)
        ((this_address c, to_primitive_u256 stg_key) \<mapsto> to_primitive_u256 stg_value)\<rparr>"

section \<open>Calls\<close>

text \<open>
  \<open>exec p c gas\<close> compiles the program and runs it in the context with the given
  gas: \<open>Context::compile\<close>, \<open>Executor::new\<close> and \<open>Executor::execute\<close>.
\<close>

type_synonym executor = "program \<Rightarrow> syscall_context \<Rightarrow> u64 \<Rightarrow> syscall_context res"

text \<open>How a call ended: the context, the return code, the consumed gas and,
  unless the handler returned early, the data the callee returned.\<close>

record call_outcome =
  out_ctx :: syscall_context
  out_code :: u8
  out_gas :: u64
  out_data :: "bytes option"

definition early :: "syscall_context \<Rightarrow> u8 \<Rightarrow> u64 \<Rightarrow> call_outcome res" where
  "early c code gas = Inr \<lparr>out_ctx = c, out_code = code, out_gas = gas, out_data = None\<rparr>"

text \<open>The transfer of a call with value: the caller's and the callee's accounts as they were
  loaded, before either balance changed.\<close>

definition transfer ::
  "journal \<Rightarrow> address \<Rightarrow> account_info \<Rightarrow> address \<Rightarrow> account_info \<Rightarrow> u256 \<Rightarrow> journal res" where
  "transfer j caller_address caller_account callee_address callee_account v =
     (let j = set_balance j caller_address (info_balance caller_account - v)
      in case checked_add (info_balance callee_account) v of
           None \<Rightarrow> Inl Panic
         | Some b \<Rightarrow> Inr (set_balance j callee_address b))"

definition call_env ::
  "syscall_context \<Rightarrow> call_type \<Rightarrow> address \<Rightarrow> u256 \<Rightarrow> u64 \<Rightarrow> bytes \<Rightarrow> address \<times> env" where
  "call_env c ct callee_address v gas_to_send calldata =
     (let this = this_address c;
          (new_frame_caller, new_value, to) = (case ct of
              Call_Call \<Rightarrow> (this, v, callee_address)
            | Call_StaticCall \<Rightarrow> (this, v, callee_address)
            | Call_CallCode \<Rightarrow> (this, v, this)
            | Call_DelegateCall \<Rightarrow> (caller (ctx_frame c), tx_value (tx (ctx_env c)), this));
          e = ctx_env c
      in (new_frame_caller, e\<lparr>tx := (tx e)\<lparr>tx_value := new_value,
            transact_to := TransactTo_Call to, gas_limit := gas_to_send, tx_data := calldata\<rparr>\<rparr>))"

text \<open>The part of \<open>call\<close> that runs the callee, from \<open>Program::from_bytecode\<close> on.\<close>

definition run_callee ::
  "executor \<Rightarrow> syscall_context \<Rightarrow> call_type \<Rightarrow> address \<Rightarrow> u256 \<Rightarrow> u64 \<Rightarrow> u64 \<Rightarrow> bytes \<Rightarrow>
   call_outcome res" where
  "run_callee exec c ct callee_address v gas_to_send consumed calldata =
     (let (frame_caller, e) = call_env c ct callee_address v gas_to_send calldata;
          (j, bytecode) = code_by_address (ctx_journal c) callee_address
      in and_then (from_bytecode bytecode) (\<lambda>p.
         let is_static = ctx_is_static (ctx_frame c) \<or> ct = Call_StaticCall;
             frame = \<lparr>caller = frame_caller, ctx_is_static = is_static, last_call_return_data = []\<rparr>;
             (own, ejected) = eject_base j
         in and_then (exec p (syscall_context_new e ejected frame gas_to_send) gas_to_send) (\<lambda>callee.
            let result = res_result (get_result callee);
                unused_gas = gas_to_send - gas_used result;
                consumed = consumed - unused_gas - gas_refunded result;
                (j, code) = (if is_success result
                   then (extend_from_successful own (ctx_journal callee), SUCCESS_RETURN_CODE)
                   else (extend_from_reverted own (ctx_journal callee), REVERT_RETURN_CODE));
                data = (case into_output result of Some d \<Rightarrow> d | None \<Rightarrow> [])
            in Inr \<lparr>out_ctx = c\<lparr>ctx_journal := j\<rparr>, out_code = code, out_gas = consumed,
                    out_data = Some data\<rparr>)))"

text \<open>The branch of \<open>call\<close> that is no precompile.\<close>

definition call_contract ::
  "executor \<Rightarrow> syscall_context \<Rightarrow> u64 \<Rightarrow> address \<Rightarrow> u256 \<Rightarrow> u64 \<Rightarrow> u8 \<Rightarrow> bytes \<Rightarrow>
   call_outcome res" where
  "call_contract exec c gas_to_send callee_address v available_gas ct_byte calldata =
     (case call_type_try_from ct_byte of
        None \<Rightarrow> Inl Panic
      | Some ct \<Rightarrow>
        (let (j, callee_info) = get_account (ctx_journal c) callee_address
         in case callee_info of
              None \<Rightarrow> early (c\<lparr>ctx_journal := j\<rparr>) REVERT_RETURN_CODE 0
            | Some callee_account \<Rightarrow>
              (let is_cold = \<not> account_is_warm j callee_address;
                   (j, consumed) = (if is_cold then (add_account_as_warm j callee_address, gas_CALL_COLD)
                                    else (j, gas_CALL_WARM));
                   caller_address = this_address c;
                   (j, caller_info) = get_account j caller_address;
                   caller_account = account_or_default caller_info;
                   c = c\<lparr>ctx_journal := j\<rparr>
               in if v \<noteq> 0 \<and> info_balance caller_account < v
                  then early c REVERT_RETURN_CODE consumed
                  else let consumed = (if v = 0 then consumed
                         else consumed + NOT_ZERO_VALUE_COST +
                              (if info_is_empty callee_account then EMPTY_CALLEE_COST else 0))
                  in if v \<noteq> 0 \<and> available_gas < consumed
                  then early (c\<lparr>ctx_halt_reason := Some (OutOfGas OOG_Basic)\<rparr>) HALT_RETURN_CODE consumed
                  else and_then (if v = 0 then Inr j
                         else transfer j caller_address caller_account callee_address callee_account v)
                    (\<lambda>j.
                    let stipend = (if v = 0 then 0 else STIPEND_GAS_ADDITION);
                        remaining_gas = saturating_sub available_gas consumed;
                        sent = min (remaining_gas div GAS_CAP_DIVISION_FACTOR) gas_to_send;
                        consumed = consumed + sent
                    in run_callee exec (c\<lparr>ctx_journal := j\<rparr>) ct callee_address v (sent + stipend)
                         consumed calldata))))"

text \<open>What \<open>call\<close> does with the callee's data.\<close>

definition finish_call ::
  "call_outcome \<Rightarrow> u32 \<Rightarrow> u32 \<Rightarrow> (syscall_context \<times> u64 \<times> u8) res" where
  "finish_call r ret_offset ret_size =
     (case out_data r of
        None \<Rightarrow> Inr (out_ctx r, out_gas r, out_code r)
      | Some data \<Rightarrow>
          (let c = (out_ctx r)\<lparr>ctx_frame := (ctx_frame (out_ctx r))\<lparr>last_call_return_data := data\<rparr>\<rparr>
           in if out_code r = SUCCESS_RETURN_CODE
              then and_then (put_in_memory c (unat ret_offset) 0 (unat ret_size) data)
                     (\<lambda>c. Inr (c, out_gas r, out_code r))
              else Inr (c, out_gas r, out_code r)))"

text \<open>
  \<open>call\<close>: the result is the context, what \<open>consumed_gas\<close> points to (which keeps its
  value, or stays uninitialized, \<open>None\<close>, when the arguments are out of the memory)
  and the return code.
\<close>

definition syscall_call ::
  "host \<Rightarrow> executor \<Rightarrow> syscall_context \<Rightarrow> u64 \<Rightarrow> sysu256 \<Rightarrow> sysu256 \<Rightarrow> u32 \<Rightarrow> u32 \<Rightarrow> u32 \<Rightarrow> u32 \<Rightarrow>
   u64 \<Rightarrow> u64 option \<Rightarrow> u8 \<Rightarrow> (syscall_context \<times> u64 option \<times> u8) res" where
  "syscall_call h exec c gas_to_send call_to_address value_to_transfer args_offset args_size
     ret_offset ret_size available_gas consumed_gas ct_byte =
     (let callee_address = address_from call_to_address;
          off = unat args_offset; n = unat args_size; m = memory (ctx_inner c)
      in if off + n > length m
         then Inr (c\<lparr>ctx_halt_reason := Some OutOfOffset\<rparr>, consumed_gas, HALT_RETURN_CODE)
         else and_then (slice m off (off + n)) (\<lambda>calldata.
         and_then (if is_precompile callee_address
             then and_then (execute_precompile h callee_address calldata gas_to_send gas_CALL_WARM)
               (\<lambda>(code, out, consumed). Inr \<lparr>out_ctx = c, out_code = code, out_gas = consumed,
                  out_data = Some out\<rparr>)
             else call_contract exec c gas_to_send callee_address
                    (to_primitive_u256 value_to_transfer) available_gas ct_byte calldata)
           (\<lambda>r. and_then (finish_call r ret_offset ret_size) (\<lambda>(c, gas, code).
              Inr (c, Some gas, code)))))"

section \<open>Contract creation\<close>

text \<open>
  The destination address and the hash cost; \<open>None\<close> is the nonce overflow that
  halts the creation.
\<close>

definition create_address ::
  "host \<Rightarrow> address \<Rightarrow> account_info \<Rightarrow> bytes \<Rightarrow> u64 \<Rightarrow> sysu256 option \<Rightarrow> (address \<times> u64) option" where
  "create_address h sender_address sender_account init_code minimum_word_size salt =
     (case salt of
        Some s \<Rightarrow> Some (compute_contract_address2 (keccak256 h) sender_address
                     (to_primitive_u256 s) init_code, minimum_word_size * gas_HASH_WORD_COST)
      | None \<Rightarrow>
          if checked_add (info_nonce sender_account) 1 = None then None
          else Some (compute_contract_address (keccak256 h) sender_address
                 (info_nonce sender_account), 0))"

text \<open>The result of a creation: the context, what is written to \<open>value\<close> and to
  \<open>remaining_gas\<close>, and the return code.\<close>

type_synonym create_outcome = "syscall_context \<times> sysu256 \<times> u64 \<times> u8"

definition create_halt ::
  "syscall_context \<Rightarrow> halt_reason \<Rightarrow> sysu256 \<Rightarrow> u64 \<Rightarrow> create_outcome" where
  "create_halt c reason v gas = (c\<lparr>ctx_halt_reason := Some reason\<rparr>, v, gas, HALT_RETURN_CODE)"

text \<open>The end of \<open>create_aux\<close>, after the initialization code has run.\<close>

definition finish_create ::
  "host \<Rightarrow> syscall_context \<Rightarrow> u32 \<Rightarrow> sysu256 \<Rightarrow> u64 \<Rightarrow> u32 \<Rightarrow> address \<Rightarrow> account_info \<Rightarrow> address \<Rightarrow>
   bytes \<Rightarrow> create_outcome" where
  "finish_create h c off v gas program_len sender_address sender_account dest_addr bytecode =
     (let vv = to_primitive_u256 v in
      case checked_sub (info_balance sender_account) vv of
        None \<Rightarrow> (write_result c off program_len gas SUCCESS_RETURN_CODE, sysu256_zero, gas,
                 SUCCESS_RETURN_CODE)
      | Some sender_balance \<Rightarrow>
          (let c = c\<lparr>ctx_journal := new_contract (keccak256 h) (ctx_journal c) dest_addr bytecode vv\<rparr>
           in case checked_add (info_nonce sender_account) 1 of
                None \<Rightarrow> create_halt c NonceOverflow v gas
              | Some new_nonce \<Rightarrow>
                  (let j = set_balance (set_nonce (ctx_journal c) sender_address new_nonce)
                             sender_address sender_balance
                   in (write_result (c\<lparr>ctx_journal := j\<rparr>) off program_len gas SUCCESS_RETURN_CODE,
                       copy_from dest_addr, gas, SUCCESS_RETURN_CODE))))"

text \<open>Running the initialization code in a subcontext.\<close>

definition run_init_code ::
  "host \<Rightarrow> executor \<Rightarrow> syscall_context \<Rightarrow> u32 \<Rightarrow> nat \<Rightarrow> sysu256 \<Rightarrow> u64 \<Rightarrow> program \<Rightarrow> bytes \<Rightarrow>
   address \<Rightarrow> account_info \<Rightarrow> address \<Rightarrow> u64 \<Rightarrow> create_outcome res" where
  "run_init_code h exec c off minimum_word_size v remaining_gas p code sender_address sender_account
     dest_addr hash_cost =
     (let e = ctx_env c;
          new_env = e\<lparr>tx := (tx e)\<lparr>transact_to := TransactTo_Call dest_addr,
                      gas_limit := remaining_gas\<rparr>\<rparr>;
          (own, ejected) = eject_base (ctx_journal c);
          sub = syscall_context_new new_env
                  (new_account ejected dest_addr (to_primitive_u256 v))
                  (call_frame_new sender_address) remaining_gas;
          sub = map_inner (\<lambda>ic. ic\<lparr>ic_program := code\<rparr>) sub
      in and_then (exec p sub remaining_gas) (\<lambda>sub.
         let result = res_result (get_result sub);
             bytecode = (case result_output result of Some b \<Rightarrow> b | None \<Rightarrow> []);
             c = c\<lparr>ctx_journal := extend_from_successful own (ctx_journal sub)\<rparr>;
             init_cost = of_nat minimum_word_size * gas_INIT_WORD_COST;
             code_deposit_cost = of_nat (length bytecode) * gas_BYTE_DEPOSIT_COST;
             gas = init_cost + code_deposit_cost + hash_cost + gas_used result - gas_refunded result
         in Inr (finish_create h c off v gas (of_nat (length code)) sender_address sender_account
                   dest_addr bytecode)))"

definition create_aux ::
  "host \<Rightarrow> executor \<Rightarrow> syscall_context \<Rightarrow> u32 \<Rightarrow> u32 \<Rightarrow> sysu256 \<Rightarrow> u64 \<Rightarrow> sysu256 option \<Rightarrow>
   create_outcome res" where
  "create_aux h exec c n off v remaining_gas salt =
     (let minimum_word_size = (unat n + 31) div 32; sender_address = this_address c
      in if unat n > MAX_CODE_SIZE * 2
         then Inr (create_halt c CreateContractSizeLimit v remaining_gas)
         else let c = map_inner (\<lambda>ic. resize_memory_if_necessary ic (unat off) (unat n)) c
         in and_then (slice (memory (ctx_inner c)) (unat off) (unat off + unat n)) (\<lambda>init_code.
            and_then (from_bytecode init_code) (\<lambda>p.
            and_then (to_bytecode p) (\<lambda>code.
            if ic_program (ctx_inner c) = code
            then Inr (create_halt c (OutOfGas OOG_RecursiveCreate) v remaining_gas)
            else let (j, sender_info) = get_account (ctx_journal c) sender_address;
                     c = c\<lparr>ctx_journal := j\<rparr>
            in case sender_info of
                 None \<Rightarrow> Inl Panic
               | Some sender_account \<Rightarrow>
                 (case create_address h sender_address sender_account init_code
                         (of_nat minimum_word_size) salt of
                    None \<Rightarrow> Inr (create_halt c NonceOverflow v remaining_gas)
                  | Some (dest_addr, hash_cost) \<Rightarrow>
                    (let (j, dest) = get_account (ctx_journal c) dest_addr;
                         c = c\<lparr>ctx_journal := j\<rparr>
                     in if dest \<noteq> None then Inr (create_halt c CreateCollision v remaining_gas)
                        else run_init_code h exec
                               (c\<lparr>ctx_journal := add_account_as_warm j dest_addr\<rparr>) off
                               minimum_word_size v remaining_gas p code sender_address
                               sender_account dest_addr hash_cost))))))"

definition create ::
  "host \<Rightarrow> executor \<Rightarrow> syscall_context \<Rightarrow> u32 \<Rightarrow> u32 \<Rightarrow> sysu256 \<Rightarrow> u64 \<Rightarrow> create_outcome res" where
  "create h exec c n off v remaining_gas = create_aux h exec c n off v remaining_gas None"

definition create2 ::
  "host \<Rightarrow> executor \<Rightarrow> syscall_context \<Rightarrow> u32 \<Rightarrow> u32 \<Rightarrow> sysu256 \<Rightarrow> u64 \<Rightarrow> sysu256 \<Rightarrow>
   create_outcome res" where
  "create2 h exec c n off v remaining_gas salt =
     create_aux h exec c n off v remaining_gas (Some salt)"

section \<open>Facts on the 256-bit layout\<close>

lemma unat_halves: "unat (lo (halves x)) = unat x mod 2 ^ 128" "unat (hi (halves x)) = unat x div 2 ^ 128"
proof -
  have "unat x < 2 ^ 256" using unat_less_pow [of x] by simp
  then have "unat x div 2 ^ 128 < 2 ^ 128" by (simp add: less_mult_imp_div_less)
  then show "unat (lo (halves x)) = unat x mod 2 ^ 128" "unat (hi (halves x)) = unat x div 2 ^ 128"
    by (simp_all add: halves_def unsigned_ucast_eq take_bit_eq_mod drop_bit_eq_div unat_div)
qed

lemma unat_to_primitive: "unat (to_primitive_u256 v) = unat (hi v) * 2 ^ 128 + unat (lo v)"
proof -
  have b: "unat (hi v) < 2 ^ 128" "unat (lo v) < 2 ^ 128"
    using unat_less_pow [of "hi v"] unat_less_pow [of "lo v"] by simp_all
  then have "unat (hi v) * 2 ^ 128 + unat (lo v) < 2 ^ 256" by simp
  then show ?thesis
    using b by (simp add: to_primitive_u256_def unat_word_ariths push_bit_eq_mult unat_ucast_up)
qed

lemma to_primitive_halves [simp]: "to_primitive_u256 (halves x) = x"
  by (simp add: word_unat_eq_iff unat_to_primitive unat_halves mult.commute)

lemma halves_to_primitive [simp]: "halves (to_primitive_u256 v) = v"
proof (rule sysu256.equality)
  have b: "unat (lo v) < 2 ^ 128" using unat_less_pow [of "lo v"] by simp
  show "lo (halves (to_primitive_u256 v)) = lo v" "hi (halves (to_primitive_u256 v)) = hi v"
    using b by (simp_all add: word_unat_eq_iff unat_halves unat_to_primitive)
qed simp

lemma from_fixed_be_bytes_word: "from_fixed_be_bytes (word_to_be (x :: u256)) = halves x"
proof (rule sysu256.equality)
  have lt: "unat x < 2 ^ 256" using unat_less_pow [of x] by simp
  have w: "word_to_be x = nat_to_be 16 (unat x div 256 ^ 16) @ nat_to_be 16 (unat x)"
    using nat_to_be_split [of 16 16 "unat x"] by (simp add: word_to_be_def)
  have "unat x div 256 ^ 16 < 256 ^ 16" using lt by (simp add: less_mult_imp_div_less)
  then show "lo (from_fixed_be_bytes (word_to_be x)) = lo (halves x)"
    "hi (from_fixed_be_bytes (word_to_be x)) = hi (halves x)"
    by (simp_all add: from_fixed_be_bytes_def w word_from_be_def be_nat_to_be word_unat_eq_iff
        unat_halves unat_of_nat)
qed simp

lemma copy_from_eq: "copy_from a = halves (ucast a)"
proof -
  have "word_to_be (ucast a :: u256) = replicate 12 0 @ word_to_be a"
    using nat_to_be_pad [of "unat a" 20 32] unat_less_pow [of a]
    by (simp add: word_to_be_def unat_ucast_up)
  then show ?thesis by (metis copy_from_def from_fixed_be_bytes_word)
qed

lemma address_from_halves: "address_from (halves x) = ucast x"
proof -
  have "drop 12 (nat_to_be 16 n) = nat_to_be 4 n" for n
    using nat_to_be_split [of 12 4 n] by simp
  moreover have "nat_to_be 20 (unat x) = nat_to_be 4 (unat x div 256 ^ 16) @ nat_to_be 16 (unat x)"
    using nat_to_be_split [of 4 16 "unat x"] by simp
  moreover have "nat_to_be 16 (unat x mod 2 ^ 128) = nat_to_be 16 (unat x)"
    using be_nat_to_be [of 16 "unat x mod 2 ^ 128"] be_nat_to_be [of 16 "unat x"]
    by (intro be_nat_inject [THEN iffD1]) simp_all
  ultimately have "drop 12 (word_to_be (hi (halves x))) @ word_to_be (lo (halves x)) = nat_to_be 20 (unat x)"
    by (simp add: word_to_be_def unat_halves)
  then show ?thesis
    by (simp add: address_from_def word_from_be_def be_nat_to_be word_unat_eq_iff unat_of_nat
        unsigned_ucast_eq take_bit_eq_mod)
qed

section \<open>Facts on the memory\<close>

lemma memory_resize [simp]:
  "memory (resize_memory_if_necessary ic off n) =
     memory ic @ replicate (off + n - length (memory ic)) 0"
  by (simp add: resize_memory_if_necessary_def)

lemma set_value_to_memory_ok:
  assumes "memory_offset + sz \<le> length (memory ic)"
  shows "set_value_to_memory ic memory_offset value_offset sz v =
    Inr (ic\<lparr>memory := take memory_offset (memory ic) @ right_pad (take sz (drop value_offset v)) sz @
              drop (memory_offset + sz) (memory ic)\<rparr>)"
proof (cases "length v \<le> value_offset")
  case True
  then show ?thesis using assms
    by (simp add: set_value_to_memory_def write_memory_def splice_Inr right_pad_def)
next
  case False
  define k where "k = min (length v - value_offset) sz"
  have k: "min (length v) (value_offset + sz) - value_offset = k" "k \<le> sz"
    using False by (simp_all add: k_def)
  define D where "D = take sz (drop value_offset v)"
  have data: "take k (drop value_offset v) = D" and len: "length D = k"
    by (simp_all add: D_def k_def min_def)
  have "set_value_to_memory ic memory_offset value_offset sz v =
      and_then (write_memory ic memory_offset D)
        (\<lambda>ic. write_memory ic (memory_offset + k) (replicate (sz - k) 0))"
    using False k(1) data by (simp add: set_value_to_memory_def slice_def Let_def)
  also have "\<dots> = Inr (ic\<lparr>memory := take memory_offset (memory ic) @ D @ replicate (sz - k) 0 @
      drop (memory_offset + sz) (memory ic)\<rparr>)"
    using assms k(2) len by (simp add: write_memory_def splice_Inr add.commute)
  also have "D @ replicate (sz - k) 0 @ drop (memory_offset + sz) (memory ic) =
      right_pad D sz @ drop (memory_offset + sz) (memory ic)"
    using k(2) len by (simp add: right_pad_def)
  finally show ?thesis by (simp add: D_def)
qed

lemma put_in_memory_ok:
  "put_in_memory c dest off n data =
     Inr (map_inner (\<lambda>ic. let m = memory ic @ replicate (dest + n - length (memory ic)) 0
       in ic\<lparr>memory := take dest m @ right_pad (take n (drop off data)) n @ drop (dest + n) m\<rparr>) c)"
proof -
  let ?ic = "resize_memory_if_necessary (ctx_inner c) dest n"
  have "?ic\<lparr>memory := m\<rparr> = (ctx_inner c)\<lparr>memory := m\<rparr>" for m
    by (simp add: resize_memory_if_necessary_def)
  then show ?thesis
    by (simp add: put_in_memory_def set_value_to_memory_ok Let_def)
qed


definition copied :: "nat \<Rightarrow> nat \<Rightarrow> bytes \<Rightarrow> bytes" where
  "copied n off data = right_pad (take n (drop off data)) n"

lemma length_copied [simp]: "length (copied n off data) = n"
  by (simp add: copied_def)

lemma nth_copied:
  assumes "i < n"
  shows "copied n off data ! i = (if off + i < length data then data ! (off + i) else 0)"
proof -
  have "length (take n (drop off data)) \<le> n" by simp
  then have "copied n off data =
      take n (drop off data) @ replicate (n - length (take n (drop off data))) 0"
    by (auto simp: copied_def right_pad_def)
  then show ?thesis
    using assms by (auto simp: nth_append less_diff_conv add.commute)
qed

lemma put_in_memory_memory:
  assumes "put_in_memory c dest off n data = Inr c'"
  shows "splice (memory (ctx_inner c) @ replicate (dest + n - length (memory (ctx_inner c))) 0)
           dest (copied n off data) = Inr (memory (ctx_inner c'))"
  using assms by (auto simp: put_in_memory_ok splice_def Let_def simp flip: copied_def)

section \<open>Properties\<close>

text \<open>The two-halves layout loses nothing: a 256-bit value survives the trip to a
  system call and back, in both directions, and so does an address.\<close>

theorem sysu256_round_trip:
  "to_primitive_u256 (halves x) = x \<and> halves (to_primitive_u256 v) = v \<and>
   from_fixed_be_bytes (word_to_be x) = halves x \<and> address_from (copy_from a) = a"
proof -
  have "(ucast (ucast a :: u256) :: address) = a" by (rule bit_word_eqI) (simp add: bit_simps)
  then show ?thesis by (simp add: from_fixed_be_bytes_word copy_from_eq address_from_halves)
qed

text \<open>Copying code, return data or call output into memory never panics. The memory grows
  to hold the destination, the destination holds the data from the given offset with zeros after
  its end, and every other byte keeps its value.\<close>

theorem put_in_memory_spec:
  "\<exists>c'. put_in_memory c dest off n data = Inr c' \<and>
     length (memory (ctx_inner c')) = max (length (memory (ctx_inner c))) (dest + n) \<and>
     (\<forall>i < length (memory (ctx_inner c')). memory (ctx_inner c') ! i =
        (if dest \<le> i \<and> i < dest + n
         then (if off + (i - dest) < length data then data ! (off + (i - dest)) else 0)
         else if i < length (memory (ctx_inner c)) then memory (ctx_inner c) ! i else 0))"
proof -
  define m where "m = memory (ctx_inner c)"
  define m' where "m' = m @ replicate (dest + n - length m) 0"
  obtain c' where c': "put_in_memory c dest off n data = Inr c'"
    by (simp add: put_in_memory_ok)
  have s: "splice m' dest (copied n off data) = Inr (memory (ctx_inner c'))"
    using put_in_memory_memory [OF c'] by (simp add: m_def m'_def)
  have len: "length (memory (ctx_inner c')) = max (length m) (dest + n)"
    using length_splice [OF s] by (simp add: m'_def)
  show ?thesis
    using c' len nth_splice [OF s]
    by (intro exI [of _ c']) (auto simp: m'_def nth_append nth_copied simp flip: m_def)
qed

text \<open>A context over an empty database, for the witnesses.\<close>

definition sample_ctx :: syscall_context where
  "sample_ctx = syscall_context_new env_default (journal_new db_new) (call_frame_new 0) 1000"

text \<open>The rules of EIP-2200 with the refunds of EIP-3529, as the proposals state them.\<close>

definition eip_sstore_cost :: "u256 \<Rightarrow> u256 \<Rightarrow> u256 \<Rightarrow> bool \<Rightarrow> nat" where
  "eip_sstore_cost original current new cold =
     (if cold then 2100 else 0) +
     (if current = new then 100
      else if original = current then (if original = 0 then 20000 else 2900)
      else 100)"

definition eip_sstore_refund :: "u256 \<Rightarrow> u256 \<Rightarrow> u256 \<Rightarrow> int" where
  "eip_sstore_refund original current new =
     (if current = new then 0
      else if original = current then (if original \<noteq> 0 \<and> new = 0 then 4800 else 0)
      else (if original \<noteq> 0 then (if current = 0 then - 4800 else if new = 0 then 4800 else 0) else 0) +
           (if original = new then (if original = 0 then 19900 else 2800) else 0))"

text \<open>C35: the price and the refund of a storage write are those of EIP-2200 with the
  refunds of EIP-3529, for every original, current and new value.\<close>

theorem sstore_gas_eip:
  "unat (sstore_cost original current new cold) = eip_sstore_cost original current new cold \<and>
   sstore_refund original current new = eip_sstore_refund original current new"
  by (simp add: sstore_cost_def eip_sstore_cost_def sstore_refund_def eip_sstore_refund_def Let_def)

lemma gas_used_le: "unat (gas_used (res_result (get_result c))) \<le> unat (ctx_initial_gas c)"
  by (simp add: get_result_def Let_def saturating_sub_le unat_saturating_sub
      split: exit_status_code.splits)

lemma gas_refunded_le:
  "unat (gas_refunded (res_result (get_result c))) \<le> unat (gas_used (res_result (get_result c))) div 5"
proof -
  have "unat (min a (b div 5)) \<le> unat b div 5" for a b :: u64
    by (simp add: min_def word_le_nat_alt unat_div)
  then show ?thesis
    by (simp add: get_result_def Let_def GAS_REFUND_DENOMINATOR_def split: exit_status_code.splits)
qed

text \<open>The reported gas never exceeds the initial gas, the refund never exceeds a fifth
  of the gas used, and only a successful result refunds gas or has logs.\<close>

theorem get_result_gas:
  "let r = res_result (get_result c) in
   unat (gas_used r) \<le> unat (ctx_initial_gas c) \<and>
   unat (gas_refunded r) \<le> unat (gas_used r) div 5 \<and>
   (is_success r \<or> gas_refunded r = 0 \<and> result_logs r = [])"
  using gas_used_le [of c] gas_refunded_le [of c] refund_only_on_success by (auto simp: Let_def)

end
