(* ===== verification/Machine.thy ===== *)
theory Machine
  imports Syscall
begin

text \<open>
  The machine that the generated code runs on: the globals of the compiled
  module (gas counter, stack, memory, call data) beside the context of the
  running contract, and the code fragments of \<open>src/utils\<close> that every operation
  is put together from.

  A fragment takes the machine and returns it updated; a fragment that branches
  takes what follows as a continuation. A block of an operation ends by falling
  through to the next operation, by branching to the revert block or to the jump
  table, or by returning from the main function.
\<close>

section \<open>Machine state\<close>

text \<open>
  The stack is an array of \<open>MAX_STACK_SIZE\<close> cells; \<open>stack_ptr\<close> is the distance of the
  stack pointer to the base, in cells. \<open>memory_ptr\<close> identifies a buffer by its length: the buffer of
  the context only grows, so a pointer is into the current buffer just when the
  lengths agree. \<open>None\<close> is a pointer that was never set, or null.
\<close>

record mstate =
  gas_counter :: u64
  stack_cells :: "nat \<Rightarrow> u256"
  stack_ptr :: nat
  memory_ptr :: "nat option"
  memory_size :: u32
  calldata_size :: u32
  m_ctx :: syscall_context

datatype flow = Next | To_revert | To_jumptable u256 | Returned u8

type_synonym step = "(mstate \<times> flow) res"

abbreviation m_memory :: "mstate \<Rightarrow> bytes" where
  "m_memory m \<equiv> memory (ctx_inner (m_ctx m))"

abbreviation m_calldata :: "mstate \<Rightarrow> bytes" where
  "m_calldata m \<equiv> tx_data (tx (ctx_env (m_ctx m)))"

abbreviation revert :: "mstate \<Rightarrow> step" where
  "revert m \<equiv> Inr (m, To_revert)"

abbreviation cond_br :: "bool \<Rightarrow> (mstate \<Rightarrow> step) \<Rightarrow> mstate \<Rightarrow> step" where
  "cond_br b ok_block m \<equiv> (if b then ok_block m else revert m)"

section \<open>Gas\<close>

definition get_remaining_gas :: "mstate \<Rightarrow> u64" where
  "get_remaining_gas m = gas_counter m"

text \<open>The comparison is signed (\<open>Sge\<close>), and the counter is stored in any case.\<close>

definition consume_gas :: "mstate \<Rightarrow> u64 \<Rightarrow> mstate \<times> bool" where
  "consume_gas m amount =
     (m\<lparr>gas_counter := gas_counter m - amount\<rparr>, sint (gas_counter m) \<ge> sint amount)"

definition consume_gas_as_value :: "mstate \<Rightarrow> u64 \<Rightarrow> mstate \<times> bool" where
  "consume_gas_as_value m gas_value =
     (m\<lparr>gas_counter := gas_counter m - gas_value\<rparr>, sint (gas_counter m) \<ge> sint gas_value)"

definition compute_log_dynamic_gas :: "u8 \<Rightarrow> u256 \<Rightarrow> u64" where
  "compute_log_dynamic_gas n sz = ucast (ucast n * 375 + sz * 8)"

section \<open>Stack\<close>

text \<open>A load or a store outside the cells is undefined.\<close>

definition inc_stack_pointer :: "mstate \<Rightarrow> mstate" where
  "inc_stack_pointer m = m\<lparr>stack_ptr := stack_ptr m + 1\<rparr>"

definition store_cell :: "mstate \<Rightarrow> nat \<Rightarrow> u256 \<Rightarrow> mstate res" where
  "store_cell m i v =
     (if i < MAX_STACK_SIZE then Inr (m\<lparr>stack_cells := (stack_cells m)(i := v)\<rparr>)
      else Inl Undefined_Behaviour)"

definition stack_pop :: "mstate \<Rightarrow> (mstate \<times> u256) res" where
  "stack_pop m =
     (if 0 < stack_ptr m \<and> stack_ptr m \<le> MAX_STACK_SIZE
      then Inr (m\<lparr>stack_ptr := stack_ptr m - 1\<rparr>, stack_cells m (stack_ptr m - 1))
      else Inl Undefined_Behaviour)"

definition stack_push :: "mstate \<Rightarrow> u256 \<Rightarrow> mstate res" where
  "stack_push m v = and_then (store_cell m (stack_ptr m) v) (\<lambda>m. Inr (inc_stack_pointer m))"

definition get_nth_from_stack :: "mstate \<Rightarrow> nat \<Rightarrow> (u256 \<times> nat) res" where
  "get_nth_from_stack m n =
     (if n \<le> stack_ptr m \<and> stack_ptr m - n < MAX_STACK_SIZE
      then Inr (stack_cells m (stack_ptr m - n), stack_ptr m - n)
      else Inl Undefined_Behaviour)"

definition swap_stack_elements :: "mstate \<Rightarrow> nat \<Rightarrow> nat \<Rightarrow> mstate res" where
  "swap_stack_elements m position_1 position_2 =
     and_then (get_nth_from_stack m position_1) (\<lambda>(first_element, first_elem_address).
     and_then (get_nth_from_stack m position_2) (\<lambda>(nth_element, nth_elem_address).
     and_then (store_cell m nth_elem_address first_element) (\<lambda>m.
     store_cell m first_elem_address nth_element)))"

definition check_stack_has_space_for :: "mstate \<Rightarrow> nat \<Rightarrow> bool" where
  "check_stack_has_space_for m element_count \<longleftrightarrow> stack_ptr m + element_count \<le> MAX_STACK_SIZE"

definition check_stack_has_at_least :: "mstate \<Rightarrow> nat \<Rightarrow> bool" where
  "check_stack_has_at_least m element_count \<longleftrightarrow> element_count \<le> stack_ptr m"

text \<open>A pop followed by the rest of a block, and the push that ends a block.\<close>

definition pop :: "mstate \<Rightarrow> (u256 \<Rightarrow> mstate \<Rightarrow> step) \<Rightarrow> step" where
  "pop m k = and_then (stack_pop m) (\<lambda>(m, x). k x m)"

definition push_next :: "mstate \<Rightarrow> u256 \<Rightarrow> step" where
  "push_next m v = and_then (stack_push m v) (\<lambda>m. Inr (m, Next))"

section \<open>Memory\<close>

definition compute_memory_cost :: "u32 \<Rightarrow> u64" where
  "compute_memory_cost memory_byte_size =
     (let memory_size_word = (ucast memory_byte_size + 31) div 32
      in (memory_size_word * memory_size_word) div 512 + memory_size_word * 3)"

definition compute_copy_cost :: "u32 \<Rightarrow> u64" where
  "compute_copy_cost memory_byte_size = ((ucast memory_byte_size + 31) div 32) * 3"

definition round_up_32 :: "u32 \<Rightarrow> u32" where
  "round_up_32 sz = ((sz + 31) div 32) * 32"

definition extend_memory_block ::
  "host \<Rightarrow> mstate \<Rightarrow> u32 \<Rightarrow> u64 \<Rightarrow> (mstate \<Rightarrow> step) \<Rightarrow> step" where
  "extend_memory_block h m required_size fixed_gas finish_block =
     (let rounded_required_size = round_up_32 required_size
      in if memory_size m < rounded_required_size
         then let dynamic_gas = compute_memory_cost rounded_required_size - compute_memory_cost (memory_size m);
                  (m, extension_gas_flag) = consume_gas_as_value m (dynamic_gas + fixed_gas);
                  (c, p) = extend_memory h (m_ctx m) rounded_required_size;
                  m = m\<lparr>m_ctx := c, memory_size := rounded_required_size, memory_ptr := p\<rparr>
              in cond_br extension_gas_flag finish_block m
         else let (m, no_extension_gas_flag) = consume_gas m fixed_gas
              in cond_br no_extension_gas_flag finish_block m)"

text \<open>
  Access through the memory pointer. The offset of \<open>getelementptr\<close> is an \<open>i32\<close>, which LLVM reads
  as a signed number.
\<close>

definition in_memory :: "mstate \<Rightarrow> u32 \<Rightarrow> nat \<Rightarrow> bool" where
  "in_memory m off n \<longleftrightarrow>
     memory_ptr m = Some (length (m_memory m)) \<and> 0 \<le> sint off \<and> unat off + n \<le> length (m_memory m)"

definition memory_read :: "mstate \<Rightarrow> u32 \<Rightarrow> nat \<Rightarrow> bytes res" where
  "memory_read m off n =
     (if n = 0 then Inr []
      else if in_memory m off n then Inr (take n (drop (unat off) (m_memory m)))
      else Inl Undefined_Behaviour)"

definition memory_write :: "mstate \<Rightarrow> u32 \<Rightarrow> bytes \<Rightarrow> mstate res" where
  "memory_write m off bs =
     (if bs = [] then Inr m
      else if in_memory m off (length bs)
      then Inr (m\<lparr>m_ctx := map_inner (\<lambda>ic. ic\<lparr>memory :=
              take (unat off) (memory ic) @ bs @ drop (unat off + length bs) (memory ic)\<rparr>) (m_ctx m)\<rparr>)
      else Inl Undefined_Behaviour)"

text \<open>Reading the call data through its pointer.\<close>

definition calldata_read :: "mstate \<Rightarrow> int \<Rightarrow> nat \<Rightarrow> bytes res" where
  "calldata_read m off n =
     (if n = 0 then Inr []
      else if 0 \<le> off \<and> nat off + n \<le> length (m_calldata m)
      then Inr (take n (drop (nat off) (m_calldata m)))
      else Inl Undefined_Behaviour)"

text \<open>\<open>llvm.bswap\<close>; values in memory are little-endian.\<close>

definition bswap :: "'a::len word \<Rightarrow> 'a word" where
  "bswap w = word_from_be (rev (word_to_be w))"

section \<open>Context\<close>

definition context_is_static :: "mstate \<Rightarrow> bool" where
  "context_is_static m = ctx_is_static (ctx_frame (m_ctx m))"

definition check_context_is_not_static :: "mstate \<Rightarrow> bool" where
  "check_context_is_not_static m \<longleftrightarrow> \<not> context_is_static m"

definition return_result_with_offset_and_size ::
  "mstate \<Rightarrow> u32 \<Rightarrow> u32 \<Rightarrow> exit_status_code \<Rightarrow> step" where
  "return_result_with_offset_and_size m off sz reason_code =
     Inr (m\<lparr>m_ctx := write_result (m_ctx m) off sz (get_remaining_gas m) (exit_status_u8 reason_code)\<rparr>,
          Returned (exit_status_u8 reason_code))"

definition return_empty_result :: "mstate \<Rightarrow> exit_status_code \<Rightarrow> step" where
  "return_empty_result m reason_code = return_result_with_offset_and_size m 0 0 reason_code"

definition return_result_from_stack :: "host \<Rightarrow> mstate \<Rightarrow> exit_status_code \<Rightarrow> step" where
  "return_result_from_stack h m reason_code =
     pop m (\<lambda>offset_u256 m. pop m (\<lambda>size_u256 m.
     let off = ucast offset_u256; sz = ucast size_u256
     in extend_memory_block h m (off + sz) 0 (\<lambda>m.
        return_result_with_offset_and_size m off sz reason_code)))"

text \<open>The block that ends a run in error.\<close>

definition generate_revert_block :: "mstate \<Rightarrow> mstate \<times> u8" where
  "generate_revert_block m =
     (let remaining_gas = get_remaining_gas m;
          (m, _) = consume_gas_as_value m remaining_gas
      in (m\<lparr>m_ctx := write_result (m_ctx m) 0 0 0 (exit_status_u8 Exit_Error)\<rparr>,
          exit_status_u8 Exit_Error))"

text \<open>The setup block: empty stack and memory, the call data of the transaction, the initial gas.\<close>

definition generate_stack_setup_code :: "mstate \<Rightarrow> mstate" where
  "generate_stack_setup_code m = m\<lparr>stack_cells := (\<lambda>_. 0), stack_ptr := 0\<rparr>"

definition generate_memory_setup_code :: "mstate \<Rightarrow> mstate" where
  "generate_memory_setup_code m = m\<lparr>memory_ptr := None, memory_size := 0\<rparr>"

definition generate_calldata_setup_code :: "mstate \<Rightarrow> mstate" where
  "generate_calldata_setup_code m = m\<lparr>calldata_size := get_calldata_size_syscall (m_ctx m)\<rparr>"

definition generate_gas_counter_setup_code :: "u64 \<Rightarrow> mstate \<Rightarrow> mstate" where
  "generate_gas_counter_setup_code initial_gas m = m\<lparr>gas_counter := initial_gas\<rparr>"

text \<open>The setup block of the main function; the globals have no value before it ran.\<close>

definition setup_code :: "syscall_context \<Rightarrow> u64 \<Rightarrow> mstate" where
  "setup_code c initial_gas =
     (let m = \<lparr>gas_counter = 0, stack_cells = (\<lambda>_. 0), stack_ptr = 0, memory_ptr = None,
                memory_size = 0, calldata_size = 0, m_ctx = c\<rparr>;
          m = generate_stack_setup_code m;
          m = generate_memory_setup_code m;
          m = generate_calldata_setup_code m
      in generate_gas_counter_setup_code initial_gas m)"

lemma setup_code_eq:
  "setup_code c initial_gas = \<lparr>gas_counter = initial_gas, stack_cells = (\<lambda>_. 0), stack_ptr = 0,
     memory_ptr = None, memory_size = 0, calldata_size = get_calldata_size_syscall c, m_ctx = c\<rparr>"
  by (simp add: setup_code_def generate_stack_setup_code_def generate_memory_setup_code_def
      generate_calldata_setup_code_def generate_gas_counter_setup_code_def)

section \<open>Signed comparisons\<close>

lemma sint_unat:
  "sint (w :: 'a::len word) =
     (if unat w < 2 ^ (LENGTH('a) - 1) then int (unat w) else int (unat w) - 2 ^ LENGTH('a))"
proof -
  define n where "n = LENGTH('a) - 1"
  have L: "LENGTH('a) = Suc n" by (simp add: n_def)
  have lt: "uint w < 2 * 2 ^ n" using unsigned_less [of w, where ?'a = int] L by simp
  have ge: "0 \<le> uint w" by simp
  have b: "bit (uint w) n \<longleftrightarrow> \<not> uint w < 2 ^ n"
  proof (cases "uint w < 2 ^ n")
    case True
    then show ?thesis using ge by (simp add: bit_iff_odd)
  next
    case False
    then have "uint w div 2 ^ n = 1" using lt by (intro div_pos_pos_trivial int_div_pos_eq [of _ _ _ "uint w - 2 ^ n"]) auto
    then show ?thesis using False by (simp add: bit_iff_odd)
  qed
  have "sint w = signed_take_bit n (uint w)" by (simp add: sint_uint n_def)
  also have "\<dots> = take_bit (Suc n) (uint w) - 2 ^ Suc n * of_bool (bit (uint w) n)"
    by (rule signed_take_bit_eq_take_bit_minus)
  also have "take_bit (Suc n) (uint w) = uint w" using lt ge by (simp add: take_bit_int_eq_self_iff)
  finally have s: "sint w = uint w - 2 ^ Suc n * of_bool (bit (uint w) n)" .
  have "uint w = int (unat w)" by simp
  moreover have "int (unat w) < 2 ^ n \<longleftrightarrow> unat w < 2 ^ n" by (metis of_nat_less_iff of_nat_numeral of_nat_power)
  ultimately show ?thesis using s b by (simp add: L)
qed

text \<open>For an amount below half of the range the test says that the counter is not negative and
  covers the amount.\<close>

lemma gas_covers:
  fixes amount g :: u64
  assumes "unat amount < 2 ^ 63"
  shows "sint g \<ge> sint amount \<longleftrightarrow> unat g < 2 ^ 63 \<and> unat amount \<le> unat g"
proof -
  have key: "(if a < 2 ^ 63 then int a else int a - 2 ^ 64) \<le> (if b < 2 ^ 63 then int b else int b - 2 ^ 64) \<longleftrightarrow>
      b < 2 ^ 63 \<and> a \<le> b" if "a < 2 ^ 63" and "b < 2 ^ 64" for a b :: nat
    using that by auto
  have s: "sint w = (if unat w < 2 ^ 63 then int (unat w) else int (unat w) - 2 ^ 64)" for w :: u64
    unfolding sint_unat by simp
  have "unat g < 2 ^ 64" using unat_less_pow [of g] by simp
  then show ?thesis unfolding s by (rule key [OF assms])
qed

lemma unat_gas_sub: "unat a \<le> unat g \<Longrightarrow> unat (g - a) = unat g - unat (a :: u64)"
  by (simp add: unat_sub word_le_nat_alt)

section \<open>The stack as a list\<close>

text \<open>
  What a stack promises its clients: \<open>view\<close> is its content, top first, \<open>frame\<close> is
  the rest of the state, which pushing and popping leave alone.
\<close>

locale lifo =
  fixes view :: "'s \<Rightarrow> 'v list" and frame :: "'s \<Rightarrow> 'f" and ok :: "'s \<Rightarrow> bool" and cap :: nat
    and do_pop :: "'s \<Rightarrow> ('s \<times> 'v) res" and do_push :: "'s \<Rightarrow> 'v \<Rightarrow> 's res"
  assumes pop_Cons: "ok s \<Longrightarrow> view s = x # xs \<Longrightarrow>
      \<exists>s'. do_pop s = Inr (s', x) \<and> view s' = xs \<and> frame s' = frame s \<and> ok s'"
    and push_room: "ok s \<Longrightarrow> length (view s) < cap \<Longrightarrow>
      \<exists>s'. do_push s x = Inr s' \<and> view s' = x # view s \<and> frame s' = frame s \<and> ok s'"
    and view_cap: "ok s \<Longrightarrow> length (view s) \<le> cap"
begin

lemma pop_push:
  assumes "ok s" and "view s = x # xs"
  shows "\<exists>s' s''. do_pop s = Inr (s', x) \<and> do_push s' y = Inr s'' \<and> view s'' = y # xs \<and>
    frame s'' = frame s \<and> ok s''"
proof -
  obtain s' where s': "do_pop s = Inr (s', x)" "view s' = xs" "frame s' = frame s" "ok s'"
    using pop_Cons [OF assms] by blast
  have "length (view s') < cap" using view_cap [OF assms(1)] assms(2) s'(2) by simp
  then show ?thesis using push_room [OF s'(4), of y] s' by metis
qed

lemma push_pop:
  assumes "ok s" and "length (view s) < cap"
  shows "\<exists>s' s''. do_push s x = Inr s' \<and> do_pop s' = Inr (s'', x) \<and> view s'' = view s \<and>
    frame s'' = frame s \<and> ok s''"
proof -
  obtain s' where s': "do_push s x = Inr s'" "view s' = x # view s" "frame s' = frame s" "ok s'"
    using push_room [OF assms] by blast
  then show ?thesis using pop_Cons [OF s'(4,2)] by metis
qed

text \<open>Two pops: the first value is the top.\<close>

lemma pop_pop:
  assumes "ok s" and "view s = x # y # xs"
  shows "\<exists>s' s''. do_pop s = Inr (s', x) \<and> do_pop s' = Inr (s'', y) \<and> view s'' = xs \<and>
    frame s'' = frame s \<and> ok s''"
  using pop_Cons [OF assms] pop_Cons by metis

end

definition stack_view :: "mstate \<Rightarrow> u256 list" where
  "stack_view m = rev (map (stack_cells m) [0..<stack_ptr m])"

definition frame :: "mstate \<Rightarrow> mstate" where
  "frame m = m\<lparr>stack_cells := (\<lambda>_. 0), stack_ptr := 0\<rparr>"

definition stack_ok :: "mstate \<Rightarrow> bool" where
  "stack_ok m \<longleftrightarrow> stack_ptr m \<le> MAX_STACK_SIZE"

lemma length_stack_view [simp]: "length (stack_view m) = stack_ptr m"
  by (simp add: stack_view_def)

lemma stack_view_Suc: "stack_ptr m = Suc n \<Longrightarrow>
   stack_view m = stack_cells m n # stack_view (m\<lparr>stack_ptr := n\<rparr>)"
  by (simp add: stack_view_def)

lemma stack_pop_Cons:
  assumes "stack_ok m" and "stack_view m = x # xs"
  shows "stack_pop m = Inr (m\<lparr>stack_ptr := stack_ptr m - 1\<rparr>, x)"
    and "stack_view (m\<lparr>stack_ptr := stack_ptr m - 1\<rparr>) = xs"
proof -
  obtain n where n: "stack_ptr m = Suc n" using assms(2) length_stack_view [of m] by (cases "stack_ptr m") auto
  then show "stack_pop m = Inr (m\<lparr>stack_ptr := stack_ptr m - 1\<rparr>, x)"
    and "stack_view (m\<lparr>stack_ptr := stack_ptr m - 1\<rparr>) = xs"
    using assms stack_view_Suc [OF n] by (simp_all add: stack_pop_def stack_ok_def)
qed

lemma stack_push_room:
  assumes "stack_ptr m < MAX_STACK_SIZE"
  shows "\<exists>m'. stack_push m x = Inr m' \<and> stack_view m' = x # stack_view m \<and> frame m' = frame m \<and>
     stack_ok m' \<and> stack_ptr m' = Suc (stack_ptr m)"
  using assms
  by (auto simp: stack_push_def store_cell_def inc_stack_pointer_def frame_def stack_ok_def stack_view_def)

interpretation stack: lifo stack_view frame stack_ok MAX_STACK_SIZE stack_pop stack_push
proof
  fix m :: mstate and x xs
  assume "stack_ok m" and "stack_view m = x # xs"
  from stack_pop_Cons [OF this] \<open>stack_ok m\<close>
  show "\<exists>m'. stack_pop m = Inr (m', x) \<and> stack_view m' = xs \<and> frame m' = frame m \<and> stack_ok m'"
    by (auto simp: frame_def stack_ok_def)
next
  fix m :: mstate and x
  assume "stack_ok m" and "length (stack_view m) < MAX_STACK_SIZE"
  then show "\<exists>m'. stack_push m x = Inr m' \<and> stack_view m' = x # stack_view m \<and> frame m' = frame m \<and> stack_ok m'"
    using stack_push_room [of m x] by auto
next
  fix m :: mstate
  assume "stack_ok m"
  then show "length (stack_view m) \<le> MAX_STACK_SIZE" by (simp add: stack_ok_def)
qed

end
