(* ===== verification/Codegen_Alu.thy ===== *)
theory Codegen_Alu
  imports Machine "HOL-Library.Signed_Division"
begin

text \<open>
  The code of the operations that compute on the stack alone: arithmetic,
  comparisons, bitwise operations, shifts, and the stack operations
  themselves (\<open>codegen/operations.rs\<close>).
\<close>

section \<open>Block shapes\<close>

text \<open>The start block of most operations: the stack is checked and the gas is charged, and both
  flags decide the branch.\<close>

definition guarded :: "u64 \<Rightarrow> (mstate \<Rightarrow> bool) \<Rightarrow> (mstate \<Rightarrow> step) \<Rightarrow> mstate \<Rightarrow> step" where
  "guarded cost stack_check ok_block m =
     (let flag = stack_check m; (m, gas_flag) = consume_gas m cost
      in cond_br (gas_flag \<and> flag) ok_block m)"

abbreviation at_least :: "nat \<Rightarrow> mstate \<Rightarrow> bool" where
  "at_least n m \<equiv> check_stack_has_at_least m n"

abbreviation space_for :: "nat \<Rightarrow> mstate \<Rightarrow> bool" where
  "space_for n m \<equiv> check_stack_has_space_for m n"

text \<open>Operations that pop their operands, compute one value and push it.\<close>

definition unary_op :: "u64 \<Rightarrow> (u256 \<Rightarrow> u256 res) \<Rightarrow> mstate \<Rightarrow> step" where
  "unary_op cost f = guarded cost (at_least 1) (\<lambda>m.
     pop m (\<lambda>x m. and_then (f x) (push_next m)))"

definition binary_op :: "u64 \<Rightarrow> (u256 \<Rightarrow> u256 \<Rightarrow> u256 res) \<Rightarrow> mstate \<Rightarrow> step" where
  "binary_op cost f = guarded cost (at_least 2) (\<lambda>m.
     pop m (\<lambda>lhs m. pop m (\<lambda>rhs m. and_then (f lhs rhs) (push_next m))))"

definition ternary_op :: "u64 \<Rightarrow> (u256 \<Rightarrow> u256 \<Rightarrow> u256 \<Rightarrow> u256 res) \<Rightarrow> mstate \<Rightarrow> step" where
  "ternary_op cost f = guarded cost (at_least 3) (\<lambda>m.
     pop m (\<lambda>a m. pop m (\<lambda>b m. pop m (\<lambda>den m. and_then (f a b den) (push_next m)))))"

text \<open>\<open>extui\<close> of a comparison.\<close>

definition flag_word :: "bool \<Rightarrow> u256" where
  "flag_word b = (if b then 1 else 0)"

section \<open>Arithmetic\<close>

definition codegen_add :: "mstate \<Rightarrow> step" where
  "codegen_add = binary_op gas_ADD (\<lambda>lhs rhs. Inr (lhs + rhs))"

definition codegen_sub :: "mstate \<Rightarrow> step" where
  "codegen_sub = binary_op gas_SUB (\<lambda>lhs rhs. Inr (lhs - rhs))"

definition codegen_mul :: "mstate \<Rightarrow> step" where
  "codegen_mul = binary_op gas_MUL (\<lambda>lhs rhs. Inr (lhs * rhs))"

definition codegen_div :: "mstate \<Rightarrow> step" where
  "codegen_div = binary_op gas_DIV (\<lambda>num den. Inr (if den = 0 then 0 else num div den))"

text \<open>LLVM leaves the overflowing signed division and its remainder undefined.\<close>

definition llvm_sdiv :: "u256 \<Rightarrow> u256 \<Rightarrow> u256 res" where
  "llvm_sdiv a b =
     (if sint a = - (2 ^ 255) \<and> sint b = - 1 then Inl Undefined_Behaviour
      else Inr (word_of_int (sint a sdiv sint b)))"

definition llvm_srem :: "u256 \<Rightarrow> u256 \<Rightarrow> u256 res" where
  "llvm_srem a b =
     (if sint a = - (2 ^ 255) \<and> sint b = - 1 then Inl Undefined_Behaviour
      else Inr (word_of_int (sint a smod sint b)))"

definition codegen_sdiv :: "mstate \<Rightarrow> step" where
  "codegen_sdiv = binary_op gas_SDIV (\<lambda>num den. if den = 0 then Inr 0 else llvm_sdiv num den)"

definition codegen_mod :: "mstate \<Rightarrow> step" where
  "codegen_mod = binary_op gas_MOD (\<lambda>num den. Inr (if den = 0 then 0 else num mod den))"

definition codegen_smod :: "mstate \<Rightarrow> step" where
  "codegen_smod = binary_op gas_SMOD (\<lambda>num den. if den = 0 then Inr 0 else llvm_srem num den)"

definition codegen_addmod :: "mstate \<Rightarrow> step" where
  "codegen_addmod = ternary_op gas_ADDMOD (\<lambda>a b den.
     Inr (if den = 0 then 0
          else ucast (((ucast a :: 257 word) + ucast b) mod ucast den)))"

definition codegen_mulmod :: "mstate \<Rightarrow> step" where
  "codegen_mulmod = ternary_op gas_MULMOD (\<lambda>a b den.
     Inr (if den = 0 then 0
          else ucast (((ucast a :: 512 word) * ucast b) mod ucast den)))"

text \<open>\<open>math.ipowi\<close> reads the exponent as a signed number.\<close>

definition ipowi :: "host \<Rightarrow> u256 \<Rightarrow> u256 \<Rightarrow> u256" where
  "ipowi h base exponent =
     (if 0 \<le> sint exponent then base ^ unat exponent else ipowi_negative h base exponent)"

text \<open>\<open>llvm.ctlz\<close>: the zero bits before the first one.\<close>

definition ctlz :: "u256 \<Rightarrow> u256" where
  "ctlz w = of_nat (length (takeWhile (\<lambda>b. \<not> b) (rev (map (bit w) [0..<256]))))"

definition exp_total_gas :: "u256 \<Rightarrow> u64" where
  "exp_total_gas exponent =
     (let number_of_bits = 256 - ctlz exponent;
          number_of_bytes = (number_of_bits + 7) div 8
      in ucast (ucast gas_EXP + number_of_bytes * 50))"

definition codegen_exp :: "host \<Rightarrow> mstate \<Rightarrow> step" where
  "codegen_exp h m = cond_br (at_least 2 m) (\<lambda>m.
     pop m (\<lambda>base m. pop m (\<lambda>exponent m.
     let result = ipowi h base exponent;
         (m, gas_flag) = consume_gas_as_value m (exp_total_gas exponent)
     in cond_br gas_flag (\<lambda>m. push_next m result) m))) m"

definition codegen_signextend :: "mstate \<Rightarrow> step" where
  "codegen_signextend = binary_op gas_SIGNEXTEND (\<lambda>byte_size v.
     let byte_size = min byte_size 31;
         value_size_in_bits = byte_size * 8 + 7;
         bits_to_shift = 255 - value_size_in_bits
     in Inr (signed_drop_bit (unat bits_to_shift) (push_bit (unat bits_to_shift) v)))"

section \<open>Comparisons\<close>

definition codegen_lt :: "mstate \<Rightarrow> step" where
  "codegen_lt = binary_op gas_LT (\<lambda>lhs rhs. Inr (flag_word (lhs < rhs)))"

definition codegen_gt :: "mstate \<Rightarrow> step" where
  "codegen_gt = binary_op gas_GT (\<lambda>lhs rhs. Inr (flag_word (lhs > rhs)))"

definition codegen_slt :: "mstate \<Rightarrow> step" where
  "codegen_slt = binary_op gas_SLT (\<lambda>lhs rhs. Inr (flag_word (sint lhs < sint rhs)))"

definition codegen_sgt :: "mstate \<Rightarrow> step" where
  "codegen_sgt = binary_op gas_SGT (\<lambda>lhs rhs. Inr (flag_word (sint lhs > sint rhs)))"

definition codegen_eq :: "mstate \<Rightarrow> step" where
  "codegen_eq = binary_op gas_EQ (\<lambda>lhs rhs. Inr (flag_word (lhs = rhs)))"

definition codegen_iszero :: "mstate \<Rightarrow> step" where
  "codegen_iszero = unary_op gas_ISZERO (\<lambda>v. Inr (flag_word (v = 0)))"

section \<open>Bitwise operations and shifts\<close>

definition codegen_and :: "mstate \<Rightarrow> step" where
  "codegen_and = binary_op gas_AND (\<lambda>lhs rhs. Inr (lhs AND rhs))"

definition codegen_or :: "mstate \<Rightarrow> step" where
  "codegen_or = binary_op gas_OR (\<lambda>lhs rhs. Inr (lhs OR rhs))"

definition codegen_xor :: "mstate \<Rightarrow> step" where
  "codegen_xor = binary_op gas_XOR (\<lambda>lhs rhs. Inr (lhs XOR rhs))"

definition codegen_not :: "mstate \<Rightarrow> step" where
  "codegen_not = unary_op gas_NOT (\<lambda>lhs. Inr (lhs XOR of_nat (be_nat (replicate 32 0xff))))"

definition codegen_byte :: "mstate \<Rightarrow> step" where
  "codegen_byte = binary_op gas_BYTE (\<lambda>off v.
     let max_shift_in_bits = 31 * 8; offset_in_bits = off * 8
     in Inr (if offset_in_bits > max_shift_in_bits then 0
             else drop_bit (unat (max_shift_in_bits - offset_in_bits)) v AND 0xff))"

definition codegen_shr :: "mstate \<Rightarrow> step" where
  "codegen_shr = binary_op 3 (\<lambda>shift v. Inr (if shift < 255 then drop_bit (unat shift) v else 0))"

definition codegen_shl :: "mstate \<Rightarrow> step" where
  "codegen_shl = binary_op gas_SHL (\<lambda>shift v. Inr (if shift < 255 then push_bit (unat shift) v else 0))"

definition codegen_sar :: "mstate \<Rightarrow> step" where
  "codegen_sar = binary_op gas_SAR (\<lambda>shift v. Inr (signed_drop_bit (unat (min shift 255)) v))"

section \<open>Stack operations\<close>

definition codegen_push :: "nat \<Rightarrow> bool \<Rightarrow> mstate \<Rightarrow> step" where
  "codegen_push value_to_push is_zero =
     guarded (if is_zero then gas_PUSH0 else gas_PUSHN) (space_for 1) (\<lambda>m.
       push_next m (of_nat value_to_push))"

definition codegen_pop :: "mstate \<Rightarrow> step" where
  "codegen_pop = guarded gas_POP (at_least 1) (\<lambda>m. pop m (\<lambda>_ m. Inr (m, Next)))"

definition codegen_dup :: "u8 \<Rightarrow> mstate \<Rightarrow> step" where
  "codegen_dup n = guarded gas_DUPN (at_least (unat n)) (\<lambda>m.
     and_then (get_nth_from_stack m (unat n)) (\<lambda>(v, _). push_next m v))"

definition codegen_swap :: "u8 \<Rightarrow> mstate \<Rightarrow> step" where
  "codegen_swap n = guarded gas_SWAPN (at_least (unat (n + 1))) (\<lambda>m.
     and_then (swap_stack_elements m 1 (unat (n + 1))) (\<lambda>m. Inr (m, Next)))"

end
