(* ===== verification/Codegen_Env.thy ===== *)
theory Codegen_Env
  imports Codegen_Alu
begin

text \<open>
  The code of the operations that push a value of the environment, of the block or of the
  machine, and of those that look at other accounts (\<open>codegen/operations.rs\<close>).

  A 256-bit value that a system call writes through a pointer is read back as the
  number whose halves were written.
\<close>

section \<open>Constants of the run\<close>

definition push_op :: "u64 \<Rightarrow> (mstate \<Rightarrow> u256) \<Rightarrow> mstate \<Rightarrow> step" where
  "push_op cost v = guarded cost (space_for 1) (\<lambda>m. push_next m (v m))"

definition codegen_origin :: "mstate \<Rightarrow> step" where
  "codegen_origin = push_op gas_ORIGIN (\<lambda>m. to_primitive_u256 (get_origin (m_ctx m)))"

definition codegen_caller :: "mstate \<Rightarrow> step" where
  "codegen_caller = push_op gas_CALLER (\<lambda>m. to_primitive_u256 (store_in_caller_ptr (m_ctx m)))"

definition codegen_callvalue :: "mstate \<Rightarrow> step" where
  "codegen_callvalue = push_op gas_CALLVALUE (\<lambda>m. to_primitive_u256 (store_in_callvalue_ptr (m_ctx m)))"

definition codegen_gasprice :: "mstate \<Rightarrow> step" where
  "codegen_gasprice = push_op gas_GASPRICE (\<lambda>m. to_primitive_u256 (store_in_gasprice_ptr (m_ctx m)))"

definition codegen_number :: "mstate \<Rightarrow> step" where
  "codegen_number = push_op gas_NUMBER (\<lambda>m. to_primitive_u256 (get_block_number (m_ctx m)))"

definition codegen_timestamp :: "mstate \<Rightarrow> step" where
  "codegen_timestamp = push_op gas_TIMESTAMP (\<lambda>m. to_primitive_u256 (store_in_timestamp_ptr (m_ctx m)))"

definition codegen_basefee :: "mstate \<Rightarrow> step" where
  "codegen_basefee = push_op gas_BASEFEE (\<lambda>m. to_primitive_u256 (store_in_basefee_ptr (m_ctx m)))"

definition codegen_prevrandao :: "mstate \<Rightarrow> step" where
  "codegen_prevrandao = push_op gas_PREVRANDAO (\<lambda>m. to_primitive_u256 (get_prevrandao (m_ctx m)))"

definition codegen_chaind :: "mstate \<Rightarrow> step" where
  "codegen_chaind = push_op gas_CHAINID (\<lambda>m. ucast (get_chainid (m_ctx m)))"

definition codegen_gaslimit :: "mstate \<Rightarrow> step" where
  "codegen_gaslimit = push_op gas_GASLIMIT (\<lambda>m. ucast (get_gaslimit (m_ctx m)))"

definition codegen_blobbasefee :: "mstate \<Rightarrow> step" where
  "codegen_blobbasefee = push_op gas_BLOBBASEFEE (\<lambda>m. ucast (store_in_blobbasefee_ptr (m_ctx m)))"

text \<open>20 bytes loaded as a little-endian \<open>i160\<close> and swapped.\<close>

definition codegen_coinbase :: "mstate \<Rightarrow> step" where
  "codegen_coinbase = push_op gas_COINBASE (\<lambda>m.
     ucast (bswap (word_from_le (get_coinbase_ptr (m_ctx m)) :: address)))"

definition codegen_address :: "host \<Rightarrow> mstate \<Rightarrow> step" where
  "codegen_address h = push_op gas_ADDRESS (\<lambda>m.
     ucast (bswap (word_from_le (get_address_ptr h (m_ctx m)) :: address)))"

definition codegen_codesize :: "program \<Rightarrow> mstate \<Rightarrow> step" where
  "codegen_codesize p = push_op gas_CODESIZE (\<lambda>_. ucast (code_size p))"

definition codegen_returndatasize :: "mstate \<Rightarrow> step" where
  "codegen_returndatasize = push_op gas_RETURNDATASIZE (\<lambda>m. ucast (get_return_data_size (m_ctx m)))"

text \<open>The position is cast to \<open>i64\<close> and sign-extended.\<close>

definition codegen_pc :: "nat \<Rightarrow> mstate \<Rightarrow> step" where
  "codegen_pc pc = push_op gas_PC (\<lambda>_. of_int (sint (of_nat pc :: u64)))"

definition codegen_msize :: "mstate \<Rightarrow> step" where
  "codegen_msize = push_op gas_MSIZE (\<lambda>m. ucast (memory_size m))"

definition codegen_gas :: "mstate \<Rightarrow> step" where
  "codegen_gas = push_op gas_GAS (\<lambda>m. ucast (get_remaining_gas m))"

text \<open>The one push of the environment that does not ask for space.\<close>

definition codegen_calldatasize :: "mstate \<Rightarrow> step" where
  "codegen_calldatasize m =
     (let (m, gas_flag) = consume_gas m gas_CALLDATASIZE
      in cond_br gas_flag (\<lambda>m. push_next m (ucast (get_calldata_size_syscall (m_ctx m)))) m)"

section \<open>Values looked up by a system call\<close>

definition codegen_selfbalance :: "mstate \<Rightarrow> step" where
  "codegen_selfbalance = guarded gas_SELFBALANCE (space_for 1) (\<lambda>m.
     let (c, balance) = store_in_selfbalance_ptr (m_ctx m)
     in push_next (m\<lparr>m_ctx := c\<rparr>) (to_primitive_u256 balance))"

definition codegen_blockhash :: "mstate \<Rightarrow> step" where
  "codegen_blockhash = guarded gas_BLOCKHASH (at_least 1) (\<lambda>m. pop m (\<lambda>block_number m.
     let (c, hash) = syscall_get_block_hash (m_ctx m) (halves block_number)
     in push_next (m\<lparr>m_ctx := c\<rparr>) (to_primitive_u256 hash)))"

definition codegen_blobhash :: "mstate \<Rightarrow> step" where
  "codegen_blobhash = guarded gas_BLOBHASH (at_least 1) (\<lambda>m. pop m (\<lambda>index m.
     push_next m (to_primitive_u256 (get_blob_hash_at_index (m_ctx m) (halves index)))))"

text \<open>Look up first, then charge what the system call asks for.\<close>

definition lookup_op :: "(syscall_context \<Rightarrow> sysu256 \<Rightarrow> syscall_context \<times> u256 \<times> u64) \<Rightarrow> mstate \<Rightarrow> step" where
  "lookup_op look m = cond_br (at_least 1 m) (\<lambda>m. pop m (\<lambda>key m.
     let (c, v, gas_cost) = look (m_ctx m) (halves key);
         (m, gas_flag) = consume_gas_as_value (m\<lparr>m_ctx := c\<rparr>) gas_cost
     in cond_br gas_flag (\<lambda>m. push_next m v) m)) m"

definition codegen_balance :: "mstate \<Rightarrow> step" where
  "codegen_balance = lookup_op (\<lambda>c a.
     let (c, v, gas) = store_in_balance c a in (c, to_primitive_u256 v, gas))"

definition codegen_extcodesize :: "mstate \<Rightarrow> step" where
  "codegen_extcodesize = lookup_op (\<lambda>c a.
     let (c, n, gas) = get_codesize_from_address c a in (c, ucast n, gas))"

definition codegen_extcodehash :: "mstate \<Rightarrow> step" where
  "codegen_extcodehash = lookup_op (\<lambda>c a.
     let (c, v, gas) = get_code_hash c a in (c, to_primitive_u256 v, gas))"

definition codegen_sload :: "mstate \<Rightarrow> step" where
  "codegen_sload = lookup_op (\<lambda>c key.
     let (c, v, gas) = syscall_read_storage c key in (c, to_primitive_u256 v, gas))"

definition codegen_tload :: "mstate \<Rightarrow> step" where
  "codegen_tload = guarded gas_TLOAD (at_least 1) (\<lambda>m. pop m (\<lambda>key m.
     push_next m (to_primitive_u256 (read_transient_storage (m_ctx m) (halves key)))))"

section \<open>Call data\<close>

text \<open>The bytes land in the free cell on top of the stack, over zeros; the value there is little-endian.\<close>

definition codegen_calldataload :: "mstate \<Rightarrow> step" where
  "codegen_calldataload = guarded gas_CALLDATALOAD (at_least 1) (\<lambda>m. pop m (\<lambda>off m.
     let size_u256 = ucast (calldata_size m)
     in if off < size_u256
        then and_then (store_cell m (stack_ptr m) 0) (\<lambda>m.
             let len = min (size_u256 - off) 32
             in and_then (calldata_read m (sint off) (unat len)) (\<lambda>bs.
                and_then (store_cell m (stack_ptr m)
                   (word_from_le (bs @ replicate (32 - length bs) 0))) (\<lambda>m.
                pop (inc_stack_pointer m) (\<lambda>calldata_slice m. push_next m (bswap calldata_slice)))))
        else push_next m 0))"

end
