(* ===== verification/Codegen_Memory.thy ===== *)
theory Codegen_Memory
  imports Codegen_Env
begin

text \<open>
  The code of the operations that read or write the memory of the running contract
  (\<open>codegen/operations.rs\<close>). Offsets and sizes are cut to 32 bits.
\<close>

definition codegen_mload :: "host \<Rightarrow> mstate \<Rightarrow> step" where
  "codegen_mload h m = cond_br (at_least 1 m) (\<lambda>m. pop m (\<lambda>off m.
     let off = ucast off
     in extend_memory_block h m (off + 32) gas_MLOAD (\<lambda>m.
        and_then (memory_read m off 32) (\<lambda>bs. push_next m (bswap (word_from_le bs)))))) m"

definition codegen_mstore :: "host \<Rightarrow> mstate \<Rightarrow> step" where
  "codegen_mstore h m = cond_br (at_least 2 m) (\<lambda>m. pop m (\<lambda>off m. pop m (\<lambda>v m.
     let off = ucast off
     in extend_memory_block h m (off + 32) gas_MSTORE (\<lambda>m.
        and_then (memory_write m off (word_to_le (bswap v))) (\<lambda>m. Inr (m, Next)))))) m"

definition codegen_mstore8 :: "host \<Rightarrow> mstate \<Rightarrow> step" where
  "codegen_mstore8 h m = cond_br (at_least 2 m) (\<lambda>m. pop m (\<lambda>off m. pop m (\<lambda>v m.
     let off = ucast off
     in extend_memory_block h m (off + 1) gas_MSTORE8 (\<lambda>m.
        and_then (memory_write m off [ucast v]) (\<lambda>m. Inr (m, Next)))))) m"

definition codegen_mcopy :: "host \<Rightarrow> mstate \<Rightarrow> step" where
  "codegen_mcopy h m = cond_br (at_least 3 m) (\<lambda>m.
     pop m (\<lambda>dest_offset m. pop m (\<lambda>off m. pop m (\<lambda>sz m.
     let off = ucast off; dest_offset = ucast dest_offset; sz = ucast sz;
         required_size = max (off + sz) (dest_offset + sz)
     in extend_memory_block h m required_size gas_MCOPY (\<lambda>m.
        and_then (memory_read m off (unat sz)) (\<lambda>bs.
        and_then (memory_write m dest_offset bs) (\<lambda>m.
        Inr (fst (consume_gas_as_value m (compute_copy_cost sz)), Next)))))))) m"

definition codegen_keccak256 :: "host \<Rightarrow> mstate \<Rightarrow> step" where
  "codegen_keccak256 h m = cond_br (at_least 2 m) (\<lambda>m. pop m (\<lambda>off m. pop m (\<lambda>sz m.
     let off = ucast off; sz = ucast sz;
         (m, gas_flag) = consume_gas_as_value m (compute_copy_cost sz * 2)
     in cond_br gas_flag (\<lambda>m. extend_memory_block h m (off + sz) gas_KECCAK256 (\<lambda>m.
        and_then (keccak256_hasher h (m_ctx m) off sz) (\<lambda>(c, hash).
        push_next (m\<lparr>m_ctx := c\<rparr>) (to_primitive_u256 hash)))) m))) m"

definition codegen_calldatacopy :: "host \<Rightarrow> mstate \<Rightarrow> step" where
  "codegen_calldatacopy h = guarded gas_CALLDATACOPY (at_least 3) (\<lambda>m.
     pop m (\<lambda>dest_offset m. pop m (\<lambda>call_data_offset m. pop m (\<lambda>sz m.
     let call_data_offset = ucast call_data_offset; dest_offset = ucast dest_offset; sz = ucast sz
     in extend_memory_block h m (dest_offset + sz) gas_CALLDATACOPY (\<lambda>m.
        and_then (memory_write m dest_offset (replicate (unat sz) 0)) (\<lambda>m.
        let calldatasize = get_calldata_size_syscall (m_ctx m)
        in if call_data_offset > calldatasize then Inr (m, Next)
           else let memcpy_len = min (calldatasize - call_data_offset) sz
           in and_then (calldata_read m (sint call_data_offset) (unat memcpy_len)) (\<lambda>bs.
              and_then (memory_write m dest_offset bs) (\<lambda>m. Inr (m, Next)))))))))"

text \<open>The three copies done by system calls charge the words first, then the extension.\<close>

definition codegen_codecopy :: "host \<Rightarrow> mstate \<Rightarrow> step" where
  "codegen_codecopy h m = cond_br (at_least 3 m) (\<lambda>m.
     pop m (\<lambda>dest_offset m. pop m (\<lambda>off m. pop m (\<lambda>sz m.
     let off = ucast off; sz = ucast sz; dest_offset = ucast dest_offset;
         (m, flag) = consume_gas_as_value m (compute_copy_cost sz)
     in cond_br flag (\<lambda>m. extend_memory_block h m (dest_offset + sz) gas_CODECOPY (\<lambda>m.
        and_then (copy_code_to_memory (m_ctx m) off sz dest_offset) (\<lambda>c.
        Inr (m\<lparr>m_ctx := c\<rparr>, Next)))) m)))) m"

definition codegen_extcodecopy :: "host \<Rightarrow> mstate \<Rightarrow> step" where
  "codegen_extcodecopy h m = cond_br (at_least 4 m) (\<lambda>m. pop m (\<lambda>address m.
     pop m (\<lambda>dest_offset m. pop m (\<lambda>off m. pop m (\<lambda>sz m.
     let off = ucast off; sz = ucast sz; dest_offset = ucast dest_offset;
         (m, flag) = consume_gas_as_value m (compute_copy_cost sz)
     in cond_br flag (\<lambda>m. extend_memory_block h m (dest_offset + sz) 0 (\<lambda>m.
        and_then (copy_ext_code_to_memory (m_ctx m) (halves address) off sz dest_offset) (\<lambda>(c, gas_cost).
        let (m, gas_flag) = consume_gas_as_value (m\<lparr>m_ctx := c\<rparr>) gas_cost
        in cond_br gas_flag (\<lambda>m. Inr (m, Next)) m))) m))))) m"

definition codegen_returndatacopy :: "host \<Rightarrow> mstate \<Rightarrow> step" where
  "codegen_returndatacopy h m = cond_br (at_least 3 m) (\<lambda>m.
     pop m (\<lambda>dest_offset m. pop m (\<lambda>off m. pop m (\<lambda>sz m.
     let dest_offset = ucast dest_offset; off = ucast off; sz = ucast sz;
         (m, copy_gas_cost_flag) = consume_gas_as_value m (compute_copy_cost sz)
     in cond_br copy_gas_cost_flag (\<lambda>m.
        let req_return_data_size = off + sz
        in extend_memory_block h m (dest_offset + sz) gas_RETURNDATACOPY (\<lambda>m.
           cond_br (req_return_data_size \<le> get_return_data_size (m_ctx m)) (\<lambda>m.
           and_then (copy_return_data_into_memory (m_ctx m) dest_offset off sz) (\<lambda>c.
           Inr (m\<lparr>m_ctx := c\<rparr>, Next))) m)) m)))) m"

end
