(* ===== verification/Codegen_World.thy ===== *)
theory Codegen_World
  imports Codegen_Memory
begin

text \<open>
  The code of the operations that change the state of the world, call and create
  contracts, or leave the straight line, and the table that dispatches an
  operation to its code (\<open>codegen/operations.rs\<close>, \<open>call_syscall\<close> of
  \<open>codegen/context.rs\<close>).
\<close>

section \<open>Storage, logs, self-destruction\<close>

text \<open>The write is done by the system call, before the gas is checked.\<close>

definition codegen_sstore :: "mstate \<Rightarrow> step" where
  "codegen_sstore m = cond_br (check_context_is_not_static m \<and> at_least 2 m) (\<lambda>m.
     pop m (\<lambda>key m. pop m (\<lambda>v m.
     and_then (syscall_write_storage (m_ctx m) (halves key) (halves v)) (\<lambda>(c, gas_cost).
     let m = m\<lparr>m_ctx := c\<rparr>; remaining_gas = gas_counter m - gas_cost
     in cond_br (sint remaining_gas \<ge> sint gas_SSTORE_MIN_REMAINING_GAS) (\<lambda>m.
        Inr (m\<lparr>gas_counter := remaining_gas\<rparr>, Next)) m)))) m"

definition codegen_tstore :: "mstate \<Rightarrow> step" where
  "codegen_tstore = guarded gas_TSTORE (at_least 2) (\<lambda>m. pop m (\<lambda>key m. pop m (\<lambda>v m.
     Inr (m\<lparr>m_ctx := write_transient_storage (m_ctx m) (halves key) (halves v)\<rparr>, Next))))"

primrec pop_n :: "nat \<Rightarrow> mstate \<Rightarrow> (u256 list \<Rightarrow> mstate \<Rightarrow> step) \<Rightarrow> step" where
  "pop_n 0 m k = k [] m"
| "pop_n (Suc n) m k = pop m (\<lambda>x m. pop_n n m (\<lambda>xs m. k (x # xs) m))"

definition append_log_syscall ::
  "u8 \<Rightarrow> syscall_context \<Rightarrow> u32 \<Rightarrow> u32 \<Rightarrow> sysu256 list \<Rightarrow> syscall_context res" where
  "append_log_syscall n c off sz t =
     (if n = 0 then append_log c off sz
      else if n = 1 then append_log_with_one_topic c off sz (t ! 0)
      else if n = 2 then append_log_with_two_topics c off sz (t ! 0) (t ! 1)
      else if n = 3 then append_log_with_three_topics c off sz (t ! 0) (t ! 1) (t ! 2)
      else if n = 4 then append_log_with_four_topics c off sz (t ! 0) (t ! 1) (t ! 2) (t ! 3)
      else Inl Panic)"

text \<open>The flag of the dynamic charge is not tested.\<close>

definition codegen_log :: "host \<Rightarrow> u8 \<Rightarrow> mstate \<Rightarrow> step" where
  "codegen_log h n m = cond_br (check_context_is_not_static m \<and> at_least (unat (2 + n)) m) (\<lambda>m.
     pop m (\<lambda>offset_u256 m. pop m (\<lambda>size_u256 m.
     let off = ucast offset_u256; sz = ucast size_u256;
         (m, _) = consume_gas_as_value m (compute_log_dynamic_gas n size_u256)
     in extend_memory_block h m (off + sz) gas_LOG (\<lambda>m.
        pop_n (unat n) m (\<lambda>topics m.
        and_then (append_log_syscall n (m_ctx m) off sz (map halves topics)) (\<lambda>c.
        Inr (m\<lparr>m_ctx := c\<rparr>, Next))))))) m"

definition codegen_selfdestruct :: "mstate \<Rightarrow> step" where
  "codegen_selfdestruct = guarded gas_SELFDESTRUCT (\<lambda>m. at_least 1 m \<and> check_context_is_not_static m) (\<lambda>m.
     pop m (\<lambda>address m. and_then (selfdestruct (m_ctx m) (halves address)) (\<lambda>(c, gas_cost).
     let (m, gas_flag) = consume_gas_as_value (m\<lparr>m_ctx := c\<rparr>) gas_cost
     in cond_br gas_flag (\<lambda>m. Inr (m, Next)) m)))"

section \<open>Calls and creations\<close>

text \<open>The gas is read back from a cell that only the system call initializes.\<close>

definition call_syscall ::
  "host \<Rightarrow> executor \<Rightarrow> mstate \<Rightarrow> u64 \<Rightarrow> u256 \<Rightarrow> u256 \<Rightarrow> u32 \<Rightarrow> u32 \<Rightarrow> u32 \<Rightarrow> u32 \<Rightarrow> call_type \<Rightarrow>
   (u256 \<Rightarrow> mstate \<Rightarrow> step) \<Rightarrow> step" where
  "call_syscall h exec m gas address v args_offset args_size ret_offset ret_size ct finish_block =
     (let available_gas = get_remaining_gas m
      in and_then (syscall_call h exec (m_ctx m) gas (halves address) (halves v) args_offset args_size
                     ret_offset ret_size available_gas None (call_type_u8 ct))
           (\<lambda>(c, gas_return, return_value).
         case gas_return of
           None \<Rightarrow> Inl Undefined_Behaviour
         | Some consumed_gas \<Rightarrow>
             (let (m, gas_flag) = consume_gas_as_value (m\<lparr>m_ctx := c\<rparr>) consumed_gas
              in cond_br gas_flag (finish_block (ucast return_value)) m)))"

definition has_value :: "call_type \<Rightarrow> bool" where
  "has_value ct \<longleftrightarrow> (case ct of Call_Call \<Rightarrow> True | Call_CallCode \<Rightarrow> True
     | Call_StaticCall \<Rightarrow> False | Call_DelegateCall \<Rightarrow> False)"

definition codegen_call :: "host \<Rightarrow> executor \<Rightarrow> call_type \<Rightarrow> mstate \<Rightarrow> step" where
  "codegen_call h exec ct m = cond_br (at_least (if has_value ct then 7 else 6) m) (\<lambda>m.
     pop m (\<lambda>gas m. pop m (\<lambda>address m.
     (if has_value ct then pop m else (\<lambda>k. k 0 m)) (\<lambda>v m.
     pop m (\<lambda>args_offset m. pop m (\<lambda>args_size m. pop m (\<lambda>ret_offset m. pop m (\<lambda>ret_size m.
     if context_is_static m \<and> v \<noteq> 0 then revert m
     else let gas = ucast gas; args_offset = ucast args_offset; args_size = ucast args_size;
              ret_offset = ucast ret_offset; ret_size = ucast ret_size;
              req_mem_size = max (args_offset + args_size) (ret_offset + ret_size)
          in extend_memory_block h m req_mem_size 0 (\<lambda>m.
             call_syscall h exec m gas address v args_offset args_size ret_offset ret_size ct
               (\<lambda>call_result m. push_next m call_result)))))))))) m"

text \<open>The end of \<open>codegen_create\<close>, after the system call.\<close>

definition created :: "mstate \<Rightarrow> create_outcome res \<Rightarrow> step" where
  "created m r = and_then r (\<lambda>(c, v, gas_cost, result).
     let flag = (SUCCESS_RETURN_CODE = result);
         (m, gas_flag) = consume_gas_as_value (m\<lparr>m_ctx := c\<rparr>) gas_cost
     in cond_br (gas_flag \<and> flag) (\<lambda>m. push_next m (to_primitive_u256 v)) m)"

definition codegen_create :: "host \<Rightarrow> executor \<Rightarrow> bool \<Rightarrow> mstate \<Rightarrow> step" where
  "codegen_create h exec is_create2 m =
     cond_br (check_context_is_not_static m \<and> at_least (if is_create2 then 4 else 3) m) (\<lambda>m.
     pop m (\<lambda>v m. pop m (\<lambda>off m. pop m (\<lambda>sz m.
     let off = ucast off; sz = ucast sz
     in extend_memory_block h m (off + sz) gas_CREATE (\<lambda>m.
        let gas = get_remaining_gas m
        in if is_create2
           then pop m (\<lambda>salt m. created m (create2 h exec (m_ctx m) sz off (halves v) gas (halves salt)))
           else created m (create h exec (m_ctx m) sz off (halves v) gas)))))) m"

section \<open>Control flow\<close>

definition codegen_jumpdest :: "nat \<Rightarrow> mstate \<Rightarrow> step" where
  "codegen_jumpdest pc m =
     (let (m, gas_flag) = consume_gas m gas_JUMPDEST in cond_br gas_flag (\<lambda>m. Inr (m, Next)) m)"

definition codegen_jump :: "mstate \<Rightarrow> step" where
  "codegen_jump = guarded gas_JUMP (at_least 1) (\<lambda>m. pop m (\<lambda>pc m. Inr (m, To_jumptable pc)))"

definition codegen_jumpi :: "mstate \<Rightarrow> step" where
  "codegen_jumpi = guarded gas_JUMPI (at_least 2) (\<lambda>m. pop m (\<lambda>pc m. pop m (\<lambda>condition m.
     Inr (m, if condition \<noteq> 0 then To_jumptable pc else Next))))"

definition codegen_return :: "host \<Rightarrow> mstate \<Rightarrow> step" where
  "codegen_return h m = cond_br (at_least 2 m) (\<lambda>m. return_result_from_stack h m Exit_Return) m"

definition codegen_revert :: "host \<Rightarrow> mstate \<Rightarrow> step" where
  "codegen_revert h m = cond_br (at_least 2 m) (\<lambda>m. return_result_from_stack h m Exit_Revert) m"

definition codegen_stop :: "mstate \<Rightarrow> step" where
  "codegen_stop m = return_empty_result m Exit_Stop"

definition codegen_invalid :: "mstate \<Rightarrow> step" where
  "codegen_invalid m = revert m"

section \<open>Dispatch\<close>

primrec generate_code_for_op :: "host \<Rightarrow> executor \<Rightarrow> program \<Rightarrow> operation \<Rightarrow> mstate \<Rightarrow> step" where
  "generate_code_for_op h exec p Stop = codegen_stop"
| "generate_code_for_op h exec p Add = codegen_add"
| "generate_code_for_op h exec p Mul = codegen_mul"
| "generate_code_for_op h exec p Sub = codegen_sub"
| "generate_code_for_op h exec p Div = codegen_div"
| "generate_code_for_op h exec p Sdiv = codegen_sdiv"
| "generate_code_for_op h exec p Mod = codegen_mod"
| "generate_code_for_op h exec p SMod = codegen_smod"
| "generate_code_for_op h exec p Addmod = codegen_addmod"
| "generate_code_for_op h exec p Mulmod = codegen_mulmod"
| "generate_code_for_op h exec p Exp = codegen_exp h"
| "generate_code_for_op h exec p SignExtend = codegen_signextend"
| "generate_code_for_op h exec p Lt = codegen_lt"
| "generate_code_for_op h exec p Gt = codegen_gt"
| "generate_code_for_op h exec p Slt = codegen_slt"
| "generate_code_for_op h exec p Sgt = codegen_sgt"
| "generate_code_for_op h exec p Eq = codegen_eq"
| "generate_code_for_op h exec p IsZero = codegen_iszero"
| "generate_code_for_op h exec p And = codegen_and"
| "generate_code_for_op h exec p Or = codegen_or"
| "generate_code_for_op h exec p Xor = codegen_xor"
| "generate_code_for_op h exec p operation.Not = codegen_not"
| "generate_code_for_op h exec p Byte = codegen_byte"
| "generate_code_for_op h exec p Shl = codegen_shl"
| "generate_code_for_op h exec p Shr = codegen_shr"
| "generate_code_for_op h exec p Sar = codegen_sar"
| "generate_code_for_op h exec p Keccak256 = codegen_keccak256 h"
| "generate_code_for_op h exec p Address = codegen_address h"
| "generate_code_for_op h exec p Balance = codegen_balance"
| "generate_code_for_op h exec p Origin = codegen_origin"
| "generate_code_for_op h exec p Caller = codegen_caller"
| "generate_code_for_op h exec p Callvalue = codegen_callvalue"
| "generate_code_for_op h exec p CalldataLoad = codegen_calldataload"
| "generate_code_for_op h exec p CallDataSize = codegen_calldatasize"
| "generate_code_for_op h exec p CallDataCopy = codegen_calldatacopy h"
| "generate_code_for_op h exec p Codesize = codegen_codesize p"
| "generate_code_for_op h exec p Codecopy = codegen_codecopy h"
| "generate_code_for_op h exec p Gasprice = codegen_gasprice"
| "generate_code_for_op h exec p ExtcodeSize = codegen_extcodesize"
| "generate_code_for_op h exec p ExtcodeCopy = codegen_extcodecopy h"
| "generate_code_for_op h exec p ReturnDataSize = codegen_returndatasize"
| "generate_code_for_op h exec p ReturnDataCopy = codegen_returndatacopy h"
| "generate_code_for_op h exec p ExtcodeHash = codegen_extcodehash"
| "generate_code_for_op h exec p BlockHash = codegen_blockhash"
| "generate_code_for_op h exec p Coinbase = codegen_coinbase"
| "generate_code_for_op h exec p Timestamp = codegen_timestamp"
| "generate_code_for_op h exec p Number = codegen_number"
| "generate_code_for_op h exec p Prevrandao = codegen_prevrandao"
| "generate_code_for_op h exec p Gaslimit = codegen_gaslimit"
| "generate_code_for_op h exec p Chainid = codegen_chaind"
| "generate_code_for_op h exec p SelfBalance = codegen_selfbalance"
| "generate_code_for_op h exec p Basefee = codegen_basefee"
| "generate_code_for_op h exec p BlobHash = codegen_blobhash"
| "generate_code_for_op h exec p BlobBaseFee = codegen_blobbasefee"
| "generate_code_for_op h exec p Pop = codegen_pop"
| "generate_code_for_op h exec p Mload = codegen_mload h"
| "generate_code_for_op h exec p Mstore = codegen_mstore h"
| "generate_code_for_op h exec p Mstore8 = codegen_mstore8 h"
| "generate_code_for_op h exec p Sload = codegen_sload"
| "generate_code_for_op h exec p Sstore = codegen_sstore"
| "generate_code_for_op h exec p Jump = codegen_jump"
| "generate_code_for_op h exec p Jumpi = codegen_jumpi"
| "generate_code_for_op h exec p (PC pc) = codegen_pc pc"
| "generate_code_for_op h exec p Msize = codegen_msize"
| "generate_code_for_op h exec p Gas = codegen_gas"
| "generate_code_for_op h exec p (Jumpdest pc) = codegen_jumpdest pc"
| "generate_code_for_op h exec p Tload = codegen_tload"
| "generate_code_for_op h exec p Tstore = codegen_tstore"
| "generate_code_for_op h exec p Mcopy = codegen_mcopy h"
| "generate_code_for_op h exec p Push0 = codegen_push 0 True"
| "generate_code_for_op h exec p (Push n x) = codegen_push x False"
| "generate_code_for_op h exec p (Dup x) = codegen_dup x"
| "generate_code_for_op h exec p (Swap x) = codegen_swap x"
| "generate_code_for_op h exec p (Log x) = codegen_log h x"
| "generate_code_for_op h exec p Create = codegen_create h exec False"
| "generate_code_for_op h exec p Call = codegen_call h exec Call_Call"
| "generate_code_for_op h exec p CallCode = codegen_call h exec Call_CallCode"
| "generate_code_for_op h exec p Return = codegen_return h"
| "generate_code_for_op h exec p DelegateCall = codegen_call h exec Call_DelegateCall"
| "generate_code_for_op h exec p Create2 = codegen_create h exec True"
| "generate_code_for_op h exec p StaticCall = codegen_call h exec Call_StaticCall"
| "generate_code_for_op h exec p Revert = codegen_revert h"
| "generate_code_for_op h exec p Invalid = codegen_invalid"
| "generate_code_for_op h exec p SelfDestruct = codegen_selfdestruct"

text \<open>The operations that have one of the common block shapes.\<close>

lemmas shape_defs =
  codegen_add_def codegen_mul_def codegen_sub_def codegen_div_def codegen_sdiv_def codegen_mod_def
  codegen_smod_def codegen_addmod_def codegen_mulmod_def codegen_signextend_def codegen_lt_def codegen_gt_def
  codegen_slt_def codegen_sgt_def codegen_eq_def codegen_iszero_def codegen_and_def codegen_or_def
  codegen_xor_def codegen_not_def codegen_byte_def codegen_shl_def codegen_shr_def codegen_sar_def
  codegen_origin_def codegen_caller_def codegen_callvalue_def codegen_gasprice_def codegen_number_def
  codegen_timestamp_def codegen_basefee_def codegen_prevrandao_def codegen_chaind_def codegen_gaslimit_def
  codegen_blobbasefee_def codegen_coinbase_def codegen_address_def codegen_codesize_def
  codegen_returndatasize_def codegen_pc_def codegen_msize_def codegen_gas_def

end
