(* ===== verification/Alu_Spec.thy ===== *)
theory Alu_Spec
  imports Codegen_World
begin

text \<open>
  The operations of the stack against a reference: the instruction table of the
  EVM, with the price and the function of each operation written over unbounded
  integers.
\<close>

section \<open>Reference\<close>

definition nonzero :: "u256 \<Rightarrow> int \<Rightarrow> u256" where
  "nonzero den r = (if den = 0 then 0 else word_of_int r)"

definition evm_byte :: "u256 \<Rightarrow> u256 \<Rightarrow> u256" where
  "evm_byte i x = (if unat i < 32 then ucast (word_to_be x ! unat i) else 0)"

definition evm_signextend :: "u256 \<Rightarrow> u256 \<Rightarrow> u256" where
  "evm_signextend k x = (if unat k < 31 then word_of_int (signed_take_bit (8 * unat k + 7) (uint x)) else x)"

definition evm_sar :: "u256 \<Rightarrow> u256 \<Rightarrow> u256" where
  "evm_sar s x = (if unat s < 256 then word_of_int (sint x div 2 ^ unat s) else if sint x < 0 then - 1 else 0)"

text \<open>Operation, number of operands, price, and the value from the operands, the top first.\<close>

definition alu_table :: "(operation \<times> nat \<times> nat \<times> (u256 list \<Rightarrow> u256)) list" where
  "alu_table = [
     (Add, 2, 3, \<lambda>s. word_of_int (uint (s ! 0) + uint (s ! 1))),
     (Mul, 2, 5, \<lambda>s. word_of_int (uint (s ! 0) * uint (s ! 1))),
     (Sub, 2, 3, \<lambda>s. word_of_int (uint (s ! 0) - uint (s ! 1))),
     (Div, 2, 5, \<lambda>s. nonzero (s ! 1) (uint (s ! 0) div uint (s ! 1))),
     (Sdiv, 2, 5, \<lambda>s. nonzero (s ! 1) (sint (s ! 0) sdiv sint (s ! 1))),
     (Mod, 2, 5, \<lambda>s. nonzero (s ! 1) (uint (s ! 0) mod uint (s ! 1))),
     (SMod, 2, 5, \<lambda>s. nonzero (s ! 1) (sint (s ! 0) smod sint (s ! 1))),
     (Addmod, 3, 8, \<lambda>s. nonzero (s ! 2) ((uint (s ! 0) + uint (s ! 1)) mod uint (s ! 2))),
     (Mulmod, 3, 8, \<lambda>s. nonzero (s ! 2) ((uint (s ! 0) * uint (s ! 1)) mod uint (s ! 2))),
     (SignExtend, 2, 5, \<lambda>s. evm_signextend (s ! 0) (s ! 1)),
     (Lt, 2, 3, \<lambda>s. of_bool (uint (s ! 0) < uint (s ! 1))),
     (Gt, 2, 3, \<lambda>s. of_bool (uint (s ! 0) > uint (s ! 1))),
     (Slt, 2, 3, \<lambda>s. of_bool (sint (s ! 0) < sint (s ! 1))),
     (Sgt, 2, 3, \<lambda>s. of_bool (sint (s ! 0) > sint (s ! 1))),
     (Eq, 2, 3, \<lambda>s. of_bool (uint (s ! 0) = uint (s ! 1))),
     (IsZero, 1, 3, \<lambda>s. of_bool (uint (s ! 0) = 0)),
     (And, 2, 3, \<lambda>s. word_of_int (uint (s ! 0) AND uint (s ! 1))),
     (Or, 2, 3, \<lambda>s. word_of_int (uint (s ! 0) OR uint (s ! 1))),
     (Xor, 2, 3, \<lambda>s. word_of_int (uint (s ! 0) XOR uint (s ! 1))),
     (operation.Not, 1, 3, \<lambda>s. word_of_int (2 ^ 256 - 1 - uint (s ! 0))),
     (Byte, 2, 3, \<lambda>s. evm_byte (s ! 0) (s ! 1)),
     (Shl, 2, 3, \<lambda>s. if unat (s ! 0) < 256 then word_of_int (uint (s ! 1) * 2 ^ unat (s ! 0)) else 0),
     (Shr, 2, 3, \<lambda>s. if unat (s ! 0) < 256 then word_of_int (uint (s ! 1) div 2 ^ unat (s ! 0)) else 0),
     (Sar, 2, 3, \<lambda>s. evm_sar (s ! 0) (s ! 1))]"

text \<open>The operands on which the generated code differs from the table are left out.\<close>

definition alu_regular :: "operation \<Rightarrow> u256 list \<Rightarrow> bool" where
  "alu_regular op s \<longleftrightarrow>
     (op = Sdiv \<or> op = SMod \<longrightarrow> \<not> (sint (s ! 0) = - (2 ^ 255) \<and> sint (s ! 1) = - 1)) \<and>
     (op = Shl \<or> op = Shr \<longrightarrow> s ! 0 \<noteq> 255) \<and>
     (op = Byte \<longrightarrow> unat (s ! 0) < 2 ^ 253)"

section \<open>Block shapes\<close>

text \<open>What a step that pushed one value did.\<close>

definition pushed :: "mstate \<Rightarrow> u64 \<Rightarrow> u256 \<Rightarrow> u256 list \<Rightarrow> step \<Rightarrow> bool" where
  "pushed m cost v rest r \<longleftrightarrow> (\<exists>m'. r = Inr (m', Next) \<and> stack_view m' = v # rest \<and> stack_ok m' \<and>
     frame m' = (frame m)\<lparr>gas_counter := gas_counter m - cost\<rparr>)"

definition affordable :: "mstate \<Rightarrow> u64 \<Rightarrow> bool" where
  "affordable m cost \<longleftrightarrow> unat cost \<le> unat (gas_counter m) \<and> unat (gas_counter m) < 2 ^ 63"

lemma frame_upd [simp]:
  "frame (m\<lparr>gas_counter := g\<rparr>) = (frame m)\<lparr>gas_counter := g\<rparr>"
  "stack_view (m\<lparr>gas_counter := g\<rparr>) = stack_view m" "stack_ok (m\<lparr>gas_counter := g\<rparr>) = stack_ok m"
  by (simp_all add: frame_def stack_view_def stack_ok_def)

lemma guarded_ok:
  assumes "affordable m cost" and "check m"
  shows "guarded cost check k m = k (m\<lparr>gas_counter := gas_counter m - cost\<rparr>)"
  using assms gas_covers [of cost "gas_counter m"]
  by (simp add: guarded_def consume_gas_def affordable_def Let_def)

lemma guarded_fails:
  assumes "unat cost < 2 ^ 63" and "unat (gas_counter m) < unat cost \<or> \<not> check m"
  shows "guarded cost check k m = revert (m\<lparr>gas_counter := gas_counter m - cost\<rparr>)"
  using assms gas_covers [of cost "gas_counter m"]
  by (auto simp: guarded_def consume_gas_def Let_def)

lemma push_next_room:
  assumes "stack_ok m" and "length (stack_view m) < MAX_STACK_SIZE" and "frame m = (frame m0)\<lparr>gas_counter := gas_counter m0 - cost\<rparr>"
  shows "pushed m0 cost v (stack_view m) (push_next m v)"
  using stack.push_room [OF assms(1,2), of v] assms(3) by (auto simp: pushed_def push_next_def)

lemma unary_op_ok:
  assumes "affordable m cost" and "stack_ok m" and "stack_view m = x # rest" and "f x = Inr v"
  shows "pushed m cost v rest (unary_op cost f m)"
proof -
  let ?m = "m\<lparr>gas_counter := gas_counter m - cost\<rparr>"
  have "at_least 1 m" using assms(3) length_stack_view [of m] by (simp add: check_stack_has_at_least_def)
  then have e: "unary_op cost f m = pop ?m (\<lambda>x m. and_then (f x) (push_next m))"
    using assms(1) by (simp add: unary_op_def guarded_ok)
  obtain m' where m': "stack_pop ?m = Inr (m', x)" "stack_view m' = rest" "frame m' = frame ?m" "stack_ok m'"
    using stack.pop_Cons [of ?m x rest] assms(2,3) by auto
  have "length (stack_view m') < MAX_STACK_SIZE"
    using m'(2) assms(2,3) length_stack_view [of m] by (simp add: stack_ok_def)
  then show ?thesis
    using push_next_room [of m' m cost v] m' assms(4) by (simp add: e pop_def)
qed

lemma binary_op_ok:
  assumes "affordable m cost" and "stack_ok m" and "stack_view m = x # y # rest" and "f x y = Inr v"
  shows "pushed m cost v rest (binary_op cost f m)"
proof -
  let ?m = "m\<lparr>gas_counter := gas_counter m - cost\<rparr>"
  have "at_least 2 m" using assms(3) length_stack_view [of m] by (simp add: check_stack_has_at_least_def)
  then have e: "binary_op cost f m = pop ?m (\<lambda>x m. pop m (\<lambda>y m. and_then (f x y) (push_next m)))"
    using assms(1) by (simp add: binary_op_def guarded_ok)
  obtain m' m'' where m': "stack_pop ?m = Inr (m', x)" "stack_pop m' = Inr (m'', y)"
    "stack_view m'' = rest" "frame m'' = frame ?m" "stack_ok m''"
    using stack.pop_pop [of ?m x y rest] assms(2,3) by auto
  have "length (stack_view m'') < MAX_STACK_SIZE"
    using m'(3) assms(2,3) length_stack_view [of m] by (simp add: stack_ok_def)
  then show ?thesis
    using push_next_room [of m'' m cost v] m' assms(4) by (simp add: e pop_def)
qed

lemma ternary_op_ok:
  assumes "affordable m cost" and "stack_ok m" and "stack_view m = x # y # z # rest" and "f x y z = Inr v"
  shows "pushed m cost v rest (ternary_op cost f m)"
proof -
  let ?m = "m\<lparr>gas_counter := gas_counter m - cost\<rparr>"
  have "at_least 3 m" using assms(3) length_stack_view [of m] by (simp add: check_stack_has_at_least_def)
  then have e: "ternary_op cost f m =
      pop ?m (\<lambda>x m. pop m (\<lambda>y m. pop m (\<lambda>z m. and_then (f x y z) (push_next m))))"
    using assms(1) by (simp add: ternary_op_def guarded_ok)
  obtain m1 m2 where m1: "stack_pop ?m = Inr (m1, x)" "stack_pop m1 = Inr (m2, y)"
    "stack_view m2 = z # rest" "frame m2 = frame ?m" "stack_ok m2"
    using stack.pop_pop [of ?m x y "z # rest"] assms(2,3) by auto
  obtain m3 where m3: "stack_pop m2 = Inr (m3, z)" "stack_view m3 = rest" "frame m3 = frame m2" "stack_ok m3"
    using stack.pop_Cons [OF m1(5,3)] by auto
  have "length (stack_view m3) < MAX_STACK_SIZE"
    using m3(2) assms(2,3) length_stack_view [of m] by (simp add: stack_ok_def)
  then show ?thesis
    using push_next_room [of m3 m cost v] m1 m3 assms(4) by (simp add: e pop_def)
qed

section \<open>The functions\<close>

lemma fn_linear:
  "a + b = word_of_int (uint a + uint (b :: u256))" "a - b = word_of_int (uint a - uint b)"
  "a * b = word_of_int (uint a * uint b)"
  by simp_all

lemma fn_div: "(if den = 0 then 0 else num div den) = nonzero den (uint num div uint den)"
  "(if den = 0 then 0 else num mod den) = nonzero den (uint num mod uint den)"
  by (simp_all add: nonzero_def word_div_def word_mod_def)

lemma uint_257: "uint ((ucast a :: 257 word) + ucast b) = uint (a :: u256) + uint (b :: u256)"
proof -
  have "uint a < 2 ^ 256" "uint b < 2 ^ 256"
    using unsigned_less [of a, where ?'a = int] unsigned_less [of b, where ?'a = int] by simp_all
  then have "uint a + uint b < 2 ^ 257" by simp
  moreover have "uint (ucast w :: 257 word) = uint w" for w :: u256
    using unsigned_less [of w, where ?'a = int] by (simp add: unsigned_ucast_eq take_bit_int_eq_self_iff)
  ultimately show ?thesis
    by (simp add: uint_word_ariths)
qed

lemma uint_512: "uint ((ucast a :: 512 word) * ucast b) = uint (a :: u256) * uint (b :: u256)"
proof -
  have "uint a < 2 ^ 256" "uint b < 2 ^ 256"
    using unsigned_less [of a, where ?'a = int] unsigned_less [of b, where ?'a = int] by simp_all
  then have "uint a * uint b < 2 ^ 256 * 2 ^ 256" by (intro mult_strict_mono') simp_all
  then have "uint a * uint b < 2 ^ 512" by simp
  moreover have "uint (ucast w :: 512 word) = uint w" for w :: u256
    using unsigned_less [of w, where ?'a = int] by (simp add: unsigned_ucast_eq take_bit_int_eq_self_iff)
  ultimately show ?thesis
    by (simp add: uint_word_ariths)
qed

lemma ucast_mod_den:
  fixes x :: "'a::len word" and den :: u256
  assumes "256 \<le> LENGTH('a)"
  shows "(ucast (x mod ucast den) :: u256) = word_of_int (uint x mod uint den)"
proof -
  have "uint (ucast den :: 'a word) = uint den"
    using arg_cong [OF unat_ucast_up [of den, where ?'b = 'a], of int] assms by simp
  then have "uint (x mod ucast den) = uint x mod uint den" by (simp add: uint_mod)
  then show ?thesis by (metis ucast_eq)
qed

lemma fn_addmod: "(if den = 0 then 0 else ucast (((ucast a :: 257 word) + ucast b) mod ucast den)) =
    nonzero den ((uint a + uint b) mod uint den)"
  for a b den :: u256
  by (simp add: nonzero_def ucast_mod_den uint_257)

lemma fn_mulmod: "(if den = 0 then 0 else ucast (((ucast a :: 512 word) * ucast b) mod ucast den)) =
    nonzero den ((uint a * uint b) mod uint den)"
  for a b den :: u256
  by (simp add: nonzero_def ucast_mod_den uint_512)

lemma fn_flag: "flag_word c = of_bool c"
  by (simp add: flag_word_def)

lemmas fn_flags = fn_flag word_less_def word_uint_eq_iff unsigned_0

lemma fn_bits: "a AND b = word_of_int (uint a AND uint b)" "a OR b = word_of_int (uint a OR uint b)"
  "a XOR b = word_of_int (uint a XOR uint b)" for a b :: u256
  by (rule bit_word_eqI; simp add: bit_simps)+

lemma be_nat_replicate_ff: "be_nat (replicate n 0xff) = 256 ^ n - 1"
proof (induction n)
  case (Suc n)
  have "(1::nat) \<le> 256 ^ n" by simp
  moreover have "unat (0xff :: u8) = 255" by simp
  ultimately show ?case using Suc by (simp only: replicate_Suc be_nat_Cons length_replicate power_Suc)
qed simp

lemma fn_not: "a XOR of_nat (be_nat (replicate 32 0xff)) = word_of_int (2 ^ 256 - 1 - uint a)" for a :: u256
proof -
  have "be_nat (replicate 32 0xff) = 2 ^ 256 - 1" by (simp only: be_nat_replicate_ff) simp
  then have "(of_nat (be_nat (replicate 32 0xff)) :: u256) = - 1" by simp
  then show ?thesis by (simp add: not_eq_complement)
qed


lemma nth_nat_to_be: "i < n \<Longrightarrow> nat_to_be n v ! i = of_nat (v div 256 ^ (n - 1 - i) mod 256)"
proof (induction n arbitrary: v)
  case (Suc n)
  show ?case
  proof (cases "i = n")
    case True
    then show ?thesis by (simp add: nth_append)
  next
    case False
    then have i: "i < n" using Suc.prems by simp
    then have "v div 256 div 256 ^ (n - 1 - i) = v div 256 ^ (n - i)"
      by (simp flip: div_mult2_eq power_Suc add: Suc_diff_Suc)
    then show ?thesis using Suc.IH [OF i, of "v div 256"] i by (simp add: nth_append)
  qed
qed simp

lemma fn_byte:
  assumes "unat i < 2 ^ 253"
  shows "(let max_shift_in_bits = 31 * 8; offset_in_bits = i * 8
     in (if offset_in_bits > max_shift_in_bits then 0
         else drop_bit (unat (max_shift_in_bits - offset_in_bits)) v AND 0xff)) = evm_byte i (v :: u256)"
proof -
  have u: "unat (i * 8) = unat i * 8" using assms by (simp add: unat_word_ariths)
  show ?thesis
  proof (cases "unat i < 32")
    case False
    then have "31 * 8 < i * 8" using u by (simp add: word_less_nat_alt)
    then show ?thesis using False by (simp add: evm_byte_def)
  next
    case True
    have le: "i * 8 \<le> 31 * 8" using True u by (simp add: word_le_nat_alt)
    then have s: "unat (31 * 8 - i * 8) = 8 * (31 - unat i)" using u True by (simp add: unat_sub)
    have "unat (drop_bit (8 * (31 - unat i)) v AND 0xff) = unat v div 256 ^ (31 - unat i) mod 256"
    proof -
      have t: "take_bit 256 (unat v) = unat v"
        using unat_less_pow [of v] by (simp add: take_bit_nat_eq_self_iff)
      have "(0xff :: u256) = mask 8" by (simp add: mask_eq_exp_minus_1)
      then have "drop_bit (8 * (31 - unat i)) v AND 0xff = take_bit 8 (drop_bit (8 * (31 - unat i)) v)"
        by (simp only: take_bit_eq_mask)
      then have "unat (drop_bit (8 * (31 - unat i)) v AND 0xff) = take_bit 8 (drop_bit (8 * (31 - unat i)) (unat v))"
        using t by (simp only: unsigned_take_bit_eq unsigned_drop_bit_eq) simp
      then show ?thesis by (simp only: take_bit_eq_mod drop_bit_eq_div power_mult) simp
    qed
    moreover have "word_to_be v ! unat i = of_nat (unat v div 256 ^ (31 - unat i) mod 256)"
      using True by (simp add: word_to_be_def nth_nat_to_be)
    ultimately have "drop_bit (8 * (31 - unat i)) v AND 0xff = ucast (word_to_be v ! unat i)"
      by (simp only: word_unat_eq_iff) (simp add: unat_ucast_up unat_of_nat)
    then show ?thesis using True le s by (simp add: evm_byte_def Let_def not_less [symmetric])
  qed
qed

lemma fn_shl:
  fixes s v :: u256
  assumes "s \<noteq> 255"
  shows "(if s < 255 then push_bit (unat s) v else 0) =
    (if unat s < 256 then word_of_int (uint v * 2 ^ unat s) else 0)"
proof -
  have "s < 255 \<longleftrightarrow> unat s < 256"
    using assms by (auto simp: word_less_nat_alt word_unat_eq_iff)
  then show ?thesis by (simp add: push_bit_eq_mult)
qed

lemma fn_shr:
  fixes s v :: u256
  assumes "s \<noteq> 255"
  shows "(if s < 255 then drop_bit (unat s) v else 0) =
    (if unat s < 256 then word_of_int (uint v div 2 ^ unat s) else 0)"
proof -
  have "s < 255 \<longleftrightarrow> unat s < 256"
    using assms by (auto simp: word_less_nat_alt word_unat_eq_iff)
  moreover have "drop_bit n v = word_of_int (uint v div 2 ^ n)" for n
    by (rule bit_word_eqI) (simp flip: drop_bit_eq_div add: bit_simps)
  ultimately show ?thesis by simp
qed

lemma signed_drop_bit_div: "signed_drop_bit n w = word_of_int (sint w div 2 ^ n)" for w :: u256
proof -
  have "sint (signed_drop_bit n w) = sint w div 2 ^ n"
    by (simp add: sint_signed_drop_bit_eq drop_bit_eq_div)
  then have "word_of_int (sint (signed_drop_bit n w)) = (word_of_int (sint w div 2 ^ n) :: u256)"
    by (rule arg_cong)
  then show ?thesis by simp
qed

lemma fn_sar: "signed_drop_bit (unat (min s 255)) v = evm_sar s v" for s v :: u256
proof (cases "unat s < 256")
  case True
  then have "min s 255 = s" by (simp add: min_def word_le_nat_alt)
  then show ?thesis using True by (simp add: evm_sar_def signed_drop_bit_div)
next
  case False
  then have m: "unat (min s 255) = 255" by (simp add: min_def word_le_nat_alt)
  have "sint v < 2 ^ 255" "- (2 ^ 255) \<le> sint v"
    using sint_lt [of v] sint_ge [of v] by simp_all
  then have "sint v div 2 ^ 255 = (if sint v < 0 then - 1 else 0)"
    by (auto simp: div_pos_neg_trivial)
  then show ?thesis unfolding m signed_drop_bit_div using False by (simp add: evm_sar_def)
qed

lemma fn_signextend:
  "(let byte_size = min k 31; value_size_in_bits = byte_size * 8 + 7; bits_to_shift = 255 - value_size_in_bits
    in signed_drop_bit (unat bits_to_shift) (push_bit (unat bits_to_shift) v)) = evm_signextend k v" for k v :: u256
proof (cases "unat k < 31")
  case True
  then have m: "min k 31 = k" by (simp add: min_def word_le_nat_alt)
  have u: "unat (k * 8) = unat k * 8" using True by (simp add: unat_word_ariths)
  then have b: "unat (248 - k * 8) = 248 - 8 * unat k"
    using True by (simp add: unat_sub word_le_nat_alt)
  define n where "n = 8 * unat k + 7"
  have n: "248 - 8 * unat k = 255 - n" "n < 255" using True by (simp_all add: n_def)
  have "signed_drop_bit (255 - n) (push_bit (255 - n) v) = (word_of_int (signed_take_bit n (uint v)) :: u256)"
    using n(2) by (intro bit_word_eqI) (auto simp: bit_simps min_def not_less_eq_eq le_antisym dest: le_antisym)
  then show ?thesis using True by (simp add: evm_signextend_def Let_def m b n(1) flip: n_def)
next
  case False
  then have "min k 31 = 31" by (simp add: min_def word_le_nat_alt word_unat_eq_iff)
  then show ?thesis using False by (simp add: evm_signextend_def)
qed


section \<open>Refinement\<close>

lemma cost_affordable: "n \<le> unat (gas_counter m) \<Longrightarrow> unat (gas_counter m) < 2 ^ 63 \<Longrightarrow> affordable m (of_nat n)"
  by (simp add: affordable_def unat_of_nat take_bit_nat_eq_self_iff)

lemmas alu_functions = fn_linear fn_div fn_bits fn_not fn_sar

lemma alu_unary_ok:
  assumes "stack_ok m" and "stack_view m = a # rest"
  shows "affordable m gas_ISZERO \<Longrightarrow> pushed m gas_ISZERO (of_bool (uint a = 0)) rest (codegen_iszero m)"
    and "affordable m gas_NOT \<Longrightarrow> pushed m gas_NOT (word_of_int (2 ^ 256 - 1 - uint a)) rest (codegen_not m)"
  unfolding codegen_iszero_def codegen_not_def
  by (erule unary_op_ok [OF _ assms], (simp only: fn_not; fail | simp only: fn_flags))+

lemma alu_binary_ok:
  assumes "stack_ok m" and "stack_view m = a # b # rest"
  shows "affordable m gas_ADD \<Longrightarrow> pushed m gas_ADD (word_of_int (uint a + uint b)) rest (codegen_add m)"
    and "affordable m gas_MUL \<Longrightarrow> pushed m gas_MUL (word_of_int (uint a * uint b)) rest (codegen_mul m)"
    and "affordable m gas_SUB \<Longrightarrow> pushed m gas_SUB (word_of_int (uint a - uint b)) rest (codegen_sub m)"
    and "affordable m gas_DIV \<Longrightarrow> pushed m gas_DIV (nonzero b (uint a div uint b)) rest (codegen_div m)"
    and "affordable m gas_MOD \<Longrightarrow> pushed m gas_MOD (nonzero b (uint a mod uint b)) rest (codegen_mod m)"
    and "affordable m gas_SIGNEXTEND \<Longrightarrow> pushed m gas_SIGNEXTEND (evm_signextend a b) rest (codegen_signextend m)"
    and "affordable m gas_LT \<Longrightarrow> pushed m gas_LT (of_bool (uint a < uint b)) rest (codegen_lt m)"
    and "affordable m gas_GT \<Longrightarrow> pushed m gas_GT (of_bool (uint a > uint b)) rest (codegen_gt m)"
    and "affordable m gas_SLT \<Longrightarrow> pushed m gas_SLT (of_bool (sint a < sint b)) rest (codegen_slt m)"
    and "affordable m gas_SGT \<Longrightarrow> pushed m gas_SGT (of_bool (sint a > sint b)) rest (codegen_sgt m)"
    and "affordable m gas_EQ \<Longrightarrow> pushed m gas_EQ (of_bool (uint a = uint b)) rest (codegen_eq m)"
    and "affordable m gas_AND \<Longrightarrow> pushed m gas_AND (word_of_int (uint a AND uint b)) rest (codegen_and m)"
    and "affordable m gas_OR \<Longrightarrow> pushed m gas_OR (word_of_int (uint a OR uint b)) rest (codegen_or m)"
    and "affordable m gas_XOR \<Longrightarrow> pushed m gas_XOR (word_of_int (uint a XOR uint b)) rest (codegen_xor m)"
    and "affordable m gas_SAR \<Longrightarrow> pushed m gas_SAR (evm_sar a b) rest (codegen_sar m)"
  unfolding codegen_add_def codegen_mul_def codegen_sub_def codegen_div_def codegen_mod_def
    codegen_signextend_def codegen_lt_def codegen_gt_def codegen_slt_def codegen_sgt_def codegen_eq_def
    codegen_and_def codegen_or_def codegen_xor_def codegen_sar_def fn_signextend [symmetric] Let_def
  by (erule binary_op_ok [OF _ assms], (simp only: alu_functions; fail | simp only: fn_flags))+

lemma alu_partial_ok:
  assumes "stack_ok m" and "stack_view m = a # b # rest"
  shows "affordable m gas_SDIV \<Longrightarrow> alu_regular Sdiv [a, b] \<Longrightarrow>
      pushed m gas_SDIV (nonzero b (sint a sdiv sint b)) rest (codegen_sdiv m)"
    and "affordable m gas_SMOD \<Longrightarrow> alu_regular SMod [a, b] \<Longrightarrow>
      pushed m gas_SMOD (nonzero b (sint a smod sint b)) rest (codegen_smod m)"
    and "affordable m gas_BYTE \<Longrightarrow> alu_regular Byte [a, b] \<Longrightarrow>
      pushed m gas_BYTE (evm_byte a b) rest (codegen_byte m)"
    and "affordable m gas_SHL \<Longrightarrow> alu_regular Shl [a, b] \<Longrightarrow>
      pushed m gas_SHL (if unat a < 256 then word_of_int (uint b * 2 ^ unat a) else 0) rest (codegen_shl m)"
    and "affordable m 3 \<Longrightarrow> alu_regular Shr [a, b] \<Longrightarrow>
      pushed m 3 (if unat a < 256 then word_of_int (uint b div 2 ^ unat a) else 0) rest (codegen_shr m)"
proof -
  show "pushed m gas_SDIV (nonzero b (sint a sdiv sint b)) rest (codegen_sdiv m)"
    if "affordable m gas_SDIV" "alu_regular Sdiv [a, b]"
    unfolding codegen_sdiv_def
    using that by (intro binary_op_ok [OF _ assms]) (auto simp: alu_regular_def llvm_sdiv_def nonzero_def)
  show "pushed m gas_SMOD (nonzero b (sint a smod sint b)) rest (codegen_smod m)"
    if "affordable m gas_SMOD" "alu_regular SMod [a, b]"
    unfolding codegen_smod_def
    using that by (intro binary_op_ok [OF _ assms]) (auto simp: alu_regular_def llvm_srem_def nonzero_def)
  show "pushed m gas_BYTE (evm_byte a b) rest (codegen_byte m)"
    if "affordable m gas_BYTE" "alu_regular Byte [a, b]"
  proof -
    have "unat a < 2 ^ 253" using that(2) by (simp add: alu_regular_def)
    from fn_byte [OF this] show ?thesis
      unfolding codegen_byte_def using that(1)
      by (intro binary_op_ok [OF _ assms]) (simp_all add: Let_def)
  qed
  show "pushed m gas_SHL (if unat a < 256 then word_of_int (uint b * 2 ^ unat a) else 0) rest (codegen_shl m)"
    if "affordable m gas_SHL" "alu_regular Shl [a, b]"
  proof -
    have "a \<noteq> 255" using that(2) by (simp add: alu_regular_def)
    from fn_shl [OF this, of b] show ?thesis
      unfolding codegen_shl_def using that(1) by (intro binary_op_ok [OF _ assms]) simp_all
  qed
  show "pushed m 3 (if unat a < 256 then word_of_int (uint b div 2 ^ unat a) else 0) rest (codegen_shr m)"
    if "affordable m 3" "alu_regular Shr [a, b]"
  proof -
    have "a \<noteq> 255" using that(2) by (simp add: alu_regular_def)
    from fn_shr [OF this, of b] show ?thesis
      unfolding codegen_shr_def using that(1) by (intro binary_op_ok [OF _ assms]) simp_all
  qed
qed

lemma alu_ternary_ok:
  assumes "stack_ok m" and "stack_view m = a # b # c # rest"
  shows "affordable m gas_ADDMOD \<Longrightarrow> pushed m gas_ADDMOD (nonzero c ((uint a + uint b) mod uint c)) rest (codegen_addmod m)"
    and "affordable m gas_MULMOD \<Longrightarrow> pushed m gas_MULMOD (nonzero c ((uint a * uint b) mod uint c)) rest (codegen_mulmod m)"
  unfolding codegen_addmod_def codegen_mulmod_def
  by (erule ternary_op_ok [OF _ assms], simp only: fn_addmod fn_mulmod)+

lemma alu_entry_ok:
  assumes "(op, n, cost, f) \<in> set alu_table" and "stack_ok m" and "stack_view m = s @ rest"
    and "length s = n" and "alu_regular op s" and "affordable m (of_nat cost)"
  shows "pushed m (of_nat cost) (f s) rest (generate_code_for_op h exec p op m)"
proof -
  note prices = gas_consts
  have n: "n = 1 \<or> n = 2 \<or> n = 3" using assms(1) by (auto simp: alu_table_def)
  then consider (1) a where "s = [a]" | (2) a b where "s = [a, b]" | (3) a b c where "s = [a, b, c]"
    using assms(4) by (auto simp: length_Suc_conv numeral_eq_Suc)
  then show ?thesis
  proof cases
    case 1
    then have v: "stack_view m = a # rest" using assms(3) by simp
    show ?thesis
      using assms(1,4,6) 1 alu_unary_ok [OF assms(2) v, unfolded prices]
      unfolding alu_table_def by (auto simp del: One_nat_def)
  next
    case 2
    then have v: "stack_view m = a # b # rest" using assms(3) by simp
    note rules = alu_binary_ok [OF assms(2) v, unfolded prices] alu_partial_ok [OF assms(2) v, unfolded prices]
    have nths: "[a, b] ! 0 = a" "[a, b] ! 1 = b" "length [a, b] = 2" by simp_all
    show ?thesis
      by (insert assms(1,4,5,6), unfold 2 alu_table_def list.set insert_iff prod.inject empty_iff,
          elim disjE conjE FalseE;
          ((simp only: nths generate_code_for_op.simps of_nat_numeral, rule rules, assumption+) | simp))
  next
    case 3
    then have v: "stack_view m = a # b # c # rest" using assms(3) by simp
    show ?thesis
      using assms(1,4,6) 3 alu_ternary_ok [OF assms(2) v, unfolded prices]
      unfolding alu_table_def by auto
  qed
qed


lemma alu_entry_fails:
  assumes "(op, n, cost, f) \<in> set alu_table"
    and "stack_ptr m < n \<or> unat (gas_counter m) < cost"
  shows "generate_code_for_op h exec p op m = revert (m\<lparr>gas_counter := gas_counter m - of_nat cost\<rparr>)"
proof -
  have c: "cost \<le> 8" using assms(1) by (auto simp: alu_table_def)
  then have u: "unat (of_nat cost :: u64) = cost" by (simp add: unat_of_nat take_bit_nat_eq_self_iff)
  have g: "guarded (of_nat cost) (at_least n) k m = revert (m\<lparr>gas_counter := gas_counter m - of_nat cost\<rparr>)" for k
    using assms(2) c u by (intro guarded_fails) (auto simp: check_stack_has_at_least_def)
  have "(\<exists>k. generate_code_for_op h exec p op = guarded (of_nat cost) (at_least n) k)"
    by (insert assms(1), unfold alu_table_def list.set insert_iff prod.inject empty_iff,
        elim disjE conjE FalseE;
        simp only: generate_code_for_op.simps of_nat_numeral; unfold codegen_iszero_def codegen_not_def
          codegen_add_def codegen_mul_def codegen_sub_def codegen_div_def codegen_mod_def
          codegen_signextend_def codegen_lt_def codegen_gt_def codegen_slt_def codegen_sgt_def codegen_eq_def
          codegen_and_def codegen_or_def codegen_xor_def codegen_sar_def codegen_sdiv_def codegen_smod_def
          codegen_byte_def codegen_shl_def codegen_shr_def codegen_addmod_def codegen_mulmod_def
          unary_op_def binary_op_def ternary_op_def gas_consts; rule exI, rule refl)
  then show ?thesis using g by auto
qed

text \<open>C1: every arithmetic, comparison, bitwise and shift operation does what the table of the
  EVM says: with enough gas and operands it replaces its operands by the value the table
  gives, charges the price of the table and changes nothing else; with too few operands or too
  little gas it branches to the revert block. The operands in which the code is known to differ
  from the table are excluded by \<open>alu_regular\<close>.\<close>

theorem alu_refines:
  assumes "(op, n, cost, f) \<in> set alu_table" and "stack_ok m"
  shows "(length s = n \<and> stack_view m = s @ rest \<and> alu_regular op s \<and>
          cost \<le> unat (gas_counter m) \<and> unat (gas_counter m) < 2 ^ 63 \<longrightarrow>
            pushed m (of_nat cost) (f s) rest (generate_code_for_op h exec p op m)) \<and>
         (stack_ptr m < n \<or> unat (gas_counter m) < cost \<longrightarrow>
            generate_code_for_op h exec p op m = revert (m\<lparr>gas_counter := gas_counter m - of_nat cost\<rparr>))"
proof (intro conjI impI)
  assume "length s = n \<and> stack_view m = s @ rest \<and> alu_regular op s \<and>
    cost \<le> unat (gas_counter m) \<and> unat (gas_counter m) < 2 ^ 63"
  then show "pushed m (of_nat cost) (f s) rest (generate_code_for_op h exec p op m)"
    using alu_entry_ok [OF assms] cost_affordable by blast
next
  assume "stack_ptr m < n \<or> unat (gas_counter m) < cost"
  then show "generate_code_for_op h exec p op m = revert (m\<lparr>gas_counter := gas_counter m - of_nat cost\<rparr>)"
    by (rule alu_entry_fails [OF assms(1)])
qed

text \<open>A machine with a given stack, the top first, for the witnesses.\<close>

definition sample_machine :: "u64 \<Rightarrow> u256 list \<Rightarrow> mstate" where
  "sample_machine g s = (setup_code sample_ctx g)\<lparr>stack_cells := (\<lambda>i. (rev s @ [0]) ! min i (length s)),
     stack_ptr := length s\<rparr>"

lemma sample_machine_view: "stack_view (sample_machine g s) = s"
proof -
  have "map (\<lambda>i. (rev s @ [0]) ! min i (length s)) [0..<length s] = rev s"
    by (rule nth_equalityI) (simp_all add: nth_append)
  then show ?thesis by (simp add: sample_machine_def stack_view_def)
qed

lemma sample_machine_simps [simp]:
  "gas_counter (sample_machine g s) = g" "stack_ptr (sample_machine g s) = length s"
  "m_ctx (sample_machine g s) = sample_ctx" "memory_size (sample_machine g s) = 0"
  by (simp_all add: sample_machine_def setup_code_eq)

lemma sample_machine_ok: "length s \<le> 1024 \<Longrightarrow> stack_ok (sample_machine g s)"
  by (simp add: stack_ok_def MAX_STACK_SIZE_def)

theorem alu_refines_witness:
  "pushed (sample_machine 100 [7, 2]) 5 3 [] (codegen_div (sample_machine 100 [7, 2]))"
proof -
  let ?m = "sample_machine 100 [7, 2]"
  have mem: "(Div, 2, 5, \<lambda>s. nonzero (s ! 1) (uint (s ! 0) div uint (s ! 1))) \<in> set alu_table"
    by (simp add: alu_table_def)
  have "alu_regular Div [7, 2]" by (simp add: alu_regular_def)
  then have "pushed ?m (of_nat 5) (nonzero 2 (uint (7 :: u256) div uint (2 :: u256))) []
      (generate_code_for_op sample_host (\<lambda>_ c _. Inr c) (program_from []) Div ?m)"
    using alu_refines [OF mem, of ?m "[7, 2]" "[]" sample_host "\<lambda>_ c _. Inr c" "program_from []"]
    by (simp add: sample_machine_ok sample_machine_view)
  then show ?thesis by (simp add: nonzero_def)
qed

text \<open>C38: where the generated code and the table part. The quotient and the remainder of the
  least number by \<open>- 1\<close> are undefined behaviour (the EVM gives the least number and zero);
  a shift by 255 gives zero (the EVM keeps the last bit); \<open>BYTE\<close> multiplies the index by eight
  without a check, so an index of \<open>2^253\<close> reads byte zero (the EVM gives zero).\<close>

theorem alu_corner_cases:
  assumes "stack_ok m" and "stack_view m = a # b # rest" and "affordable m 5"
  shows "(sint a = - (2 ^ 255) \<and> sint b = - 1 \<longrightarrow>
            codegen_sdiv m = Inl Undefined_Behaviour \<and> codegen_smod m = Inl Undefined_Behaviour) \<and>
         (a = 255 \<longrightarrow> pushed m 3 0 rest (codegen_shl m) \<and> pushed m 3 0 rest (codegen_shr m)) \<and>
         (a = 2 ^ 253 \<longrightarrow> pushed m 3 (evm_byte 0 b) rest (codegen_byte m))"
proof -
  have a3: "affordable m 3" using assms(3) by (simp add: affordable_def)
  have two: "at_least 2 m" using assms(2) length_stack_view [of m] by (simp add: check_stack_has_at_least_def)
  obtain m' m'' where pp: "stack_pop (m\<lparr>gas_counter := gas_counter m - 5\<rparr>) = Inr (m', a)" "stack_pop m' = Inr (m'', b)"
    using stack.pop_pop [of "m\<lparr>gas_counter := gas_counter m - 5\<rparr>" a b rest] assms(1,2) by auto
  have ub: "binary_op 5 g m = Inl Undefined_Behaviour" if "g a b = Inl Undefined_Behaviour" for g
    using that pp two assms(3) by (simp add: binary_op_def guarded_ok pop_def)
  have "codegen_sdiv m = Inl Undefined_Behaviour \<and> codegen_smod m = Inl Undefined_Behaviour"
    if "sint a = - (2 ^ 255) \<and> sint b = - 1"
  proof -
    have "b \<noteq> 0" using that by auto
    then show ?thesis
      using that unfolding codegen_sdiv_def codegen_smod_def gas_consts
      by (intro conjI ub) (simp_all add: llvm_sdiv_def llvm_srem_def)
  qed
  moreover have "pushed m 3 0 rest (codegen_shl m) \<and> pushed m 3 0 rest (codegen_shr m)" if "a = 255"
    using that unfolding codegen_shl_def codegen_shr_def gas_consts
    by (intro conjI binary_op_ok [OF a3 assms(1,2)]) simp_all
  moreover have "pushed m 3 (evm_byte 0 b) rest (codegen_byte m)" if "a = 2 ^ 253"
  proof -
    have "a * 8 = 0" using that by (simp add: word_unat_eq_iff unat_word_ariths)
    then have e: "(let max_shift_in_bits = 31 * 8; offset_in_bits = a * 8
       in Inr (if offset_in_bits > max_shift_in_bits then 0
               else drop_bit (unat (max_shift_in_bits - offset_in_bits)) b AND 0xff)) =
       (Inr (evm_byte 0 b) :: u256 res)"
      using fn_byte [of 0 b] by (simp add: Let_def)
    show ?thesis unfolding codegen_byte_def gas_consts
      by (rule binary_op_ok [OF a3 assms(1,2)]) (rule e)
  qed
  ultimately show ?thesis by blast
qed

theorem alu_corner_cases_witness:
  "pushed (sample_machine 100 [255, 1]) 3 0 [] (codegen_shl (sample_machine 100 [255, 1]))"
  using alu_corner_cases [of "sample_machine 100 [255, 1]" 255 1 "[]"]
  by (simp add: sample_machine_ok sample_machine_view affordable_def)

section \<open>Stack operations\<close>

lemma stack_view_nth: "i < stack_ptr m \<Longrightarrow> stack_view m ! i = stack_cells m (stack_ptr m - Suc i)"
  by (simp add: stack_view_def rev_nth)

lemma get_nth_ok:
  assumes "stack_ok m" and "0 < n" and "n \<le> stack_ptr m"
  shows "get_nth_from_stack m n = Inr (stack_view m ! (n - 1), stack_ptr m - n)"
  using assms by (auto simp: get_nth_from_stack_def stack_view_nth stack_ok_def)

text \<open>The charge of an operation leaves the stack alone.\<close>

abbreviation charged :: "mstate \<Rightarrow> u64 \<Rightarrow> mstate" where
  "charged m cost \<equiv> m\<lparr>gas_counter := gas_counter m - cost\<rparr>"

lemma charged_ptr: "stack_ptr (charged m cost) = stack_ptr m"
  by simp

lemma push_ok:
  assumes "affordable m cost" and "stack_ptr m < MAX_STACK_SIZE"
  shows "pushed m cost v (stack_view m) (push_next (charged m cost) v)"
  using assms push_next_room [of "charged m cost" m cost v] by (simp add: stack_ok_def)

lemma dup_ok:
  assumes "affordable m 3" and "0 < unat n" and "unat n \<le> stack_ptr m" and "stack_ptr m < MAX_STACK_SIZE"
  shows "pushed m 3 (stack_view m ! (unat n - 1)) (stack_view m) (codegen_dup n m)"
proof -
  have "get_nth_from_stack (charged m 3) (unat n) = Inr (stack_view m ! (unat n - 1), stack_ptr m - unat n)"
    using get_nth_ok [of "charged m 3" "unat n"] assms by (simp add: stack_ok_def)
  then show ?thesis
    using assms push_ok [OF assms(1,4)]
    by (simp add: codegen_dup_def gas_consts guarded_ok check_stack_has_at_least_def)
qed

lemma swap_elements_view:
  assumes "stack_ok m" and "0 < n" and "n < stack_ptr m"
  shows "\<exists>m'. swap_stack_elements m 1 (Suc n) = Inr m' \<and> frame m' = frame m \<and> stack_ptr m' = stack_ptr m \<and>
     stack_view m' = (stack_view m)[0 := stack_view m ! n, n := stack_view m ! 0]"
proof -
  let ?p = "stack_ptr m" and ?c = "stack_cells m"
  let ?m = "m\<lparr>stack_cells := ?c(?p - Suc n := ?c (?p - 1), ?p - 1 := ?c (?p - Suc n))\<rparr>"
  have "?p - Suc n < MAX_STACK_SIZE" "?p - Suc 0 < MAX_STACK_SIZE"
    using assms by (auto simp: stack_ok_def)
  then have s: "swap_stack_elements m 1 (Suc n) = Inr ?m"
    using assms by (simp add: swap_stack_elements_def get_nth_from_stack_def store_cell_def stack_ok_def)
  have "stack_view ?m = (stack_view m)[0 := stack_view m ! n, n := stack_view m ! 0]"
  proof (rule nth_equalityI)
    fix i assume "i < length (stack_view ?m)"
    then have i: "i < ?p" by simp
    have v0: "stack_view m ! 0 = ?c (?p - 1)" and vn: "stack_view m ! n = ?c (?p - Suc n)"
      using assms by (simp_all add: stack_view_nth)
    have "stack_view ?m ! i = (?c(?p - Suc n := ?c (?p - 1), ?p - 1 := ?c (?p - Suc n))) (?p - Suc i)"
      using i stack_view_nth [of i ?m] by simp
    also have "\<dots> = (stack_view m)[0 := stack_view m ! n, n := stack_view m ! 0] ! i"
    proof -
      have "?p - Suc i = ?p - 1 \<longleftrightarrow> i = 0" "?p - Suc i = ?p - Suc n \<longleftrightarrow> i = n"
        using i assms(2,3) by arith+
      then show ?thesis
        using i assms(2,3) v0 vn by (auto simp: nth_list_update stack_view_nth)
    qed
    finally show "stack_view ?m ! i = (stack_view m)[0 := stack_view m ! n, n := stack_view m ! 0] ! i" .
  qed simp
  moreover have "frame ?m = frame m" by (simp add: frame_def)
  ultimately show ?thesis using s by auto
qed

text \<open>C19: the stack operations. \<open>PUSH\<close> pushes its operand when there is room and reverts on
  a full stack, \<open>POP\<close> drops the top, \<open>DUP n\<close> copies the n-th value to the top, \<open>SWAP n\<close> exchanges the
  top and the value n below it; each charges its price and changes nothing else.\<close>

theorem stack_ops_refine:
  assumes "stack_ok m" and "affordable m 3"
  shows "(stack_ptr m < 1024 \<longrightarrow> pushed m (if z then 2 else 3) (of_nat x) (stack_view m) (codegen_push x z m)) \<and>
    (stack_ptr m = 1024 \<longrightarrow> codegen_push x z m = revert (charged m (if z then 2 else 3))) \<and>
    (stack_view m = v # rest \<longrightarrow> (\<exists>m'. codegen_pop m = Inr (m', Next) \<and> stack_view m' = rest \<and>
        frame m' = (frame m)\<lparr>gas_counter := gas_counter m - 2\<rparr>)) \<and>
    (0 < unat n \<and> unat n \<le> 16 \<and> unat n \<le> stack_ptr m \<and> stack_ptr m < 1024 \<longrightarrow>
        pushed m 3 (stack_view m ! (unat n - 1)) (stack_view m) (codegen_dup n m)) \<and>
    (0 < unat n \<and> unat n \<le> 16 \<and> unat n < stack_ptr m \<longrightarrow>
        (\<exists>m'. codegen_swap n m = Inr (m', Next) \<and> frame m' = (frame m)\<lparr>gas_counter := gas_counter m - 3\<rparr> \<and>
           stack_view m' = (stack_view m)[0 := stack_view m ! unat n, unat n := stack_view m ! 0]))"
proof (intro conjI impI)
  have a2: "affordable m (if z then 2 else 3)" "affordable m 2" using assms(2) by (auto simp: affordable_def)
  show "pushed m (if z then 2 else 3) (of_nat x) (stack_view m) (codegen_push x z m)" if "stack_ptr m < 1024"
    using that push_ok [OF a2(1)] a2(1)
    by (cases z) (simp_all add: codegen_push_def guarded_ok check_stack_has_space_for_def gas_consts)
  show "codegen_push x z m = revert (charged m (if z then 2 else 3))" if "stack_ptr m = 1024"
    using that by (simp add: codegen_push_def guarded_fails check_stack_has_space_for_def gas_consts)
  show "\<exists>m'. codegen_pop m = Inr (m', Next) \<and> stack_view m' = rest \<and>
      frame m' = (frame m)\<lparr>gas_counter := gas_counter m - 2\<rparr>" if v: "stack_view m = v # rest"
  proof -
    have "at_least 1 m" using v length_stack_view [of m] by (simp add: check_stack_has_at_least_def)
    then show ?thesis
      using stack.pop_Cons [of "charged m 2" v rest] v assms(1) a2(2)
      by (auto simp: codegen_pop_def guarded_ok gas_consts pop_def)
  qed
  show "pushed m 3 (stack_view m ! (unat n - 1)) (stack_view m) (codegen_dup n m)"
    if "0 < unat n \<and> unat n \<le> 16 \<and> unat n \<le> stack_ptr m \<and> stack_ptr m < 1024"
    using that dup_ok [OF assms(2)] by (simp add: MAX_STACK_SIZE_def)
  show "\<exists>m'. codegen_swap n m = Inr (m', Next) \<and> frame m' = (frame m)\<lparr>gas_counter := gas_counter m - 3\<rparr> \<and>
      stack_view m' = (stack_view m)[0 := stack_view m ! unat n, unat n := stack_view m ! 0]"
    if n: "0 < unat n \<and> unat n \<le> 16 \<and> unat n < stack_ptr m"
  proof -
    have u: "unat (n + 1) = Suc (unat n)" using n by (simp add: unat_word_ariths)
    obtain m' where m': "swap_stack_elements (charged m 3) 1 (Suc (unat n)) = Inr m'" "frame m' = frame (charged m 3)"
      "stack_view m' = (stack_view m)[0 := stack_view m ! unat n, unat n := stack_view m ! 0]"
      using swap_elements_view [of "charged m 3" "unat n"] assms(1) n by auto
    then show ?thesis
      using n u assms(2) by (simp add: codegen_swap_def guarded_ok gas_consts check_stack_has_at_least_def)
  qed
qed

theorem stack_ops_refine_witness:
  "pushed (sample_machine 50 [4, 9]) 3 9 [4, 9] (codegen_dup 2 (sample_machine 50 [4, 9])) \<and>
   (\<exists>m'. codegen_swap 1 (sample_machine 50 [4, 9]) = Inr (m', Next) \<and> stack_view m' = [9, 4])"
  using stack_ops_refine [of "sample_machine 50 [4, 9]" False 0 4 "[9]" 2]
    stack_ops_refine [of "sample_machine 50 [4, 9]" False 0 4 "[9]" 1]
  by (auto simp: sample_machine_ok sample_machine_view affordable_def)

text \<open>C39: \<open>CALLDATASIZE\<close> and \<open>DUP\<close> do not ask for room: on a full stack they store past the end
  of the stack, where the EVM stops with a stack overflow.\<close>

theorem unchecked_push_overflows:
  assumes "stack_ptr m = 1024" and "affordable m 3" and "0 < unat n" and "unat n \<le> 16"
  shows "codegen_calldatasize m = Inl Undefined_Behaviour \<and> codegen_dup n m = Inl Undefined_Behaviour"
proof -
  have full: "push_next m' v = Inl Undefined_Behaviour" if "stack_ptr m' = 1024" for m' v
    using that by (simp add: push_next_def stack_push_def store_cell_def MAX_STACK_SIZE_def)
  have "sint (2 :: u64) \<le> sint (gas_counter m)"
    using assms(2) gas_covers [of 2 "gas_counter m"] by (simp add: affordable_def)
  then have "codegen_calldatasize m = Inl Undefined_Behaviour"
    using assms(1) by (simp add: codegen_calldatasize_def consume_gas_def full gas_consts)
  moreover have "codegen_dup n m = Inl Undefined_Behaviour"
    using assms get_nth_ok [of "charged m 3" "unat n"]
    by (simp add: codegen_dup_def guarded_ok gas_consts check_stack_has_at_least_def full stack_ok_def)
  ultimately show ?thesis by simp
qed

theorem unchecked_push_overflows_witness:
  "codegen_dup 1 (sample_machine 50 (replicate 1024 0)) = Inl Undefined_Behaviour"
  using unchecked_push_overflows [of "sample_machine 50 (replicate 1024 0)" 1]
  by (simp add: affordable_def)

end
