(* ===== verification/Exec.thy ===== *)
theory Exec
  imports Codegen_World
begin

text \<open>
  Compiling and running a program: the blocks of the operations in a row, the
  jump table between them, and the main function (\<open>compile_program\<close> in
  \<open>context.rs\<close>, \<open>OperationCtx\<close> in \<open>codegen/context.rs\<close>, \<open>executor.rs\<close>).

  A block is named by the index of its operation. A run takes a bound on the
  number of operations it executes, its own and those of the contracts it calls.
\<close>

section \<open>Jump table\<close>

text \<open>\<open>BTreeMap::insert\<close> on the entries in the order of their keys.\<close>

primrec btree_insert :: "nat \<Rightarrow> 'v \<Rightarrow> (nat \<times> 'v) list \<Rightarrow> (nat \<times> 'v) list" where
  "btree_insert k v [] = [(k, v)]"
| "btree_insert k v (e # t) =
     (if k < fst e then (k, v) # e # t
      else if k = fst e then (k, v) # t
      else e # btree_insert k v t)"

definition register_jump_destination :: "(nat \<times> nat) list \<Rightarrow> nat \<times> operation \<Rightarrow> (nat \<times> nat) list" where
  "register_jump_destination t = (\<lambda>(i, op). case op of Jumpdest pc \<Rightarrow> btree_insert pc i t | _ \<Rightarrow> t)"

definition jumpdest_blocks :: "program \<Rightarrow> (nat \<times> nat) list" where
  "jumpdest_blocks p = foldl register_jump_destination [] (List.enumerate 0 (operations p))"

definition jumpdest_pc :: "operation \<Rightarrow> nat option" where
  "jumpdest_pc op = (case op of Jumpdest pc \<Rightarrow> Some pc | _ \<Rightarrow> None)"

definition jumpdest_pcs :: "program \<Rightarrow> nat list" where
  "jumpdest_pcs p = List.map_filter jumpdest_pc (operations p)"

text \<open>The switch of the jump table: the cases are the positions in the order of the program, the
  destinations the blocks in the order of their keys. No case: the revert block.\<close>

definition populate_jumptable :: "program \<Rightarrow> (u256 \<times> nat) list" where
  "populate_jumptable p = zip (map of_nat (jumpdest_pcs p)) (map snd (jumpdest_blocks p))"

definition jump_target :: "program \<Rightarrow> u256 \<Rightarrow> nat option" where
  "jump_target p pc = map_of (populate_jumptable p) pc"

section \<open>Compilation\<close>

text \<open>What stops the compilation: a constant that does not fit \<open>i256\<close>, a log with more than
  four topics, and a switch with more cases than destinations, which does not verify.\<close>

definition op_compiles :: "operation \<Rightarrow> bool" where
  "op_compiles op = (case op of Push _ x \<Rightarrow> x < 2 ^ 256 | Log n \<Rightarrow> n \<le> 4 | _ \<Rightarrow> True)"

definition compile_program :: "program \<Rightarrow> unit res" where
  "compile_program p =
     (if list_all op_compiles (operations p) \<and> length (jumpdest_pcs p) = length (jumpdest_blocks p)
      then Inr () else Inl Panic)"

section \<open>Running\<close>

text \<open>Where a block leads: to another block, or out of the main function.\<close>

datatype next_block = Block nat mstate | Leave mstate u8

definition follow :: "program \<Rightarrow> nat \<Rightarrow> mstate \<times> flow \<Rightarrow> next_block" where
  "follow p i = (\<lambda>(m, fl). case fl of
     Next \<Rightarrow> Block (Suc i) m
   | To_revert \<Rightarrow> (case generate_revert_block m of (m, code) \<Rightarrow> Leave m code)
   | To_jumptable pc \<Rightarrow> (case jump_target p pc of
        Some j \<Rightarrow> Block j m
      | None \<Rightarrow> (case generate_revert_block m of (m, code) \<Rightarrow> Leave m code))
   | Returned code \<Rightarrow> Leave m code)"

text \<open>The block after the last operation returns as \<open>STOP\<close> does.\<close>

definition run_block :: "host \<Rightarrow> executor \<Rightarrow> program \<Rightarrow> nat \<Rightarrow> mstate \<Rightarrow> next_block res" where
  "run_block h exec p i m =
     and_then (if i < length (operations p) then generate_code_for_op h exec p (operations p ! i) m
               else return_empty_result m Exit_Stop)
       (\<lambda>r. Inr (follow p i r))"

primrec run :: "host \<Rightarrow> nat \<Rightarrow> program \<Rightarrow> nat \<Rightarrow> mstate \<Rightarrow> (mstate \<times> u8) res" where
  "run h 0 p i m = Inl Out_Of_Fuel"
| "run h (Suc n) p i m =
     and_then (run_block h (\<lambda>p c gas.
         and_then (compile_program p) (\<lambda>_.
         and_then (run h n p 0 (setup_code c gas)) (\<lambda>(m, _). Inr (m_ctx m)))) p i m)
       (\<lambda>b. case b of Block j m \<Rightarrow> run h n p j m | Leave m code \<Rightarrow> Inr (m, code))"

definition execute :: "host \<Rightarrow> nat \<Rightarrow> executor" where
  "execute h n p c initial_gas =
     and_then (compile_program p) (\<lambda>_.
     and_then (run h n p 0 (setup_code c initial_gas)) (\<lambda>(m, _). Inr (m_ctx m)))"

lemma run_Suc:
  "run h (Suc n) p i m = and_then (run_block h (execute h n) p i m)
     (\<lambda>b. case b of Block j m \<Rightarrow> run h n p j m | Leave m code \<Rightarrow> Inr (m, code))"
  by (simp add: execute_def [abs_def])

section \<open>The jump table of a parsed program\<close>

text \<open>
  The parser numbers the operations in ascending order, so the cases and the destinations of the
  switch line up.
\<close>

lemma btree_insert_last:
  assumes "\<forall>e \<in> set t. fst e < k"
  shows "btree_insert k v t = t @ [(k, v)]"
  using assms by (induction t) auto

definition dests :: "nat \<Rightarrow> operation list \<Rightarrow> (nat \<times> nat) list" where
  "dests i ops = List.map_filter (\<lambda>(j, op). map_option (\<lambda>pc. (pc, j)) (jumpdest_pc op)) (List.enumerate i ops)"

lemma dests_simps [simp]:
  "dests i [] = []"
  "dests i (op # ops) = (case jumpdest_pc op of Some pc \<Rightarrow> [(pc, i)] | None \<Rightarrow> []) @ dests (Suc i) ops"
  by (simp_all add: dests_def map_filter_simps split: option.split)

lemma register_step:
  "register_jump_destination t (i, op) = (case jumpdest_pc op of Some pc \<Rightarrow> btree_insert pc i t | None \<Rightarrow> t)"
  by (cases op) (simp_all add: register_jump_destination_def jumpdest_pc_def)

lemma jumpdest_pc_ok: "op_ok pc op \<Longrightarrow> jumpdest_pc op = Some q \<Longrightarrow> q = pc"
  by (cases op) (simp_all add: op_ok_def jumpdest_pc_def)

lemma register_canonical:
  assumes "canonical pc ops" and "\<forall>e \<in> set t. fst e < pc"
  shows "foldl register_jump_destination t (List.enumerate i ops) = t @ dests i ops"
  using assms
proof (induction ops arbitrary: pc t i)
  case (Cons op ops)
  show ?case
  proof (cases "jumpdest_pc op")
    case None
    have "\<forall>e \<in> set t. fst e < pc + op_size op" using Cons.prems(2) by auto
    then show ?thesis using Cons.IH [of "pc + op_size op" t "Suc i"] Cons.prems(1) None by (simp add: register_step)
  next
    case (Some q)
    then have q: "q = pc" using Cons.prems(1) jumpdest_pc_ok by auto
    have "\<forall>e \<in> set (t @ [(pc, i)]). fst e < pc + op_size op"
      using Cons.prems(2) op_size_pos [of op] by auto
    from Cons.IH [OF _ this, of "Suc i"] show ?thesis
      using Some q Cons.prems by (simp add: register_step btree_insert_last)
  qed
qed simp

lemma jumpdest_pcs_dests: "List.map_filter jumpdest_pc ops = map fst (dests i ops)"
  by (induction ops arbitrary: i) (auto simp: map_filter_simps split: option.split)

lemma dests_nth:
  "(pc, j) \<in> set (dests i ops) \<longleftrightarrow> i \<le> j \<and> j < i + length ops \<and> ops ! (j - i) = Jumpdest pc"
proof (induction ops arbitrary: i)
  case (Cons op ops)
  have "jumpdest_pc op = Some pc \<longleftrightarrow> op = Jumpdest pc"
    by (cases op) (simp_all add: jumpdest_pc_def)
  then have "(pc, j) \<in> set (dests i (op # ops)) \<longleftrightarrow> (op = Jumpdest pc \<and> j = i) \<or> (pc, j) \<in> set (dests (Suc i) ops)"
    by (auto split: option.split)
  moreover have "(op # ops) ! (j - i) = (if j = i then op else ops ! (j - Suc i))" if "i \<le> j"
    using that by (auto simp: nth_Cons')
  ultimately show ?case using Cons.IH [of "Suc i"] by (cases "j = i") auto
qed simp

lemma dests_ascending:
  "canonical pc ops \<Longrightarrow> sorted_wrt (<) (map fst (dests i ops)) \<and> (\<forall>q \<in> set (map fst (dests i ops)). pc \<le> q)"
proof (induction ops arbitrary: pc i)
  case (Cons op ops)
  have IH: "sorted_wrt (<) (map fst (dests (Suc i) ops))"
    "\<forall>q \<in> set (map fst (dests (Suc i) ops)). pc + op_size op \<le> q"
    using Cons.IH [of "pc + op_size op" "Suc i"] Cons.prems by simp_all
  show ?case
  proof (cases "jumpdest_pc op")
    case None
    then show ?thesis using IH by fastforce
  next
    case (Some q)
    then have "q = pc" using Cons.prems jumpdest_pc_ok by auto
    moreover have "\<forall>q \<in> set (map fst (dests (Suc i) ops)). pc < q"
      using IH(2) op_size_pos [of op] by (metis add_less_same_cancel1 less_add_same_cancel1 less_le_trans)
    ultimately show ?thesis using IH(1) Some by (auto intro: less_imp_le)
  qed
qed simp

lemma zip_dests: "zip (map f (map fst xs)) (map snd xs) = map (\<lambda>(a, b). (f a, b)) xs"
  by (induction xs) auto

lemma jump_target_canonical:
  assumes "canonical 0 (operations p)"
  shows "populate_jumptable p = map (\<lambda>(pc, i). (of_nat pc, i)) (dests 0 (operations p))"
    and "length (jumpdest_pcs p) = length (jumpdest_blocks p)"
proof -
  have b: "jumpdest_blocks p = dests 0 (operations p)"
    using register_canonical [OF assms, of "[]" 0] by (simp add: jumpdest_blocks_def)
  have "jumpdest_pcs p = map fst (dests 0 (operations p))"
    unfolding jumpdest_pcs_def by (rule jumpdest_pcs_dests)
  then show "populate_jumptable p = map (\<lambda>(pc, i). (of_nat pc, i)) (dests 0 (operations p))"
    and "length (jumpdest_pcs p) = length (jumpdest_blocks p)"
    using b by (simp_all add: populate_jumptable_def zip_dests del: map_map)
qed


lemma jumpdests_less: "q \<in> jumpdests bs i \<Longrightarrow> q < length bs"
proof (induction bs i rule: jumpdests.induct)
  case (1 bs i)
  then show ?case by (subst (asm) (2) jumpdests.simps) (auto split: if_splits)
qed

lemma op_ok_compiles: "op_ok pc op \<Longrightarrow> op_compiles op"
proof (cases op)
  case (Push n x)
  assume "op_ok pc op"
  then have x: "x < 256 ^ unat n" "unat n \<le> 32" using Push by (simp_all add: op_ok_def word_le_nat_alt)
  then have "(256::nat) ^ unat n \<le> 256 ^ 32" by (intro power_increasing) simp_all
  then have "x < 256 ^ 32" using x(1) by linarith
  also have "(256::nat) ^ 32 = 2 ^ 256" by simp
  finally show ?thesis using Push by (simp add: op_compiles_def)
qed (simp_all add: op_ok_def op_compiles_def)

lemma canonical_compiles: "canonical pc ops \<Longrightarrow> list_all op_compiles ops"
  by (induction ops arbitrary: pc) (auto intro: op_ok_compiles)

lemma map_of_dests:
  assumes "canonical 0 ops" and "\<forall>pc. Jumpdest pc \<in> set ops \<longrightarrow> pc < 2 ^ 256"
  shows "map_of (map (\<lambda>(pc, i). (of_nat pc :: u256, i)) (dests 0 ops)) v = Some i \<longleftrightarrow>
     i < length ops \<and> ops ! i = Jumpdest (unat v)"
proof -
  have small: "unat (of_nat pc :: u256) = pc" if "(pc, j) \<in> set (dests 0 ops)" for pc j
  proof -
    have "Jumpdest pc \<in> set ops" using that nth_mem [of j ops] by (simp add: dests_nth)
    then have "pc < 2 ^ 256" using assms(2) by blast
    then show ?thesis by (simp add: unat_of_nat)
  qed
  have "distinct (map fst (dests 0 ops))"
    using dests_ascending [OF assms(1), of 0] strict_sorted_iff by blast
  moreover have "inj_on (of_nat :: nat \<Rightarrow> u256) (fst ` set (dests 0 ops))"
    by (rule inj_on_inverseI [where g = unat]) (use small in auto)
  ultimately have "distinct (map fst (map (\<lambda>(pc, i). (of_nat pc :: u256, i)) (dests 0 ops)))"
    by (simp add: comp_def split_beta distinct_map inj_on_def)
  then have "map_of (map (\<lambda>(pc, i). (of_nat pc :: u256, i)) (dests 0 ops)) v = Some i \<longleftrightarrow>
      (v, i) \<in> set (map (\<lambda>(pc, i). (of_nat pc, i)) (dests 0 ops))" by (rule map_of_eq_Some_iff)
  also have "\<dots> \<longleftrightarrow> (unat v, i) \<in> set (dests 0 ops)"
    using small by (force simp: image_iff)
  finally show ?thesis by (simp add: dests_nth)
qed

text \<open>C10: a parsed program compiles, and its jumps are right: the jump table sends a value to
  the block of the \<open>JUMPDEST\<close> at that position, and it has a block for exactly the positions
  that the EVM's scan of the bytes allows; every other jump goes to the revert block.\<close>

theorem jump_target_correct:
  assumes "length bs < 2 ^ 256"
  shows "\<exists>p. from_bytecode bs = Inr p \<and> compile_program p = Inr () \<and>
    (jump_target p v = Some i \<longleftrightarrow> i < length (operations p) \<and> operations p ! i = Jumpdest (unat v)) \<and>
    (jump_target p v \<noteq> None \<longleftrightarrow> unat v \<in> jumpdests bs 0)"
proof -
  let ?ops = "ops_from bs 0" and ?p = "program_from (ops_from bs 0)"
  have c: "canonical 0 ?ops" by (rule canonical_ops_from)
  have ops: "operations ?p = ?ops" by (simp add: program_from_def)
  have set: "{pc. Jumpdest pc \<in> set ?ops} = jumpdests bs 0" by (rule ops_from_jumpdests)
  have small: "\<forall>pc. Jumpdest pc \<in> set ?ops \<longrightarrow> pc < 2 ^ 256"
    using set jumpdests_less assms by (metis less_trans mem_Collect_eq)
  have t: "jump_target ?p v = Some j \<longleftrightarrow> j < length ?ops \<and> ?ops ! j = Jumpdest (unat v)" for j
    using map_of_dests [OF c small] jump_target_canonical(1) [of ?p] c by (simp add: jump_target_def ops)
  moreover have "jump_target ?p v \<noteq> None \<longleftrightarrow> unat v \<in> jumpdests bs 0"
  proof -
    have "jump_target ?p v \<noteq> None \<longleftrightarrow> Jumpdest (unat v) \<in> set ?ops"
      using t by (auto simp: in_set_conv_nth)
    then show ?thesis using set by auto
  qed
  moreover have "compile_program ?p = Inr ()"
    using canonical_compiles [OF c] jump_target_canonical(2) [of ?p] c by (simp add: compile_program_def ops)
  ultimately show ?thesis by (auto simp: from_bytecode_eq ops)
qed

theorem jump_target_correct_witness:
  "\<exists>p. from_bytecode [0x60, 0x5B, 0x5B] = Inr p \<and> jump_target p 2 \<noteq> None \<and> jump_target p 1 = None"
proof -
  have j: "jumpdests [0x60, 0x5B, 0x5B] 0 = {2}" by (simp add: jumpdests.simps)
  obtain p where p: "from_bytecode [0x60, 0x5B, 0x5B] = Inr p"
    by (simp add: from_bytecode_eq)
  show ?thesis
    using jump_target_correct [of "[0x60, 0x5B, 0x5B]" 2 0] jump_target_correct [of "[0x60, 0x5B, 0x5B]" 1 0] p j
    by (intro exI [of _ p]) simp
qed

end
