(* ===== verification/Effects.thy ===== *)
theory Effects
  imports Exec
begin

text \<open>
  What an execution may do to the context it runs in. The locale \<open>context_relation\<close> is the interface
  of the system calls: a relation on contexts that their building blocks respect
  is respected by every system call. The locale \<open>machine_relation\<close> adds a property of machines that the
  code fragments keep; every operation, block and program keeps it. Here \<open>context_relation\<close> is interpreted
  for the evolution of the journal and for what a static call may change, in \<open>Machine_Types\<close> both
  are interpreted for the invariant of the machine.
\<close>

section \<open>Reads of the journal\<close>

text \<open>
  The steps of the journal that answer a question. An account is only marked as warm
  after it was looked up, when loading it again changes nothing.
\<close>

inductive read_step :: "journal \<Rightarrow> journal \<Rightarrow> bool" where
  read_load: "read_step j (fst (get_account_mut j a))"
| read_warm: "fst (get_account_mut j a) = j \<Longrightarrow> read_step j (add_account_as_warm j a)"
| read_code: "read_step j (fst (code_by_address j a))"
| read_slot: "read_step j (fst (read_storage j a key))"
| read_block_hash: "read_step j (fst (get_block_hash j n))"

lemma read_step_journal_step: "read_step j j' \<Longrightarrow> journal_step k j j'"
  by (cases rule: read_step.cases) (auto intro: journal_step.intros)

lemma read_results:
  "get_account j a = (j', i) \<Longrightarrow> read_step j j'" "code_by_address j a = (j', b) \<Longrightarrow> read_step j j'"
  "read_storage j a key = (j', s) \<Longrightarrow> read_step j j'" "get_block_hash j n = (j', b') \<Longrightarrow> read_step j j'"
proof -
  show "read_step j j'" if "get_account j a = (j', i)"
    using that read_load [of j a] by (auto simp: get_account_def split: prod.splits)
  show "read_step j j'" if "code_by_address j a = (j', b)" using that read_code [of j a] by simp
  show "read_step j j'" if "read_storage j a key = (j', s)" using that read_slot [of j a key] by simp
  show "read_step j j'" if "get_block_hash j n = (j', b')" using that read_block_hash [of j n] by simp
qed

lemma settled_load: "fst (get_account_mut (fst (get_account_mut j a)) a) = fst (get_account_mut j a)"
proof (cases "loaded j a")
  case None
  then show ?thesis by (simp add: get_account_mut_None)
next
  case (Some acc)
  then show ?thesis
    using loaded_j_db [OF Some]
    by (auto simp: get_account_mut_Some)
qed

lemma settled_code: "fst (get_account_mut (fst (code_by_address j a)) a) = fst (code_by_address j a)"
proof (cases "loaded j a")
  case None
  then show ?thesis by (simp add: code_by_address_None get_account_mut_None)
next
  case (Some acc)
  then show ?thesis
    using loaded_j_db [OF Some]
    by (auto simp: code_by_address_fst get_account_mut_def)
qed

lemma warm_results:
  "get_account j a = (j', i) \<Longrightarrow> read_step j' (add_account_as_warm j' a)"
  "code_by_address j a = (j', b) \<Longrightarrow> read_step j' (add_account_as_warm j' a)"
proof -
  show "read_step j' (add_account_as_warm j' a)" if "get_account j a = (j', i)"
    using that settled_load [of j a] by (intro read_warm) (auto simp: get_account_def split: prod.splits)
  show "read_step j' (add_account_as_warm j' a)" if "code_by_address j a = (j', b)"
    using that settled_code [of j a] by (intro read_warm) simp
qed

text \<open>How a call to a contract can go: it ends before the callee runs, or the callee runs after the transfer.\<close>

lemma call_contract_cases [consumes 1, case_names early run]:
  assumes "call_contract exec c g a v available ct data = Inr r"
  obtains j x where "read_step\<^sup>*\<^sup>* (ctx_journal c) j" and "out_ctx r = c\<lparr>ctx_journal := j, ctx_halt_reason := x\<rparr>"
      and "out_data r = None"
  | ct' j0 i j1 j k j' g' n where "get_account (ctx_journal c) a = (j0, Some i)"
      and "read_step\<^sup>*\<^sup>* (ctx_journal c) j1" and "get_account j1 (this_address c) = (j, k)"
      and "read_step\<^sup>*\<^sup>* (ctx_journal c) j"
      and "v = 0 \<and> j' = j \<or> v \<noteq> 0 \<and> v \<le> info_balance (account_or_default k) \<and>
         transfer j (this_address c) (account_or_default k) a i v = Inr j'"
      and "run_callee exec (c\<lparr>ctx_journal := j'\<rparr>) ct' a v g' n data = Inr r"
proof -
  obtain ct' where ct: "call_type_try_from ct = Some ct'"
    using assms by (auto simp: call_contract_def split: option.splits)
  obtain j0 i where j0: "get_account (ctx_journal c) a = (j0, i)" by fastforce
  then have r0: "read_step\<^sup>*\<^sup>* (ctx_journal c) j0" using read_results(1) by blast
  show thesis
  proof (cases i)
    case None
    then show ?thesis
      using assms ct j0 r0 that(1) [of j0 "ctx_halt_reason c"] by (auto simp: call_contract_def early_def)
  next
    case (Some callee)
    define j1 where "j1 = (if account_is_warm j0 a then j0 else add_account_as_warm j0 a)"
    obtain j k where j: "get_account j1 (this_address c) = (j, k)" by fastforce
    have r1: "read_step\<^sup>*\<^sup>* (ctx_journal c) j1"
      using r0 by (auto simp: j1_def intro: rtranclp.rtrancl_into_rtrancl warm_results(1) [OF j0])
    then have r: "read_step\<^sup>*\<^sup>* (ctx_journal c) j"
      using read_results(1) [OF j] by (rule rtranclp.rtrancl_into_rtrancl)
    consider (early) "out_ctx r = c\<lparr>ctx_journal := j\<rparr>" "out_data r = None"
      | (halt) x where "out_ctx r = c\<lparr>ctx_journal := j, ctx_halt_reason := x\<rparr>" "out_data r = None"
      | (run) j' g' n where "run_callee exec (c\<lparr>ctx_journal := j'\<rparr>) ct' a v g' n data = Inr r"
          "v = 0 \<and> j' = j \<or> v \<noteq> 0 \<and> v \<le> info_balance (account_or_default k) \<and>
           transfer j (this_address c) (account_or_default k) a callee v = Inr j'"
      using assms ct j0 Some j
      by (auto simp: call_contract_def early_def Let_def j1_def result_simps split: if_splits)
    then show ?thesis
    proof cases
      case early
      then show ?thesis using that(1) [OF r, of "ctx_halt_reason c"] by simp
    next
      case halt
      then show ?thesis using that(1) [OF r] by blast
    next
      case run
      then show ?thesis using that(2) j0 Some j r1 r by blast
    qed
  qed
qed

section \<open>The interface\<close>

abbreviation in_static :: "syscall_context \<Rightarrow> bool" where
  "in_static c \<equiv> ctx_is_static (ctx_frame c)"

text \<open>An executor that respects a relation on contexts.\<close>

definition honours :: "(syscall_context \<Rightarrow> syscall_context \<Rightarrow> bool) \<Rightarrow> executor \<Rightarrow> bool" where
  "honours S exec \<longleftrightarrow> (\<forall>p c g c'. exec p c g = Inr c' \<longrightarrow> S c c')"

text \<open>A step that can only end in a machine with the property \<open>W\<close>.\<close>

definition leads :: "(mstate \<Rightarrow> bool) \<Rightarrow> step \<Rightarrow> bool" where
  "leads W r \<longleftrightarrow> (\<forall>m' fl. r = Inr (m', fl) \<longrightarrow> W m')"

lemma leads_simps [simp]: "leads W (Inl e)" "leads W (Inr (m, fl)) \<longleftrightarrow> W m"
  by (simp_all add: leads_def)

lemma leads_and_then: "(\<And>x. r = Inr x \<Longrightarrow> leads W (k x)) \<Longrightarrow> leads W (and_then r k)"
  by (cases r) simp_all

lemma leads_cond_br: "W m \<Longrightarrow> (b \<Longrightarrow> leads W (k m)) \<Longrightarrow> leads W (cond_br b k m)"
  by simp

text \<open>The machine after a block.\<close>

definition next_machine :: "next_block \<Rightarrow> mstate" where
  "next_machine b = (case b of Block _ m \<Rightarrow> m | Leave m _ \<Rightarrow> m)"

locale context_relation =
  fixes h :: host and S :: "syscall_context \<Rightarrow> syscall_context \<Rightarrow> bool"
  assumes S_refl: "S c c"
    and S_trans: "S c c' \<Longrightarrow> S c' c'' \<Longrightarrow> S c c''"
    and S_static: "S c c' \<Longrightarrow> in_static c' = in_static c"
    and S_inner: "ic_logs ic = ic_logs (ctx_inner c) \<Longrightarrow> length (memory (ctx_inner c)) \<le> length (memory ic) \<Longrightarrow>
      S c (c\<lparr>ctx_inner := ic\<rparr>)"
    and S_logs: "\<not> in_static c \<Longrightarrow> length (memory (ctx_inner c)) \<le> length (memory ic) \<Longrightarrow>
      S c (c\<lparr>ctx_inner := ic\<rparr>)"
    and S_halt: "S c (c\<lparr>ctx_halt_reason := r\<rparr>)"
    and S_transient: "S c (c\<lparr>transient_storage := t\<rparr>)"
    and S_data: "S c (c\<lparr>ctx_frame := (ctx_frame c)\<lparr>last_call_return_data := d\<rparr>\<rparr>)"
    and S_read: "read_step (ctx_journal c) j \<Longrightarrow> S c (c\<lparr>ctx_journal := j\<rparr>)"
    and S_write: "\<not> in_static c \<Longrightarrow> journal_step (keccak256 h) (ctx_journal c) j \<Longrightarrow> S c (c\<lparr>ctx_journal := j\<rparr>)"
    and S_nested: "S c0 c' \<Longrightarrow> ctx_journal c0 = ctx_journal c \<Longrightarrow> (in_static c \<Longrightarrow> in_static c0) \<Longrightarrow>
      S c (c\<lparr>ctx_journal := ctx_journal c'\<rparr>)"
    and S_reverted: "S c0 c' \<Longrightarrow> ctx_journal c0 = ctx_journal c \<Longrightarrow>
      S c (c\<lparr>ctx_journal := (ctx_journal c)\<lparr>j_db := j_db (ctx_journal c')\<rparr>\<rparr>)"
begin

text \<open>Sequences of changes to one context.\<close>

lemma S_journal_read: "read_step\<^sup>*\<^sup>* (ctx_journal c) j \<Longrightarrow> S c (c\<lparr>ctx_journal := j\<rparr>)"
proof (induction rule: rtranclp_induct)
  case base
  then show ?case by (simp add: S_refl)
next
  case (step j j')
  have "S (c\<lparr>ctx_journal := j\<rparr>) (c\<lparr>ctx_journal := j\<rparr>\<lparr>ctx_journal := j'\<rparr>)"
    by (rule S_read) (simp add: step)
  then show ?case using step.IH S_trans by simp
qed

lemma S_journal_write:
  "(journal_step (keccak256 h))\<^sup>*\<^sup>* (ctx_journal c) j \<Longrightarrow> \<not> in_static c \<Longrightarrow> S c (c\<lparr>ctx_journal := j\<rparr>)"
proof (induction rule: rtranclp_induct)
  case base
  then show ?case by (simp add: S_refl)
next
  case (step j j')
  have "S (c\<lparr>ctx_journal := j\<rparr>) (c\<lparr>ctx_journal := j\<rparr>\<lparr>ctx_journal := j'\<rparr>)"
    by (rule S_write) (use step in simp_all)
  then show ?case using step.IH [OF step.prems] S_trans by simp
qed

lemma S_read2:
  "read_step (ctx_journal c) j \<Longrightarrow> read_step j j' \<Longrightarrow> S c (c\<lparr>ctx_journal := j'\<rparr>)"
  by (rule S_journal_read) simp

lemma S_eq: "c' = c \<Longrightarrow> S c c'"
  by (simp add: S_refl)

subsection \<open>System calls that read\<close>

lemma S_extend_memory: "S c (fst (extend_memory h c n))"
  by (auto simp: extend_memory_def Let_def intro: S_inner S_refl)

lemma S_put_in_memory: "put_in_memory c dest off n data = Inr c' \<Longrightarrow> S c c'"
  by (auto simp: put_in_memory_ok Let_def intro: S_inner)

lemma S_resize: "S c (map_inner (\<lambda>ic. resize_memory_if_necessary ic off n) c)"
  by (rule S_inner) (simp_all, simp add: resize_memory_if_necessary_def)

lemma S_keccak256_hasher: "keccak256_hasher h c off n = Inr (c', v) \<Longrightarrow> S c c'"
  using S_resize by (auto simp: keccak256_hasher_def Let_def result_simps)

lemma S_selfbalance: "S c (fst (store_in_selfbalance_ptr c))"
  by (auto simp: store_in_selfbalance_ptr_def Let_def S_refl intro: S_read read_results
      split: transact_to.splits prod.splits)

lemma S_block_hash: "S c (fst (syscall_get_block_hash c n))"
  by (auto simp: syscall_get_block_hash_def Let_def S_refl intro: S_read read_results split: prod.splits)

lemma S_read_storage: "S c (fst (syscall_read_storage c key))"
  by (auto simp: syscall_read_storage_def Let_def intro: S_read read_results split: prod.splits)

lemma S_balance: "S c (fst (store_in_balance c a))"
  by (auto simp: store_in_balance_def Let_def S_refl intro: S_read S_read2 read_results warm_results
      split: prod.splits)

lemma S_codesize: "S c (fst (get_codesize_from_address c a))"
  by (auto simp: get_codesize_from_address_def Let_def intro: S_read S_read2 read_results warm_results
      split: prod.splits)

lemma S_code_hash: "S c (fst (get_code_hash c a))"
  by (auto simp: get_code_hash_def Let_def intro: S_read S_read2 read_results warm_results
      split: prod.splits option.splits)

lemma S_copy_ext_code:
  assumes "copy_ext_code_to_memory c a code_off n dest = Inr (c', gas)"
  shows "S c c'"
proof -
  obtain j code where j: "code_by_address (ctx_journal c) (address_from a) = (j, code)" by fastforce
  obtain c1 where c1: "put_in_memory (c\<lparr>ctx_journal := j\<rparr>) (unat dest) (min (unat code_off) (length code)) (unat n) code = Inr c1"
    and c': "c' = c1 \<or> c' = c1\<lparr>ctx_journal := add_account_as_warm (ctx_journal c1) (address_from a)\<rparr>"
    using assms j by (auto simp: copy_ext_code_to_memory_def Let_def result_simps split: if_splits)
  have "S c c1" using S_read [OF read_results(2) [OF j]] S_put_in_memory [OF c1] S_trans by blast
  moreover have "ctx_journal c1 = j" using c1 by (auto simp: put_in_memory_ok Let_def)
  then have "S c1 c'" using c' S_refl S_read [of c1] warm_results(2) [OF j] by blast
  ultimately show ?thesis by (rule S_trans)
qed

subsection \<open>System calls that write\<close>

lemma S_create_log: "\<not> in_static c \<Longrightarrow> create_log c off n t = Inr c' \<Longrightarrow> S c c'"
  by (auto simp: create_log_def Let_def result_simps intro: S_logs)

lemma S_append_log: "\<not> in_static c \<Longrightarrow> append_log_syscall n c off sz t = Inr c' \<Longrightarrow> S c c'"
  by (auto simp: append_log_syscall_def append_log_def append_log_with_one_topic_def
      append_log_with_two_topics_def append_log_with_three_topics_def append_log_with_four_topics_def
      split: if_splits intro: S_create_log)

lemma S_write_storage:
  assumes "\<not> in_static c" and "syscall_write_storage c key v = Inr (c', gas)"
  shows "S c c'"
proof (cases "transact_to (tx (ctx_env c))")
  case TransactTo_Create
  then show ?thesis using assms(2) by (simp add: syscall_write_storage_def S_refl)
next
  case (TransactTo_Call a)
  let ?k = "to_primitive_u256 key" and ?v = "to_primitive_u256 v"
  obtain j slot where j: "read_storage (ctx_journal c) a ?k = (j, slot)" by fastforce
  obtain j' where j': "write_storage j a ?k ?v = Inr j'"
    and c': "\<exists>x. c' = c\<lparr>ctx_journal := j'\<rparr>\<lparr>ctx_inner := (ctx_inner c)\<lparr>gas_refund := x\<rparr>\<rparr>"
    using assms(2) TransactTo_Call j
    by (cases "write_storage j a ?k ?v") (auto simp: syscall_write_storage_def Let_def split: option.splits prod.splits)
  have "S c (c\<lparr>ctx_journal := j\<rparr>)" by (rule S_read [OF read_results(3) [OF j]])
  moreover have "S (c\<lparr>ctx_journal := j\<rparr>) (c\<lparr>ctx_journal := j'\<rparr>)"
    using S_write [of "c\<lparr>ctx_journal := j\<rparr>" j'] assms(1) step_write [OF j'] by simp
  moreover have "S (c\<lparr>ctx_journal := j'\<rparr>) c'" using c' assms(1) S_logs [of "c\<lparr>ctx_journal := j'\<rparr>"] by auto
  ultimately show ?thesis using S_trans by blast
qed

lemma S_selfdestruct:
  assumes "\<not> in_static c" and "selfdestruct c r = Inr (c', gas)"
  shows "S c c'"
proof -
  let ?s = "this_address c" and ?r = "address_from r"
  note st = journal_step.intros [where ?keccak256.0 = "keccak256 h"]
  obtain j i where j: "get_account (ctx_journal c) ?s = (j, i)" by fastforce
  obtain j2 i2 where j2: "get_account j ?r = (j2, i2)" by fastforce
  define R :: "(journal \<times> bool) res" where "R = (case i2 of
       Some x \<Rightarrow> (case checked_add (info_balance x) (info_balance (account_or_default i)) of
           None \<Rightarrow> Inl Panic
         | Some new_balance \<Rightarrow> Inr (set_balance j2 ?r new_balance, info_is_empty x))
     | None \<Rightarrow> Inr (new_account j2 ?r (info_balance (account_or_default i)), True))"
  obtain j3 e where R: "R = Inr (j3, e)"
    using assms(2) j j2 by (cases R) (auto simp: selfdestruct_def R_def [symmetric])
  have j3: "journal_step (keccak256 h) j2 j3"
    using R by (auto simp: R_def intro: st split: option.splits)
  obtain j4 i4 where j4: "get_account (set_balance j3 ?s 0) ?s = (j4, i4)" by fastforce
  define x where "x \<longleftrightarrow> i4 \<noteq> None"
  have c': "c' = c\<lparr>ctx_journal := if x then set_status j4 ?s SelfDestructed else j4\<rparr>"
    using assms(2) j j2 R j4 by (simp add: selfdestruct_def R_def [symmetric] x_def Let_def)
  let ?k = "journal_step (keccak256 h)"
  have "?k (ctx_journal c) j" "?k j j2" "?k (set_balance j3 ?s 0) j4"
    using j j2 j4 read_results(1) read_step_journal_step by blast+
  then have "?k\<^sup>*\<^sup>* (ctx_journal c) j4" using j3 st(5) by (meson rtranclp.rtrancl_into_rtrancl rtranclp.rtrancl_refl)
  then have "?k\<^sup>*\<^sup>* (ctx_journal c) (if x then set_status j4 ?s SelfDestructed else j4)"
    using st(7) by (auto intro: rtranclp.rtrancl_into_rtrancl)
  then show ?thesis using S_journal_write assms(1) c' by simp
qed

subsection \<open>Calls\<close>

lemma S_run_callee:
  assumes "honours S exec" and "run_callee exec c ct a v g consumed data = Inr r"
  shows "S c (out_ctx r)"
proof -
  obtain fc e where e: "call_env c ct a v g data = (fc, e)" by fastforce
  obtain j b where j: "code_by_address (ctx_journal c) a = (j, b)" by fastforce
  let ?st = "in_static c \<or> ct = Call_StaticCall"
  let ?sub = "syscall_context_new e j \<lparr>caller = fc, ctx_is_static = ?st, last_call_return_data = []\<rparr> g"
  obtain p callee where p: "from_bytecode b = Inr p" and x: "exec p ?sub g = Inr callee"
    and r: "out_ctx r = c\<lparr>ctx_journal := ctx_journal callee\<rparr> \<or>
            out_ctx r = c\<lparr>ctx_journal := j\<lparr>j_db := j_db (ctx_journal callee)\<rparr>\<rparr>"
    using assms(2) e j
    by (auto simp: run_callee_def Let_def result_simps eject_base_def extend_from_successful_def
        extend_from_reverted_def split: if_splits)
  let ?c = "c\<lparr>ctx_journal := j\<rparr>"
  have 1: "S c ?c" by (rule S_read [OF read_results(2) [OF j]])
  have 2: "S ?sub callee" using assms(1) x by (auto simp: honours_def)
  have "S ?c (out_ctx r)"
    using r S_nested [OF 2, of ?c] S_reverted [OF 2, of ?c] by (auto simp: syscall_context_new_def)
  with 1 show ?thesis by (rule S_trans)
qed

lemma transfer_steps:
  "transfer j a x b y v = Inr j' \<Longrightarrow> (journal_step (keccak256 h))\<^sup>*\<^sup>* j j'"
  by (auto simp: transfer_def Let_def split: option.splits
      intro: rtranclp.rtrancl_into_rtrancl step_set_balance)

lemma S_call_contract:
  assumes "honours S exec" and "in_static c \<Longrightarrow> v = 0"
    and "call_contract exec c g a v available ct data = Inr r"
  shows "S c (out_ctx r)"
  using assms(3)
proof (cases rule: call_contract_cases)
  case (early j x)
  then show ?thesis using S_journal_read S_halt S_trans by metis
next
  case (run ct' j0 i j1 j k j' g' n)
  let ?c = "c\<lparr>ctx_journal := j\<rparr>"
  have "S ?c (c\<lparr>ctx_journal := j'\<rparr>)"
  proof (cases "v = 0")
    case True
    then show ?thesis using run(5) by (simp add: S_refl)
  next
    case False
    then have "\<not> in_static c" using assms(2) by blast
    then show ?thesis using S_journal_write [of ?c j'] transfer_steps run(5) False by auto
  qed
  moreover have "S c ?c" by (rule S_journal_read [OF run(4)])
  ultimately show ?thesis using S_run_callee [OF assms(1) run(6)] S_trans by blast
qed

lemma S_finish_call: "finish_call r ro rs = Inr (c', g, code) \<Longrightarrow> S (out_ctx r) c'"
  using S_data S_put_in_memory S_refl S_trans
  by (auto simp: finish_call_def Let_def result_simps split: option.splits if_splits) blast+

lemma S_syscall_call:
  assumes "honours S exec" and "in_static c \<Longrightarrow> to_primitive_u256 v = 0"
    and "syscall_call h exec c g a v ao an ro rs available g0 ct = Inr (c', g', code)"
  shows "S c c'"
proof (cases "unat ao + unat an > length (memory (ctx_inner c))")
  case True
  then show ?thesis using assms(3) S_halt by (auto simp: syscall_call_def Let_def)
next
  case False
  obtain r gg where r: "finish_call r ro rs = Inr (c', gg, code)"
    and "(\<exists>data. call_contract exec c g (address_from a) (to_primitive_u256 v) available ct data = Inr r) \<or>
         out_ctx r = c"
    using assms(3) False by (auto simp: syscall_call_def Let_def result_simps split: if_splits)
  then have "S c (out_ctx r)" using S_call_contract [OF assms(1,2)] S_refl by metis
  then show ?thesis using S_finish_call [OF r] S_trans by blast
qed

subsection \<open>Creations\<close>

lemma S_write_result: "S c (write_result c off n g r)"
  by (auto simp: write_result_def intro: S_inner)

lemma S_finish_create:
  assumes "\<not> in_static c"
  shows "S c (fst (finish_create h c off v gas n sender_address sender_account dest_addr bytecode))"
proof -
  let ?k = "journal_step (keccak256 h)"
  let ?j = "new_contract (keccak256 h) (ctx_journal c) dest_addr bytecode (to_primitive_u256 v)"
  have j: "?k (ctx_journal c) ?j" by (rule step_new_contract)
  then have 1: "S c (c\<lparr>ctx_journal := ?j\<rparr>)" using S_write assms by blast
  have 2: "S c (c\<lparr>ctx_journal := set_balance (set_nonce ?j sender_address nn) sender_address b\<rparr>)" for nn b
  proof -
    have "?k\<^sup>*\<^sup>* (ctx_journal c) (set_balance (set_nonce ?j sender_address nn) sender_address b)"
      using j step_set_nonce step_set_balance
      by (meson rtranclp.rtrancl_into_rtrancl rtranclp.rtrancl_refl)
    then show ?thesis by (rule S_journal_write) (rule assms)
  qed
  show ?thesis
    using S_write_result S_trans [OF 1 S_halt] S_trans [OF 2 S_write_result]
    by (auto simp: finish_create_def create_halt_def Let_def split: option.splits)
qed

lemma S_run_init_code:
  assumes "honours S exec" and "\<not> in_static c"
    and "run_init_code h exec c off w v rg p code sa sacc da hc = Inr (c', rest)"
  shows "S c c'"
proof -
  let ?j = "new_account (ctx_journal c) da (to_primitive_u256 v)"
  let ?env = "(ctx_env c)\<lparr>tx := (tx (ctx_env c))\<lparr>transact_to := TransactTo_Call da, gas_limit := rg\<rparr>\<rparr>"
  let ?sub = "map_inner (\<lambda>ic. ic\<lparr>ic_program := code\<rparr>) (syscall_context_new ?env ?j (call_frame_new sa) rg)"
  obtain sub where x: "exec p ?sub rg = Inr sub"
    and c': "\<exists>gas n b. c' = fst (finish_create h (c\<lparr>ctx_journal := ctx_journal sub\<rparr>) off v gas n sa sacc da b)"
    using assms(3)
    by (auto simp: run_init_code_def Let_def result_simps eject_base_def extend_from_successful_def)
      (metis fst_conv)
  have "S ?sub sub" using assms(1) x by (auto simp: honours_def)
  moreover have "ctx_journal ?sub = ?j" by (simp add: syscall_context_new_def)
  ultimately have "S (c\<lparr>ctx_journal := ?j\<rparr>) (c\<lparr>ctx_journal := ctx_journal sub\<rparr>)"
    using S_nested [of ?sub sub "c\<lparr>ctx_journal := ?j\<rparr>"] assms(2) by simp
  moreover have "S c (c\<lparr>ctx_journal := ?j\<rparr>)" by (rule S_write [OF assms(2) step_new_account])
  moreover have "S (c\<lparr>ctx_journal := ctx_journal sub\<rparr>) c'"
    using c' S_finish_create [of "c\<lparr>ctx_journal := ctx_journal sub\<rparr>"] assms(2) by auto
  ultimately show ?thesis using S_trans by blast
qed

lemma S_create_aux:
  assumes "honours S exec" and "\<not> in_static c"
    and "create_aux h exec c n off v rg salt = Inr (c', rest)"
  shows "S c c'"
proof (cases "unat n > MAX_CODE_SIZE * 2")
  case True
  then show ?thesis using assms(3) S_halt by (auto simp: create_aux_def create_halt_def Let_def)
next
  case False
  let ?c = "map_inner (\<lambda>ic. resize_memory_if_necessary ic (unat off) (unat n)) c"
  let ?s = "this_address c"
  have Sc: "S c ?c" by (rule S_resize)
  have halt: "S c (d\<lparr>ctx_halt_reason := r\<rparr>)" if "S c d" for d r using that S_halt S_trans by blast
  have read1: "S c (?c\<lparr>ctx_journal := j\<rparr>)" if "get_account (ctx_journal c) ?s = (j, i)" for j i
    using S_trans [OF Sc S_read [of ?c j]] read_results(1) [OF that] by simp
  have read2: "S c (?c\<lparr>ctx_journal := j'\<rparr>)" if "get_account (ctx_journal c) ?s = (j, i)" "get_account j da = (j', i')"
    for j i j' i' da
    using S_trans [OF Sc S_read2 [of ?c j j']] read_results(1) [OF that(1)] read_results(1) [OF that(2)] by simp
  consider (recursive) "c' = ?c\<lparr>ctx_halt_reason := Some (OutOfGas OOG_RecursiveCreate)\<rparr>"
    | (nonce) j i r where "get_account (ctx_journal c) ?s = (j, i)" "c' = ?c\<lparr>ctx_journal := j\<rparr>\<lparr>ctx_halt_reason := r\<rparr>"
    | (collision) j i da j' i' r where "get_account (ctx_journal c) ?s = (j, i)" "get_account j da = (j', i')"
        "c' = ?c\<lparr>ctx_journal := j'\<rparr>\<lparr>ctx_halt_reason := r\<rparr>"
    | (run) j i da j' i' p code acc hc where "get_account (ctx_journal c) ?s = (j, i)" "get_account j da = (j', i')"
        "run_init_code h exec (?c\<lparr>ctx_journal := add_account_as_warm j' da\<rparr>) off ((unat n + 31) div 32)
           v rg p code ?s acc da hc = Inr (c', rest)"
    using assms(3) False
    by (auto simp: create_aux_def create_halt_def Let_def result_simps split: if_splits prod.splits option.splits)
  then show ?thesis
  proof cases
    case recursive
    then show ?thesis using halt [OF Sc] by simp
  next
    case nonce
    then show ?thesis using halt [OF read1] by simp
  next
    case collision
    then show ?thesis using halt [OF read2] by simp
  next
    case run
    have "S (?c\<lparr>ctx_journal := j'\<rparr>) (?c\<lparr>ctx_journal := add_account_as_warm j' da\<rparr>)"
      using S_read [of "?c\<lparr>ctx_journal := j'\<rparr>" "add_account_as_warm j' da"] warm_results(1) [OF run(2)] by simp
    then have "S c (?c\<lparr>ctx_journal := add_account_as_warm j' da\<rparr>)"
      using read2 [OF run(1,2)] S_trans by blast
    then show ?thesis using S_run_init_code [OF assms(1) _ run(3)] assms(2) S_trans by simp
  qed
qed

end

section \<open>Operations and programs\<close>

text \<open>
  The second interface: a property of machines that the fragments of the generated code keep, given that
  the context changes within the relation. Every operation, every block and every
  program keeps it.
\<close>

locale machine_relation = context_relation +
  fixes W :: "mstate \<Rightarrow> bool"
  assumes W_gas: "W m \<Longrightarrow> W (m\<lparr>gas_counter := g\<rparr>)"
    and W_pop: "W m \<Longrightarrow> stack_pop m = Inr (m', x) \<Longrightarrow> W m'"
    and W_push: "W m \<Longrightarrow> stack_push m v = Inr m' \<Longrightarrow> W m'"
    and W_cell: "W m \<Longrightarrow> store_cell m i v = Inr m' \<Longrightarrow> W m'"
    and W_ctx: "W m \<Longrightarrow> S (m_ctx m) c \<Longrightarrow> W (m\<lparr>m_ctx := c\<rparr>)"
    and W_extend: "W m \<Longrightarrow> extend_memory h (m_ctx m) (round_up_32 r) = (c, p) \<Longrightarrow>
      W (m\<lparr>m_ctx := c, memory_size := round_up_32 r, memory_ptr := p\<rparr>)"
    and W_static: "W m \<Longrightarrow> W m' \<Longrightarrow> in_static (m_ctx m') = in_static (m_ctx m)"
begin

lemma leads_pop:
  assumes "W m" and "\<And>x m'. W m' \<Longrightarrow> leads W (k x m')"
  shows "leads W (pop m k)"
  using assms W_pop by (auto simp: pop_def intro!: leads_and_then)

lemma leads_push_next: "W m \<Longrightarrow> leads W (push_next m v)"
  using W_push by (auto simp: push_next_def intro!: leads_and_then)

lemma leads_guarded:
  assumes "W m" and "\<And>m'. W m' \<Longrightarrow> check m \<Longrightarrow> leads W (k m')"
  shows "leads W (guarded cost check k m)"
  using assms W_gas by (simp add: guarded_def consume_gas_def Let_def)

text \<open>Charging a value that a system call returned, with the context it returned.\<close>

lemma W_ctx_gas: "W m \<Longrightarrow> S (m_ctx m) c \<Longrightarrow> W (m\<lparr>m_ctx := c, gas_counter := g\<rparr>)"
  using W_ctx W_gas by blast

lemma leads_extend:
  assumes "W m" and "\<And>m'. W m' \<Longrightarrow> leads W (k m')"
  shows "leads W (extend_memory_block h m r g k)"
proof -
  have "W (m\<lparr>gas_counter := x, m_ctx := fst (extend_memory h (m_ctx m) (round_up_32 r)),
      memory_size := round_up_32 r, memory_ptr := snd (extend_memory h (m_ctx m) (round_up_32 r))\<rparr>)" for x
    using W_extend [OF W_gas [OF assms(1)], of x r] by simp
  then show ?thesis
    using assms W_gas
    by (simp add: extend_memory_block_def consume_gas_def consume_gas_as_value_def Let_def split_beta)
qed

lemmas leads_rules = leads_guarded leads_pop leads_push_next leads_cond_br leads_and_then
lemmas leads_all = leads_rules leads_extend

lemma leads_shapes:
  assumes "W m"
  shows "leads W (unary_op cost f1 m)" "leads W (binary_op cost f2 m)" "leads W (ternary_op cost f3 m)"
    "leads W (push_op cost v m)"
  unfolding unary_op_def binary_op_def ternary_op_def push_op_def
  by (intro leads_rules assms; assumption)+

lemma W_memory_write:
  assumes "W m" and "memory_write m off bs = Inr m'"
  shows "W m'"
proof -
  consider "m' = m" | b where "m' = m\<lparr>m_ctx := map_inner (\<lambda>ic. ic\<lparr>memory := b\<rparr>) (m_ctx m)\<rparr>"
      "length b = length (m_memory m)"
    using assms(2) by (auto simp: memory_write_def in_memory_def split: if_splits)
  then show ?thesis
  proof cases
    case 2
    then show ?thesis using W_ctx [OF assms(1) S_inner, of "(ctx_inner (m_ctx m))\<lparr>memory := b\<rparr>"] by simp
  qed (use assms(1) in simp)
qed

lemma leads_lookup:
  assumes "W m" and "\<And>c' a. S c' (fst (look c' a))"
  shows "leads W (lookup_op look m)"
  unfolding lookup_op_def consume_gas_as_value_def Let_def split_beta fst_conv snd_conv
  by (intro leads_rules assms(1)) (simp_all add: W_ctx_gas assms(2))

lemma leads_stack_ops:
  assumes "W m"
  shows "leads W (codegen_push x z m)" "leads W (codegen_pop m)" "leads W (codegen_dup n m)"
    "leads W (codegen_swap n m)" "leads W (codegen_exp h m)" "leads W (codegen_calldatasize m)"
    "leads W (codegen_jumpdest pc m)" "leads W (codegen_jump m)" "leads W (codegen_jumpi m)"
    "leads W (codegen_stop m)" "leads W (codegen_invalid m)"
proof -
  have sw: "W m''" if "W m'" "swap_stack_elements m' i j = Inr m''" for m' m'' i j
    using that W_cell by (auto simp: swap_stack_elements_def result_simps) blast
  note [simp] = assms
  show "leads W (codegen_push x z m)" "leads W (codegen_pop m)"
    unfolding codegen_push_def codegen_pop_def by (intro leads_rules; simp)+
  show "leads W (codegen_dup n m)"
    unfolding codegen_dup_def by (intro leads_rules) (auto intro: leads_push_next)
  show "leads W (codegen_swap n m)"
    unfolding codegen_swap_def by (intro leads_rules) (auto intro: sw)
  show "leads W (codegen_exp h m)" "leads W (codegen_calldatasize m)" "leads W (codegen_jumpdest pc m)"
    unfolding codegen_exp_def codegen_calldatasize_def codegen_jumpdest_def consume_gas_def consume_gas_as_value_def Let_def
    by (auto intro!: leads_pop leads_push_next W_gas)
  show "leads W (codegen_jump m)" "leads W (codegen_jumpi m)"
    unfolding codegen_jump_def codegen_jumpi_def by (intro leads_rules; simp)+
  show "leads W (codegen_stop m)" "leads W (codegen_invalid m)"
    using W_ctx [OF assms S_write_result]
    by (simp_all add: codegen_stop_def codegen_invalid_def return_empty_result_def return_result_with_offset_and_size_def)
qed

lemma leads_env_ops:
  assumes "W m"
  shows "leads W (codegen_selfbalance m)" "leads W (codegen_blockhash m)" "leads W (codegen_blobhash m)"
    "leads W (codegen_balance m)" "leads W (codegen_extcodesize m)" "leads W (codegen_extcodehash m)"
    "leads W (codegen_sload m)" "leads W (codegen_tload m)" "leads W (codegen_calldataload m)"
proof -
  note [simp] = assms
  show "leads W (codegen_selfbalance m)" "leads W (codegen_blockhash m)" "leads W (codegen_blobhash m)"
    "leads W (codegen_tload m)"
    unfolding codegen_selfbalance_def codegen_blockhash_def codegen_blobhash_def codegen_tload_def Let_def split_beta
    by (intro leads_rules; simp add: W_ctx S_selfbalance S_block_hash)+
  show "leads W (codegen_balance m)" "leads W (codegen_extcodesize m)" "leads W (codegen_extcodehash m)"
    "leads W (codegen_sload m)"
    unfolding codegen_balance_def codegen_extcodesize_def codegen_extcodehash_def codegen_sload_def Let_def split_beta
    by (rule leads_lookup; simp add: S_balance S_codesize S_code_hash S_read_storage)+
  have inc: "W (inc_stack_pointer m'')" if "W m'" "store_cell m' (stack_ptr m') v = Inr m''" for m' m'' v
    using W_push [OF that(1), of v] that(2) by (simp add: stack_push_def)
  have ptr: "stack_ptr m'' = stack_ptr m'" if "store_cell m' i v = Inr m''" for m' m'' i v
    using that by (auto simp: store_cell_def split: if_splits)
  show "leads W (codegen_calldataload m)"
    unfolding codegen_calldataload_def Let_def
    by (intro leads_guarded leads_pop)
      (auto intro!: leads_rules intro: W_cell inc simp: ptr)
qed

lemma leads_return: "W m \<Longrightarrow> leads W (return_result_from_stack h m r)"
  unfolding return_result_from_stack_def Let_def return_result_with_offset_and_size_def
  by (intro leads_all) (auto intro: W_ctx S_write_result)

lemma leads_memory_ops:
  assumes "W m"
  shows "leads W (codegen_mload h m)" "leads W (codegen_mstore h m)" "leads W (codegen_mstore8 h m)"
    "leads W (codegen_mcopy h m)" "leads W (codegen_keccak256 h m)" "leads W (codegen_calldatacopy h m)"
    "leads W (codegen_codecopy h m)" "leads W (codegen_extcodecopy h m)" "leads W (codegen_returndatacopy h m)"
    "leads W (codegen_return h m)" "leads W (codegen_revert h m)"
proof -
  note [simp] = assms
  show "leads W (codegen_mload h m)" "leads W (codegen_mstore h m)" "leads W (codegen_mstore8 h m)"
    "leads W (codegen_mcopy h m)"
    unfolding codegen_mload_def codegen_mstore_def codegen_mstore8_def codegen_mcopy_def Let_def consume_gas_as_value_def
    by (intro leads_all; simp; fail | intro leads_all; auto intro: W_memory_write W_gas)+
  show "leads W (codegen_keccak256 h m)"
    unfolding codegen_keccak256_def Let_def consume_gas_as_value_def split_beta
    by (intro leads_all) (auto intro: W_gas intro!: W_ctx S_keccak256_hasher)
  show "leads W (codegen_calldatacopy h m)"
    unfolding codegen_calldatacopy_def Let_def
    by (intro leads_all) (auto intro!: leads_and_then elim!: W_memory_write [rotated])
  show "leads W (codegen_codecopy h m)" "leads W (codegen_returndatacopy h m)"
    unfolding codegen_codecopy_def codegen_returndatacopy_def Let_def consume_gas_as_value_def split_beta
      copy_code_to_memory_def copy_return_data_into_memory_def
    by (intro leads_all; auto intro: W_gas W_ctx S_put_in_memory)+
  show "leads W (codegen_extcodecopy h m)"
    unfolding codegen_extcodecopy_def Let_def consume_gas_as_value_def split_beta
    by (intro leads_all) (auto intro: W_gas intro!: W_ctx_gas S_copy_ext_code)
  show "leads W (codegen_return h m)" "leads W (codegen_revert h m)"
    by (auto simp: codegen_return_def codegen_revert_def intro: leads_return)
qed

lemma leads_call_syscall:
  assumes "W m" and "honours S exec" and "in_static (m_ctx m) \<Longrightarrow> v = 0"
  shows "leads W (call_syscall h exec m g a v ao an ro rs ct (\<lambda>v m. push_next m v))"
proof -
  have "S (m_ctx m) c'" if "syscall_call h exec (m_ctx m) g (halves a) (halves v) ao an ro rs x None y = Inr (c', z)"
    for c' x y z
  proof -
    obtain z1 z2 where z: "z = (z1, z2)" by fastforce
    show ?thesis by (rule S_syscall_call [OF assms(2) _ that [unfolded z]]) (use assms(3) in simp)
  qed
  then show ?thesis
    unfolding call_syscall_def Let_def consume_gas_as_value_def split_beta
    by (intro leads_and_then) (auto split: option.split intro!: leads_push_next W_ctx_gas assms(1))
qed

lemma leads_pop_n:
  "W m \<Longrightarrow> (\<And>xs m'. W m' \<Longrightarrow> leads W (k xs m')) \<Longrightarrow> leads W (pop_n i m k)"
proof (induction i arbitrary: m k)
  case (Suc i)
  show ?case unfolding pop_n.simps by (intro leads_pop Suc) (use Suc.prems in auto)
qed simp

lemma leads_world_ops:
  assumes "W m"
  shows "leads W (codegen_sstore m)" "leads W (codegen_tstore m)" "leads W (codegen_log h n m)"
    "leads W (codegen_selfdestruct m)"
proof -
  note [simp] = assms
  have open_c: "\<not> in_static (m_ctx m')" if "check_context_is_not_static m" "W m'" for m'
    using that W_static [OF assms that(2)] by (simp add: check_context_is_not_static_def context_is_static_def)
  show "leads W (codegen_sstore m)"
    unfolding codegen_sstore_def Let_def split_beta
    by (intro leads_all; clarsimp?) (auto intro!: W_ctx W_ctx_gas S_write_storage simp: open_c)
  show "leads W (codegen_tstore m)"
    unfolding codegen_tstore_def write_transient_storage_def
    by (intro leads_all) (auto intro: W_ctx S_transient)
  show "leads W (codegen_log h n m)"
    unfolding codegen_log_def Let_def consume_gas_as_value_def split_beta
    by (intro leads_all leads_pop_n; clarsimp?) (auto intro!: W_gas W_ctx S_append_log simp: open_c)
  show "leads W (codegen_selfdestruct m)"
    unfolding codegen_selfdestruct_def Let_def consume_gas_as_value_def split_beta
    by (intro leads_all; clarsimp?) (auto intro!: W_ctx_gas S_selfdestruct simp: open_c)
qed

lemma leads_create:
  assumes "W m" and "honours S exec"
  shows "leads W (codegen_create h exec z m)"
proof -
  have created: "leads W (created m' r)" if "W m'" "\<And>c' x. r = Inr (c', x) \<Longrightarrow> S (m_ctx m') c'" for m' r
    unfolding created_def Let_def consume_gas_as_value_def split_beta
    by (intro leads_and_then) (use that in \<open>auto intro!: leads_push_next W_ctx_gas\<close>)
  have open_c: "\<not> in_static (m_ctx m')" if "check_context_is_not_static m" "W m'" for m'
    using that W_static [OF assms(1) that(2)] by (simp add: check_context_is_not_static_def context_is_static_def)
  show ?thesis
    unfolding codegen_create_def Let_def create_def create2_def
    by (intro leads_all assms(1); (clarsimp split del: if_split)?)
      (auto intro!: leads_pop created S_create_aux [OF assms(2)] simp: open_c)
qed

lemma leads_call:
  assumes "W m" and "honours S exec"
  shows "leads W (codegen_call h exec ct m)"
proof -
  have rest: "leads W (pop m' (\<lambda>args_offset m. pop m (\<lambda>args_size m. pop m (\<lambda>ret_offset m. pop m (\<lambda>ret_size m.
     if context_is_static m \<and> v \<noteq> 0 then revert m
     else extend_memory_block h m (f args_offset args_size ret_offset ret_size) 0 (\<lambda>m.
       call_syscall h exec m (ucast g) a v (ucast args_offset) (ucast args_size) (ucast ret_offset) (ucast ret_size) ct
         (\<lambda>v m. push_next m v)))))))" if "W m'" for m' v f g a
  proof (intro leads_pop that)
    fix args_offset args_size ret_offset ret_size :: u256 and m5 :: mstate
    assume m5: "W m5"
    have "context_is_static m5 = in_static (m_ctx m6)" if "W m6" for m6
      using W_static [OF m5 that] by (simp add: context_is_static_def)
    then show "leads W (if context_is_static m5 \<and> v \<noteq> 0 then revert m5
       else extend_memory_block h m5 (f args_offset args_size ret_offset ret_size) 0 (\<lambda>m.
       call_syscall h exec m (ucast g) a v (ucast args_offset) (ucast args_size) (ucast ret_offset) (ucast ret_size) ct
         (\<lambda>v m. push_next m v)))"
      using m5 by (auto intro!: leads_extend leads_call_syscall assms(2))
  qed
  show ?thesis
    unfolding codegen_call_def Let_def
    by (intro leads_cond_br leads_pop assms(1); cases "has_value ct")
      (simp_all only: if_True if_False, auto intro!: leads_pop rest leads_extend leads_call_syscall assms(2))
qed

lemma leads_op:
  assumes "W m" and "honours S exec"
  shows "leads W (generate_code_for_op h exec p op m)"
  by (cases op)
    (simp_all add: leads_stack_ops leads_env_ops leads_memory_ops leads_world_ops leads_create leads_call
      leads_shapes assms shape_defs)

lemma W_run_block:
  assumes "W m" and "honours S exec" and "run_block h exec p i m = Inr b"
  shows "W (next_machine b)"
proof -
  obtain m' fl where r: "(if i < length (operations p) then generate_code_for_op h exec p (operations p ! i) m
      else return_empty_result m Exit_Stop) = Inr (m', fl)" and b: "b = follow p i (m', fl)"
    using assms(3) by (auto simp: run_block_def result_simps)
  have "W m'"
    using r leads_op [OF assms(1,2), of p "operations p ! i"] leads_stack_ops(10) [OF assms(1)]
    by (auto simp: codegen_stop_def leads_def split: if_splits)
  then show ?thesis
    using W_ctx [OF W_gas S_write_result]
    by (auto simp: b follow_def next_machine_def generate_revert_block_def consume_gas_as_value_def Let_def
        split: flow.splits option.splits)
qed

end

text \<open>The relation to a fixed context is such a property.\<close>

sublocale context_relation \<subseteq> from_ctx: machine_relation h S "\<lambda>m. S c (m_ctx m)" for c
proof
  fix m m' :: mstate and x v i
  show "stack_pop m = Inr (m', x) \<Longrightarrow> S c (m_ctx m) \<Longrightarrow> S c (m_ctx m')"
    "stack_push m v = Inr m' \<Longrightarrow> S c (m_ctx m) \<Longrightarrow> S c (m_ctx m')"
    "store_cell m i v = Inr m' \<Longrightarrow> S c (m_ctx m) \<Longrightarrow> S c (m_ctx m')"
    by (auto simp: stack_pop_def stack_push_def store_cell_def inc_stack_pointer_def split: if_splits)
  show "S c (m_ctx m) \<Longrightarrow> S c (m_ctx m') \<Longrightarrow> in_static (m_ctx m') = in_static (m_ctx m)"
    using S_static by metis
next
  fix m r c' p
  assume "S c (m_ctx m)" and "extend_memory h (m_ctx m) (round_up_32 r) = (c', p)"
  then show "S c (m_ctx (m\<lparr>m_ctx := c', memory_size := round_up_32 r, memory_ptr := p\<rparr>))"
    using S_trans [OF _ S_extend_memory [of "m_ctx m" "round_up_32 r"]] by simp
qed (auto intro: S_trans)

context context_relation
begin

lemma S_run_block:
  "honours S exec \<Longrightarrow> run_block h exec p i m = Inr b \<Longrightarrow> S (m_ctx m) (m_ctx (next_machine b))"
  by (rule from_ctx.W_run_block [OF S_refl])

lemma S_run: "run h n p i m = Inr (m', code) \<Longrightarrow> S (m_ctx m) (m_ctx m')"
proof (induction n arbitrary: p i m m' code)
  case (Suc n)
  have ex: "honours S (execute h n)"
  proof (unfold honours_def, intro allI impI)
    fix q c g c' assume "execute h n q c g = Inr c'"
    then obtain m1 code1 where "run h n q 0 (setup_code c g) = Inr (m1, code1)" "c' = m_ctx m1"
      by (auto simp: execute_def result_simps)
    then show "S c c'" using Suc.IH by (fastforce simp: setup_code_eq)
  qed
  obtain b where b: "run_block h (execute h n) p i m = Inr b"
    and k: "(case b of Block j m \<Rightarrow> run h n p j m | Leave m code \<Rightarrow> Inr (m, code)) = Inr (m', code)"
    using Suc.prems unfolding run_Suc by (auto simp: result_simps)
  have "S (m_ctx m) (m_ctx (next_machine b))" by (rule S_run_block [OF ex b])
  then show ?case using k Suc.IH S_trans by (auto simp: next_machine_def split: next_block.splits)
qed simp

lemma S_execute: "execute h n p c g = Inr c' \<Longrightarrow> S c c'"
  using S_run by (fastforce simp: execute_def result_simps setup_code_eq)

lemma honours_execute: "honours S (execute h n)"
  by (auto simp: honours_def intro: S_execute)

end

section \<open>The evolution of the journal\<close>

text \<open>
  The first instance: an execution changes the journal only through the
  operations of the journal, and leaves the environment and the initial gas alone.
\<close>

definition evolves :: "host \<Rightarrow> syscall_context \<Rightarrow> syscall_context \<Rightarrow> bool" where
  "evolves h c c' \<longleftrightarrow> (journal_step (keccak256 h))\<^sup>*\<^sup>* (ctx_journal c) (ctx_journal c') \<and>
     ctx_env c' = ctx_env c \<and> ctx_initial_gas c' = ctx_initial_gas c \<and> in_static c' = in_static c"

lemma evolves_db: "evolves h c c' \<Longrightarrow> j_db (ctx_journal c') = j_db (ctx_journal c)"
  using journal_steps_db by (auto simp: evolves_def)

interpretation evolution: context_relation h "evolves h" for h
proof
  fix c0 c c' :: syscall_context
  assume "evolves h c0 c'" and "ctx_journal c0 = ctx_journal c"
  then show "evolves h c (c\<lparr>ctx_journal := (ctx_journal c)\<lparr>j_db := j_db (ctx_journal c')\<rparr>\<rparr>)"
    using evolves_db [of h c0 c'] by (simp add: evolves_def)
qed (auto simp: evolves_def intro: read_step_journal_step)

section \<open>Static calls\<close>

text \<open>
  The second instance: what a static context protects. The accounts that exist keep their balance, nonce
  and code, every storage slot keeps its value, and the logs stay as they are.
  Asking for the balance, the size or the hash of the code of an account that does
  not exist creates it in the journal, empty.
\<close>

definition intact :: "journal \<Rightarrow> journal \<Rightarrow> bool" where
  "intact j j' \<longleftrightarrow> j_db j' = j_db j \<and>
     (\<forall>a. journal_view j' a = journal_view j a \<or>
          journal_view j a = None \<and> journal_view j' a = Some (0, 0, EMPTY_CODE_HASH)) \<and>
     (\<forall>a k. journal_slot j' a k = journal_slot j a k)"

definition protects :: "syscall_context \<Rightarrow> syscall_context \<Rightarrow> bool" where
  "protects c c' \<longleftrightarrow> in_static c' = in_static c \<and> j_db (ctx_journal c') = j_db (ctx_journal c) \<and>
     (in_static c \<longrightarrow> intact (ctx_journal c) (ctx_journal c') \<and>
        ic_logs (ctx_inner c') = ic_logs (ctx_inner c))"

lemma intact_refl: "intact j j"
  by (simp add: intact_def)

lemma intact_trans: "intact j j' \<Longrightarrow> intact j' j'' \<Longrightarrow> intact j j''"
  unfolding intact_def by (metis option.distinct(1))

text \<open>Replacing the cached copy of an account by one with the same content.\<close>

lemma intact_upd:
  assumes "loaded j a = Some acc" and "j_balance acc' = j_balance acc" and "j_nonce acc' = j_nonce acc"
    and "j_bytecode_hash acc' = j_bytecode_hash acc"
    and "\<And>k. present_value (slot_view j a acc' k) = present_value (slot_view j a acc k)"
  shows "intact j (j\<lparr>j_accounts := (j_accounts j)(a \<mapsto> acc')\<rparr>)"
proof -
  obtain d where "j_db j = Some d" using loaded_j_db [OF assms(1)] by blast
  then show ?thesis
    using assms by (simp add: intact_def journal_view_def journal_slot_eq cong: option.case_cong)
qed

lemma intact_created:
  assumes "loaded j a = None" and "j_accounts j a = None"
  shows "intact j (j\<lparr>j_accounts := (j_accounts j)(a \<mapsto> (new_created 0)\<lparr>j_status := s\<rparr>)\<rparr>)"
proof (cases "j_db j")
  case None
  then show ?thesis by (simp add: intact_def journal_view_def journal_slot_eq loaded_eq)
next
  case (Some d)
  then have "db_accounts d a = None" using assms by (auto simp: loaded_eq db_basic_def)
  then have "fetch_storage_from_db j a k = slot_from 0" for k
    using Some by (simp add: fetch_storage_from_db_def db_storage_at_def db_read_storage_def)
  then show ?thesis
    using Some assms(1)
    by (auto simp: intact_def journal_view_def journal_slot_eq new_created_def slot_view_def slot_from_def
        cong: option.case_cong)
qed

lemma intact_load: "intact j (fst (get_account_mut j a))"
proof (cases "loaded j a")
  case (Some acc)
  then show ?thesis using intact_upd [OF Some refl refl refl refl] by (simp add: get_account_mut_Some)
qed (simp add: get_account_mut_None intact_refl)

lemma intact_read:
  assumes "read_step j j'"
  shows "intact j j'"
  using assms
proof cases
  case (read_load a)
  then show ?thesis by (simp add: intact_load)
next
  case (read_warm a)
  show ?thesis
  proof (cases "j_accounts j a")
    case None
    have "loaded j a = None"
    proof (rule ccontr)
      assume "loaded j a \<noteq> None"
      then obtain acc where "loaded j a = Some acc" by blast
      then have "j_accounts (fst (get_account_mut j a)) a = Some acc" by (simp add: get_account_mut_Some)
      then show False using read_warm(2) None by simp
    qed
    then show ?thesis using intact_created [OF _ None] None read_warm(1) by (simp add: add_account_as_warm_def Let_def)
  next
    case (Some acc)
    show ?thesis
    proof (cases "j_db j")
      case None
      then show ?thesis
        using read_warm(1) Some by (simp add: add_account_as_warm_def intact_def journal_view_def journal_slot_eq loaded_eq)
    next
      case (Some d)
      then have "loaded j a = Some acc" using \<open>j_accounts j a = Some acc\<close> by (simp add: loaded_eq)
      then show ?thesis
        using read_warm(1) \<open>j_accounts j a = Some acc\<close>
        by (simp add: add_account_as_warm_def) (rule intact_upd, simp_all add: slot_view_def)
    qed
  qed
next
  case (read_code a)
  then show ?thesis
  proof (cases "loaded j a")
    case (Some acc)
    show ?thesis
      unfolding read_code code_by_address_fst [OF Some]
      by (rule intact_upd [OF Some]) (simp_all add: slot_view_def)
  qed (simp add: code_by_address_None intact_refl)
next
  case (read_slot a key)
  then show ?thesis
  proof (cases "loaded j a")
    case (Some acc)
    show ?thesis
      unfolding read_slot read_storage_Some [OF Some] fst_conv
      by (rule intact_upd [OF Some]) (auto simp: slot_view_def split: option.split)
  qed (simp add: read_storage_None intact_refl)
next
  case (read_block_hash n)
  have "loaded (j\<lparr>j_block_hashes := b\<rparr>) a = loaded j a" "slot_view (j\<lparr>j_block_hashes := b\<rparr>) a = slot_view j a" for b a
    by (auto simp: loaded_eq slot_view_def fetch_storage_from_db_def fun_eq_iff split: option.splits)
  then have "intact j (j\<lparr>j_block_hashes := b\<rparr>)" for b
    by (simp add: intact_def journal_view_def journal_slot_eq cong: option.case_cong)
  then show ?thesis
    by (auto simp: read_block_hash get_block_hash_def Let_def intact_refl split: option.split)
qed

interpretation protection: context_relation h protects for h
proof
  fix c c' c'' :: syscall_context
  assume "protects c c'" "protects c' c''"
  then show "protects c c''" using intact_trans by (auto simp: protects_def)
next
  fix c :: syscall_context and j
  assume "read_step (ctx_journal c) j"
  from intact_read [OF this] show "protects c (c\<lparr>ctx_journal := j\<rparr>)"
    by (auto simp: protects_def intact_def)
next
  fix c :: syscall_context and j
  assume "\<not> in_static c" and "journal_step (keccak256 h) (ctx_journal c) j"
  then show "protects c (c\<lparr>ctx_journal := j\<rparr>)"
    using journal_step_db by (auto simp: protects_def)
qed (auto simp: protects_def intact_refl)

section \<open>Properties\<close>

text \<open>A program that runs to its end in every context, for the witnesses.\<close>

lemma sample_execute: "\<exists>c'. execute sample_host 3 (program_from [Push0]) c 100 = Inr c'"
  by (simp add: execute_def compile_program_def program_from_def op_compiles_def jumpdest_pcs_def
      jumpdest_blocks_def register_jump_destination_def jumpdest_pc_def map_filter_simps numeral_eq_Suc run_block_def follow_def
      codegen_push_def guarded_def consume_gas_def setup_code_eq check_stack_has_space_for_def MAX_STACK_SIZE_def
      push_next_def stack_push_def store_cell_def inc_stack_pointer_def gas_consts
      return_empty_result_def return_result_with_offset_and_size_def)

text \<open>C9: an execution changes the journal only by the journal's own operations, whatever the
  program does and however deep it calls: a journal that is coherent with the database, but for the accounts of a
  set such as those of an access list, stays so, and the environment and the initial gas of the context
  are those it began with.\<close>

theorem execute_evolves:
  assumes "execute h n p c g = Inr c'"
  shows "(journal_step (keccak256 h))\<^sup>*\<^sup>* (ctx_journal c) (ctx_journal c') \<and>
    (coherent_off A d (ctx_journal c) \<longrightarrow> coherent_off A d (ctx_journal c')) \<and>
    ctx_env c' = ctx_env c \<and> ctx_initial_gas c' = ctx_initial_gas c"
  using evolution.S_execute [OF assms] coherent_reachable by (auto simp: evolves_def)

theorem execute_evolves_witness:
  "\<exists>c'. execute sample_host 3 (program_from [Push0]) sample_ctx 100 = Inr c' \<and>
     coherent db_new (ctx_journal c') \<and> ctx_initial_gas c' = ctx_initial_gas sample_ctx"
proof -
  obtain c' where c': "execute sample_host 3 (program_from [Push0]) sample_ctx 100 = Inr c'"
    using sample_execute by blast
  have "coherent db_new (ctx_journal sample_ctx)"
    using coherent_new by (simp add: sample_ctx_def syscall_context_new_def)
  then show ?thesis using execute_evolves [OF c', of "{}" db_new] c' by blast
qed

text \<open>C3: a static call cannot change the world. Whatever program runs in a static context,
  and whatever it calls, every existing account keeps its balance, nonce and code hash, every
  storage slot keeps its value, and no log is added; an account that did not exist is at
  most created empty.\<close>

theorem static_protects:
  assumes "execute h n p c g = Inr c'" and "in_static c"
  shows "(\<forall>a v. journal_view (ctx_journal c) a = Some v \<longrightarrow> journal_view (ctx_journal c') a = Some v) \<and>
    (\<forall>a. journal_view (ctx_journal c) a = None \<longrightarrow>
       journal_view (ctx_journal c') a = None \<or> journal_view (ctx_journal c') a = Some (0, 0, EMPTY_CODE_HASH)) \<and>
    (\<forall>a k. journal_slot (ctx_journal c') a k = journal_slot (ctx_journal c) a k) \<and>
    ic_logs (ctx_inner c') = ic_logs (ctx_inner c)"
proof -
  have "intact (ctx_journal c) (ctx_journal c')" "ic_logs (ctx_inner c') = ic_logs (ctx_inner c)"
    using protection.S_execute [OF assms(1)] assms(2) by (auto simp: protects_def)
  then show ?thesis by (auto simp: intact_def) (metis option.distinct(1))+
qed


theorem static_protects_witness:
  "\<exists>c'. execute sample_host 3 (program_from [Push0])
       (sample_ctx\<lparr>ctx_frame := (call_frame_new 0)\<lparr>ctx_is_static := True\<rparr>\<rparr>) 100 = Inr c' \<and>
     ic_logs (ctx_inner c') = []"
proof -
  let ?c = "sample_ctx\<lparr>ctx_frame := (call_frame_new 0)\<lparr>ctx_is_static := True\<rparr>\<rparr>"
  obtain c' where c': "execute sample_host 3 (program_from [Push0]) ?c 100 = Inr c'"
    using sample_execute by blast
  have "ic_logs (ctx_inner ?c) = []"
    by (simp add: sample_ctx_def syscall_context_new_def inner_context_default_def)
  then show ?thesis using static_protects [OF c'] c' by simp
qed

end
