(* ===== verification/Progress.thy ===== *)
theory Progress
  imports Effects
begin

text \<open>
  Progress of the generated code: every operation that runs no other program and checks its charges
  takes gas from the counter, so a program of such operations ends within a
  number of blocks that its gas bounds.
\<close>

section \<open>Spending gas\<close>

text \<open>
  \<open>reached g g'\<close>: the counter when an operation that began with \<open>g\<close> has come to \<open>g'\<close>.
  Either nothing was charged yet, or charges went through (\<open>kept\<close>), one of them not zero (\<open>paid\<close>).
\<close>

definition kept :: "u64 \<Rightarrow> u64 \<Rightarrow> bool" where
  "kept g g' \<longleftrightarrow> unat g < 2 ^ 63 \<and> unat g' \<le> unat g"

definition paid :: "u64 \<Rightarrow> u64 \<Rightarrow> bool" where
  "paid g g' \<longleftrightarrow> unat g < 2 ^ 63 \<and> unat g' < unat g"

definition reached :: "u64 \<Rightarrow> u64 \<Rightarrow> bool" where
  "reached g g' \<longleftrightarrow> g' = g \<or> kept g g'"

lemma reached_intros [simp]:
  "reached g g" "kept g g' \<Longrightarrow> reached g g'" "paid g g' \<Longrightarrow> kept g g'" "paid g g' \<Longrightarrow> reached g g'"
  by (simp_all add: reached_def kept_def paid_def)

lemma charge:
  assumes "reached g g'" and "unat a < 2 ^ 62" and "sint g' \<ge> sint a"
  shows "kept g (g' - a)" and "0 < unat a \<Longrightarrow> paid g (g' - a)"
    and "paid g g' \<Longrightarrow> paid g (g' - a)"
proof -
  have a: "unat a < 2 ^ 63" using assms(2) by simp
  have c: "unat g' < 2 ^ 63 \<and> unat a \<le> unat g'" using assms(3) gas_covers [OF a] by blast
  then have "unat (g' - a) = unat g' - unat a" by (simp add: unat_gas_sub)
  with c assms(1) show "kept g (g' - a)" "0 < unat a \<Longrightarrow> paid g (g' - a)" "paid g g' \<Longrightarrow> paid g (g' - a)"
    by (auto simp: reached_def kept_def paid_def)
qed

text \<open>
  A step that spends: it does not run out of fuel, and where it goes on, the counter was
  not negative and is lower now, or has become negative by less than \<open>2^40\<close>.
\<close>

definition overdrawn :: "u64 \<Rightarrow> bool" where
  "overdrawn g \<longleftrightarrow> 2 ^ 64 - 2 ^ 40 \<le> unat g"

definition goes_on :: "flow \<Rightarrow> bool" where
  "goes_on fl \<longleftrightarrow> (case fl of Next \<Rightarrow> True | To_jumptable _ \<Rightarrow> True | _ \<Rightarrow> False)"

definition spends :: "u64 \<Rightarrow> step \<Rightarrow> bool" where
  "spends g r \<longleftrightarrow> r \<noteq> Inl Out_Of_Fuel \<and>
     (\<forall>m fl. r = Inr (m, fl) \<and> goes_on fl \<longrightarrow>
        paid g (gas_counter m) \<or> unat g < 2 ^ 63 \<and> overdrawn (gas_counter m))"

lemma goes_on_simps [simp]:
  "goes_on Next" "goes_on (To_jumptable v)" "\<not> goes_on To_revert" "\<not> goes_on (Returned x)"
  by (simp_all add: goes_on_def)

lemma spends_simps [simp]:
  "spends g (Inl e) \<longleftrightarrow> e \<noteq> Out_Of_Fuel"
  "spends g (Inr (m, To_revert))" "spends g (Inr (m, Returned x))"
  by (simp_all add: spends_def)

lemma spends_Inr: "paid g (gas_counter m) \<Longrightarrow> spends g (Inr (m, fl))"
  by (simp add: spends_def)

text \<open>A computation that does not run out of fuel.\<close>

definition fuelled :: "'a res \<Rightarrow> bool" where
  "fuelled r \<longleftrightarrow> r \<noteq> Inl Out_Of_Fuel"

lemma fuelled_simps [simp]: "fuelled (Inr x)" "fuelled (Inl e) \<longleftrightarrow> e \<noteq> Out_Of_Fuel"
  by (simp_all add: fuelled_def)

lemma fuelled_and_then: "fuelled r \<Longrightarrow> (\<And>x. r = Inr x \<Longrightarrow> fuelled (k x)) \<Longrightarrow> fuelled (and_then r k)"
  by (cases r) (simp_all add: fuelled_def)

lemma spends_and_then: "fuelled r \<Longrightarrow> (\<And>x. r = Inr x \<Longrightarrow> spends g (k x)) \<Longrightarrow> spends g (and_then r k)"
  by (cases r) simp_all

lemma spends_pop:
  assumes "\<And>x m'. gas_counter m' = gas_counter m \<Longrightarrow> m_ctx m' = m_ctx m \<Longrightarrow> spends g (k x m')"
  shows "spends g (pop m k)"
  using assms by (auto simp: pop_def stack_pop_def)

lemma spends_push_next: "paid g (gas_counter m) \<Longrightarrow> spends g (push_next m v)"
  by (auto simp: push_next_def stack_push_def store_cell_def inc_stack_pointer_def intro: spends_Inr)

lemma spends_charge:
  assumes "reached g (gas_counter m)" and "unat a < 2 ^ 62"
    and "kept g (gas_counter m - a) \<Longrightarrow> (0 < unat a \<or> paid g (gas_counter m) \<Longrightarrow> paid g (gas_counter m - a)) \<Longrightarrow>
         spends g (k (m\<lparr>gas_counter := gas_counter m - a\<rparr>))"
  shows "spends g (cond_br (sint a \<le> sint (gas_counter m)) k (m\<lparr>gas_counter := gas_counter m - a\<rparr>))"
  using assms charge [OF assms(1,2)] by (auto simp: spends_def)

lemma spends_guarded:
  assumes "0 < unat cost" and "unat cost < 2 ^ 62"
    and "\<And>m'. paid (gas_counter m) (gas_counter m') \<Longrightarrow> m_ctx m' = m_ctx m \<Longrightarrow> spends (gas_counter m) (k m')"
  shows "spends (gas_counter m) (guarded cost check k m)"
  using assms charge(2) [of "gas_counter m" "gas_counter m" cost] by (simp add: guarded_def consume_gas_def Let_def)

section \<open>Prices\<close>

lemma unat_compute_copy_cost: "unat (compute_copy_cost n) = (unat n + 31) div 32 * 3"
proof -
  have n: "unat n < 2 ^ 32" using unat_less_pow [of n] by simp
  then have w: "unat (ucast n :: u64) = unat n" by (simp add: unat_ucast_up)
  have "unat (ucast n + 31 :: u64) = unat n + 31"
    using n by (simp add: unat_word_ariths w)
  then have "unat ((ucast n + 31 :: u64) div 32) = (unat n + 31) div 32" by (simp add: unat_div)
  moreover have "(unat n + 31) div 32 \<le> 2 ^ 28" using n by simp
  ultimately show ?thesis by (simp add: compute_copy_cost_def unat_word_ariths)
qed

lemma unat_compute_memory_cost:
  "unat (compute_memory_cost n) = (let w = (unat n + 31) div 32 in w * w div 512 + w * 3)"
proof -
  have n: "unat n < 2 ^ 32" using unat_less_pow [of n] by simp
  then have u: "unat (ucast n :: u64) = unat n" by (simp add: unat_ucast_up)
  define w where "w = (unat n + 31) div 32"
  have w: "w \<le> 2 ^ 27" using n by (simp add: w_def)
  then have ww: "w * w \<le> 2 ^ 54" using mult_le_mono [OF w w] by simp
  have "unat (ucast n + 31 :: u64) = unat n + 31"
    using n by (simp add: unat_word_ariths u)
  then have x: "unat ((ucast n + 31 :: u64) div 32) = w" by (simp add: unat_div w_def)
  have "w * w div 512 + w * 3 < 2 ^ 64" using w ww by (simp add: less_mult_imp_div_less)
  then show ?thesis
    using w ww x by (simp add: compute_memory_cost_def Let_def unat_word_ariths unat_div w_def [symmetric])
qed

lemma compute_memory_cost_mono:
  assumes "n \<le> n'"
  shows "unat (compute_memory_cost n) \<le> unat (compute_memory_cost n')"
proof -
  have "(unat n + 31) div 32 \<le> (unat n' + 31) div 32" using assms by (simp add: word_le_nat_alt div_le_mono)
  then show ?thesis by (simp add: unat_compute_memory_cost Let_def add_mono div_le_mono mult_le_mono)
qed

lemma compute_memory_cost_bound: "unat (compute_memory_cost n) < 2 ^ 46"
proof -
  have "unat n < 2 ^ 32" using unat_less_pow [of n] by simp
  then have w: "(unat n + 31) div 32 \<le> 2 ^ 27" by simp
  then have "(unat n + 31) div 32 * ((unat n + 31) div 32) \<le> 2 ^ 54" using mult_le_mono [OF w w] by simp
  then have "(unat n + 31) div 32 * ((unat n + 31) div 32) div 512 \<le> 2 ^ 54 div 512" by (rule div_le_mono)
  then show ?thesis using w by (simp add: unat_compute_memory_cost Let_def)
qed

lemma spends_extend:
  assumes "reached g (gas_counter m)" and "unat fixed < 2 ^ 60"
    and "\<And>m'. kept g (gas_counter m') \<Longrightarrow>
      (0 < unat fixed \<or> paid g (gas_counter m) \<Longrightarrow> paid g (gas_counter m')) \<Longrightarrow> spends g (k m')"
  shows "spends g (extend_memory_block h m r fixed k)"
proof -
  let ?d = "compute_memory_cost (round_up_32 r) - compute_memory_cost (memory_size m)"
  have "unat (?d + fixed) < 2 ^ 62 \<and> (0 < unat fixed \<longrightarrow> 0 < unat (?d + fixed))" if "memory_size m < round_up_32 r"
  proof -
    have "unat ?d = unat (compute_memory_cost (round_up_32 r)) - unat (compute_memory_cost (memory_size m))"
      using compute_memory_cost_mono [of "memory_size m" "round_up_32 r"] that by (simp add: unat_gas_sub)
    then have "unat ?d < 2 ^ 46" using compute_memory_cost_bound [of "round_up_32 r"] by simp
    then have "unat (?d + fixed) = unat ?d + unat fixed" using assms(2) by (simp add: unat_word_ariths)
    then show ?thesis using \<open>unat ?d < 2 ^ 46\<close> assms(2) by simp
  qed
  note d = this [THEN conjunct1] this [THEN conjunct2]
  have f: "unat fixed < 2 ^ 62" using assms(2) by simp
  show ?thesis
  proof (cases "memory_size m < round_up_32 r")
    case True
    then show ?thesis
      using charge [OF assms(1) d(1) [OF True]] d(2) [OF True]
      by (auto simp: extend_memory_block_def consume_gas_as_value_def Let_def split_beta intro!: assms(3))
  next
    case False
    then show ?thesis
      using charge [OF assms(1) f]
      by (auto simp: extend_memory_block_def consume_gas_def Let_def intro!: assms(3))
  qed
qed

section \<open>Operations\<close>

text \<open>Fallible helpers that run no program do not run out of fuel.\<close>

lemma fuelled_slice [simp]: "fuelled (slice xs a b)"
  by (simp add: slice_def)

lemma fuelled_memory [simp]:
  "fuelled (memory_read m off n)" "fuelled (memory_write m off bs)" "fuelled (calldata_read m x n)"
  "fuelled (store_cell m i v)" "fuelled (get_nth_from_stack m n)" "fuelled (swap_stack_elements m i j)"
  "fuelled (keccak256_hasher h c u v')" "fuelled (put_in_memory c dest o' k data)"
  by (auto simp: memory_read_def memory_write_def calldata_read_def store_cell_def get_nth_from_stack_def
      swap_stack_elements_def keccak256_hasher_def put_in_memory_ok Let_def intro!: fuelled_and_then)

lemma fuelled_world [simp]:
  "fuelled (syscall_write_storage c key v)" "fuelled (selfdestruct c r)" "fuelled (copy_ext_code_to_memory c a x y z)"
proof -
  show "fuelled (syscall_write_storage c key v)"
    by (auto simp: syscall_write_storage_def write_storage_def Let_def split_beta
        split: transact_to.split option.split intro!: fuelled_and_then)
  show "fuelled (selfdestruct c r)"
    by (auto simp: selfdestruct_def Let_def split_beta split: option.split intro!: fuelled_and_then)
  show "fuelled (copy_ext_code_to_memory c a x y z)"
    by (auto simp: copy_ext_code_to_memory_def Let_def split_beta intro!: fuelled_and_then)
qed

lemma memory_write_gas: "memory_write m off bs = Inr m' \<Longrightarrow> gas_counter m' = gas_counter m"
  by (auto simp: memory_write_def split: if_splits)

lemma store_cell_gas: "store_cell m i v = Inr m' \<Longrightarrow> gas_counter m' = gas_counter m"
  by (auto simp: store_cell_def split: if_splits)

lemma swap_gas: "swap_stack_elements m i j = Inr m' \<Longrightarrow> gas_counter m' = gas_counter m"
  by (auto simp: swap_stack_elements_def result_simps dest!: store_cell_gas)

lemma spends_cond_br: "(b \<Longrightarrow> spends g (k m)) \<Longrightarrow> spends g (cond_br b k m)"
  by simp

lemmas spends_rules = spends_guarded spends_pop spends_push_next spends_and_then

lemma spends_shapes:
  assumes "0 < unat cost" and "unat cost < 2 ^ 62"
  shows "(\<And>x. fuelled (f1 x)) \<Longrightarrow> spends (gas_counter m) (unary_op cost f1 m)"
    "(\<And>x y. fuelled (f2 x y)) \<Longrightarrow> spends (gas_counter m) (binary_op cost f2 m)"
    "(\<And>x y z. fuelled (f3 x y z)) \<Longrightarrow> spends (gas_counter m) (ternary_op cost f3 m)"
    "spends (gas_counter m) (push_op cost v m)"
  unfolding unary_op_def binary_op_def ternary_op_def push_op_def
  by (intro spends_rules assms; simp; fail | intro spends_rules assms; simp)+


lemma exp_total_gas_bounds: "10 \<le> unat (exp_total_gas e)" "unat (exp_total_gas e) \<le> 1610"
proof -
  define k where "k = length (takeWhile (\<lambda>b. \<not> b) (rev (map (bit e) [0..<256])))"
  have k: "k \<le> 256" unfolding k_def using length_takeWhile_le [of "\<lambda>b. \<not> b" "rev (map (bit e) [0..<256])"] by simp
  have c: "unat (ctlz e) = k" using k by (simp add: ctlz_def k_def [symmetric] unat_of_nat)
  define nb where "nb = 256 - ctlz e"
  have "unat nb = 256 - k" using k c by (simp add: nb_def unat_sub word_le_nat_alt)
  then have "unat (nb + 7) = 256 - k + 7" by (simp add: unat_word_ariths)
  then have b: "unat ((nb + 7) div 8) = (256 - k + 7) div 8" by (simp add: unat_div)
  have "(256 - k + 7) div 8 \<le> 32" by simp
  then have "unat (ucast gas_EXP + (nb + 7) div 8 * 50) = 10 + (256 - k + 7) div 8 * 50"
    using b by (simp add: unat_word_ariths gas_consts)
  then have "unat (exp_total_gas e) = 10 + (256 - k + 7) div 8 * 50"
    using \<open>(256 - k + 7) div 8 \<le> 32\<close>
    by (simp add: exp_total_gas_def Let_def nb_def [symmetric] unsigned_ucast_eq take_bit_eq_mod)
  then show "10 \<le> unat (exp_total_gas e)" "unat (exp_total_gas e) \<le> 1610"
    using \<open>(256 - k + 7) div 8 \<le> 32\<close> by simp_all
qed

lemma spends_lookup:
  assumes "\<And>c a. 0 < unat (snd (snd (look c a)))" and "\<And>c a. unat (snd (snd (look c a))) < 2 ^ 62"
  shows "spends (gas_counter m) (lookup_op look m)"
proof -
  have ch: "spends g (let (c, v, gas_cost) = look (m_ctx m) (halves key);
         (m, gas_flag) = consume_gas_as_value (m\<lparr>m_ctx := c\<rparr>) gas_cost
     in cond_br gas_flag (\<lambda>m. push_next m v) m)" if "g = gas_counter m" for g m key
    using charge(2) [of g g "snd (snd (look (m_ctx m) (halves key)))"] assms that
    by (auto simp: Let_def split_beta consume_gas_as_value_def intro!: spends_push_next)
  show ?thesis unfolding lookup_op_def by (intro spends_cond_br spends_pop ch) simp
qed

lemma spends_stack_ops:
  "spends (gas_counter m) (codegen_push x z m)" "spends (gas_counter m) (codegen_pop m)"
  "spends (gas_counter m) (codegen_dup n m)" "spends (gas_counter m) (codegen_swap n m)"
  "spends (gas_counter m) (codegen_jump m)" "spends (gas_counter m) (codegen_jumpi m)"
  unfolding codegen_push_def codegen_pop_def codegen_dup_def codegen_swap_def codegen_jump_def codegen_jumpi_def
  by (intro spends_rules; simp add: gas_consts; fail
    | intro spends_rules; auto simp: gas_consts dest!: swap_gas intro!: spends_Inr spends_push_next)+

lemma spends_charge_ops:
  "spends (gas_counter m) (codegen_exp h m)" "spends (gas_counter m) (codegen_calldatasize m)"
  "spends (gas_counter m) (codegen_jumpdest pc m)"
proof -
  show "spends (gas_counter m) (codegen_calldatasize m)" "spends (gas_counter m) (codegen_jumpdest pc m)"
    using charge(2) [of "gas_counter m" "gas_counter m"]
    by (auto simp: codegen_calldatasize_def codegen_jumpdest_def consume_gas_def gas_consts
        intro!: spends_push_next spends_Inr)
  have ch: "spends g (let result = ipowi h b e; (m, gas_flag) = consume_gas_as_value m (exp_total_gas e)
     in cond_br gas_flag (\<lambda>m. push_next m result) m)" if "g = gas_counter m" for g m b e
    using that exp_total_gas_bounds [of e] charge(2) [of g g "exp_total_gas e"]
    by (auto simp: consume_gas_as_value_def intro!: spends_push_next)
  show "spends (gas_counter m) (codegen_exp h m)"
    unfolding codegen_exp_def by (intro spends_cond_br spends_pop ch) simp
qed

lemma spends_env_ops:
  "spends (gas_counter m) (codegen_selfbalance m)" "spends (gas_counter m) (codegen_blockhash m)"
  "spends (gas_counter m) (codegen_blobhash m)" "spends (gas_counter m) (codegen_tload m)"
  "spends (gas_counter m) (codegen_balance m)" "spends (gas_counter m) (codegen_extcodesize m)"
  "spends (gas_counter m) (codegen_extcodehash m)" "spends (gas_counter m) (codegen_sload m)"
  "spends (gas_counter m) (codegen_calldataload m)"
proof -
  show "spends (gas_counter m) (codegen_selfbalance m)" "spends (gas_counter m) (codegen_blockhash m)"
    "spends (gas_counter m) (codegen_blobhash m)" "spends (gas_counter m) (codegen_tload m)"
    unfolding codegen_selfbalance_def codegen_blockhash_def codegen_blobhash_def codegen_tload_def Let_def split_beta
    by (intro spends_rules; simp add: gas_consts)+
  show "spends (gas_counter m) (codegen_balance m)" "spends (gas_counter m) (codegen_extcodesize m)"
    "spends (gas_counter m) (codegen_extcodehash m)" "spends (gas_counter m) (codegen_sload m)"
    unfolding codegen_balance_def codegen_extcodesize_def codegen_extcodehash_def codegen_sload_def
    by (rule spends_lookup; simp add: Let_def split_beta gas_consts store_in_balance_def
        get_codesize_from_address_def get_code_hash_def syscall_read_storage_def)+
  show "spends (gas_counter m) (codegen_calldataload m)"
    unfolding codegen_calldataload_def Let_def
    by (intro spends_guarded spends_pop)
      (auto simp: gas_consts inc_stack_pointer_def dest!: store_cell_gas intro!: spends_rules)
qed

lemma spends_memory_ops:
  "spends (gas_counter m) (codegen_mload h m)" "spends (gas_counter m) (codegen_mstore h m)"
  "spends (gas_counter m) (codegen_mstore8 h m)"
  unfolding codegen_mload_def codegen_mstore_def codegen_mstore8_def Let_def
  by (intro spends_cond_br spends_pop spends_extend;
      auto simp: gas_consts dest!: memory_write_gas intro!: spends_push_next spends_and_then spends_Inr)+

lemma overdraw:
  assumes "paid g g'" and "unat a < 2 ^ 40"
  shows "paid g (g' - a) \<or> unat g < 2 ^ 63 \<and> overdrawn (g' - a)"
proof (cases "unat a \<le> unat g'")
  case True
  then show ?thesis using assms(1) by (auto simp: paid_def unat_gas_sub)
next
  case False
  then have "unat (g' - a) = 2 ^ 64 + unat g' - unat a"
    using unat_less_pow [of g'] assms(2) by (simp add: unat_sub_if_size word_size)
  then show ?thesis using assms by (auto simp: paid_def overdrawn_def)
qed

lemma spends_mcopy: "spends (gas_counter m) (codegen_mcopy h m)"
proof -
  have c: "unat (compute_copy_cost n) < 2 ^ 40" for n
    using unat_less_pow [of n] by (simp add: unat_compute_copy_cost)
  have last: "spends g (Inr (fst (consume_gas_as_value m' (compute_copy_cost n)), Next))"
    if "paid g (gas_counter m')" for g m' n
    using overdraw [OF that c] by (auto simp: spends_def consume_gas_as_value_def)
  show ?thesis
    unfolding codegen_mcopy_def Let_def
    by (intro spends_cond_br spends_pop spends_extend)
      (auto simp: gas_consts dest!: memory_write_gas intro!: spends_and_then last)
qed

text \<open>The copies that charge their words first, then the extension.\<close>

lemma spends_copy:
  assumes "g = gas_counter m" and "unat fixed < 2 ^ 60" and "unat a < 2 ^ 40"
    and "\<And>m'. kept g (gas_counter m') \<Longrightarrow> (0 < unat fixed \<Longrightarrow> paid g (gas_counter m')) \<Longrightarrow> spends g (k m')"
  shows "spends g (let (m, flag) = consume_gas_as_value m a
     in cond_br flag (\<lambda>m. extend_memory_block h m r fixed k) m)"
proof -
  have a: "unat a < 2 ^ 62" using assms(3) by simp
  have "spends g (extend_memory_block h (m\<lparr>gas_counter := g - a\<rparr>) r fixed k)" if "sint a \<le> sint g"
    by (rule spends_extend) (use charge [of g g a] that a assms(2,4) in auto)
  then show ?thesis using assms(1) by (simp add: consume_gas_as_value_def)
qed

lemma copy_cost_bounds [simp]:
  "unat (compute_copy_cost n) < 1099511627776" "unat (compute_copy_cost n * 2) < 1099511627776"
  using unat_less_pow [of n] by (simp_all add: unat_word_ariths unat_compute_copy_cost)

lemma spends_copy_ops:
  "spends (gas_counter m) (codegen_keccak256 h m)" "spends (gas_counter m) (codegen_codecopy h m)"
  "spends (gas_counter m) (codegen_extcodecopy h m)" "spends (gas_counter m) (codegen_returndatacopy h m)"
  "spends (gas_counter m) (codegen_calldatacopy h m)"
proof -
  show "spends (gas_counter m) (codegen_keccak256 h m)"
    unfolding codegen_keccak256_def Let_def
    by (intro spends_cond_br spends_pop spends_copy [unfolded Let_def])
      (auto simp: gas_consts intro!: spends_and_then spends_push_next)
  show "spends (gas_counter m) (codegen_codecopy h m)" "spends (gas_counter m) (codegen_returndatacopy h m)"
    unfolding codegen_codecopy_def codegen_returndatacopy_def Let_def copy_code_to_memory_def copy_return_data_into_memory_def
    by (intro spends_cond_br spends_pop spends_copy [unfolded Let_def];
        auto simp: gas_consts intro!: spends_and_then spends_Inr)+
  have last: "spends g (let (m, gas_flag) = consume_gas_as_value (m\<lparr>m_ctx := c\<rparr>) gas_cost in cond_br gas_flag (\<lambda>m. Inr (m, Next)) m)"
    if "kept g (gas_counter m)" and "copy_ext_code_to_memory c' a x y z = Inr (c, gas_cost)" for g m c c' a x y z gas_cost
  proof -
    have "0 < unat gas_cost \<and> unat gas_cost < 2 ^ 62"
      using that(2) by (auto simp: copy_ext_code_to_memory_def Let_def result_simps gas_consts split: if_splits prod.splits)
    then show ?thesis
      using charge(2) [of g "gas_counter m" gas_cost] that(1) by (auto simp: consume_gas_as_value_def intro: spends_Inr)
  qed
  show "spends (gas_counter m) (codegen_extcodecopy h m)"
    unfolding codegen_extcodecopy_def Let_def
    by (intro spends_cond_br spends_pop spends_copy [unfolded Let_def])
      (auto intro!: spends_and_then last [unfolded Let_def])
  show "spends (gas_counter m) (codegen_calldatacopy h m)"
    unfolding codegen_calldatacopy_def Let_def
    by (intro spends_guarded spends_pop spends_extend)
      (auto simp: gas_consts dest!: memory_write_gas intro!: spends_and_then spends_Inr)
qed


lemma spends_sstore:
  assumes "unat (gas_counter m) < 2 ^ 63 \<or> overdrawn (gas_counter m)"
    and "transact_to (tx (ctx_env (m_ctx m))) \<noteq> TransactTo_Create"
  shows "spends (gas_counter m) (codegen_sstore m)"
proof -
  have last: "paid g (g - cost)"
    if g: "g = gas_counter m" and w: "syscall_write_storage (m_ctx m) key v = Inr (c, cost)"
      and t: "sint (g - cost) \<ge> sint gas_SSTORE_MIN_REMAINING_GAS" for g key v c cost
  proof -
    have "\<exists>x y z u. cost = sstore_cost x y z u"
      using w assms(2) by (auto simp: syscall_write_storage_def Let_def result_simps split: transact_to.splits prod.splits option.splits)
    then have b: "0 < unat cost" "unat cost \<le> 22100" by (auto simp: sstore_cost_def)
    have r: "unat (g - cost) < 2 ^ 63"
      using t gas_covers [of gas_SSTORE_MIN_REMAINING_GAS "g - cost"] by (simp add: gas_consts)
    show ?thesis
    proof (cases "unat cost \<le> unat g")
      case True
      then have "unat (g - cost) = unat g - unat cost" by (rule unat_gas_sub)
      then show ?thesis using True r b assms(1) unfolding g [symmetric] by (auto simp: paid_def overdrawn_def)
    next
      case False
      then have "unat (g - cost) = 2 ^ 64 + unat g - unat cost"
        using unat_less_pow [of g] b by (simp add: unat_sub_if_size word_size)
      then show ?thesis using r b by simp
    qed
  qed
  show ?thesis
    unfolding codegen_sstore_def Let_def
    by (intro spends_cond_br spends_pop spends_and_then) (auto intro!: spends_Inr last)
qed

lemma spends_world_ops:
  "spends (gas_counter m) (codegen_tstore m)" "spends (gas_counter m) (codegen_selfdestruct m)"
  "spends (gas_counter m) (codegen_return h m)" "spends (gas_counter m) (codegen_revert h m)"
  "spends (gas_counter m) (codegen_stop m)" "spends (gas_counter m) (codegen_invalid m)"
proof -
  show "spends (gas_counter m) (codegen_tstore m)"
    unfolding codegen_tstore_def by (intro spends_rules) (auto simp: gas_consts intro: spends_Inr)
  have last: "spends g (let (m, gas_flag) = consume_gas_as_value (m\<lparr>m_ctx := c\<rparr>) gas_cost in cond_br gas_flag (\<lambda>m. Inr (m, Next)) m)"
    if "paid g (gas_counter m)" and "selfdestruct c' r = Inr (c, gas_cost)" for g m c c' r gas_cost
  proof -
    have "unat gas_cost < 2 ^ 62"
      using that(2) by (auto simp: selfdestruct_def Let_def result_simps gas_consts split: if_splits prod.splits)
    then show ?thesis
      using charge(3) [of g "gas_counter m" gas_cost] that(1) by (auto simp: consume_gas_as_value_def intro: spends_Inr)
  qed
  show "spends (gas_counter m) (codegen_selfdestruct m)"
    unfolding codegen_selfdestruct_def Let_def
    by (intro spends_rules) (auto simp: gas_consts intro!: last [unfolded Let_def])
  show "spends (gas_counter m) (codegen_return h m)" "spends (gas_counter m) (codegen_revert h m)"
    unfolding codegen_return_def codegen_revert_def return_result_from_stack_def Let_def return_result_with_offset_and_size_def
    by (intro spends_cond_br spends_pop spends_extend; simp)+
  show "spends (gas_counter m) (codegen_stop m)" "spends (gas_counter m) (codegen_invalid m)"
    by (simp_all add: codegen_stop_def codegen_invalid_def return_empty_result_def return_result_with_offset_and_size_def)
qed

text \<open>The operations that run no other program and always check what they charge.\<close>

definition self_contained :: "operation \<Rightarrow> bool" where
  "self_contained op \<longleftrightarrow> (case op of Log _ \<Rightarrow> False | Create \<Rightarrow> False | Create2 \<Rightarrow> False | Call \<Rightarrow> False
     | CallCode \<Rightarrow> False | DelegateCall \<Rightarrow> False | StaticCall \<Rightarrow> False | _ \<Rightarrow> True)"

lemma fuelled_llvm [simp]: "fuelled (llvm_sdiv a b)" "fuelled (llvm_srem a b)"
  by (simp_all add: llvm_sdiv_def llvm_srem_def)

lemma spends_op:
  assumes "self_contained op" and "unat (gas_counter m) < 2 ^ 63 \<or> overdrawn (gas_counter m)"
    and "transact_to (tx (ctx_env (m_ctx m))) \<noteq> TransactTo_Create"
  shows "spends (gas_counter m) (generate_code_for_op h exec p op m)"
  using assms(1)
  by (cases op)
    (simp_all add: self_contained_def spends_stack_ops spends_charge_ops spends_env_ops spends_memory_ops spends_mcopy spends_copy_ops
      spends_sstore [OF assms(2,3)] spends_world_ops spends_shapes Let_def gas_consts
      shape_defs)


section \<open>Programs\<close>

text \<open>How many blocks a counter is good for.\<close>

definition level :: "u64 \<Rightarrow> nat" where
  "level g = (if unat g < 2 ^ 63 then Suc (unat g) else 0)"

definition runnable :: "mstate \<Rightarrow> bool" where
  "runnable m \<longleftrightarrow> (unat (gas_counter m) < 2 ^ 63 \<or> overdrawn (gas_counter m)) \<and>
     transact_to (tx (ctx_env (m_ctx m))) \<noteq> TransactTo_Create"

lemma self_contained_exec:
  "self_contained op \<Longrightarrow> generate_code_for_op h exec p op = generate_code_for_op h exec' p op"
  by (cases op) (simp_all add: self_contained_def)

lemma run_block_self_contained:
  assumes "list_all self_contained (operations p)"
  shows "run_block h exec p i m = run_block h exec' p i m"
  using assms self_contained_exec [of "operations p ! i" h exec p exec']
  by (auto simp: run_block_def list_all_length)

lemma run_block_progress:
  assumes "list_all self_contained (operations p)" and "runnable m"
  shows "fuelled (run_block h exec p i m)"
    and "run_block h exec p i m = Inr (Block j m') \<Longrightarrow> runnable m' \<and> level (gas_counter m') < level (gas_counter m)"
proof -
  let ?r = "if i < length (operations p) then generate_code_for_op h exec p (operations p ! i) m
      else return_empty_result m Exit_Stop"
  have sp: "spends (gas_counter m) ?r"
    using assms spends_op spends_world_ops(5) [unfolded codegen_stop_def]
    by (simp add: runnable_def list_all_length)
  then have f: "fuelled ?r" by (auto simp: spends_def fuelled_def)
  then show "fuelled (run_block h exec p i m)" unfolding run_block_def by (rule fuelled_and_then) simp
  assume b: "run_block h exec p i m = Inr (Block j m')"
  then obtain m1 fl where r: "?r = Inr (m1, fl)" and fo: "follow p i (m1, fl) = Block j m'"
    by (auto simp: run_block_def result_simps)
  have go: "goes_on fl" "m' = m1"
    using fo by (auto simp: follow_def split: flow.splits option.splits prod.splits)
  have "ctx_env (m_ctx m') = ctx_env (m_ctx m)"
    using evolution.S_run_block [OF evolution.honours_execute, of h 0 p i m "Block j m'"] b
      run_block_self_contained [OF assms(1), of h exec i m "execute h 0"] by (simp add: next_machine_def evolves_def)
  moreover have "paid (gas_counter m) (gas_counter m1) \<or>
      unat (gas_counter m) < 2 ^ 63 \<and> overdrawn (gas_counter m1)"
    using sp r go(1) by (auto simp: spends_def)
  ultimately show "runnable m' \<and> level (gas_counter m') < level (gas_counter m)"
    using assms(2) go(2) by (auto simp: runnable_def level_def paid_def overdrawn_def)
qed

lemma run_enough_fuel:
  assumes "list_all self_contained (operations p)"
  shows "runnable m \<Longrightarrow> level (gas_counter m) < n \<Longrightarrow> level (gas_counter m) < n' \<Longrightarrow>
    fuelled (run h n p i m) \<and> run h n p i m = run h n' p i m"
proof (induction n arbitrary: n' i m)
  case (Suc n)
  obtain k where n': "n' = Suc k" using Suc.prems(3) by (cases n') auto
  have e: "run_block h (execute h k) p i m = run_block h (execute h n) p i m"
    by (rule run_block_self_contained [OF assms])
  show ?case
  proof (cases "run_block h (execute h n) p i m")
    case (Inl x)
    then show ?thesis
      using run_block_progress(1) [OF assms Suc.prems(1), of h "execute h n" i] e unfolding n' run_Suc
      by (simp add: fuelled_def)
  next
    case (Inr b)
    show ?thesis
    proof (cases b)
      case (Block j m')
      have "runnable m'" "level (gas_counter m') < level (gas_counter m)"
        using run_block_progress(2) [OF assms Suc.prems(1)] Inr Block by blast+
      then show ?thesis
        using Suc.IH [of m' k j] Suc.prems Inr Block e unfolding n' run_Suc by auto
    next
      case (Leave m' code)
      then show ?thesis using Inr e unfolding n' run_Suc by simp
    qed
  qed
qed simp

text \<open>C7: execution ends. A program that makes no calls, creates no contracts and writes no logs
  reaches its end within one block for each unit of its gas, whatever it loops over: with more
  fuel than the gas counter plus one the result is always the same, and it is not
  the result of having run out of fuel.\<close>

theorem execution_ends:
  assumes "list_all self_contained (operations p)" and "unat g < 2 ^ 63"
    and "transact_to (tx (ctx_env c)) \<noteq> TransactTo_Create"
  shows "\<exists>r. r \<noteq> Inl Out_Of_Fuel \<and> (\<forall>n > Suc (unat g). execute h n p c g = r)"
proof -
  have m: "runnable (setup_code c g)" "level (gas_counter (setup_code c g)) = Suc (unat g)"
    using assms(2,3) by (simp_all add: runnable_def setup_code_eq level_def)
  let ?n = "Suc (Suc (unat g))"
  have f: "fuelled (run h ?n p 0 (setup_code c g))"
    and eq: "n > Suc (unat g) \<Longrightarrow> run h n p 0 (setup_code c g) = run h ?n p 0 (setup_code c g)" for n
    using run_enough_fuel [OF assms(1) m(1), of _ _ h 0] m(2) by (metis lessI)+
  have "fuelled (execute h ?n p c g)"
    unfolding execute_def by (intro fuelled_and_then f) (auto simp: compile_program_def split_beta)
  moreover have "execute h n p c g = execute h ?n p c g" if "n > Suc (unat g)" for n
    unfolding execute_def eq [OF that] ..
  ultimately show ?thesis unfolding fuelled_def by blast
qed

text \<open>A loop without an exit.\<close>

theorem execution_ends_witness:
  "\<exists>r. r \<noteq> Inl Out_Of_Fuel \<and>
     (\<forall>n > 1001. execute sample_host n (program_from [Jumpdest 0, Push0, Jump]) sample_ctx 1000 = r)"
  using execution_ends [of "program_from [Jumpdest 0, Push0, Jump]" 1000 sample_ctx sample_host]
  by (simp add: program_from_def self_contained_def sample_ctx_def syscall_context_new_def env_default_def
      tx_env_default_def)

end
