(* ===== verification/Runaway.thy ===== *)
theory Runaway
  imports Alu_Spec Progress
begin

text \<open>
  A program that its gas does not stop. The logs are the one kind of operation without calls that the
  bound of \<open>Progress\<close> leaves out; this theory shows why.
\<close>

section \<open>Operations of the loop\<close>

lemma frameD:
  assumes "frame m' = (frame m)\<lparr>gas_counter := g\<rparr>"
  shows "gas_counter m' = g" "m_ctx m' = m_ctx m" "memory_size m' = memory_size m"
  using arg_cong [OF assms, of gas_counter] arg_cong [OF assms, of m_ctx] arg_cong [OF assms, of memory_size]
  by (simp_all add: frame_def)

lemma guarded_pop:
  assumes "affordable m cost" and "stack_ok m" and "stack_view m = x # rest"
  shows "\<exists>m'. guarded cost (at_least 1) (\<lambda>m. pop m k) m = k x m' \<and> stack_view m' = rest \<and> stack_ok m' \<and>
    frame m' = (frame m)\<lparr>gas_counter := gas_counter m - cost\<rparr>"
proof -
  have "at_least 1 m" using assms(3) length_stack_view [of m] by (simp add: check_stack_has_at_least_def)
  then have "guarded cost (at_least 1) (\<lambda>m. pop m k) m = pop (charged m cost) k"
    by (rule guarded_ok [OF assms(1)])
  moreover obtain m' where "stack_pop (charged m cost) = Inr (m', x)" "stack_view m' = rest" "stack_ok m'"
    "frame m' = frame (charged m cost)"
    using stack.pop_Cons [of "charged m cost" x rest] assms(2,3) by auto
  ultimately show ?thesis by (auto simp: pop_def)
qed

lemma jump_ok:
  assumes "affordable m 8" and "stack_ok m" and "stack_view m = pc # rest"
  shows "\<exists>m'. codegen_jump m = Inr (m', To_jumptable pc) \<and> stack_view m' = rest \<and> stack_ok m' \<and>
    frame m' = (frame m)\<lparr>gas_counter := gas_counter m - 8\<rparr>"
  using guarded_pop [OF assms, of "\<lambda>pc m. Inr (m, To_jumptable pc)"] by (auto simp: codegen_jump_def gas_consts)

lemma jumpi_ok:
  assumes "affordable m 10" and "stack_ok m" and "stack_view m = pc # cond # rest"
  shows "\<exists>m'. codegen_jumpi m = Inr (m', if cond \<noteq> 0 then To_jumptable pc else Next) \<and>
    stack_view m' = rest \<and> stack_ok m' \<and> frame m' = (frame m)\<lparr>gas_counter := gas_counter m - 10\<rparr>"
proof -
  have "at_least 2 m" using assms(3) length_stack_view [of m] by (simp add: check_stack_has_at_least_def)
  then have e: "codegen_jumpi m = pop (charged m 10) (\<lambda>pc m. pop m (\<lambda>cond m.
      Inr (m, if cond \<noteq> 0 then To_jumptable pc else Next)))"
    using guarded_ok [OF assms(1)] by (simp add: codegen_jumpi_def gas_consts)
  obtain m1 m2 where "stack_pop (charged m 10) = Inr (m1, pc)" "stack_pop m1 = Inr (m2, cond)"
    "stack_view m2 = rest" "frame m2 = frame (charged m 10)" "stack_ok m2"
    using stack.pop_pop [of "charged m 10" pc cond rest] assms(2,3) by auto
  then show ?thesis unfolding e by (auto simp: pop_def)
qed

text \<open>The size of the log: its last 32 bits are zero, and eight times it is just below \<open>2^64\<close>.\<close>

definition huge_log :: nat where "huge_log = 2 ^ 61 - 2 ^ 32"

lemma huge_log_gas: "compute_log_dynamic_gas 0 (of_nat huge_log) = - (2 ^ 35)"
  by (simp add: compute_log_dynamic_gas_def huge_log_def)

lemma huge_log_size: "ucast (of_nat huge_log :: u256) = (0 :: u32)"
  by (simp add: huge_log_def)

lemma log_ok:
  assumes "stack_ok m" and "stack_view m = 0 # of_nat huge_log # rest" and "\<not> in_static (m_ctx m)"
    and "unat (gas_counter m) < 2 ^ 62"
  shows "\<exists>m'. codegen_log h 0 m = Inr (m', Next) \<and> stack_view m' = rest \<and> stack_ok m' \<and>
    ctx_frame (m_ctx m') = ctx_frame (m_ctx m) \<and> unat (gas_counter m') = unat (gas_counter m) + 2 ^ 35 - 375"
proof -
  have "at_least 2 m" using assms(2) length_stack_view [of m] by (simp add: check_stack_has_at_least_def)
  moreover obtain m1 m2 where p: "stack_pop m = Inr (m1, 0)" "stack_pop m1 = Inr (m2, of_nat huge_log)"
    "stack_view m2 = rest" "frame m2 = frame m" "stack_ok m2"
    using stack.pop_pop [OF assms(1,2)] by auto
  have m2: "gas_counter m2 = gas_counter m" "m_ctx m2 = m_ctx m"
    using arg_cong [OF p(4), of gas_counter] arg_cong [OF p(4), of m_ctx] by (simp_all add: frame_def)
  define g where "g = gas_counter m + 2 ^ 35"
  have g: "unat g = unat (gas_counter m) + 2 ^ 35" using assms(4) by (simp add: g_def unat_word_ariths)
  have flag: "sint (375 :: u64) \<le> sint g" using gas_covers [of 375 g] g assms(4) by simp
  have sub: "unat (g - 375) = unat g - 375" using unat_gas_sub [of 375 g] g by simp
  let ?c = "map_inner (\<lambda>ic. ic\<lparr>ic_logs := ic_logs ic @ [\<lparr>topics = [], log_bytes = []\<rparr>]\<rparr>) (m_ctx m)"
  have log: "append_log (m_ctx m) 0 0 = Inr ?c"
    by (simp add: append_log_def create_log_def resize_memory_if_necessary_def slice_def Let_def)
  have r0: "round_up_32 0 = 0" by (simp add: round_up_32_def)
  have "codegen_log h 0 m = Inr (m2\<lparr>gas_counter := g - 375, m_ctx := ?c\<rparr>, Next)"
    using calculation assms(3) p(1,2) flag log
    by (simp add: codegen_log_def check_context_is_not_static_def context_is_static_def pop_def huge_log_size huge_log_gas
        consume_gas_as_value_def consume_gas_def extend_memory_block_def r0 m2 g_def gas_consts append_log_syscall_def Let_def)
  moreover have "stack_view (m2\<lparr>gas_counter := g - 375, m_ctx := ?c\<rparr>) = rest" "stack_ok (m2\<lparr>gas_counter := g - 375, m_ctx := ?c\<rparr>)"
    using p(3,5) by (simp_all add: stack_view_def stack_ok_def)
  ultimately show ?thesis using sub g by auto
qed


section \<open>A loop that outruns its gas\<close>

text \<open>
  While more than 1000 gas is left the loop burns it; below that it writes an empty log of
  the size above, which adds gas to the counter.
\<close>

definition spin :: program where
  "spin = program_from [Jumpdest 0, Gas, Push 2 1000, Lt, Push0, Jumpi,
     Push 8 huge_log, Push0, Log 0, Push0, Jump]"

inductive spinning_at :: "nat \<Rightarrow> u256 list \<Rightarrow> nat \<Rightarrow> bool" where
  at_0: "950 \<le> g \<Longrightarrow> spinning_at 0 [] g"
| at_1: "949 \<le> g \<Longrightarrow> spinning_at 1 [] g"
| at_2: "947 \<le> g \<Longrightarrow> spinning_at 2 [of_nat g] g"
| at_3: "944 \<le> g \<Longrightarrow> spinning_at 3 [1000, of_nat (g + 3)] g"
| at_4: "941 \<le> g \<Longrightarrow> spinning_at 4 [of_bool (994 < g)] g"
| at_5: "939 \<le> g \<Longrightarrow> spinning_at 5 [0, of_bool (992 < g)] g"
| at_6: "929 \<le> g \<Longrightarrow> g \<le> 1000 \<Longrightarrow> spinning_at 6 [] g"
| at_7: "926 \<le> g \<Longrightarrow> g \<le> 1000 \<Longrightarrow> spinning_at 7 [of_nat huge_log] g"
| at_8: "924 \<le> g \<Longrightarrow> g \<le> 1000 \<Longrightarrow> spinning_at 8 [0, of_nat huge_log] g"
| at_9: "1000 \<le> g \<Longrightarrow> spinning_at 9 [] g"
| at_10: "998 \<le> g \<Longrightarrow> spinning_at 10 [0] g"

definition spinning :: "nat \<Rightarrow> mstate \<Rightarrow> bool" where
  "spinning i m \<longleftrightarrow> stack_ok m \<and> \<not> in_static (m_ctx m) \<and> unat (gas_counter m) < 2 ^ 36 \<and>
     spinning_at i (stack_view m) (unat (gas_counter m))"

lemma spinning_at_bounds: "spinning_at i s g \<Longrightarrow> 900 \<le> g \<and> length s \<le> 2 \<and> i < 11"
  by (cases rule: spinning_at.cases) auto

lemma spin_table: "jump_target spin 0 = Some 0" "compile_program spin = Inr ()" "length (operations spin) = 11"
  by (simp_all add: spin_def program_from_def jump_target_def populate_jumptable_def jumpdest_pcs_def
      jumpdest_pc_def map_filter_simps jumpdest_blocks_def register_jump_destination_def compile_program_def
      op_compiles_def huge_log_def)

lemma charged_gas:
  assumes "affordable m cost"
  shows "unat (gas_counter m - cost) = unat (gas_counter m) - unat cost"
  using assms by (simp add: affordable_def unat_gas_sub)

lemma spin_ops: "operations spin = [Jumpdest 0, Gas, Push 2 1000, Lt, Push0, Jumpi,
     Push 8 huge_log, Push0, Log 0, Push0, Jump]"
  by (simp add: spin_def program_from_def)

text \<open>A pushing step of the loop, and one that only pops.\<close>

lemma spinning_pushed:
  assumes "spinning i m" and "affordable m cost" and "pushed m cost v rest r"
    and "spinning_at (Suc i) (v # rest) (unat (gas_counter m) - unat cost)"
  shows "\<exists>j m'. and_then r (\<lambda>r. Inr (follow spin i r)) = Inr (Block j m') \<and> spinning j m'"
proof -
  obtain m' where m': "r = Inr (m', Next)" "stack_view m' = v # rest" "stack_ok m'"
    "frame m' = (frame m)\<lparr>gas_counter := gas_counter m - cost\<rparr>"
    using assms(3) by (auto simp: pushed_def)
  have "spinning (Suc i) m'"
    using assms(1,4) m'(2,3) frameD [OF m'(4)] charged_gas [OF assms(2)] by (auto simp: spinning_def)
  then show ?thesis using m'(1) by (auto simp: follow_def)
qed

lemma spinning_moved:
  assumes "spinning i m" and "affordable m cost" and "r = Inr (m', fl)" and "stack_ok m'"
    and "frame m' = (frame m)\<lparr>gas_counter := gas_counter m - cost\<rparr>"
    and "spinning_at j (stack_view m') (unat (gas_counter m) - unat cost)"
    and "fl = Next \<and> j = Suc i \<or> fl = To_jumptable 0 \<and> j = 0"
  shows "\<exists>j m'. and_then r (\<lambda>r. Inr (follow spin i r)) = Inr (Block j m') \<and> spinning j m'"
proof -
  have "spinning j m'"
    using assms(1,4,6) frameD [OF assms(5)] charged_gas [OF assms(2)] by (auto simp: spinning_def)
  then show ?thesis using assms(3,7) spin_table(1) by (auto simp: follow_def)
qed

lemma gas_op_ok:
  assumes "affordable m 2" and "stack_ptr m < 1024"
  shows "pushed m 2 (ucast (gas_counter m - 2)) (stack_view m) (codegen_gas m)"
  using push_ok [of m 2] assms guarded_ok [OF assms(1), of "space_for 1"]
  by (simp add: codegen_gas_def push_op_def gas_consts get_remaining_gas_def check_stack_has_space_for_def MAX_STACK_SIZE_def)

lemma push_op_ok:
  assumes "affordable m 3" and "stack_ptr m < 1024"
  shows "pushed m 3 (of_nat x) (stack_view m) (codegen_push x False m)"
    "pushed m 2 0 (stack_view m) (codegen_push 0 True m)"
proof -
  have "affordable m 2" using assms(1) by (simp add: affordable_def)
  then show "pushed m 3 (of_nat x) (stack_view m) (codegen_push x False m)"
    "pushed m 2 0 (stack_view m) (codegen_push 0 True m)"
    using push_ok [of m 2 0] push_ok [of m 3 "of_nat x"] assms
    by (simp_all add: codegen_push_def gas_consts guarded_ok check_stack_has_space_for_def MAX_STACK_SIZE_def)
qed


lemma spinning_step:
  assumes "spinning i m"
  shows "\<exists>j m'. run_block h exec spin i m = Inr (Block j m') \<and> spinning j m'"
proof -
  define g where "g = unat (gas_counter m)"
  have ok: "stack_ok m" "\<not> in_static (m_ctx m)" "g < 2 ^ 36" and at: "spinning_at i (stack_view m) g"
    using assms by (auto simp: spinning_def g_def)
  have bounds: "900 \<le> g" "length (stack_view m) \<le> 2" "i < 11" using spinning_at_bounds [OF at] by simp_all
  have aff: "affordable m cost" if "unat cost \<le> 10" for cost
    using that ok(3) bounds(1) by (simp add: affordable_def g_def)
  have aff': "affordable m 1" "affordable m 2" "affordable m 3" "affordable m 8" "affordable m 10"
    by (rule aff, simp)+
  have room: "stack_ptr m < 1024" using bounds(2) by simp
  have blk: "run_block h exec spin i m =
      and_then (generate_code_for_op h exec spin (operations spin ! i) m) (\<lambda>r. Inr (follow spin i r))"
    using bounds(3) spin_table(3) by (simp add: run_block_def)
  note push = push_op_ok [OF aff'(3) room]
  note sp = spinning_pushed [OF assms aff'(2), folded g_def] spinning_pushed [OF assms aff'(3), folded g_def]
  from at show ?thesis
  proof cases
    case at_0
    have "sint (gas_counter m) \<ge> sint (1 :: u64)"
      using gas_covers [of 1 "gas_counter m"] ok(3) bounds(1) by (simp add: g_def)
    then have "codegen_jumpdest 0 m = Inr (charged m 1, Next)"
      by (simp add: codegen_jumpdest_def consume_gas_def gas_consts)
    then show ?thesis
      unfolding blk using spinning_moved [OF assms aff'(1), of _ "charged m 1" Next 1] at_0 ok(1) spinning_at.at_1 [of "g - 1"]
      by (simp add: spin_ops g_def)
  next
    case at_1
    have "unat (gas_counter m - 2) = g - 2" using charged_gas [OF aff'(2)] by (simp add: g_def)
    then have "ucast (gas_counter m - 2) = (of_nat (g - 2) :: u256)"
      using ok(3) by (simp add: word_unat_eq_iff unat_of_nat unat_ucast_up)
    then show ?thesis
      unfolding blk using sp(1) [OF gas_op_ok [OF aff'(2) room]] at_1 spinning_at.at_2 [of "g - 2"]
      by (simp add: spin_ops flip: numeral_2_eq_2)
  next
    case at_2
    then show ?thesis
      unfolding blk using sp(2) [OF push(1) [of 1000]] spinning_at.at_3 [of "g - 3"] by (simp add: spin_ops)
  next
    case at_3
    have "unat (of_nat (g + 3) :: u256) = g + 3" using ok(3) by (simp add: unat_of_nat del: of_nat_add)
    then have "(1000 :: u256) < of_nat (g + 3) \<longleftrightarrow> 997 < g"
      by (auto simp add: word_less_nat_alt simp del: of_nat_add)
    then have "pushed m 3 (of_bool (997 < g)) [] (codegen_lt m)"
      using binary_op_ok [OF aff'(3) ok(1) at_3(2)] by (simp add: codegen_lt_def gas_consts fn_flag del: of_nat_add)
    moreover have "(994 < g - 3) = (997 < g)" by arith
    ultimately show ?thesis
      unfolding blk using sp(2) at_3 spinning_at.at_4 [of "g - 3"] by (simp add: spin_ops)
  next
    case at_4
    moreover have "(992 < g - 2) = (994 < g)" by arith
    ultimately show ?thesis
      unfolding blk using sp(1) [OF push(2)] spinning_at.at_5 [of "g - 2"] by (simp add: spin_ops)
  next
    case at_5
    obtain m' where m': "codegen_jumpi m = Inr (m', if 992 < g then To_jumptable 0 else Next)"
      "stack_view m' = []" "stack_ok m'" "frame m' = (frame m)\<lparr>gas_counter := gas_counter m - 10\<rparr>"
      using jumpi_ok [OF aff'(5) ok(1) at_5(2)] by auto
    show ?thesis
      unfolding blk using spinning_moved [OF assms aff'(5) m'(1,3,4), of "if 992 < g then 0 else 6"] m'(1,2) at_5
        spinning_at.at_0 [of "g - 10"] spinning_at.at_6 [of "g - 10"]
      by (simp add: spin_ops g_def [symmetric] split: if_splits)
  next
    case at_6
    then show ?thesis
      unfolding blk using sp(2) [OF push(1) [of huge_log]] spinning_at.at_7 [of "g - 3"] by (simp add: spin_ops)
  next
    case at_7
    then show ?thesis
      unfolding blk using sp(1) [OF push(2)] spinning_at.at_8 [of "g - 2"] by (simp add: spin_ops)
  next
    case at_8
    obtain m' where "codegen_log h 0 m = Inr (m', Next)" "spinning 9 m'"
      using log_ok [OF ok(1) at_8(2) ok(2), of h] ok(2,3) at_8 spinning_at.at_9
      by (auto simp: spinning_def g_def)
    then show ?thesis unfolding blk using at_8(1) by (simp add: spin_ops follow_def)
  next
    case at_9
    then show ?thesis
      unfolding blk using sp(1) [OF push(2)] spinning_at.at_10 [of "g - 2"] by (simp add: spin_ops)
  next
    case at_10
    obtain m' where m': "codegen_jump m = Inr (m', To_jumptable 0)" "stack_view m' = []" "stack_ok m'"
      "frame m' = (frame m)\<lparr>gas_counter := gas_counter m - 8\<rparr>"
      using jump_ok [OF aff'(4) ok(1) at_10(2)] by auto
    show ?thesis
      unfolding blk using spinning_moved [OF assms aff'(4) m'(1,3,4), of 0] m'(1,2) at_10 spinning_at.at_0 [of "g - 8"]
      by (simp add: spin_ops g_def [symmetric])
  qed
qed

lemma spinning_run: "spinning i m \<Longrightarrow> run h n spin i m = Inl Out_Of_Fuel"
proof (induction n arbitrary: i m)
  case (Suc n)
  obtain j m' where "run_block h (execute h n) spin i m = Inr (Block j m')" "spinning j m'"
    using spinning_step [OF Suc.prems] by blast
  then show ?case unfolding run_Suc using Suc.IH by simp
qed simp

text \<open>C37: gas does not bound execution. \<open>LOG\<close> subtracts its dynamic price without testing it and
  cuts the price to 64 bits, so the program above, which loops over a log of an absurd size,
  never stops, for any amount of fuel.\<close>

theorem log_outruns_gas:
  assumes "\<not> in_static c" and "950 \<le> unat g" and "unat g < 2 ^ 36"
  shows "execute h n spin c g = Inl Out_Of_Fuel"
proof -
  have "spinning 0 (setup_code c g)"
    using assms spinning_at.at_0 by (simp add: spinning_def setup_code_eq stack_view_def stack_ok_def)
  then show ?thesis by (simp add: execute_def spin_table spinning_run)
qed

theorem log_outruns_gas_witness:
  "execute sample_host 1000000 spin sample_ctx 30000 = Inl Out_Of_Fuel"
  by (rule log_outruns_gas) (simp_all add: sample_ctx_def syscall_context_new_def call_frame_new_def)

end
