(* ===== verification/Machine_Types.thy ===== *)
theory Machine_Types
  imports Effects
begin

text \<open>
  The type of the machine: an invariant of the stack, the memory and the position that every block
  of every program keeps. It rests on a third relation on contexts, the growth of the memory. Then the type of each operation: how many elements it takes from the stack and puts there.
\<close>

section \<open>The invariant\<close>

text \<open>
  The stack pointer stays within the stack, the recorded memory size is a whole number of words, and
  the memory behind a pointer that is not null is at least as long as the size recorded for it.
\<close>

definition machine_ok :: "mstate \<Rightarrow> bool" where
  "machine_ok m \<longleftrightarrow> stack_ptr m \<le> 1024 \<and> 32 dvd unat (memory_size m) \<and>
     (memory_ptr m \<noteq> None \<longrightarrow> unat (memory_size m) \<le> length (m_memory m))"

text \<open>No system call shrinks the memory of a context.\<close>

definition grows :: "syscall_context \<Rightarrow> syscall_context \<Rightarrow> bool" where
  "grows c c' \<longleftrightarrow> length (memory (ctx_inner c)) \<le> length (memory (ctx_inner c')) \<and> in_static c' = in_static c"

interpretation growth: context_relation h grows for h
  by unfold_locales (auto simp: grows_def)

lemma dvd_round_up_32: "32 dvd unat (round_up_32 r)"
proof -
  have "unat ((r + 31) div 32) = unat (r + 31) div 32" by (simp add: unat_div)
  moreover have "unat (r + 31) div 32 * 32 < 2 ^ 32"
    using unat_less_pow [of "r + 31"] div_times_less_eq_dividend [of "unat (r + 31)" 32] by (simp del: unat_word_ariths)
  ultimately have "unat (round_up_32 r) = unat (r + 31) div 32 * 32"
    by (simp add: round_up_32_def unat_word_ariths(2))
  then show ?thesis by simp
qed

interpretation typing: machine_relation h grows "\<lambda>m. machine_ok m \<and> in_static (m_ctx m) = st" for h st
proof
  fix m m' :: mstate and x v i
  show "machine_ok m \<and> in_static (m_ctx m) = st \<Longrightarrow> stack_pop m = Inr (m', x) \<Longrightarrow> machine_ok m' \<and> in_static (m_ctx m') = st"
    "machine_ok m \<and> in_static (m_ctx m) = st \<Longrightarrow> stack_push m v = Inr m' \<Longrightarrow> machine_ok m' \<and> in_static (m_ctx m') = st"
    "machine_ok m \<and> in_static (m_ctx m) = st \<Longrightarrow> store_cell m i v = Inr m' \<Longrightarrow> machine_ok m' \<and> in_static (m_ctx m') = st"
    by (auto simp: stack_pop_def stack_push_def store_cell_def inc_stack_pointer_def machine_ok_def MAX_STACK_SIZE_def
        split: if_splits)
next
  fix m r c p
  assume "machine_ok m \<and> in_static (m_ctx m) = st" and "extend_memory h (m_ctx m) (round_up_32 r) = (c, p)"
  then show "machine_ok (m\<lparr>m_ctx := c, memory_size := round_up_32 r, memory_ptr := p\<rparr>) \<and>
      in_static (m_ctx (m\<lparr>m_ctx := c, memory_size := round_up_32 r, memory_ptr := p\<rparr>)) = st"
    using dvd_round_up_32 [of r] by (auto simp: extend_memory_def machine_ok_def Let_def split: if_splits)
qed (auto simp: machine_ok_def grows_def)

section \<open>Blocks\<close>

text \<open>One block of the main function after another.\<close>

inductive block_step :: "host \<Rightarrow> nat \<Rightarrow> program \<Rightarrow> nat \<times> mstate \<Rightarrow> nat \<times> mstate \<Rightarrow> bool" for h n p where
  block: "run_block h (execute h n) p i m = Inr (Block j m') \<Longrightarrow> block_step h n p (i, m) (j, m')"

inductive_cases block_stepE: "block_step h n p (i, m) (j, m')"

lemma btree_insert_values: "snd ` set (btree_insert k v t) \<subseteq> insert v (snd ` set t)"
  by (induction t) auto

lemma jumpdest_blocks_bound: "i \<in> snd ` set (jumpdest_blocks p) \<Longrightarrow> i < length (operations p)"
proof -
  have "snd ` set (foldl register_jump_destination t xs) \<subseteq> snd ` set t \<union> fst ` set xs" for t :: "(nat \<times> nat) list" and xs
  proof (induction xs arbitrary: t)
    case (Cons x xs)
    obtain i op where x: "x = (i, op)" by fastforce
    have "snd ` set (register_jump_destination t x) \<subseteq> insert i (snd ` set t)"
      using btree_insert_values [of _ i t] by (auto simp: x register_jump_destination_def split: operation.splits)
    moreover have "snd ` set (foldl register_jump_destination t (x # xs)) \<subseteq>
        snd ` set (register_jump_destination t x) \<union> fst ` set xs"
      using Cons.IH by simp
    ultimately show ?case unfolding x by (simp only: list.set image_insert fst_conv) blast
  qed simp
  from this [of "[]" "List.enumerate 0 (operations p)"]
  show "i \<in> snd ` set (jumpdest_blocks p) \<Longrightarrow> i < length (operations p)"
    by (auto simp: jumpdest_blocks_def in_set_enumerate_eq dest!: subsetD)
qed

lemma jump_target_bound: "jump_target p v = Some j \<Longrightarrow> j < length (operations p)"
  using jumpdest_blocks_bound
  by (auto simp: jump_target_def populate_jumptable_def dest!: map_of_SomeD set_zip_rightD)

lemma follow_bound:
  "follow p i (m, fl) = Block j m' \<Longrightarrow> i < length (operations p) \<Longrightarrow> j \<le> length (operations p)"
  using jump_target_bound
  by (cases fl) (fastforce simp: follow_def split: option.splits prod.splits)+

lemma block_step_ok:
  assumes "block_step h n p (i, m) (j, m')" and "machine_ok m"
  shows "machine_ok m' \<and> j \<le> length (operations p)"
proof -
  have rb: "run_block h (execute h n) p i m = Inr (Block j m')" using assms(1) by (rule block_stepE)
  have "machine_ok (next_machine (Block j m')) \<and> in_static (m_ctx (next_machine (Block j m'))) = in_static (m_ctx m)"
    by (rule typing.W_run_block [OF _ growth.honours_execute rb]) (simp add: assms(2))
  then have "machine_ok m'" by (simp add: next_machine_def)
  moreover have "j \<le> length (operations p)"
  proof (cases "i < length (operations p)")
    case True
    then show ?thesis using rb by (auto simp: run_block_def result_simps dest: follow_bound)
  next
    case False
    then show ?thesis
      using rb by (simp add: run_block_def follow_def return_empty_result_def return_result_with_offset_and_size_def)
  qed
  ultimately show ?thesis ..
qed

section \<open>The height of the stack\<close>

text \<open>What an operation takes from the stack and puts there in the EVM. \<open>DUP\<close> and \<open>SWAP\<close> need the elements down to the one
  they name.\<close>

fun inputs :: "operation \<Rightarrow> nat" where
  "inputs (Dup n) = unat n"
| "inputs (Swap n) = unat (n + 1)"
| "inputs (Log n) = unat (2 + n)"
| "inputs op =
    (if op \<in> {IsZero, operation.Not, Balance, CalldataLoad, ExtcodeSize, ExtcodeHash, BlockHash, BlobHash, Pop, Mload, Sload,
       Tload, Jump, SelfDestruct} then 1
     else if op \<in> {Add, Mul, Sub, Div, Sdiv, Mod, SMod, Exp, SignExtend, Lt, Gt, Slt, Sgt, Eq, And, Or, Xor, Byte, Shl, Shr, Sar,
       Keccak256, Mstore, Mstore8, Sstore, Tstore, Jumpi, Return, Revert} then 2
     else if op \<in> {Addmod, Mulmod, CallDataCopy, Codecopy, ReturnDataCopy, Mcopy, Create} then 3
     else if op \<in> {ExtcodeCopy, Create2} then 4
     else if op \<in> {DelegateCall, StaticCall} then 6
     else if op \<in> {Call, CallCode} then 7
     else 0)"

fun outputs :: "operation \<Rightarrow> nat" where
  "outputs (Dup n) = unat n + 1"
| "outputs (Swap n) = unat (n + 1)"
| "outputs (Log n) = 0"
| "outputs (Jumpdest pc) = 0"
| "outputs op =
    (if op \<in> {Stop, CallDataCopy, Codecopy, ExtcodeCopy, ReturnDataCopy, Pop, Mstore, Mstore8, Sstore, Tstore, Jump, Jumpi,
       Mcopy, Return, Revert, Invalid, SelfDestruct} then 0
     else 1)"

text \<open>The two operations that push without asking for room.\<close>

definition no_room_check :: "operation \<Rightarrow> bool" where
  "no_room_check op \<longleftrightarrow> (case op of CallDataSize \<Rightarrow> True | Dup n \<Rightarrow> True | _ \<Rightarrow> False)"

text \<open>An operation that lacks an operand or room branches to the revert block and leaves the stack alone.\<close>

lemma guarded_stops: "\<not> check m \<Longrightarrow> guarded cost check k m = revert (m\<lparr>gas_counter := gas_counter m - cost\<rparr>)"
  by (simp add: guarded_def consume_gas_def Let_def)

lemmas entry_defs = shape_defs unary_op_def binary_op_def ternary_op_def push_op_def
  codegen_dup_def codegen_swap_def codegen_log_def codegen_exp_def codegen_push_def codegen_pop_def codegen_jump_def
  codegen_jumpi_def codegen_selfbalance_def codegen_blockhash_def codegen_blobhash_def codegen_tload_def
  codegen_calldataload_def codegen_balance_def codegen_extcodesize_def codegen_extcodehash_def codegen_sload_def
  lookup_op_def codegen_mload_def codegen_mstore_def codegen_mstore8_def codegen_mcopy_def codegen_keccak256_def
  codegen_calldatacopy_def codegen_codecopy_def codegen_extcodecopy_def codegen_returndatacopy_def codegen_return_def
  codegen_revert_def codegen_sstore_def codegen_tstore_def codegen_selfdestruct_def codegen_create_def
  codegen_call_def has_value_def

lemma lacks_operands:
  assumes "stack_ptr m < inputs op"
  shows "\<exists>m'. generate_code_for_op h exec p op m = revert m' \<and> stack_ptr m' = stack_ptr m"
  using assms
  by (cases op) (simp_all add: entry_defs check_stack_has_at_least_def guarded_stops)

lemma lacks_room:
  assumes "stack_ptr m \<le> 1024" and "\<not> no_room_check op" and "inputs op \<le> stack_ptr m"
    and "1024 < stack_ptr m - inputs op + outputs op"
  shows "\<exists>m'. generate_code_for_op h exec p op m = revert m' \<and> stack_ptr m' = stack_ptr m"
  using assms
  by (cases op) (simp_all add: no_room_check_def entry_defs check_stack_has_space_for_def MAX_STACK_SIZE_def guarded_stops)

text \<open>The height of the stack when an operation does not leave the run.\<close>

definition height :: "nat \<Rightarrow> step \<Rightarrow> bool" where
  "height n r \<longleftrightarrow> (\<forall>m' fl. r = Inr (m', fl) \<and> (fl = Next \<or> (\<exists>v. fl = To_jumptable v)) \<longrightarrow> stack_ptr m' = n)"

lemma height_simps [simp]:
  "height n (Inl e)" "height n (revert m)" "height n (Inr (m, Returned v))"
  "height n (Inr (m, Next)) \<longleftrightarrow> stack_ptr m = n" "height n (Inr (m, To_jumptable w)) \<longleftrightarrow> stack_ptr m = n"
  by (simp_all add: height_def)

lemma height_and_then: "(\<And>x. r = Inr x \<Longrightarrow> height n (k x)) \<Longrightarrow> height n (and_then r k)"
  by (cases r) simp_all

lemma height_cond_br: "(b \<Longrightarrow> height n (k m)) \<Longrightarrow> height n (cond_br b k m)"
  by simp

lemma height_pop:
  assumes "\<And>x m'. 0 < stack_ptr m \<Longrightarrow> stack_ptr m' = stack_ptr m - 1 \<Longrightarrow> height n (k x m')"
  shows "height n (pop m k)"
  using assms by (auto simp: pop_def stack_pop_def)

lemma height_push_next: "n = Suc (stack_ptr m) \<Longrightarrow> height n (push_next m v)"
  by (simp add: push_next_def stack_push_def store_cell_def inc_stack_pointer_def)

lemma height_guarded:
  assumes "\<And>m'. stack_ptr m' = stack_ptr m \<Longrightarrow> check m \<Longrightarrow> height n (k m')"
  shows "height n (guarded cost check k m)"
  using assms by (simp add: guarded_def consume_gas_def Let_def)

lemma height_extend:
  assumes "\<And>m'. stack_ptr m' = stack_ptr m \<Longrightarrow> height n (k m')"
  shows "height n (extend_memory_block h m r g k)"
  using assms by (simp add: extend_memory_block_def consume_gas_def consume_gas_as_value_def Let_def split_beta)

lemma height_pop_n:
  assumes "\<And>xs m'. i \<le> stack_ptr m \<Longrightarrow> stack_ptr m' = stack_ptr m - i \<Longrightarrow> height n (k xs m')"
  shows "height n (pop_n i m k)"
  using assms
proof (induction i arbitrary: m k)
  case (Suc i)
  show ?case unfolding pop_n.simps by (intro height_pop Suc.IH Suc.prems) simp_all
qed simp

lemma stack_ptr_writes:
  "memory_write m off bs = Inr m' \<Longrightarrow> stack_ptr m' = stack_ptr m"
  "store_cell m i v = Inr m' \<Longrightarrow> stack_ptr m' = stack_ptr m"
  "swap_stack_elements m i j = Inr m' \<Longrightarrow> stack_ptr m' = stack_ptr m"
  "stack_ptr (fst (consume_gas_as_value m g)) = stack_ptr m" "stack_ptr (inc_stack_pointer m) = Suc (stack_ptr m)"
  by (auto simp: memory_write_def store_cell_def swap_stack_elements_def consume_gas_as_value_def inc_stack_pointer_def
      result_simps split: if_splits)

lemmas height_rules = height_guarded height_pop height_push_next height_extend height_pop_n height_cond_br height_and_then

lemma height_shapes:
  "height (stack_ptr m) (unary_op cost f1 m)" "height (stack_ptr m - 1) (binary_op cost f2 m)"
  "height (stack_ptr m - 2) (ternary_op cost f3 m)" "height (Suc (stack_ptr m)) (push_op cost v m)"
  unfolding unary_op_def binary_op_def ternary_op_def push_op_def by (intro height_rules; simp)+

lemma height_lookup: "height (stack_ptr m) (lookup_op look m)"
  unfolding lookup_op_def consume_gas_as_value_def Let_def split_beta fst_conv snd_conv
  by (intro height_rules) simp

lemma height_stack_ops:
  "height (Suc (stack_ptr m)) (codegen_push x z m)" "height (stack_ptr m - 1) (codegen_pop m)"
  "height (Suc (stack_ptr m)) (codegen_dup n m)" "height (stack_ptr m) (codegen_swap n m)"
  "height (stack_ptr m - 1) (codegen_exp h m)" "height (Suc (stack_ptr m)) (codegen_calldatasize m)"
  "height (stack_ptr m) (codegen_jumpdest pc m)" "height (stack_ptr m - 1) (codegen_jump m)"
  "height (stack_ptr m - 2) (codegen_jumpi m)"
proof -
  show "height (Suc (stack_ptr m)) (codegen_push x z m)" "height (stack_ptr m - 1) (codegen_pop m)"
    "height (stack_ptr m) (codegen_swap n m)" "height (stack_ptr m - 1) (codegen_jump m)"
    unfolding codegen_push_def codegen_pop_def codegen_swap_def codegen_jump_def
    by (intro height_rules; simp add: stack_ptr_writes)+
  show "height (stack_ptr m - 2) (codegen_jumpi m)"
    unfolding codegen_jumpi_def by (intro height_rules) auto
  show "height (Suc (stack_ptr m)) (codegen_dup n m)"
    unfolding codegen_dup_def split_beta by (intro height_rules) simp
  show "height (stack_ptr m - 1) (codegen_exp h m)" "height (Suc (stack_ptr m)) (codegen_calldatasize m)"
    "height (stack_ptr m) (codegen_jumpdest pc m)"
    unfolding codegen_exp_def codegen_calldatasize_def codegen_jumpdest_def consume_gas_def consume_gas_as_value_def Let_def
      split_beta fst_conv snd_conv
    by (intro height_rules; simp)+
qed

lemma height_env_ops:
  "height (Suc (stack_ptr m)) (codegen_selfbalance m)" "height (stack_ptr m) (codegen_blockhash m)"
  "height (stack_ptr m) (codegen_blobhash m)" "height (stack_ptr m) (codegen_tload m)"
  "height (stack_ptr m) (codegen_calldataload m)"
proof -
  show "height (Suc (stack_ptr m)) (codegen_selfbalance m)" "height (stack_ptr m) (codegen_blockhash m)"
    "height (stack_ptr m) (codegen_blobhash m)" "height (stack_ptr m) (codegen_tload m)"
    unfolding codegen_selfbalance_def codegen_blockhash_def codegen_blobhash_def codegen_tload_def Let_def split_beta
    by (intro height_rules; simp)+
  show "height (stack_ptr m) (codegen_calldataload m)"
    unfolding codegen_calldataload_def Let_def
    by (intro height_guarded height_pop) (auto intro!: height_rules simp: stack_ptr_writes)
qed

lemma height_memory_ops:
  "height (stack_ptr m) (codegen_mload h m)" "height (stack_ptr m - 2) (codegen_mstore h m)"
  "height (stack_ptr m - 2) (codegen_mstore8 h m)" "height (stack_ptr m - 3) (codegen_mcopy h m)"
  "height (stack_ptr m - 1) (codegen_keccak256 h m)" "height (stack_ptr m - 3) (codegen_calldatacopy h m)"
  "height (stack_ptr m - 3) (codegen_codecopy h m)" "height (stack_ptr m - 4) (codegen_extcodecopy h m)"
  "height (stack_ptr m - 3) (codegen_returndatacopy h m)" "height n (codegen_return h m)" "height n (codegen_revert h m)"
proof -
  note unf = Let_def consume_gas_as_value_def split_beta fst_conv snd_conv
  show "height (stack_ptr m) (codegen_mload h m)" "height (stack_ptr m - 2) (codegen_mstore h m)"
    "height (stack_ptr m - 2) (codegen_mstore8 h m)" "height (stack_ptr m - 3) (codegen_mcopy h m)"
    "height (stack_ptr m - 1) (codegen_keccak256 h m)" "height (stack_ptr m - 3) (codegen_codecopy h m)"
    "height (stack_ptr m - 4) (codegen_extcodecopy h m)" "height (stack_ptr m - 3) (codegen_returndatacopy h m)"
    unfolding codegen_mload_def codegen_mstore_def codegen_mstore8_def codegen_mcopy_def codegen_keccak256_def
      codegen_codecopy_def codegen_extcodecopy_def codegen_returndatacopy_def unf
    by (intro height_rules; simp add: stack_ptr_writes)+
  show "height (stack_ptr m - 3) (codegen_calldatacopy h m)"
    unfolding codegen_calldatacopy_def unf
    by (intro height_guarded height_pop height_extend) (auto intro!: height_rules simp: stack_ptr_writes)
  show "height n (codegen_return h m)" "height n (codegen_revert h m)"
    unfolding codegen_return_def codegen_revert_def return_result_from_stack_def return_result_with_offset_and_size_def unf
    by (intro height_rules; simp)+
qed

lemma height_world_ops:
  "height (stack_ptr m - 2) (codegen_sstore m)" "height (stack_ptr m - 2) (codegen_tstore m)"
  "height (stack_ptr m - 1) (codegen_selfdestruct m)"
  "height (stack_ptr m - (if z then 3 else 2)) (codegen_create h exec z m)"
  "height (stack_ptr m - (if has_value ct then 6 else 5)) (codegen_call h exec ct m)"
proof -
  note unf = Let_def consume_gas_as_value_def split_beta fst_conv snd_conv
  show "height (stack_ptr m - 2) (codegen_sstore m)" "height (stack_ptr m - 2) (codegen_tstore m)"
    "height (stack_ptr m - 1) (codegen_selfdestruct m)"
    unfolding codegen_sstore_def codegen_tstore_def codegen_selfdestruct_def unf
    by (intro height_rules; simp)+
  show "height (stack_ptr m - (if z then 3 else 2)) (codegen_create h exec z m)"
    unfolding codegen_create_def created_def unf
    by (cases z; simp only: if_True if_False) (intro height_rules; simp)+
  show "height (stack_ptr m - (if has_value ct then 6 else 5)) (codegen_call h exec ct m)"
    unfolding codegen_call_def call_syscall_def unf
    by (cases "has_value ct"; simp only: if_True if_False)
      (intro height_rules; simp add: height_rules split: option.split)+
qed

lemma log_topics: "append_log_syscall n c off sz t = Inr c' \<Longrightarrow> unat (2 + n) = 2 + unat n"
  by (auto simp: append_log_syscall_def split: if_splits)

lemma height_log: "height (stack_ptr m - unat (2 + n)) (codegen_log h n m)"
  unfolding codegen_log_def consume_gas_as_value_def Let_def split_beta fst_conv snd_conv
  by (intro height_rules) (auto dest!: log_topics)

lemma height_ends: "height n (codegen_stop m)" "height n (codegen_invalid m)"
  by (simp_all add: codegen_stop_def codegen_invalid_def return_empty_result_def return_result_with_offset_and_size_def)

lemma height_eq: "height k r \<Longrightarrow> k = n \<Longrightarrow> height n r"
  by simp

lemmas height_all = height_shapes height_lookup height_stack_ops height_env_ops height_memory_ops height_world_ops
  height_log height_ends

lemma height_op:
  assumes "inputs op \<le> stack_ptr m"
  shows "height (stack_ptr m - inputs op + outputs op) (generate_code_for_op h exec p op m)"
  using assms
  by (cases op; simp add: shape_defs codegen_balance_def codegen_extcodesize_def codegen_extcodehash_def codegen_sload_def;
      intro height_all [THEN height_eq]; simp add: has_value_def)

text \<open>The type of an operation: without its operands, or without room for its results, it branches to the revert block with the
  stack as it was; when the run goes on after it, the stack has lost its operands and gained its results.\<close>

definition stack_typed :: "operation \<Rightarrow> mstate \<Rightarrow> step \<Rightarrow> bool" where
  "stack_typed op m r \<longleftrightarrow>
     (stack_ptr m < inputs op \<or> \<not> no_room_check op \<and> 1024 < stack_ptr m - inputs op + outputs op \<longrightarrow>
        (\<exists>m'. r = revert m' \<and> stack_ptr m' = stack_ptr m)) \<and>
     (\<forall>m' fl. r = Inr (m', fl) \<and> (fl = Next \<or> (\<exists>v. fl = To_jumptable v)) \<longrightarrow>
        stack_ptr m' + inputs op = stack_ptr m + outputs op)"

lemma op_stack_typed:
  assumes "stack_ptr m \<le> 1024"
  shows "stack_typed op m (generate_code_for_op h exec p op m)"
proof (cases "inputs op \<le> stack_ptr m")
  case True
  then show ?thesis
    using height_op [OF True, of h exec p] lacks_room [OF assms _ True, of h exec p] by (auto simp: stack_typed_def height_def)
next
  case False
  then show ?thesis using lacks_operands [of m op h exec p] by (auto simp: stack_typed_def)
qed

section \<open>The property\<close>

text \<open>C8: the machine keeps its type. In every state that a program reaches, block after block, from the
  setup code, the stack pointer is within the 1024 cells of the stack, the memory size is a
  whole number of words that the memory behind the pointer covers, and the next block is one of the
  blocks of the program. In such a state every operation checks the stack before it uses it: without its operands or without room for its
  results it branches to the revert block with the stack as it was, and when the run goes on after it, the
  stack has lost exactly its operands and gained its results. Only \<open>CALLDATASIZE\<close> and \<open>DUP\<close> do not ask for room.\<close>

theorem machine_keeps_type:
  assumes "(block_step h n p)\<^sup>*\<^sup>* (0, setup_code c g) (i, m)"
  shows "machine_ok m \<and> i \<le> length (operations p) \<and> stack_typed op m (generate_code_for_op h (execute h n) p op m)"
proof -
  have "machine_ok m \<and> i \<le> length (operations p)"
    using assms
  proof (induction "(i, m)" arbitrary: i m rule: rtranclp_induct)
    case base
    then show ?case by (simp add: setup_code_eq machine_ok_def)
  next
    case (step s j m')
    then show ?case using block_step_ok by (cases s) blast
  qed
  then show ?thesis using op_stack_typed by (simp add: machine_ok_def)
qed

theorem machine_keeps_type_witness:
  "\<exists>m. block_step sample_host 1 (program_from [Push0]) (0, setup_code sample_ctx 100) (1, m) \<and> machine_ok m \<and> stack_ptr m = 1 \<and>
     (\<exists>m'. codegen_add m = revert m' \<and> stack_ptr m' = 1)"
proof -
  have "\<exists>m. run_block sample_host (execute sample_host 1) (program_from [Push0]) 0 (setup_code sample_ctx 100) = Inr (Block 1 m) \<and>
      stack_ptr m = 1"
    by (simp add: run_block_def follow_def program_from_def codegen_push_def guarded_def consume_gas_def setup_code_eq
        check_stack_has_space_for_def MAX_STACK_SIZE_def push_next_def stack_push_def store_cell_def
        inc_stack_pointer_def gas_consts)
  then obtain m where m: "block_step sample_host 1 (program_from [Push0]) (0, setup_code sample_ctx 100) (1, m)" "stack_ptr m = 1"
    by (auto intro: block)
  then have "(block_step sample_host 1 (program_from [Push0]))\<^sup>*\<^sup>* (0, setup_code sample_ctx 100) (1, m)"
    by (simp add: r_into_rtranclp)
  from machine_keeps_type [OF this, of Add] show ?thesis using m by (auto simp: stack_typed_def)
qed

end
