(* ===== verification/Evm.thy ===== *)
theory Evm
  imports Effects
begin

text \<open>
  The interface of the crate (\<open>lib.rs\<close>): executing the configured transaction, and committing
  its result to the database. The order in which a hash map is iterated is the parameter
  \<open>order\<close>.
\<close>

record evm =
  evm_env :: env
  evm_db :: db

definition evm_new :: "env \<Rightarrow> db \<Rightarrow> evm" where
  "evm_new e d = \<lparr>evm_env = e, evm_db = d\<rparr>"

text \<open>The builder (\<open>builder.rs\<close>): an empty database and the default environment, until a database is given.\<close>

record evm_builder =
  builder_db :: db
  builder_env :: env

definition builder :: evm_builder where
  "builder = \<lparr>builder_db = db_new, builder_env = env_default\<rparr>"

definition with_db :: "evm_builder \<Rightarrow> db \<Rightarrow> evm_builder" where
  "with_db b d = \<lparr>builder_db = d, builder_env = builder_env b\<rparr>"

definition build :: "evm_builder \<Rightarrow> evm" where
  "build b = evm_new (builder_env b) (builder_db b)"

lemma build_with_db: "build (with_db b d) = evm_new (builder_env b) d"
  by (simp add: build_def with_db_def)

type_synonym 'a evm_result = "(evm_error + 'a) res"

definition evm_validate_transaction :: "evm \<Rightarrow> (evm \<times> u64) evm_result" where
  "evm_validate_transaction e =
     and_then (validate_transaction (evm_env e)) (\<lambda>r. case r of
       Inl err \<Rightarrow> Inr (Inl (Err_Transaction err))
     | Inr _ \<Rightarrow> and_then (consume_intrinsic_cost (evm_env e)) (\<lambda>r. case r of
         Inl err \<Rightarrow> Inr (Inl (Err_Transaction err))
       | Inr (initial_gas_consumed, en) \<Rightarrow> Inr (Inr (e\<lparr>evm_env := en\<rparr>, initial_gas_consumed))))"

definition create_syscall_context :: "evm \<Rightarrow> u64 \<Rightarrow> syscall_context" where
  "create_syscall_context e initial_gas =
     (let t = tx (evm_env e)
      in syscall_context_new (evm_env e) (with_prefetch (journal_new (evm_db e)) (tx_access_list t))
           (call_frame_new (tx_caller t)) initial_gas)"

definition run_program :: "host \<Rightarrow> nat \<Rightarrow> evm \<Rightarrow> program \<Rightarrow> u64 \<Rightarrow> result_and_state res" where
  "run_program h n e p initial_gas_consumed =
     (let limit = gas_limit (tx (evm_env e));
          c = create_syscall_context e (limit + initial_gas_consumed)
      in and_then (to_bytecode p) (\<lambda>code.
         and_then (execute h n p (map_inner (\<lambda>ic. ic\<lparr>ic_program := code\<rparr>) c) limit) (\<lambda>c.
         Inr (get_result c))))"

definition evm_call :: "host \<Rightarrow> nat \<Rightarrow> evm \<Rightarrow> u64 \<Rightarrow> result_and_state res" where
  "evm_call h n e initial_gas_consumed =
     (let code_address = get_address (tx (evm_env e));
          bytecode = db_code_by_address (evm_db e) code_address
      in and_then (from_bytecode bytecode) (\<lambda>p. run_program h n e p initial_gas_consumed))"

text \<open>The value as four 64-bit limbs, the least significant first.\<close>

definition limbs :: "u256 \<Rightarrow> u64 list" where
  "limbs v = map (\<lambda>i. ucast (drop_bit (64 * i) v)) [0..<4]"

definition get_env_value :: "evm \<Rightarrow> sysu256" where
  "get_env_value e = from_fixed_be_bytes (concat (map word_to_be (rev (limbs (tx_value (tx (evm_env e)))))))"

definition evm_create :: "host \<Rightarrow> nat \<Rightarrow> evm \<Rightarrow> u64 \<Rightarrow> result_and_state res" where
  "evm_create h n e initial_gas_consumed =
     (let v = get_env_value e; limit = gas_limit (tx (evm_env e)); code = tx_data (tx (evm_env e));
          c = create_syscall_context e (limit + initial_gas_consumed);
          c = map_inner (\<lambda>ic. ic\<lparr>memory := code\<rparr>) c
      in and_then (create h (execute h n) c (of_nat (length code)) 0 v limit)
           (\<lambda>(c, _, remaining_gas, _).
         Inr (get_result (map_inner (\<lambda>ic. ic\<lparr>gas_remaining := Some (saturating_sub limit remaining_gas)\<rparr>) c))))"

definition transact :: "host \<Rightarrow> nat \<Rightarrow> evm \<Rightarrow> (evm \<times> result_and_state) evm_result" where
  "transact h n e =
     and_then (evm_validate_transaction e) (\<lambda>r. case r of
       Inl err \<Rightarrow> Inr (Inl err)
     | Inr (e, initial_gas_consumed) \<Rightarrow>
         and_then (case transact_to (tx (evm_env e)) of
             TransactTo_Call _ \<Rightarrow> evm_call h n e initial_gas_consumed
           | TransactTo_Create \<Rightarrow> evm_create h n e initial_gas_consumed)
           (\<lambda>rs. Inr (Inr (e, rs))))"

definition transact_commit ::
  "host \<Rightarrow> ((address \<rightharpoonup> account) \<Rightarrow> (address \<times> account) list) \<Rightarrow> nat \<Rightarrow> evm \<Rightarrow>
   (evm \<times> execution_result) evm_result" where
  "transact_commit h order n e =
     and_then (transact h n e) (\<lambda>r. case r of
       Inl err \<Rightarrow> Inr (Inl err)
     | Inr (e, rs) \<Rightarrow>
         Inr (Inr (e\<lparr>evm_db := commit (evm_db e) (order (res_state rs))\<rparr>, res_result rs)))"

section \<open>Transactions\<close>

lemma case_value:
  "(case r of Inl err \<Rightarrow> Inr (Inl (f err)) | Inr y \<Rightarrow> k y) = Inr (Inr z) \<longleftrightarrow>
     (\<exists>y. r = Inr y \<and> k y = Inr (Inr z))"
  by (cases r) simp_all

lemma evm_validate_transaction_ok:
  assumes "evm_validate_transaction e = Inr (Inr (e1, cost))"
  shows "evm_db e1 = evm_db e" "gas_limit (tx (evm_env e1)) + cost = gas_limit (tx (evm_env e))"
    "tx_access_list (tx (evm_env e1)) = tx_access_list (tx (evm_env e))"
  using assms
  by (auto simp: evm_validate_transaction_def consume_intrinsic_cost_def case_value result_simps split: if_splits)

text \<open>A result of a transaction is the result of a context that evolved from the one it was given.\<close>

lemma transact_context:
  assumes "transact h n e = Inr (Inr (e1, rs))"
  shows "\<exists>c c'. rs = get_result c' \<and> evolves h c c' \<and> evm_db e1 = evm_db e \<and>
    ctx_journal c = with_prefetch (journal_new (evm_db e)) (tx_access_list (tx (evm_env e))) \<and>
    ctx_initial_gas c = gas_limit (tx (evm_env e))"
proof -
  obtain cost where v: "evm_validate_transaction e = Inr (Inr (e1, cost))"
    and r: "(case transact_to (tx (evm_env e1)) of TransactTo_Call _ \<Rightarrow> evm_call h n e1 cost
           | TransactTo_Create \<Rightarrow> evm_create h n e1 cost) = Inr rs"
    using assms by (auto simp: transact_def case_value result_simps)
  note e1 = evm_validate_transaction_ok [OF v]
  let ?limit = "gas_limit (tx (evm_env e1))"
  have c0: "ctx_journal (create_syscall_context e1 (?limit + cost)) =
      with_prefetch (journal_new (evm_db e)) (tx_access_list (tx (evm_env e)))"
    "ctx_initial_gas (create_syscall_context e1 (?limit + cost)) = gas_limit (tx (evm_env e))"
    "\<not> in_static (create_syscall_context e1 (?limit + cost))"
    using e1 by (simp_all add: create_syscall_context_def syscall_context_new_def call_frame_new_def Let_def)
  show ?thesis
  proof (cases "transact_to (tx (evm_env e1))")
    case (TransactTo_Call a)
    then obtain p code c' where "execute h n p (map_inner (\<lambda>ic. ic\<lparr>ic_program := code\<rparr>)
        (create_syscall_context e1 (?limit + cost))) ?limit = Inr c'" "rs = get_result c'"
      using r by (auto simp: evm_call_def run_program_def Let_def result_simps)
    then show ?thesis using evolution.S_execute e1(1) c0 by fastforce
  next
    case TransactTo_Create
    let ?c = "map_inner (\<lambda>ic. ic\<lparr>memory := tx_data (tx (evm_env e1))\<rparr>) (create_syscall_context e1 (?limit + cost))"
    obtain c' rest rg where x: "create_aux h (execute h n) ?c (of_nat (length (tx_data (tx (evm_env e1))))) 0
        (get_env_value e1) ?limit None = Inr (c', rest)"
      and rs: "rs = get_result (map_inner (\<lambda>ic. ic\<lparr>gas_remaining := rg\<rparr>) c')"
      using r TransactTo_Create by (auto simp: evm_create_def create_def Let_def result_simps)
    have "evolves h ?c c'"
      by (rule evolution.S_create_aux [OF evolution.honours_execute _ x]) (use c0 in simp)
    then have "evolves h ?c (map_inner (\<lambda>ic. ic\<lparr>gas_remaining := rg\<rparr>) c')" by (simp add: evolves_def)
    then show ?thesis using rs e1(1) c0 by fastforce
  qed
qed


text \<open>A transaction to an account without code with another account on its access list, for the witnesses.\<close>

definition sample_evm :: evm where
  "sample_evm = \<lparr>evm_env = env_default\<lparr>tx := tx_env_default\<lparr>tx_access_list := [(7, [])]\<rparr>\<rparr>,
     evm_db = db_set_balance db_new 7 5\<rparr>"

lemma sample_transact: "\<exists>e1 rs. transact sample_host 1 sample_evm = Inr (Inr (e1, rs))"
proof -
  let ?e = "env_default\<lparr>tx := tx_env_default\<lparr>tx_access_list := [(7, [])]\<rparr>\<rparr>"
  have "consume_intrinsic_cost ?e = Inr (Inr (23400, ?e\<lparr>tx := (tx ?e)\<lparr>gas_limit := 0x7FFFFFFFFFFFFFFF - 23400\<rparr>\<rparr>))"
    by (simp add: consume_intrinsic_cost_def calculate_intrinsic_cost_def env_default_def tx_env_default_def
        data_cost_def access_list_cost_def gas_consts)
  moreover have "validate_transaction ?e = Inr (Inr ())"
    by (simp add: validate_transaction_def env_default_def tx_env_default_def)
  moreover have "db_code_by_address (db_set_balance db_new 7 5) 0 = []"
    by (simp add: db_code_by_address_def db_basic_def db_new_def db_set_balance_def db_modify_def)
  moreover have "from_bytecode [] = Inr (program_from [])"
    by (simp add: from_bytecode_def from_bytecode_loop.simps)
  ultimately show ?thesis
    by (simp add: transact_def evm_validate_transaction_def sample_evm_def tx_env_default_def
        evm_call_def run_program_def get_address_def Let_def program_from_def to_bytecode_def execute_def
        compile_program_def jumpdest_pcs_def jumpdest_blocks_def map_filter_simps run_block_def
        return_empty_result_def return_result_with_offset_and_size_def follow_def)
qed

text \<open>C22: a transaction that runs uses at most its gas limit, refunds at most a fifth of
  what it used, and leaves the database alone until it is committed.\<close>

theorem transact_gas:
  assumes "transact h n e = Inr (Inr (e1, rs))"
  shows "unat (gas_used (res_result rs)) \<le> unat (gas_limit (tx (evm_env e))) \<and>
    unat (gas_refunded (res_result rs)) \<le> unat (gas_used (res_result rs)) div 5 \<and> evm_db e1 = evm_db e"
proof -
  obtain c c' where "rs = get_result c'" "evolves h c c'" "evm_db e1 = evm_db e"
    "ctx_initial_gas c = gas_limit (tx (evm_env e))"
    using transact_context [OF assms] by blast
  then show ?thesis using gas_used_le [of c'] gas_refunded_le [of c'] by (simp add: evolves_def)
qed

theorem transact_gas_witness:
  "\<exists>e1 rs. transact sample_host 1 sample_evm = Inr (Inr (e1, rs)) \<and>
     unat (gas_used (res_result rs)) \<le> unat (gas_limit (tx (evm_env sample_evm)))"
proof -
  obtain e1 rs where t: "transact sample_host 1 sample_evm = Inr (Inr (e1, rs))" using sample_transact by blast
  then show ?thesis using transact_gas [OF t] by blast
qed

text \<open>The iteration order of a hash map: every entry once.\<close>

definition iterates :: "((address \<rightharpoonup> account) \<Rightarrow> (address \<times> account) list) \<Rightarrow> bool" where
  "iterates order \<longleftrightarrow> (\<forall>s. finite (dom s) \<longrightarrow> distinct (map fst (order s)) \<and> map_of (order s) = s)"

definition by_address :: "(address \<rightharpoonup> account) \<Rightarrow> (address \<times> account) list" where
  "by_address s = map (\<lambda>a. (a, the (s a))) (sorted_list_of_set (dom s))"

lemma iterates_by_address: "iterates by_address"
proof -
  have "map_of (by_address s) a = s a" if "finite (dom s)" for s a
    using that by (cases "s a") (auto simp: by_address_def map_of_map_keys domIff map_of_map_restrict)
  then show ?thesis by (auto simp: iterates_def by_address_def comp_def)
qed

text \<open>The accounts that a commit leaves as they are, although the journal may say something else of them: those that the
  transaction both created and destroyed, and those of the access list that it did not modify.\<close>

definition left_out :: "(address \<times> u256 list) list \<Rightarrow> journal \<Rightarrow> address \<Rightarrow> bool" where
  "left_out al j a \<longleftrightarrow> (case j_accounts j a of
     None \<Rightarrow> a \<in> fst ` set al
   | Some acc \<Rightarrow> contains (j_status acc) Created \<and> contains (j_status acc) SelfDestructed \<or>
       a \<in> fst ` set al \<and> \<not> modified (j_status acc))"

lemma commit_left_out:
  assumes "distinct (map fst changes)" and "map_of changes = into_state j" and "left_out al j a"
  shows "db_view (commit d changes) a = db_view d a \<and> db_read_storage (commit d changes) a k = db_read_storage d a k"
proof (cases "j_accounts j a")
  case None
  then show ?thesis
    using assms by (simp add: db_view_def commit_accounts commit_read_storage into_state_def)
next
  case (Some acc)
  then show ?thesis using commit_skipped [OF assms(1,2) Some] assms(3) by (auto simp: left_out_def)
qed

lemma commit_not_left_out:
  assumes "coherent_off (fst ` set al) d j" and "distinct (map fst changes)" and "map_of changes = into_state j"
    and "\<not> left_out al j a"
  shows "db_view (commit d changes) a = journal_view j a \<and> db_read_storage (commit d changes) a k = journal_slot j a k"
  using assms(4) by (intro commit_view [OF assms(1-3)]) (auto simp: left_out_def split: option.splits)

text \<open>C6: committing a transaction stores its final state. The state that \<open>transact\<close> returns is that
  of a journal that only journal operations led to from the one that the prefetch of the access list left over the database.
  After \<open>transact_commit\<close> the
  database holds, of every account and every storage slot, what that journal holds, but for the accounts that are left
  out: one that the transaction both created and destroyed, and one of the access list that it
  did not modify, stay as the database had them. The code of a contract that it created and did not destroy is stored under its
  hash, unless the database already has code there. All this whatever the iteration order of the hash map is.\<close>

theorem transact_commit_stores:
  assumes "transact h n e = Inr (Inr (e1, rs))" and "iterates order"
  defines "d \<equiv> evm_db e" and "al \<equiv> tx_access_list (tx (evm_env e))"
  shows "\<exists>j e2. (journal_step (keccak256 h))\<^sup>*\<^sup>* (with_prefetch (journal_new d) al) j \<and> res_state rs = into_state j \<and>
    transact_commit h order n e = Inr (Inr (e2, res_result rs)) \<and>
    (\<forall>a k. if left_out al j a
       then db_view (evm_db e2) a = db_view d a \<and> db_read_storage (evm_db e2) a k = db_read_storage d a k
       else db_view (evm_db e2) a = journal_view j a \<and> db_read_storage (evm_db e2) a k = journal_slot j a k) \<and>
    (\<forall>a acc. j_accounts j a = Some acc \<and> contains (j_status acc) Created \<and> \<not> contains (j_status acc) SelfDestructed \<and>
       j_has_code acc \<longrightarrow>
       db_contracts (evm_db e2) (j_bytecode_hash acc) =
         (case db_contracts d (j_bytecode_hash acc) of Some c \<Rightarrow> Some c | None \<Rightarrow> j_contracts j (j_bytecode_hash acc)))"
proof -
  obtain c c' where rs: "rs = get_result c'" and ev: "evolves h c c'" and db: "evm_db e1 = d"
    and j0: "ctx_journal c = with_prefetch (journal_new d) al"
    using transact_context [OF assms(1)] unfolding d_def al_def by blast
  define j where "j = ctx_journal c'"
  have j: "(journal_step (keccak256 h))\<^sup>*\<^sup>* (with_prefetch (journal_new d) al) j" using ev j0 by (simp add: evolves_def j_def)
  have st: "res_state rs = into_state j" by (simp add: rs get_result_def j_def Let_def)
  have "dom (into_state j) = dom (j_accounts j)" by (auto simp: into_state_def)
  then have ord: "distinct (map fst (order (into_state j)))" "map_of (order (into_state j)) = into_state j"
    using assms(2) finite_accounts [OF j] by (auto simp: iterates_def)
  note view = commit_left_out [OF ord] commit_not_left_out [OF coherent_reachable [OF j coherent_prefetch] ord]
  have "transact_commit h order n e = Inr (Inr (e1\<lparr>evm_db := commit d (order (into_state j))\<rparr>, res_result rs))"
    using assms(1) db st by (simp add: transact_commit_def)
  then show ?thesis using j st by (intro exI [of _ j] exI [of _ "e1\<lparr>evm_db := commit d (order (into_state j))\<rparr>"])
      (simp add: view, intro allI impI, elim conjE, rule commit_created_code [OF ord])
qed

theorem transact_commit_stores_witness:
  "\<exists>j e2 r. transact_commit sample_host by_address 1 sample_evm = Inr (Inr (e2, r)) \<and>
     (journal_step (keccak256 sample_host))\<^sup>*\<^sup>* (with_prefetch (journal_new (evm_db sample_evm)) [(7, [])]) j \<and>
     (left_out [(7, [])] j 7 \<longrightarrow> db_view (evm_db e2) 7 = db_view (evm_db sample_evm) 7) \<and>
     (\<forall>a k. \<not> left_out [(7, [])] j a \<longrightarrow> db_read_storage (evm_db e2) a k = journal_slot j a k)"
proof -
  obtain e1 rs where t: "transact sample_host 1 sample_evm = Inr (Inr (e1, rs))" using sample_transact by blast
  have "tx_access_list (tx (evm_env sample_evm)) = [(7, [])]" by (simp add: sample_evm_def)
  then show ?thesis
    using transact_commit_stores [OF t iterates_by_address] by (metis (no_types, lifting))
qed

end
