(* ===== verification/Memory_Spec.thy ===== *)
theory Memory_Spec
  imports Alu_Spec
begin

text \<open>
  Storing to the memory of a contract and loading from it.
\<close>

section \<open>Byte order\<close>

lemma length_word_to_be [simp]: "length (word_to_be (w :: 'a::len word)) = LENGTH('a) div 8"
  by (simp add: word_to_be_def)

lemma word_from_to_be:
  assumes "8 dvd LENGTH('a)"
  shows "word_from_be (word_to_be w) = (w :: 'a::len word)"
proof -
  have "(256 :: nat) ^ (LENGTH('a) div 8) = 2 ^ (8 * (LENGTH('a) div 8))" by (simp add: power_mult)
  then have "(256 :: nat) ^ (LENGTH('a) div 8) = 2 ^ LENGTH('a)" using assms by simp
  then show ?thesis
    using unat_less_pow [of w] by (simp add: word_from_be_def word_to_be_def be_nat_to_be)
qed

lemma word_to_from_be:
  assumes "8 dvd LENGTH('a)" and "length bs = LENGTH('a) div 8"
  shows "word_to_be (word_from_be bs :: 'a::len word) = bs"
proof -
  have "(256 :: nat) ^ (LENGTH('a) div 8) = 2 ^ (8 * (LENGTH('a) div 8))" by (simp add: power_mult)
  then have "(256 :: nat) ^ (LENGTH('a) div 8) = 2 ^ LENGTH('a)" using assms by simp
  then have "be_nat bs < 2 ^ LENGTH('a)" using be_nat_bound [of bs] assms(2) by simp
  then have "unat (word_from_be bs :: 'a word) = be_nat bs" by (simp add: word_from_be_def unat_of_nat)
  then show ?thesis using nat_to_be_be_nat [of bs] assms(2) by (simp add: word_to_be_def)
qed

text \<open>A value is stored with its bytes swapped, in little-endian order: big-endian after all.\<close>

lemma stored_value: "word_to_le (bswap v) = word_to_be (v :: u256)"
  by (simp add: word_to_le_def bswap_def word_to_from_be)

lemma loaded_value: "bswap (word_from_le (word_to_be v)) = (v :: u256)"
proof -
  have "word_from_le (word_to_be v) = (word_from_be (rev (word_to_be v)) :: u256)"
    by (simp add: word_from_le_def word_from_be_def le_nat_def)
  then show ?thesis by (simp add: bswap_def word_to_from_be word_from_to_be)
qed


section \<open>Storing and loading\<close>

lemma extend_next:
  assumes "extend_memory_block h m r fixed k = Inr (m1, Next)"
  obtains m' n where "k m' = Inr (m1, Next)" and "\<not> memory_size m' < round_up_32 r"
    and "m_memory m' = m_memory m @ replicate n 0"
proof (cases "memory_size m < round_up_32 r")
  case True
  let ?x = "extend_memory h (m_ctx m) (round_up_32 r)"
  let ?g = "gas_counter m - (compute_memory_cost (round_up_32 r) - compute_memory_cost (memory_size m) + fixed)"
  let ?m = "m\<lparr>gas_counter := ?g, m_ctx := fst ?x, memory_size := round_up_32 r, memory_ptr := snd ?x\<rparr>"
  have "k ?m = Inr (m1, Next)"
    using assms True by (auto simp: extend_memory_block_def consume_gas_as_value_def Let_def split_beta split: if_splits)
  moreover have "\<exists>n. m_memory ?m = m_memory m @ replicate n 0"
    by (auto simp: extend_memory_def Let_def intro: exI [of _ 0])
  ultimately show ?thesis using that [of ?m] by auto
next
  case False
  then show ?thesis
    using assms that [of "m\<lparr>gas_counter := gas_counter m - fixed\<rparr>" 0]
    by (auto simp: extend_memory_block_def consume_gas_def Let_def split: if_splits)
qed

lemma mstore_effect:
  assumes "stack_ok m" and "stack_view m = off # v # rest" and "codegen_mstore h m = Inr (m1, Next)"
  defines "o32 \<equiv> ucast off :: u32"
  shows "\<not> memory_size m1 < round_up_32 (o32 + 32)" "in_memory m1 o32 32"
    "\<exists>M n. M = m_memory m @ replicate n 0 \<and> unat o32 + 32 \<le> length M \<and>
       m_memory m1 = take (unat o32) M @ word_to_be v @ drop (unat o32 + 32) M"
proof -
  obtain m2 where p: "stack_pop m = Inr (m2, off)" "stack_view m2 = v # rest" "frame m2 = frame m" "stack_ok m2"
    using stack.pop_Cons [OF assms(1,2)] by blast
  obtain m3 where q: "stack_pop m2 = Inr (m3, v)" "frame m3 = frame m2" using stack.pop_Cons [OF p(4,2)] by blast
  have c: "m_ctx m3 = m_ctx m" using arg_cong [OF q(2), of m_ctx] arg_cong [OF p(3), of m_ctx] by (simp add: frame_def)
  have "at_least 2 m" using assms(2) length_stack_view [of m] by (simp add: check_stack_has_at_least_def)
  then have "extend_memory_block h m3 (o32 + 32) gas_MSTORE (\<lambda>m.
      and_then (memory_write m o32 (word_to_le (bswap v))) (\<lambda>m. Inr (m, Next))) = Inr (m1, Next)"
    using assms(3) p(1) q(1) by (simp add: codegen_mstore_def pop_def o32_def Let_def)
  then obtain m' n where w: "memory_write m' o32 (word_to_be v) = Inr m1"
    and sz: "\<not> memory_size m' < round_up_32 (o32 + 32)" and mem: "m_memory m' = m_memory m3 @ replicate n 0"
    by (rule extend_next) (auto simp: stored_value result_simps)
  have ne: "word_to_be v \<noteq> []" using length_word_to_be [of v] by (auto simp del: length_word_to_be)
  define M where "M = m_memory m @ replicate n 0"
  have M: "m_memory m' = M" using mem c by (simp add: M_def)
  then have "m1 = m'\<lparr>m_ctx := map_inner (\<lambda>ic. ic\<lparr>memory := take (unat o32) M @ word_to_be v @ drop (unat o32 + 32) M\<rparr>) (m_ctx m')\<rparr>"
    and i: "memory_ptr m' = Some (length M)" "0 \<le> sint o32" "unat o32 + 32 \<le> length M"
    using w ne by (auto simp: memory_write_def in_memory_def split: if_splits)
  then show "\<not> memory_size m1 < round_up_32 (o32 + 32)" "in_memory m1 o32 32"
    "\<exists>M n. M = m_memory m @ replicate n 0 \<and> unat o32 + 32 \<le> length M \<and>
       m_memory m1 = take (unat o32) M @ word_to_be v @ drop (unat o32 + 32) M"
    using sz M_def by (auto simp: in_memory_def)
qed

text \<open>C14: what \<open>MSTORE\<close> writes \<open>MLOAD\<close> reads. After a store has gone through, a load from the same offset, with any stack
  and any gas that pays for it, pushes the stored value for three gas and changes nothing
  else; the store itself changed no byte of the memory outside the 32 bytes at the offset.\<close>

theorem mstore_mload:
  assumes "stack_ok m" and "stack_view m = off # v # rest" and "codegen_mstore h m = Inr (m1, Next)"
    and "frame m2 = (frame m1)\<lparr>gas_counter := gas_counter m2\<rparr>" and "stack_ok m2" and "stack_view m2 = off' # rest'"
    and "(ucast off' :: u32) = ucast off" and "affordable m2 3"
  shows "pushed m2 3 v rest' (codegen_mload h m2) \<and>
    (\<forall>i < length (m_memory m). \<not> (unat (ucast off :: u32) \<le> i \<and> i < unat (ucast off :: u32) + 32) \<longrightarrow>
       m_memory m1 ! i = m_memory m ! i)"
proof -
  let ?o = "ucast off :: u32"
  note eff = mstore_effect [OF assms(1-3)]
  obtain M n where M: "M = m_memory m @ replicate n 0" "unat ?o + 32 \<le> length M"
    "m_memory m1 = take (unat ?o) M @ word_to_be v @ drop (unat ?o + 32) M"
    using eff(3) by blast
  have "m_memory m1 ! i = m_memory m ! i"
    if "i < length (m_memory m)" "\<not> (unat ?o \<le> i \<and> i < unat ?o + 32)" for i
    using that M(2) unfolding M(3) by (auto simp: nth_append M(1) min_def)
  moreover obtain m3 where p: "stack_pop m2 = Inr (m3, off')" "stack_view m3 = rest'" "frame m3 = frame m2" "stack_ok m3"
    using stack.pop_Cons [OF assms(5,6)] by blast
  have f: "frame m3 = (frame m1)\<lparr>gas_counter := gas_counter m2\<rparr>" using p(3) assms(4) by simp
  have m3: "memory_size m3 = memory_size m1" "memory_ptr m3 = memory_ptr m1" "m_ctx m3 = m_ctx m1" "gas_counter m3 = gas_counter m2"
    using arg_cong [OF f, of memory_size] arg_cong [OF f, of memory_ptr] arg_cong [OF f, of m_ctx] arg_cong [OF f, of gas_counter]
    by (simp_all add: frame_def)
  let ?m = "m3\<lparr>gas_counter := gas_counter m2 - 3\<rparr>"
  have flag: "sint (3 :: u64) \<le> sint (gas_counter m2)"
    using assms(8) gas_covers [of 3 "gas_counter m2"] by (simp add: affordable_def)
  have "memory_read ?m ?o 32 = Inr (word_to_be v)"
    using eff(2) m3 M(2) by (simp add: memory_read_def in_memory_def M(3))
  then have "codegen_mload h m2 = push_next ?m v"
    using p(1) eff(1) m3 flag assms(6,7) length_stack_view [of m2]
    by (simp add: codegen_mload_def check_stack_has_at_least_def pop_def extend_memory_block_def consume_gas_def
        Let_def gas_consts loaded_value)
  moreover have "pushed m2 3 v rest' (push_next ?m v)"
    using push_next_room [of ?m m2 3 v] p length_stack_view [of m2] assms(5,6)
    by (simp add: stack_ok_def)
  ultimately show ?thesis by simp
qed

theorem mstore_mload_witness:
  "\<exists>m1. codegen_mstore sample_host (sample_machine 1000 [0, 7]) = Inr (m1, Next) \<and>
     pushed (m1\<lparr>stack_cells := (\<lambda>_. 0), stack_ptr := 1\<rparr>) 3 7 []
       (codegen_mload sample_host (m1\<lparr>stack_cells := (\<lambda>_. 0), stack_ptr := 1\<rparr>))"
proof -
  let ?m = "sample_machine 1000 [0, 7]"
  have cells: "stack_cells ?m 1 = 0" "stack_cells ?m 0 = 7" by (simp_all add: sample_machine_def)
  have cost: "compute_memory_cost 32 = 3" "compute_memory_cost 0 = 0" "round_up_32 32 = 32"
    by (simp_all add: compute_memory_cost_def round_up_32_def Let_def)
  have ctx: "memory (ctx_inner sample_ctx) = []"
    by (simp add: sample_ctx_def syscall_context_new_def inner_context_default_def)
  have ne: "word_to_be (7 :: u256) \<noteq> []" using length_word_to_be [of "7 :: u256"] by (auto simp del: length_word_to_be)
  obtain m1 where m1: "codegen_mstore sample_host ?m = Inr (m1, Next)" "gas_counter m1 = 994"
    using cells cost ctx ne
    by (auto simp: codegen_mstore_def check_stack_has_at_least_def pop_def stack_pop_def MAX_STACK_SIZE_def
        extend_memory_block_def consume_gas_as_value_def extend_memory_def sample_host_def Let_def gas_consts
        memory_write_def in_memory_def stored_value)
  let ?m2 = "m1\<lparr>stack_cells := (\<lambda>_. 0), stack_ptr := 1\<rparr>"
  have "frame ?m2 = (frame m1)\<lparr>gas_counter := gas_counter ?m2\<rparr>" by (simp add: frame_def)
  moreover have "stack_view ?m2 = [0]" "stack_ok ?m2" "affordable ?m2 3"
    using m1(2) by (simp_all add: stack_view_def stack_ok_def MAX_STACK_SIZE_def affordable_def)
  ultimately have "pushed ?m2 3 7 [] (codegen_mload sample_host ?m2)"
    using mstore_mload [OF sample_machine_ok sample_machine_view m1(1), of ?m2 0 "[]"] by simp
  then show ?thesis using m1(1) by blast
qed

end
