(* ===== verification/Env_Spec.thy ===== *)
theory Env_Spec
  imports Memory_Spec
begin

text \<open>
  A table of what the EVM says of the operations that push a value of the transaction, the block, the
  machine or the call data, and of exponentiation; the code refines it.
\<close>

section \<open>The table\<close>

abbreviation m_env :: "mstate \<Rightarrow> env" where
  "m_env m \<equiv> ctx_env (m_ctx m)"

text \<open>The 32 bytes of the call data from an offset on, with zeros after its end.\<close>

definition calldata_word :: "bytes \<Rightarrow> nat \<Rightarrow> u256" where
  "calldata_word data off = word_from_be (map (\<lambda>i. if i < length data then data ! i else 0) [off..<off + 32])"

text \<open>The operation, the number of its operands, its price and the value it pushes.\<close>

definition env_table :: "program \<Rightarrow> nat \<Rightarrow> (operation \<times> nat \<times> nat \<times> (mstate \<Rightarrow> u256 list \<Rightarrow> u256)) list" where
  "env_table p pc =
    [(Origin, 0, 2, \<lambda>m _. ucast (tx_caller (tx (m_env m)))),
     (Caller, 0, 2, \<lambda>m _. ucast (caller (ctx_frame (m_ctx m)))),
     (Callvalue, 0, 2, \<lambda>m _. tx_value (tx (m_env m))),
     (Gasprice, 0, 2, \<lambda>m _. gas_price (tx (m_env m))),
     (Coinbase, 0, 2, \<lambda>m _. ucast (coinbase (block (m_env m)))),
     (Timestamp, 0, 2, \<lambda>m _. timestamp (block (m_env m))),
     (Number, 0, 2, \<lambda>m _. number (block (m_env m))),
     (Prevrandao, 0, 2, \<lambda>m _. case prevrandao (block (m_env m)) of Some r \<Rightarrow> r | None \<Rightarrow> 0),
     (Basefee, 0, 2, \<lambda>m _. basefee (block (m_env m))),
     (BlobBaseFee, 0, 2, \<lambda>m _. case blob_gasprice (block (m_env m)) of Some r \<Rightarrow> ucast r | None \<Rightarrow> 0),
     (Chainid, 0, 2, \<lambda>m _. ucast (chain_id (cfg (m_env m)))),
     (CallDataSize, 0, 2, \<lambda>m _. of_nat (length (m_calldata m))),
     (ReturnDataSize, 0, 2, \<lambda>m _. of_nat (length (last_call_return_data (ctx_frame (m_ctx m))))),
     (Codesize, 0, 2, \<lambda>_ _. ucast (code_size p)),
     (PC pc, 0, 2, \<lambda>_ _. of_nat pc),
     (Msize, 0, 2, \<lambda>m _. ucast (memory_size m)),
     (Gas, 0, 2, \<lambda>m _. ucast (gas_counter m - 2)),
     (BlobHash, 1, 3, \<lambda>m s. let hs = blob_hashes (tx (m_env m))
        in if unat (s ! 0) < length hs then hs ! unat (s ! 0) else 0),
     (Tload, 1, 100, \<lambda>m s. case transient_storage (m_ctx m) (get_address (tx (m_env m)), s ! 0) of
        Some v \<Rightarrow> v | None \<Rightarrow> 0),
     (CalldataLoad, 1, 3, \<lambda>m s. calldata_word (m_calldata m) (unat (s ! 0)))]"

text \<open>Two operations of the kind are not in the table, because the code pushes something else: \<open>GASLIMIT\<close> pushes the gas limit
  of the transaction, not that of the block, and \<open>ADDRESS\<close> the bytes that a dangling pointer to the address reads.\<close>

definition off_table :: "host \<Rightarrow> (operation \<times> nat \<times> nat \<times> (mstate \<Rightarrow> u256 list \<Rightarrow> u256)) list" where
  "off_table h =
    [(Gaslimit, 0, 2, \<lambda>m _. ucast (gas_limit (tx (m_env m)))),
     (Address, 0, 2, \<lambda>m _. ucast (bswap (word_from_le (stale_bytes h (word_to_be (get_address (tx (m_env m))))) :: address)))]"

text \<open>What the code relies on: lengths and positions that fit their registers, and the size of the call data that the setup
  block stored.\<close>

definition env_regular :: "operation \<Rightarrow> mstate \<Rightarrow> bool" where
  "env_regular op m \<longleftrightarrow>
     (\<forall>pc. op = PC pc \<longrightarrow> pc < 2 ^ 63) \<and>
     (op = CallDataSize \<or> op = CalldataLoad \<longrightarrow> length (m_calldata m) < 2 ^ 32) \<and>
     (op = CalldataLoad \<longrightarrow> calldata_size m = get_calldata_size_syscall (m_ctx m)) \<and>
     (op = ReturnDataSize \<longrightarrow> length (last_call_return_data (ctx_frame (m_ctx m))) < 2 ^ 32) \<and>
     (op = BlobHash \<longrightarrow> length (blob_hashes (tx (m_env m))) < 2 ^ 64)"

text \<open>Room for the pushed value, or the operand.\<close>

definition env_operands :: "nat \<Rightarrow> mstate \<Rightarrow> bool" where
  "env_operands n m \<longleftrightarrow> (if n = 0 then stack_ptr m < MAX_STACK_SIZE else n \<le> stack_ptr m)"

section \<open>Block shapes\<close>

lemma push_op_pushes:
  assumes "affordable m cost" and "stack_ok m" and "stack_ptr m < MAX_STACK_SIZE"
    and "v (charged m cost) = x"
  shows "pushed m cost x (stack_view m) (push_op cost v m)"
proof -
  have "push_op cost v m = push_next (charged m cost) x"
    using assms by (simp add: push_op_def guarded_ok check_stack_has_space_for_def)
  then show ?thesis
    using push_next_room [of "charged m cost" m cost x] assms(2,3) length_stack_view [of m] by simp
qed

lemma frame_keeps:
  assumes "frame m' = frame m"
  shows "m_ctx m' = m_ctx m" "calldata_size m' = calldata_size m" "memory_size m' = memory_size m"
  using arg_cong [OF assms, of m_ctx] arg_cong [OF assms, of calldata_size] arg_cong [OF assms, of memory_size]
  by (simp_all add: frame_def)

lemma pop_push_ok:
  assumes "affordable m cost" and "stack_ok m" and "stack_view m = a # rest"
    and "\<And>m'. frame m' = frame (charged m cost) \<Longrightarrow> stack_view m' = rest \<Longrightarrow> stack_ok m' \<Longrightarrow>
      \<exists>m''. k a m' = push_next m'' x \<and> frame m'' = frame m' \<and> stack_view m'' = rest \<and> stack_ok m''"
  shows "pushed m cost x rest (guarded cost (at_least 1) (\<lambda>m. pop m k) m)"
proof -
  have "at_least 1 m" using assms(3) length_stack_view [of m] by (simp add: check_stack_has_at_least_def)
  then have g: "guarded cost (at_least 1) (\<lambda>m. pop m k) m = pop (charged m cost) k"
    using assms(1) by (simp add: guarded_ok)
  obtain m' where m': "stack_pop (charged m cost) = Inr (m', a)" "stack_view m' = rest"
    "frame m' = frame (charged m cost)" "stack_ok m'"
    using stack.pop_Cons [of "charged m cost" a rest] assms(2,3) by auto
  obtain m'' where "k a m' = push_next m'' x" "frame m'' = frame m'" "stack_view m'' = rest" "stack_ok m''"
    using assms(4) m' by blast
  moreover have "length rest < MAX_STACK_SIZE"
    using assms(2,3) length_stack_view [of m] by (simp add: stack_ok_def)
  ultimately show ?thesis
    using push_next_room [of m'' m cost x] m' g by (simp add: pop_def)
qed

lemma pop_push_value:
  assumes "affordable m cost" and "stack_ok m" and "stack_view m = a # rest"
    and "\<And>m'. m_ctx m' = m_ctx m \<Longrightarrow> k a m' = push_next m' x"
  shows "pushed m cost x rest (guarded cost (at_least 1) (\<lambda>m. pop m k) m)"
proof (rule pop_push_ok [OF assms(1-3)])
  fix m' assume m': "frame m' = frame (charged m cost)" "stack_view m' = rest" "stack_ok m'"
  then have "k a m' = push_next m' x" using assms(4) frame_keeps(1) [OF m'(1)] by simp
  then show "\<exists>m''. k a m' = push_next m'' x \<and> frame m'' = frame m' \<and> stack_view m'' = rest \<and> stack_ok m''"
    using m' by blast
qed

section \<open>The values\<close>

lemma word_from_to_be_swapped: "bswap (word_from_le (word_to_be v)) = (v :: address)"
proof -
  have "word_from_le (word_to_be v) = (word_from_be (rev (word_to_be v)) :: address)"
    by (simp add: word_from_le_def word_from_be_def le_nat_def)
  then show ?thesis by (simp add: bswap_def word_to_from_be word_from_to_be)
qed

lemma size_fits: "n < 2 ^ 32 \<Longrightarrow> (ucast (of_nat n :: u32) :: u256) = of_nat n"
  by (simp add: unsigned_of_nat take_bit_nat_eq_self)

lemma position_fits: "pc < 2 ^ 63 \<Longrightarrow> (of_int (sint (of_nat pc :: u64)) :: u256) = of_nat pc"
  by (simp add: sint_unat unat_of_nat)

lemma env_push_ok:
  assumes "(op, 0, cost, f) \<in> set (env_table p pc @ off_table h)" and "stack_ok m" and "stack_ptr m < MAX_STACK_SIZE"
    and "env_regular op m" and "affordable m (of_nat cost)"
  shows "pushed m (of_nat cost) (f m []) (stack_view m) (generate_code_for_op h exec p op m)"
proof -
  note push = push_op_pushes [OF _ assms(2,3)]
  have size: "codegen_calldatasize m = push_next (charged m 2) (of_nat (length (m_calldata m)))"
    if "length (m_calldata m) < 2 ^ 32" "affordable m 2"
    using that gas_covers [of 2 "gas_counter m"]
    by (simp add: codegen_calldatasize_def consume_gas_def affordable_def gas_consts get_calldata_size_syscall_def
        size_fits)
  have pushed2: "pushed m 2 v (stack_view m) (push_next (charged m 2) v)" for v
    using push_next_room [of "charged m 2" m 2 v] assms(2,3) length_stack_view [of m] by simp
  note simps = get_origin_def store_in_caller_ptr_def store_in_callvalue_ptr_def store_in_gasprice_ptr_def
    get_coinbase_ptr_def store_in_timestamp_ptr_def get_block_number_def get_prevrandao_def store_in_basefee_ptr_def
    store_in_blobbasefee_ptr_def get_chainid_def get_gaslimit_def get_return_data_size_def get_remaining_gas_def
    get_address_ptr_def copy_from_eq from_fixed_be_bytes_word word_from_to_be_swapped size_fits
    position_fits [simplified]
  show ?thesis
    by (insert assms(1,4,5), unfold env_table_def off_table_def append.simps list.set insert_iff prod.inject empty_iff,
        elim disjE conjE FalseE;
        simp add: env_regular_def size pushed2 shape_defs gas_consts;
        rule push; simp add: simps split: option.split)
qed

section \<open>Looked up values\<close>

lemma blobhash_value:
  assumes "length (blob_hashes (tx (ctx_env c))) < 2 ^ 64"
  shows "to_primitive_u256 (get_blob_hash_at_index c (halves i)) =
    (let hs = blob_hashes (tx (ctx_env c)) in if unat i < length hs then hs ! unat i else 0)"
proof -
  let ?hs = "blob_hashes (tx (ctx_env c))"
  have h: "hi (halves i) = 0 \<longleftrightarrow> unat i < 2 ^ 128"
    using unat_halves(2) [of i] by (simp add: unat_eq_0 [symmetric] div_eq_0_iff)
  have z: "to_primitive_u256 sysu256_zero = 0" by (simp add: to_primitive_u256_def sysu256_zero_def)
  show ?thesis
  proof (cases "unat i < length ?hs")
    case True
    then have l: "unat i < 2 ^ 64" using assms by simp
    then have "unat (lo (halves i)) = unat i" by (simp add: unat_halves)
    moreover have "hi (halves i) = 0" using h l by simp
    ultimately show ?thesis using True l by (simp add: get_blob_hash_at_index_def from_fixed_be_bytes_word)
  next
    case False
    have "to_primitive_u256 (get_blob_hash_at_index c (halves i)) = 0"
    proof (cases "hi (halves i) = 0")
      case True
      then have "unat (lo (halves i)) = unat i" using h by (simp add: unat_halves)
      then show ?thesis using True False by (simp add: get_blob_hash_at_index_def Let_def z)
    qed (simp add: get_blob_hash_at_index_def z)
    then show ?thesis using False by (simp add: Let_def)
  qed
qed

lemma calldata_padded:
  fixes off :: nat
  assumes "off < length data"
  defines "len \<equiv> min (length data - off) 32"
  shows "take len (drop off data) @ replicate (32 - len) 0 = map (\<lambda>i. if i < length data then data ! i else 0) [off..<off + 32]"
proof (rule nth_equalityI)
  show "length (take len (drop off data) @ replicate (32 - len) 0) =
      length (map (\<lambda>i. if i < length data then data ! i else 0) [off..<off + 32])"
    by (simp add: len_def)
  fix i assume "i < length (take len (drop off data) @ replicate (32 - len) 0)"
  then show "(take len (drop off data) @ replicate (32 - len) 0) ! i =
      map (\<lambda>i. if i < length data then data ! i else 0) [off..<off + 32] ! i"
    using assms(1) by (auto simp: len_def nth_append)
qed

lemma calldata_word_past: "length data \<le> off \<Longrightarrow> calldata_word data off = 0"
proof -
  assume "length data \<le> off"
  then have "map (\<lambda>i. if i < length data then data ! i else 0) [off..<off + 32] = replicate 32 (0 :: u8)"
    by (intro nth_equalityI) auto
  then show ?thesis by (simp only: calldata_word_def word_from_be_def be_nat_replicate_0) simp
qed

lemma bswap_from_le:
  assumes "length bs = 32"
  shows "bswap (word_from_le bs) = (word_from_be bs :: u256)"
  using loaded_value [of "word_from_be bs"] assms by (simp add: word_to_from_be)

text \<open>The cell above the top is scratch space.\<close>

lemma scratch_cell:
  "stack_view (m\<lparr>stack_cells := (stack_cells m)(stack_ptr m := w)\<rparr>) = stack_view m"
  "frame (m\<lparr>stack_cells := cells\<rparr>) = frame m" "stack_ok (m\<lparr>stack_cells := cells\<rparr>) = stack_ok m"
  by (simp_all add: stack_view_def frame_def stack_ok_def)

lemma calldata_slice:
  assumes "off < (of_nat (length data) :: u256)" and "length data < 2 ^ 32"
  defines "len \<equiv> min (of_nat (length data) - off) 32"
  shows "nat (sint off) = unat off" "0 \<le> sint off" "unat len = min (length data - unat off) 32"
    "unat off < length data"
proof -
  have u: "unat (of_nat (length data) :: u256) = length data"
    using assms(2) by (simp add: unat_of_nat take_bit_nat_eq_self)
  show lt: "unat off < length data" using assms(1) u by (simp add: word_less_nat_alt)
  then have "unat off < 2 ^ 255" using assms(2) by simp
  then show "nat (sint off) = unat off" "0 \<le> sint off" by (simp_all add: sint_unat)
  have "unat (of_nat (length data) - off) = length data - unat off"
    using lt u by (simp add: unat_sub word_le_nat_alt)
  then show "unat len = min (length data - unat off) 32"
    by (simp add: len_def min_def word_le_nat_alt)
qed

lemma calldataload_ok:
  assumes "affordable m 3" and "stack_ok m" and "stack_view m = off # rest"
    and "length (m_calldata m) < 2 ^ 32" and "calldata_size m = get_calldata_size_syscall (m_ctx m)"
  shows "pushed m 3 (calldata_word (m_calldata m) (unat off)) rest (codegen_calldataload m)"
  unfolding codegen_calldataload_def gas_consts
proof (rule pop_push_ok [OF assms(1-3)])
  fix m' assume m': "frame m' = frame (charged m 3)" "stack_view m' = rest" "stack_ok m'"
  let ?data = "m_calldata m"
  have ctx: "m_ctx m' = m_ctx m" "calldata_size m' = calldata_size m" using frame_keeps [OF m'(1)] by simp_all
  have room: "stack_ptr m' < MAX_STACK_SIZE"
    using assms(2,3) m'(2) length_stack_view [of m] length_stack_view [of m'] by (simp add: stack_ok_def)
  have sz: "ucast (calldata_size m') = (of_nat (length ?data) :: u256)"
    using assms(4,5) ctx by (simp add: get_calldata_size_syscall_def size_fits)
  let ?k = "\<lambda>off m. let size_u256 = ucast (calldata_size m)
     in if off < size_u256
        then and_then (store_cell m (stack_ptr m) 0) (\<lambda>m.
             let len = min (size_u256 - off) 32
             in and_then (calldata_read m (sint off) (unat len)) (\<lambda>bs.
                and_then (store_cell m (stack_ptr m) (word_from_le (bs @ replicate (32 - length bs) 0))) (\<lambda>m.
                pop (inc_stack_pointer m) (\<lambda>calldata_slice m. push_next m (bswap calldata_slice)))))
        else push_next m 0"
  show "\<exists>m''. ?k off m' = push_next m'' (calldata_word ?data (unat off)) \<and> frame m'' = frame m' \<and>
      stack_view m'' = rest \<and> stack_ok m''"
  proof (cases "off < of_nat (length ?data)")
    case True
    note sl = calldata_slice [OF True assms(4)]
    define bs where "bs = take (min (length ?data - unat off) 32) (drop (unat off) ?data)"
    have len: "length bs = min (length ?data - unat off) 32" "bs \<noteq> []" using sl(4) by (auto simp: bs_def)
    let ?w = "word_from_le (bs @ replicate (32 - length bs) 0) :: u256"
    let ?m = "m'\<lparr>stack_cells := (stack_cells m')(stack_ptr m' := ?w)\<rparr>"
    have read: "calldata_read (m'\<lparr>stack_cells := cells\<rparr>) (sint off) (unat (min (of_nat (length ?data) - off) 32)) = Inr bs" for cells
      using sl ctx by (auto simp: calldata_read_def bs_def)
    have "bswap ?w = calldata_word ?data (unat off)"
      using calldata_padded [OF sl(4)] len(1) bswap_from_le [of "bs @ replicate (32 - length bs) 0"]
      by (simp add: calldata_word_def bs_def)
    then have "?k off m' = push_next ?m (calldata_word ?data (unat off))"
      using True room sz by (simp add: store_cell_def read pop_def stack_pop_def inc_stack_pointer_def)
    then show ?thesis using m' by (intro exI [of _ ?m]) (simp add: scratch_cell)
  next
    case False
    then have "length ?data \<le> unat off"
      using assms(4) by (simp add: word_less_nat_alt unat_of_nat take_bit_nat_eq_self)
    then have "?k off m' = push_next m' (calldata_word ?data (unat off))"
      using False sz by (simp add: calldata_word_past)
    then show ?thesis using m' by blast
  qed
qed

lemma env_lookup_ok:
  assumes "(op, 1, cost, f) \<in> set (env_table p pc)" and "stack_ok m" and "stack_view m = a # rest"
    and "env_regular op m" and "affordable m (of_nat cost)"
  shows "pushed m (of_nat cost) (f m [a]) rest (generate_code_for_op h exec p op m)"
proof -
  have blobhash: "pushed m 3 (let hs = blob_hashes (tx (m_env m)) in if unat a < length hs then hs ! unat a else 0) rest
      (codegen_blobhash m)"
    if "affordable m 3" "length (blob_hashes (tx (m_env m))) < 2 ^ 64"
    unfolding codegen_blobhash_def gas_consts
    by (rule pop_push_value [OF that(1) assms(2,3)]) (simp only: blobhash_value [OF that(2)])
  have tload: "pushed m 100 (case transient_storage (m_ctx m) (this_address (m_ctx m), a) of Some v \<Rightarrow> v | None \<Rightarrow> 0) rest
      (codegen_tload m)"
    if "affordable m 100"
    unfolding codegen_tload_def gas_consts
    by (rule pop_push_value [OF that assms(2,3)]) (simp add: read_transient_storage_def)
  note entries = blobhash tload calldataload_ok [OF _ assms(2,3)]
  show ?thesis
    by (insert assms(1,4,5), unfold env_table_def list.set insert_iff prod.inject empty_iff, elim disjE conjE FalseE;
        simp add: env_regular_def entries del: One_nat_def cong: if_cong)
qed

lemma env_entry_fails:
  assumes "(op, n, cost, f) \<in> set (env_table p pc @ off_table h)" and "op \<noteq> CallDataSize"
    and "\<not> env_operands n m \<or> unat (gas_counter m) < cost"
  shows "generate_code_for_op h exec p op m = revert (charged m (of_nat cost))"
proof -
  have c: "cost \<le> 100" using assms(1) by (auto simp: env_table_def off_table_def)
  then have u: "unat (of_nat cost :: u64) = cost" by (simp add: unat_of_nat take_bit_nat_eq_self_iff)
  have "\<exists>k. generate_code_for_op h exec p op = guarded (of_nat cost) (if n = 0 then space_for 1 else at_least n) k"
    by (insert assms(1,2), unfold env_table_def off_table_def append.simps list.set insert_iff prod.inject empty_iff, elim disjE conjE FalseE;
        simp add: shape_defs codegen_blobhash_def codegen_tload_def codegen_calldataload_def push_op_def gas_consts
          del: One_nat_def; blast)
  then obtain k where k: "generate_code_for_op h exec p op = guarded (of_nat cost) (if n = 0 then space_for 1 else at_least n) k"
    by blast
  show ?thesis unfolding k using assms(3) c u
    by (intro guarded_fails) (auto simp: env_operands_def check_stack_has_at_least_def check_stack_has_space_for_def)
qed

text \<open>C16: the operations of \<open>env_table\<close>, which push a value of the transaction, the block, the machine, the transient storage or
  the call data without going through the journal (as \<open>BLOCKHASH\<close>, \<open>BALANCE\<close> and \<open>SELFBALANCE\<close> do), do
  what this table of the EVM says: with enough gas, the operand and room on the stack they push the value of the
  table, charge the price of the table and change nothing else; without them they branch to the revert block. The
  exception is \<open>CALLDATASIZE\<close>, which does not ask for room. What the code relies on is in \<open>env_regular\<close>. The same holds of
  \<open>GASLIMIT\<close> and \<open>ADDRESS\<close> with what the code pushes for them in \<open>off_table\<close>: the gas limit of the transaction, and
  the bytes behind a dangling pointer, of which nothing is assumed.\<close>

theorem env_refines:
  assumes "(op, n, cost, f) \<in> set (env_table p pc @ off_table h)" and "stack_ok m"
  shows "(length s = n \<and> stack_view m = s @ rest \<and> env_operands n m \<and> env_regular op m \<and>
          cost \<le> unat (gas_counter m) \<and> unat (gas_counter m) < 2 ^ 63 \<longrightarrow>
            pushed m (of_nat cost) (f m s) rest (generate_code_for_op h exec p op m)) \<and>
         (op \<noteq> CallDataSize \<and> (\<not> env_operands n m \<or> unat (gas_counter m) < cost) \<longrightarrow>
            generate_code_for_op h exec p op m = revert (charged m (of_nat cost)))"
proof (intro conjI impI)
  assume a: "length s = n \<and> stack_view m = s @ rest \<and> env_operands n m \<and> env_regular op m \<and>
    cost \<le> unat (gas_counter m) \<and> unat (gas_counter m) < 2 ^ 63"
  then have aff: "affordable m (of_nat cost)" by (simp add: cost_affordable)
  have "n = 0 \<or> n = 1" using assms(1) by (auto simp: env_table_def off_table_def)
  then show "pushed m (of_nat cost) (f m s) rest (generate_code_for_op h exec p op m)"
  proof
    assume "n = 0"
    then show ?thesis using a env_push_ok [of op cost f p pc h m exec] assms aff by (auto simp: env_operands_def)
  next
    assume "n = 1"
    then obtain x where "s = [x]" using a by (auto simp: length_Suc_conv)
    moreover have "(op, n, cost, f) \<in> set (env_table p pc)" using assms(1) \<open>n = 1\<close> by (auto simp: off_table_def)
    ultimately show ?thesis using a env_lookup_ok [of op cost f p pc m x rest h exec] assms aff \<open>n = 1\<close> by simp
  qed
next
  assume "op \<noteq> CallDataSize \<and> (\<not> env_operands n m \<or> unat (gas_counter m) < cost)"
  then show "generate_code_for_op h exec p op m = revert (charged m (of_nat cost))"
    using env_entry_fails [OF assms(1)] by blast
qed

theorem env_refines_witness:
  "pushed (sample_machine 100 [5, 9]) 3 0 [9] (codegen_calldataload (sample_machine 100 [5, 9]))"
proof -
  let ?m = "sample_machine 100 [5, 9]"
  have mem: "(CalldataLoad, 1, 3, \<lambda>m s. calldata_word (m_calldata m) (unat (s ! 0))) \<in>
      set (env_table (program_from []) 0 @ off_table sample_host)"
    by (simp add: env_table_def)
  have data: "m_calldata ?m = []"
    by (simp add: sample_ctx_def syscall_context_new_def env_default_def tx_env_default_def)
  then have "env_regular CalldataLoad ?m"
    by (simp add: env_regular_def sample_machine_def setup_code_eq)
  then have "pushed ?m (of_nat 3) (calldata_word (m_calldata ?m) 5) [9]
      (generate_code_for_op sample_host (\<lambda>_ c _. Inr c) (program_from []) CalldataLoad ?m)"
    using env_refines [OF mem sample_machine_ok, of "[5, 9]" "[5]" 100 "[9]" "\<lambda>_ c _. Inr c"]
    by (simp add: sample_machine_view env_operands_def)
  then show ?thesis using data by (simp add: calldata_word_past)
qed

section \<open>Exponentiation\<close>

lemma ctlz_bits: "256 - ctlz w = of_nat (bit_count (unat w))"
proof -
  define n where "n = bit_count (unat w)"
  have "unat w < 2 ^ 256" using unat_less_pow [of w] by simp
  then have n: "n \<le> 256" unfolding n_def by (rule bit_count_le)
  have bits: "bit w i = odd (unat w div 2 ^ i)" for i by (simp add: bit_unsigned_iff flip: bit_iff_odd)
  have high: "\<not> bit w i" if "n \<le> i" for i
  proof -
    have "unat w < 2 ^ i" using less_le_trans [OF bit_count_upper [of "unat w"] power_increasing [OF that [unfolded n_def], of 2]] by simp
    then show ?thesis by (simp add: bits)
  qed
  have top: "bit w (n - 1)" if "0 < n"
  proof -
    have w: "0 < unat w" using that by (auto simp: n_def bit_count.simps [of 0] intro: ccontr)
    then have "2 ^ (n - 1) \<le> unat w" "unat w < 2 * 2 ^ (n - 1)"
      using bit_count_lower [OF w] bit_count_upper [of "unat w"] that by (simp_all add: n_def power_eq_if)
    then have "unat w div 2 ^ (n - 1) = 1" by (simp add: div_nat_eqI)
    then show ?thesis by (simp add: bits)
  qed
  have sp: "[0..<256] = [0..<n] @ [n..<256]" using n by (metis le0 le_add_diff_inverse upt_add_eq_append)
  have all: "\<not> x" if "x \<in> set (rev (map (bit w) [n..<256]))" for x using that high by auto
  have "takeWhile (\<lambda>b. \<not> b) (rev (map (bit w) [0..<256])) =
      rev (map (bit w) [n..<256]) @ takeWhile (\<lambda>b. \<not> b) (rev (map (bit w) [0..<n]))"
    unfolding sp map_append rev_append by (rule takeWhile_append2) (rule all)
  moreover have "takeWhile (\<lambda>b. \<not> b) (rev (map (bit w) [0..<n])) = []"
    using top by (cases n) auto
  ultimately have "ctlz w = of_nat (256 - n)" by (simp add: ctlz_def)
  then show ?thesis using n by (simp add: of_nat_diff flip: n_def)
qed

lemma exp_total_gas_bytes: "exp_total_gas e = of_nat (10 + 50 * (LEAST k. unat e < 256 ^ k))"
proof -
  let ?n = "bit_count (unat e)"
  have "unat e < 2 ^ 256" using unat_less_pow [of e] by simp
  then have n: "?n \<le> 256" by (rule bit_count_le)
  have "(of_nat ?n + 7 :: u256) div 8 = of_nat ((?n + 7) div 8)"
    using n by (simp add: word_unat_eq_iff unat_div unat_of_nat take_bit_nat_eq_self unat_word_ariths)
  then have "exp_total_gas e = ucast (of_nat (10 + 50 * ((?n + 7) div 8)) :: u256)"
    by (simp add: exp_total_gas_def ctlz_bits Let_def gas_consts mult.commute)
  also have "\<dots> = of_nat (10 + 50 * ((?n + 7) div 8))"
  proof -
    have "unat (of_nat (10 + 50 * ((?n + 7) div 8)) :: u256) = 10 + 50 * ((?n + 7) div 8)"
      using n by (simp only: unat_of_nat) simp
    then show ?thesis by (metis of_nat_unat)
  qed
  finally show ?thesis by (simp only: byte_count)
qed

definition exp_price :: "u256 \<Rightarrow> nat" where
  "exp_price e = 10 + 50 * (LEAST k. unat e < 256 ^ k)"

lemma exp_total_gas_price: "exp_total_gas e = of_nat (exp_price e)"
  by (simp only: exp_total_gas_bytes exp_price_def)

lemma exp_price_bound: "exp_price e \<le> 1610" "unat (of_nat (exp_price e) :: u64) = exp_price e"
proof -
  have "unat e < 2 ^ 256" using unat_less_pow [of e] by simp
  then have "bit_count (unat e) \<le> 256" by (rule bit_count_le)
  then show "exp_price e \<le> 1610" by (simp add: exp_price_def byte_count)
  then show "unat (of_nat (exp_price e) :: u64) = exp_price e" by (simp add: unat_of_nat take_bit_nat_eq_self)
qed

lemma exp_run:
  assumes "stack_ok m" and "stack_view m = base # e # rest"
  obtains m' where "codegen_exp h m =
      cond_br (sint (of_nat (exp_price e) :: u64) \<le> sint (gas_counter m)) (\<lambda>m. push_next m (ipowi h base e)) m'"
    and "stack_view m' = rest" and "stack_ok m'" and "frame m' = frame (charged m (of_nat (exp_price e)))"
proof -
  obtain m1 m2 where p: "stack_pop m = Inr (m1, base)" "stack_pop m1 = Inr (m2, e)"
    "stack_view m2 = rest" "frame m2 = frame m" "stack_ok m2"
    using stack.pop_pop [OF assms] by auto
  have g: "gas_counter m2 = gas_counter m" using arg_cong [OF p(4), of gas_counter] by (simp add: frame_def)
  have "at_least 2 m" using assms(2) length_stack_view [of m] by (simp add: check_stack_has_at_least_def)
  then have "codegen_exp h m = cond_br (sint (of_nat (exp_price e) :: u64) \<le> sint (gas_counter m))
      (\<lambda>m. push_next m (ipowi h base e)) (charged m2 (of_nat (exp_price e)))"
    using p(1,2) g by (simp add: codegen_exp_def pop_def consume_gas_as_value_def exp_total_gas_price Let_def)
  then show ?thesis using p g by (intro that [of "charged m2 (of_nat (exp_price e))"]) simp_all
qed

text \<open>C17: exponentiation pushes the power modulo \<open>2 ^ 256\<close> for 10 gas and 50 more for each byte of the exponent, when
  the exponent is below \<open>2 ^ 255\<close>: the instruction the code uses reads it as a signed number. With too little gas or
  too few operands it branches to the revert block.\<close>

theorem exp_refines:
  assumes "stack_ok m"
  shows "(stack_view m = base # e # rest \<and> unat e < 2 ^ 255 \<and>
          exp_price e \<le> unat (gas_counter m) \<and> unat (gas_counter m) < 2 ^ 63 \<longrightarrow>
            pushed m (of_nat (exp_price e)) (word_of_int (uint base ^ unat e)) rest (codegen_exp h m)) \<and>
         (stack_view m = base # e # rest \<and> unat (gas_counter m) < exp_price e \<longrightarrow>
            (\<exists>m'. codegen_exp h m = revert m' \<and> frame m' = frame (charged m (of_nat (exp_price e))))) \<and>
         (stack_ptr m < 2 \<longrightarrow> codegen_exp h m = revert m)"
proof (intro conjI impI)
  assume a: "stack_view m = base # e # rest \<and> unat e < 2 ^ 255 \<and>
    exp_price e \<le> unat (gas_counter m) \<and> unat (gas_counter m) < 2 ^ 63"
  then have view: "stack_view m = base # e # rest" by simp
  obtain m' where m': "codegen_exp h m =
      cond_br (sint (of_nat (exp_price e) :: u64) \<le> sint (gas_counter m)) (\<lambda>m. push_next m (ipowi h base e)) m'"
    "stack_view m' = rest" "stack_ok m'" "frame m' = frame (charged m (of_nat (exp_price e)))"
    by (rule exp_run [OF assms view])
  have "0 \<le> sint e" using a by (simp add: sint_unat)
  then have v: "ipowi h base e = word_of_int (uint base ^ unat e)" by (simp add: ipowi_def)
  have "sint (of_nat (exp_price e) :: u64) \<le> sint (gas_counter m)"
    using a gas_covers [of "of_nat (exp_price e)" "gas_counter m"] exp_price_bound [of e] by simp
  then show "pushed m (of_nat (exp_price e)) (word_of_int (uint base ^ unat e)) rest (codegen_exp h m)"
    using m' v view assms length_stack_view [of m]
      push_next_room [of m' m "of_nat (exp_price e)" "word_of_int (uint base ^ unat e)"]
    by (simp add: stack_ok_def)
next
  assume a: "stack_view m = base # e # rest \<and> unat (gas_counter m) < exp_price e"
  then have "\<not> sint (of_nat (exp_price e) :: u64) \<le> sint (gas_counter m)"
    using exp_price_bound [of e] gas_covers [of "of_nat (exp_price e)" "gas_counter m"] by simp
  then show "\<exists>m'. codegen_exp h m = revert m' \<and> frame m' = frame (charged m (of_nat (exp_price e)))"
    using a assms by (elim conjE exp_run [of m base e rest h]) auto
next
  assume "stack_ptr m < 2"
  then show "codegen_exp h m = revert m" by (simp add: codegen_exp_def check_stack_has_at_least_def)
qed

theorem exp_refines_witness:
  "pushed (sample_machine 100 [3, 4]) 60 81 [] (codegen_exp sample_host (sample_machine 100 [3, 4]))"
proof -
  have "exp_price 4 = 60" by (simp add: exp_price_def byte_count bit_count.simps)
  then show ?thesis
    using exp_refines [OF sample_machine_ok, of "[3, 4]" 100 3 4 "[]" sample_host] by (simp add: sample_machine_view)
qed

end
