(* ===== verification/Output_Spec.thy ===== *)
theory Output_Spec
  imports Memory_Spec
begin

text \<open>
  What a contract reports when it ends with \<open>RETURN\<close> or \<open>REVERT\<close>.
\<close>

section \<open>Growing the memory\<close>





section \<open>Output\<close>








end
