(* ===== verification/Call_Spec.thy ===== *)
theory Call_Spec
  imports Effects
begin

text \<open>
  What a call between contracts does with value and with gas.
\<close>

section \<open>Moving value\<close>

lemma set_balance_view:
  assumes "journal_view j a = Some (b, n, k)"
  shows "journal_view (set_balance j a b') x = (if x = a then Some (b', n, k) else journal_view j x)"
    and "journal_slot (set_balance j a b') x key = journal_slot j x key"
proof -
  obtain acc where acc: "loaded j a = Some acc" and v: "n = j_nonce acc" "k = j_bytecode_hash acc"
    using assms by (auto simp: journal_view_def)
  have up: "set_balance j a b' = j\<lparr>j_accounts := (j_accounts j)(a \<mapsto> acc\<lparr>j_balance := b',
      j_status := status_insert (j_status acc) Touched\<rparr>)\<rparr>"
    using acc by (simp add: set_balance_def update_account_Some)
  obtain d where "j_db j = Some d" using loaded_j_db [OF acc] by blast
  then show "journal_view (set_balance j a b') x = (if x = a then Some (b', n, k) else journal_view j x)"
    "journal_slot (set_balance j a b') x key = journal_slot j x key"
    using acc v by (simp_all add: up journal_view_def journal_slot_eq slot_view_def cong: option.case_cong)
qed

lemma transfer_view:
  assumes "journal_view j a = Some (info_balance ia, na, ka)" and "journal_view j b = Some (info_balance ib, nb, kb)"
    and "transfer j a ia b ib v = Inr j'"
  shows "journal_view j' x = (if x = b then Some (info_balance ib + v, nb, kb)
      else if x = a then Some (info_balance ia - v, na, ka) else journal_view j x)"
    and "journal_slot j' x key = journal_slot j x key"
proof -
  let ?j = "set_balance j a (info_balance ia - v)"
  note va = set_balance_view [OF assms(1), of "info_balance ia - v"]
  have b: "journal_view ?j b = Some (if a = b then info_balance ia - v else info_balance ib, nb, kb)"
    using va(1) assms(1,2) by auto
  have "j' = set_balance ?j b (info_balance ib + v)"
    using assms(3) by (auto simp: transfer_def Let_def checked_add_def split: option.splits if_splits)
  then show "journal_view j' x = (if x = b then Some (info_balance ib + v, nb, kb)
      else if x = a then Some (info_balance ia - v, na, ka) else journal_view j x)"
    "journal_slot j' x key = journal_slot j x key"
    using va set_balance_view [OF b, of "info_balance ib + v"] by simp_all
qed

text \<open>C21: the transfer of a call. Between two accounts the value leaves the caller and reaches the
  callee, and nothing else changes; the sum of the two balances is what it was. The balances are
  those loaded before the transfer, so a call to oneself adds the value to the
  balance. A callee whose balance would overflow makes the call panic.\<close>

theorem transfer_moves_value:
  assumes "journal_view j a = Some (ba, na, ka)" and "info_balance ia = ba"
    and "journal_view j b = Some (bb, nb, kb)" and "info_balance ib = bb" and "v \<le> ba"
  shows "if unat bb + unat v < 2 ^ 256
    then \<exists>j'. transfer j a ia b ib v = Inr j' \<and>
      (if a = b then journal_view j' a = Some (ba + v, na, ka)
       else journal_view j' a = Some (ba - v, na, ka) \<and> journal_view j' b = Some (bb + v, nb, kb) \<and>
         unat (ba - v) + unat (bb + v) = unat ba + unat bb) \<and>
      (\<forall>x. x \<noteq> a \<and> x \<noteq> b \<longrightarrow> journal_view j' x = journal_view j x) \<and>
      (\<forall>x k. journal_slot j' x k = journal_slot j x k)
    else transfer j a ia b ib v = Inl Panic"
proof -
  have "transfer j a ia b ib v = (if unat bb + unat v < 2 ^ 256
      then Inr (set_balance (set_balance j a (ba - v)) b (bb + v)) else Inl Panic)"
    using assms(2,4) by (simp add: transfer_def checked_add_def Let_def)
  moreover have "unat (ba - v) = unat ba - unat v" "unat v \<le> unat ba"
    using assms(5) by (simp_all add: unat_sub word_le_nat_alt)
  moreover have "unat (bb + v) = unat bb + unat v" if "unat bb + unat v < 2 ^ 256"
    using that by (simp add: unat_word_ariths)
  ultimately show ?thesis
    using transfer_view [of j a ia na ka b ib nb kb v] assms by auto
qed

theorem transfer_moves_value_witness:
  "\<exists>j'. transfer (journal_new (db_set_balance (db_set_balance db_new 1 10) 2 5)) 1
      (default_info\<lparr>info_balance := 10\<rparr>) 2 (default_info\<lparr>info_balance := 5\<rparr>) 3 = Inr j' \<and>
    journal_view j' 1 = Some (7, 0, EMPTY_CODE_HASH) \<and> journal_view j' 2 = Some (8, 0, EMPTY_CODE_HASH)"
proof -
  let ?j = "journal_new (db_set_balance (db_set_balance db_new 1 10) 2 5)"
  have v: "journal_view ?j 1 = Some (10, 0, EMPTY_CODE_HASH)" "journal_view ?j 2 = Some (5, 0, EMPTY_CODE_HASH)"
    by (simp_all add: journal_view_def loaded_eq journal_new_def db_basic_def db_set_balance_def db_modify_def db_new_def
        db_account_empty_def journal_account_from_def info_from_db_account_def)
  show ?thesis
    using transfer_moves_value [OF v(1) _ v(2), of "default_info\<lparr>info_balance := 10\<rparr>" "default_info\<lparr>info_balance := 5\<rparr>" 3]
    by auto
qed

section \<open>The gas of a call\<close>

lemma run_callee_gas:
  assumes "run_callee (execute h n) c ct a v gts consumed data = Inr r" and "unat gts \<le> unat consumed"
  shows "unat (out_gas r) \<le> unat consumed"
proof -
  obtain fc e j b where e: "call_env c ct a v gts data = (fc, e)" and j: "code_by_address (ctx_journal c) a = (j, b)"
    by fastforce
  obtain p sub callee where x: "execute h n p sub gts = Inr callee" and "ctx_initial_gas sub = gts"
    and r: "out_gas r = consumed - (gts - gas_used (res_result (get_result callee))) - gas_refunded (res_result (get_result callee))"
    using assms(1) e j
    by (auto simp: run_callee_def Let_def result_simps syscall_context_new_def eject_base_def split: if_splits)
  let ?u = "gas_used (res_result (get_result callee))" and ?f = "gas_refunded (res_result (get_result callee))"
  have "unat ?u \<le> unat gts"
    using gas_used_le [of callee] evolution.S_execute [OF x] \<open>ctx_initial_gas sub = gts\<close> by (simp add: evolves_def)
  moreover have "unat ?f \<le> unat ?u" using gas_refunded_le [of callee] by simp
  moreover have "unat (gts - ?u) = unat gts - unat ?u" using calculation(1) by (simp add: unat_sub word_le_nat_alt)
  moreover have "unat (consumed - (gts - ?u)) = unat consumed - unat (gts - ?u)"
    using calculation(3) assms(2) by (simp add: unat_sub word_le_nat_alt)
  ultimately show ?thesis
    using assms(2) unfolding r by (simp add: unat_sub word_le_nat_alt)
qed

text \<open>C20: what a call to a contract charges. Whatever the callee does, the caller is charged at most the access
  price, the price of moving value to a new account if there is value, and the gas it sent,
  which is never more than the gas asked for nor more than a 64th of what is left.\<close>

theorem call_gas_bound:
  assumes "call_contract (execute h n) c g a v available ct data = Inr r"
  shows "unat (out_gas r) \<le> (if v = 0 then 2600 else 36600) + min (unat g) (unat available div 64)"
proof -
  obtain ct' j i where ct: "call_type_try_from ct = Some ct'" and j: "get_account (ctx_journal c) a = (j, i)"
    using assms by (fastforce simp: call_contract_def split: option.splits)
  show ?thesis
  proof (cases i)
    case None
    then show ?thesis using assms ct j by (auto simp: call_contract_def early_def)
  next
    case (Some callee)
    define base :: u64 where "base = (if account_is_warm j a then gas_CALL_WARM else gas_CALL_COLD)"
    define price where "price = (if v = 0 then base else base + NOT_ZERO_VALUE_COST +
        (if info_is_empty callee then EMPTY_CALLEE_COST else 0))"
    define sent where "sent = min (saturating_sub available price div GAS_CAP_DIVISION_FACTOR) g"
    have base: "unat base \<le> 2600" by (simp add: base_def gas_consts)
    have price: "unat price \<le> (if v = 0 then 2600 else 36600)" "v \<noteq> 0 \<Longrightarrow> 9100 \<le> unat price"
      by (simp_all add: price_def base_def gas_consts)
    have sent: "unat sent \<le> min (unat g) (unat available div 64)"
    proof -
      have "unat sent = min ((unat available - unat price) div 64) (unat g)"
        by (simp add: sent_def unat_saturating_sub unat_div gas_consts min_def word_le_nat_alt)
      then show ?thesis by (auto intro: le_trans div_le_mono)
    qed
    have "unat available div 64 < 2 ^ 60" using unat_less_pow [of available] by simp
    then have small: "unat sent < 2 ^ 60" using sent by linarith
    have sum: "unat (price + sent) = unat price + unat sent" "unat (sent + STIPEND_GAS_ADDITION) = unat sent + 2300"
      using price(1) small by (simp_all add: unat_word_ariths gas_consts split: if_splits)
    consider "out_gas r = base" | "out_gas r = price"
      | c' stipend where "run_callee (execute h n) c' ct' a v (sent + stipend) (price + sent) data = Inr r"
          "stipend = (if v = 0 then 0 else STIPEND_GAS_ADDITION)"
      using assms ct j Some
      by (auto simp: call_contract_def early_def Let_def base_def price_def sent_def result_simps split: if_splits prod.splits)
    then show ?thesis
    proof cases
      case 3
      then have "unat (out_gas r) \<le> unat (price + sent)"
        using run_callee_gas [OF 3(1)] price(2) sum by (auto split: if_splits)
      then show ?thesis using sum(1) price(1) sent by linarith
    qed (use base price(1) in \<open>auto split: if_splits\<close>)
  qed
qed

theorem call_gas_bound_witness:
  "\<exists>r. call_contract (execute sample_host 1) (sample_ctx\<lparr>ctx_journal := journal_new (db_set_balance db_new 2 5)\<rparr>)
      1000 2 0 10000 (call_type_u8 Call_Call) [] = Inr r \<and> unat (out_gas r) \<le> 2756"
proof -
  let ?c = "sample_ctx\<lparr>ctx_journal := journal_new (db_set_balance db_new 2 5)\<rparr>"
  have e: "\<exists>c'. execute sample_host 1 (program_from []) c g = Inr c'" for c g
    by (simp add: execute_def compile_program_def program_from_def jumpdest_pcs_def jumpdest_blocks_def map_filter_simps
        run_block_def follow_def return_empty_result_def return_result_with_offset_and_size_def)
  have callee: "\<exists>r. run_callee (execute sample_host 1) c ct a v g k data = Inr r"
    if "snd (code_by_address (ctx_journal c) a) = []" for c ct a v g k data
  proof -
    have "from_bytecode [] = Inr (program_from [])" by (simp add: from_bytecode_def from_bytecode_loop.simps)
    then show ?thesis using that e by (fastforce simp: run_callee_def Let_def split_beta result_simps)
  qed
  let ?acc = "\<lparr>j_nonce = 0, j_balance = 5, j_storage = Map.empty, j_bytecode_hash = EMPTY_CODE_HASH, j_status = Loaded\<rparr>"
  let ?j = "journal_new (db_set_balance db_new 2 5)"
  have db: "j_db ?j = Some (db_set_balance db_new 2 5)" by (simp add: journal_new_def)
  have l: "loaded ?j 2 = Some ?acc" "loaded (?j\<lparr>j_accounts := (j_accounts ?j)(2 \<mapsto> ?acc)\<rparr>) 0 = None"
    by (simp_all add: loaded_eq journal_new_def db_basic_def db_set_balance_def db_modify_def db_new_def
        db_account_empty_def journal_account_from_def info_from_db_account_def)
  have "\<exists>r. call_contract (execute sample_host 1) ?c 1000 2 0 10000 (call_type_u8 Call_Call) [] = Inr r"
    using l
    by (simp add: call_contract_def call_type_try_from_def get_account_def get_account_mut_Some [OF l(1)] get_account_mut_None
       Let_def account_is_warm_def contains_def Loaded_def Cold_def sample_ctx_def syscall_context_new_def
       env_default_def tx_env_default_def get_address_def account_or_default_def default_info_def
       callee code_by_address_def j_has_code_def get_account_mut_Some db del: One_nat_def)
  then obtain r where r: "call_contract (execute sample_host 1) ?c 1000 2 0 10000 (call_type_u8 Call_Call) [] = Inr r" ..
  show ?thesis using call_gas_bound [OF r] r by auto
qed

end
