(* ===== verification/World_Spec.thy ===== *)
theory World_Spec
  imports Call_Spec Memory_Spec
begin

text \<open>
  What operations do to the world: what is left of a call that fails, and that storage
  holds what was stored.
\<close>

section \<open>A failed call\<close>

lemma get_account_view:
  assumes "get_account j a = (j', i)"
  shows "journal_view j a = map_option (\<lambda>i. (info_balance i, info_nonce i, info_code_hash i)) i"
  using assms
  by (auto simp: get_account_def journal_view_def loaded_def option.map_comp info_from_journal_def comp_def split: prod.splits)

lemma intact_reads: "read_step\<^sup>*\<^sup>* j j' \<Longrightarrow> intact j j'"
  by (induction rule: rtranclp_induct) (auto intro: intact_refl intact_trans intact_read)

lemma intact_Some: "intact j j' \<Longrightarrow> journal_view j x = Some w \<Longrightarrow> journal_view j' x = Some w"
  by (metis intact_def option.distinct(1))

lemma intact_funded:
  assumes "intact j j'" and "journal_view j' x = Some (b, n, k)" and "b \<noteq> 0"
  shows "journal_view j x = Some (b, n, k)"
proof -
  have "journal_view j' x = journal_view j x \<or> journal_view j' x = Some (0, 0, EMPTY_CODE_HASH)"
    using assms(1) by (auto simp: intact_def)
  then show ?thesis using assms(2,3) by auto
qed

lemma intact_slot: "intact j j' \<Longrightarrow> journal_slot j' x k = journal_slot j x k"
  by (simp add: intact_def)

lemma run_callee_failed:
  assumes "run_callee (execute h n) c ct a v g consumed data = Inr r" and "out_code r \<noteq> SUCCESS_RETURN_CODE"
  shows "out_ctx r = c\<lparr>ctx_journal := fst (code_by_address (ctx_journal c) a)\<rparr>"
proof -
  obtain fc e where e: "call_env c ct a v g data = (fc, e)" by fastforce
  obtain j b where j: "code_by_address (ctx_journal c) a = (j, b)" by fastforce
  let ?sub = "syscall_context_new e j \<lparr>caller = fc, ctx_is_static = in_static c \<or> ct = Call_StaticCall,
      last_call_return_data = []\<rparr> g"
  obtain p callee where x: "execute h n p ?sub g = Inr callee"
    and r: "out_ctx r = c\<lparr>ctx_journal := j\<lparr>j_db := j_db (ctx_journal callee)\<rparr>\<rparr>"
    using assms e j
    by (auto simp: run_callee_def Let_def result_simps eject_base_def extend_from_reverted_def split: if_splits)
  have "j_db (ctx_journal callee) = j_db j"
    using evolves_db [OF evolution.S_execute [OF x]] by (simp add: syscall_context_new_def)
  then show ?thesis using r j by simp
qed

text \<open>C4: what is left of a call that fails. When the call ends before the callee runs, or sends no
  value, every existing account keeps its balance, nonce and code and every slot its value: whatever the callee did is undone. When the
  callee ran and failed and the call had sent value, everything the callee did is undone too, but the value stays with the callee. The
  environment, the frame and the memory of the caller are as before.\<close>

theorem failed_call_effect:
  assumes "call_contract (execute h n) c g a v available ct data = Inr r" and "out_code r \<noteq> SUCCESS_RETURN_CODE"
  defines "J \<equiv> ctx_journal c" and "J' \<equiv> ctx_journal (out_ctx r)" and "self \<equiv> this_address c"
  shows "(out_data r = None \<or> v = 0 \<longrightarrow> (\<forall>x w. journal_view J x = Some w \<longrightarrow> journal_view J' x = Some w)) \<and>
    (out_data r \<noteq> None \<and> v \<noteq> 0 \<and> self \<noteq> a \<longrightarrow>
       (\<exists>b n k b' n' k'. journal_view J self = Some (b, n, k) \<and> journal_view J a = Some (b', n', k') \<and> v \<le> b \<and>
          journal_view J' self = Some (b - v, n, k) \<and> journal_view J' a = Some (b' + v, n', k')) \<and>
       (\<forall>x w. x \<noteq> self \<and> x \<noteq> a \<and> journal_view J x = Some w \<longrightarrow> journal_view J' x = Some w)) \<and>
    (\<forall>x k. journal_slot J' x k = journal_slot J x k) \<and>
    ctx_env (out_ctx r) = ctx_env c \<and> ctx_frame (out_ctx r) = ctx_frame c \<and> ctx_inner (out_ctx r) = ctx_inner c"
  using assms(1)
proof (cases rule: call_contract_cases)
  case (early j x)
  then show ?thesis using intact_reads [OF early(1)] intact_Some intact_slot by (auto simp: J_def J'_def)
next
  case (run ct' j0 i j1 j k j' g' n')
  have c: "out_ctx r = c\<lparr>ctx_journal := fst (code_by_address j' a)\<rparr>"
    using run_callee_failed [OF run(6) assms(2)] by simp
  have i': "intact j' J'" using c intact_read [OF read_code, of j' a] by (simp add: J'_def)
  have i: "intact J j" using intact_reads [OF run(4)] by (simp add: J_def)
  obtain out where d: "out_data r = Some out" using run(6) by (auto simp: run_callee_def Let_def result_simps split_beta)
  show ?thesis
  proof (cases "v = 0")
    case True
    then have "intact J J'" using i i' run(5) intact_trans by blast
    then show ?thesis using True c intact_Some intact_slot by auto
  next
    case False
    then have t: "v \<le> info_balance (account_or_default k)" "transfer j self (account_or_default k) a i v = Inr j'"
      using run(5) by (simp_all add: self_def)
    obtain ik where k: "k = Some ik" using t(1) False by (cases k) (auto simp: account_or_default_def default_info_def)
    have vt: "journal_view j1 self = Some (info_balance ik, info_nonce ik, info_code_hash ik)"
      using get_account_view [OF run(3)] k by (simp add: self_def)
    have va: "journal_view J a = Some (info_balance i, info_nonce i, info_code_hash i)"
      using get_account_view [OF run(1)] by (simp add: J_def)
    have vtj: "journal_view j self = Some (info_balance ik, info_nonce ik, info_code_hash ik)"
      by (rule intact_Some [OF intact_read [OF read_results(1) [OF run(3)]] vt])
    have "info_balance ik \<noteq> 0" using t(1) k False by (auto simp: account_or_default_def)
    then have vtJ: "journal_view J self = Some (info_balance ik, info_nonce ik, info_code_hash ik)"
      using intact_funded [OF i vtj] by simp
    have vaj: "journal_view j a = Some (info_balance i, info_nonce i, info_code_hash i)" using i va by (rule intact_Some)
    have tr: "transfer j self ik a i v = Inr j'" using t(2) k by (simp add: account_or_default_def)
    note after = transfer_view [OF vtj vaj tr]
    have slots: "journal_slot J' x key = journal_slot J x key" for x key
      using after(2) intact_slot [OF i] intact_slot [OF i'] by simp
    have "journal_view J' self = Some (info_balance ik - v, info_nonce ik, info_code_hash ik)"
      "journal_view J' a = Some (info_balance i + v, info_nonce i, info_code_hash i)" if "self \<noteq> a"
      using after(1) intact_Some [OF i'] that by simp_all
    moreover have "journal_view J' x = Some w" if "x \<noteq> self" "x \<noteq> a" "journal_view J x = Some w" for x w
      using after(1) intact_Some [OF i] intact_Some [OF i'] that by simp
    moreover have "v \<le> info_balance ik" using t(1) k by (simp add: account_or_default_def)
    ultimately show ?thesis using c d False va vtJ slots by simp
  qed
qed

text \<open>A contract whose only operation is \<open>INVALID\<close>, called with value 3.\<close>

definition sample_account :: "u256 \<Rightarrow> b256 \<Rightarrow> journal_account" where
  "sample_account b k = \<lparr>j_nonce = 0, j_balance = b, j_storage = Map.empty, j_bytecode_hash = k, j_status = Loaded\<rparr>"

definition sample_journal :: journal where
  "sample_journal = (journal_new db_new)\<lparr>j_accounts := [0 \<mapsto> sample_account 10 0, 2 \<mapsto> sample_account 5 1],
     j_contracts := [1 \<mapsto> [0xFE]]\<rparr>"

lemma sample_journal_view:
  "journal_view sample_journal 0 = Some (10, 0, 0)" "journal_view sample_journal 2 = Some (5, 0, 1)"
  by (simp_all add: journal_view_def loaded_eq sample_journal_def sample_account_def journal_new_def)

lemma invalid_fails:
  "\<exists>c'. execute sample_host 1 (program_from [Invalid]) c g = Inr c' \<and> \<not> is_success (res_result (get_result c'))"
  by (simp add: execute_def compile_program_def program_from_def op_compiles_def jumpdest_pcs_def jumpdest_blocks_def
      map_filter_simps register_jump_destination_def jumpdest_pc_def
      run_block_def follow_def codegen_invalid_def generate_revert_block_def consume_gas_as_value_def write_result_def
      get_result_def exit_status_from_u8_def Let_def)

theorem failed_call_effect_witness:
  "\<exists>r. call_contract (execute sample_host 1) (sample_ctx\<lparr>ctx_journal := sample_journal\<rparr>) 1000 2 3 100000
      (call_type_u8 Call_Call) [] = Inr r \<and>
     out_code r = REVERT_RETURN_CODE \<and> journal_view (ctx_journal (out_ctx r)) 0 = Some (7, 0, 0) \<and>
     journal_view (ctx_journal (out_ctx r)) 2 = Some (8, 0, 1)"
proof -
  let ?c = "sample_ctx\<lparr>ctx_journal := sample_journal\<rparr>"
  have p: "from_bytecode [0xFE] = Inr (program_from [Invalid])"
    by (simp add: from_bytecode_def from_bytecode_loop.simps parse_operation_def INVALID_not_an_arm [simplified])
  have callee: "\<exists>r. run_callee (execute sample_host 1) c ct a v g k data = Inr r \<and> out_code r = 0 \<and>
      (\<exists>y. out_data r = Some y)" if "snd (code_by_address (ctx_journal c) a) = [0xFE]" for c ct a v g k data
    using that p invalid_fails by (fastforce simp: run_callee_def Let_def split_beta result_simps gas_consts)
  have self: "this_address ?c = 0"
    by (simp add: sample_ctx_def syscall_context_new_def env_default_def tx_env_default_def get_address_def)
  have "\<exists>r. call_contract (execute sample_host 1) ?c 1000 2 3 100000 (call_type_u8 Call_Call) [] = Inr r \<and>
      out_code r = REVERT_RETURN_CODE \<and> out_data r \<noteq> None"
    using self
    by (simp add: call_contract_def call_type_try_from_def get_account_def get_account_mut_def sample_journal_def
        sample_account_def journal_new_def Let_def account_is_warm_def contains_def Loaded_def Cold_def
        account_or_default_def info_from_journal_def gas_consts transfer_def set_balance_def update_account_def
        checked_add_def callee code_by_address_def j_has_code_def EMPTY_CODE_HASH_def del: One_nat_def)
  then obtain r where r: "call_contract (execute sample_host 1) ?c 1000 2 3 100000 (call_type_u8 Call_Call) [] = Inr r"
    "out_code r = REVERT_RETURN_CODE" "out_data r \<noteq> None" by blast
  show ?thesis
    using failed_call_effect [OF r(1)] r self sample_journal_view by (auto simp: gas_consts)
qed

section \<open>Storage\<close>

lemma write_storage_effect:
  assumes "transact_to (tx (ctx_env c)) = TransactTo_Call a" and "syscall_write_storage c (halves key) (halves v) = Inr (c', cost)"
  obtains acc slot where "loaded (ctx_journal c') a = Some acc" and "j_accounts (ctx_journal c') a = Some acc"
    and "j_storage acc key = Some slot" and "present_value slot = v"
    and "\<forall>b k. journal_slot (ctx_journal c') b k = (if b = a \<and> k = key then v else journal_slot (ctx_journal c) b k)"
    and "\<forall>b. journal_view (ctx_journal c') b = journal_view (ctx_journal c) b"
    and "ctx_env c' = ctx_env c"
proof -
  let ?j = "ctx_journal c"
  obtain j1 s where r: "read_storage ?j a key = (j1, s)" by fastforce
  obtain j2 where w: "write_storage j1 a key v = Inr j2" and c': "ctx_journal c' = j2" "ctx_env c' = ctx_env c"
    using assms r by (auto simp: syscall_write_storage_def Let_def result_simps split_beta)
  have "loaded ?j a \<noteq> None"
  proof
    assume n: "loaded ?j a = None"
    then show False using r w write_storage_None [of j1 a key v] by (auto simp: read_storage_None)
  qed
  then obtain acc0 where acc0: "loaded ?j a = Some acc0" by blast
  obtain d where d: "j_db ?j = Some d" using loaded_j_db [OF acc0] by blast
  have i: "intact ?j j1" by (rule intact_read [OF read_results(3) [OF r]])
  have l: "loaded j1 a = Some (acc0\<lparr>j_storage := (j_storage acc0)(key \<mapsto> slot_view ?j a acc0 key)\<rparr>)"
    using r d by (auto simp: read_storage_Some [OF acc0])
  define acc where "acc = acc0\<lparr>j_storage := (j_storage acc0)(key \<mapsto> (slot_view ?j a acc0 key)\<lparr>present_value := v\<rparr>),
      j_status := status_insert (j_status acc0) Touched\<rparr>"
  have j2: "j2 = ?j\<lparr>j_accounts := (j_accounts ?j)(a \<mapsto> acc)\<rparr>"
    using w r by (auto simp: write_storage_Some [OF l] read_storage_Some [OF acc0] slot_view_def acc_def)
  have "journal_put j1 a key v = j2" "has_account j1 a" using w l by (simp_all add: journal_put_def has_account_def)
  then have slots: "journal_slot j2 b k = (if b = a \<and> k = key then v else journal_slot ?j b k)" for b k
    using journal_slot_put [of j1 a key v b k] intact_slot [OF i] by simp
  have views: "journal_view j2 b = journal_view ?j b" for b
    using acc0 d by (simp add: j2 journal_view_def acc_def)
  show ?thesis
    using that [of acc "(slot_view ?j a acc0 key)\<lparr>present_value := v\<rparr>"] c' d slots views by (simp add: j2 acc_def)
qed

lemma read_storage_warm:
  assumes "transact_to (tx (ctx_env c)) = TransactTo_Call a" and "loaded (ctx_journal c) a = Some acc"
    and "j_accounts (ctx_journal c) a = Some acc" and "j_storage acc key = Some slot"
  shows "syscall_read_storage c (halves key) = (c, halves (present_value slot), 100)"
proof -
  have "slot_view (ctx_journal c) a acc key = slot" using assms(4) by (simp add: slot_view_def)
  moreover have "acc\<lparr>j_storage := (j_storage acc)(key \<mapsto> slot)\<rparr> = acc" using assms(4) by (simp add: fun_upd_idem)
  moreover have "(j_accounts (ctx_journal c))(a \<mapsto> acc) = j_accounts (ctx_journal c)" using assms(3) by (simp add: fun_upd_idem)
  ultimately have "read_storage (ctx_journal c) a key = (ctx_journal c, Some slot)"
    using read_storage_Some [OF assms(2), of key] by simp
  moreover have "key_is_warm (ctx_journal c) a key" using assms(3,4) by (simp add: key_is_warm_def)
  ultimately show ?thesis
    using assms(1) by (simp add: syscall_read_storage_def get_address_def Let_def gas_consts)
qed

lemma lookup_op_ok:
  assumes "stack_ok m" and "stack_view m = key # rest" and "look (m_ctx m) (halves key) = (m_ctx m, v, cost)"
    and "affordable m cost"
  shows "pushed m cost v rest (lookup_op look m)"
proof -
  obtain m' where p: "stack_pop m = Inr (m', key)" "stack_view m' = rest" "frame m' = frame m" "stack_ok m'"
    using stack.pop_Cons [OF assms(1,2)] by blast
  have c: "m_ctx m' = m_ctx m" "gas_counter m' = gas_counter m"
    using arg_cong [OF p(3), of m_ctx] arg_cong [OF p(3), of gas_counter] by (simp_all add: frame_def)
  have "sint cost \<le> sint (gas_counter m)"
    using assms(4) gas_covers [of cost "gas_counter m"] by (simp add: affordable_def)
  moreover have same: "m'\<lparr>m_ctx := m_ctx m, gas_counter := x\<rparr> = m'\<lparr>gas_counter := x\<rparr>" for x
    by (rule mstate.equality) (simp_all add: c)
  ultimately have "lookup_op look m = push_next (charged m' cost) v"
    using p(1) c assms(2,3) length_stack_view [of m]
    by (simp add: lookup_op_def check_stack_has_at_least_def pop_def consume_gas_as_value_def same)
  moreover have "length rest < MAX_STACK_SIZE"
    using assms(1,2) length_stack_view [of m] by (simp add: stack_ok_def)
  ultimately show ?thesis using push_next_room [of "charged m' cost" m cost v] p c by simp
qed

text \<open>C15: what \<open>SSTORE\<close> writes \<open>SLOAD\<close> reads. After a store has gone through, the journal shows the new value in that
  slot of the running contract and has every other slot and every account as before; a load of the same key
  in that context, with any stack and enough gas, pushes the value for the warm price of 100 and changes nothing else.\<close>

theorem sstore_sload:
  assumes "stack_ok m" and "stack_view m = key # v # rest" and "codegen_sstore m = Inr (m1, Next)"
    and "transact_to (tx (ctx_env (m_ctx m))) = TransactTo_Call a"
    and "m_ctx m2 = m_ctx m1" and "stack_ok m2" and "stack_view m2 = key # rest'" and "affordable m2 100"
  shows "stack_view m1 = rest \<and>
    (\<forall>b k. journal_slot (ctx_journal (m_ctx m1)) b k =
       (if b = a \<and> k = key then v else journal_slot (ctx_journal (m_ctx m)) b k)) \<and>
    (\<forall>b. journal_view (ctx_journal (m_ctx m1)) b = journal_view (ctx_journal (m_ctx m)) b) \<and>
    pushed m2 100 v rest' (codegen_sload m2)"
proof -
  obtain m' m'' where p: "stack_pop m = Inr (m', key)" "stack_pop m' = Inr (m'', v)"
    "stack_view m'' = rest" "frame m'' = frame m" "stack_ok m''"
    using stack.pop_pop [OF assms(1,2)] by auto
  have ctx: "m_ctx m'' = m_ctx m" using arg_cong [OF p(4), of m_ctx] by (simp add: frame_def)
  obtain c cost where w: "syscall_write_storage (m_ctx m) (halves key) (halves v) = Inr (c, cost)"
    and m1: "m_ctx m1 = c" "stack_view m1 = rest"
    using assms(3) p ctx by (auto simp: codegen_sstore_def pop_def result_simps Let_def stack_view_def split: if_splits)
  obtain acc slot where e: "loaded (ctx_journal c) a = Some acc" "j_accounts (ctx_journal c) a = Some acc"
    "j_storage acc key = Some slot" "present_value slot = v"
    "\<forall>b k. journal_slot (ctx_journal c) b k = (if b = a \<and> k = key then v else journal_slot (ctx_journal (m_ctx m)) b k)"
    "\<forall>b. journal_view (ctx_journal c) b = journal_view (ctx_journal (m_ctx m)) b" "ctx_env c = ctx_env (m_ctx m)"
    using write_storage_effect [OF assms(4) w] by blast
  have "syscall_read_storage (m_ctx m2) (halves key) = (m_ctx m2, halves v, 100)"
    using read_storage_warm [of c a acc key slot] e assms(4,5) m1 by simp
  then have "pushed m2 100 v rest' (codegen_sload m2)"
    using lookup_op_ok [OF assms(6,7) _ assms(8)] by (simp add: codegen_sload_def)
  then show ?thesis using e m1 by simp
qed

theorem sstore_sload_witness:
  "\<exists>m1. codegen_sstore ((sample_machine 30000 [4, 9])\<lparr>m_ctx := sample_ctx\<lparr>ctx_journal := sample_journal\<rparr>\<rparr>) = Inr (m1, Next) \<and>
     journal_slot (ctx_journal (m_ctx m1)) 0 4 = 9 \<and>
     pushed (m1\<lparr>stack_cells := (\<lambda>_. 4), stack_ptr := 1\<rparr>) 100 9 [] (codegen_sload (m1\<lparr>stack_cells := (\<lambda>_. 4), stack_ptr := 1\<rparr>))"
proof -
  let ?m = "(sample_machine 30000 [4, 9])\<lparr>m_ctx := sample_ctx\<lparr>ctx_journal := sample_journal\<rparr>\<rparr>"
  have cells: "stack_cells ?m 1 = 4" "stack_cells ?m 0 = 9" by (simp_all add: sample_machine_def)
  have ctx: "transact_to (tx (ctx_env (m_ctx ?m))) = TransactTo_Call 0" "\<not> in_static (m_ctx ?m)"
    by (simp_all add: sample_ctx_def syscall_context_new_def env_default_def tx_env_default_def call_frame_new_def)
  have l: "loaded sample_journal 0 = Some (sample_account 10 0)"
    by (simp add: loaded_eq sample_journal_def journal_new_def)
  have sl: "slot_view sample_journal 0 (sample_account 10 0) 4 = slot_from 0"
    by (simp add: slot_view_def sample_account_def fetch_storage_from_db_def sample_journal_def journal_new_def
        db_storage_at_def db_read_storage_def db_new_def)
  have "\<not> key_is_warm sample_journal 0 4" by (simp add: key_is_warm_def sample_journal_def sample_account_def)
  moreover have "j_db sample_journal = Some db_new" by (simp add: sample_journal_def journal_new_def)
  ultimately obtain c where w: "syscall_write_storage (m_ctx ?m) (halves 4) (halves 9) = Inr (c, 22100)"
    using ctx(1) sl by (simp add: syscall_write_storage_def read_storage_Some [OF l] write_storage_Some slot_from_def sstore_cost_def)
  obtain m1 where m1: "codegen_sstore ?m = Inr (m1, Next)" "gas_counter m1 = 7900"
    using cells ctx w
    by (simp add: codegen_sstore_def check_context_is_not_static_def context_is_static_def check_stack_has_at_least_def
        pop_def stack_pop_def MAX_STACK_SIZE_def gas_consts)
  let ?m2 = "m1\<lparr>stack_cells := (\<lambda>_. 4), stack_ptr := 1\<rparr>"
  have "stack_ok ?m" "stack_view ?m = [4, 9]"
    using sample_machine_ok [of "[4, 9]" 30000] sample_machine_view [of 30000 "[4, 9]"]
    by (simp_all add: stack_ok_def stack_view_def)
  moreover have "stack_view ?m2 = [4]" "stack_ok ?m2" "affordable ?m2 100"
    using m1(2) by (simp_all add: stack_view_def stack_ok_def MAX_STACK_SIZE_def affordable_def)
  ultimately show ?thesis
    using sstore_sload [of ?m 4 9 "[]" m1 0 ?m2 "[]"] m1(1) ctx(1) by simp
qed

end
