(* ===== verification/Create_Spec.thy ===== *)
theory Create_Spec
  imports World_Spec
begin

text \<open>
  What a contract creation leaves behind.
\<close>

section \<open>Accounts stay in the journal\<close>

lemma update_account_dom: "dom (j_accounts j) \<subseteq> dom (j_accounts (update_account j a f))"
  by (cases "loaded j a") (auto simp: update_account_None update_account_Some)

lemma load_dom: "dom (j_accounts j) \<subseteq> dom (j_accounts (fst (get_account_mut j a)))"
  by (cases "loaded j a") (auto simp: get_account_mut_None get_account_mut_Some)

lemma journal_step_dom:
  assumes "journal_step k j j'"
  shows "dom (j_accounts j) \<subseteq> dom (j_accounts j')"
  using assms
proof cases
  case (step_code a)
  then show ?thesis by (cases "loaded j a") (auto simp: code_by_address_None code_by_address_fst)
next
  case (step_read a key)
  then show ?thesis by (cases "loaded j a") (auto simp: read_storage_None read_storage_Some)
next
  case (step_write a key v)
  then show ?thesis by (cases "loaded j a") (auto simp: write_storage_None write_storage_Some)
next
  case (step_prefetch_keys a keys)
  then show ?thesis
  proof (cases "loaded j a")
    case None
    then show ?thesis using step_prefetch_keys by (simp add: prefetch_account_keys_def get_account_mut_None)
  qed (auto simp: prefetch_account_keys_Some)
next
  case (step_set_balance a b)
  then show ?thesis using update_account_dom by (simp add: set_balance_def)
next
  case (step_set_nonce a b)
  then show ?thesis using update_account_dom by (simp add: set_nonce_def)
next
  case (step_set_status a b)
  then show ?thesis using update_account_dom by (simp add: set_status_def)
qed (use load_dom in \<open>auto simp: new_account_def add_account_as_warm_def new_contract_def get_block_hash_def Let_def
      split: option.splits\<close>)

lemma journal_steps_dom: "(journal_step k)\<^sup>*\<^sup>* j j' \<Longrightarrow> dom (j_accounts j) \<subseteq> dom (j_accounts j')"
  by (induction rule: rtranclp_induct) (use journal_step_dom in blast)+

lemma loaded_in_dom: "j_db j = Some d \<Longrightarrow> a \<in> dom (j_accounts j) \<Longrightarrow> loaded j a \<noteq> None"
  by (auto simp: loaded_eq)

section \<open>Creations\<close>

lemma set_nonce_view:
  assumes "journal_view j a = Some (b, n, k)"
  shows "journal_view (set_nonce j a n') x = (if x = a then Some (b, n', k) else journal_view j x)"
    and "journal_slot (set_nonce j a n') x key = journal_slot j x key"
proof -
  obtain acc where acc: "loaded j a = Some acc" and v: "b = j_balance acc" "k = j_bytecode_hash acc"
    using assms by (auto simp: journal_view_def)
  have up: "set_nonce j a n' = j\<lparr>j_accounts := (j_accounts j)(a \<mapsto> acc\<lparr>j_nonce := n',
      j_status := status_insert (j_status acc) Touched\<rparr>)\<rparr>"
    using acc by (simp add: set_nonce_def update_account_Some)
  obtain d where "j_db j = Some d" using loaded_j_db [OF acc] by blast
  then show "journal_view (set_nonce j a n') x = (if x = a then Some (b, n', k) else journal_view j x)"
    "journal_slot (set_nonce j a n') x key = journal_slot j x key"
    using acc v by (simp_all add: up journal_view_def journal_slot_eq slot_view_def cong: option.case_cong)
qed

text \<open>The contract that \<open>finish_create\<close> installs, and the sender it charges.\<close>

lemma finish_create_effect:
  assumes "j_db (ctx_journal c) = Some d" and "db_accounts d dest = None" and "self \<in> dom (j_accounts (ctx_journal c))"
    and "self \<noteq> dest" and "finish_create h c off v gas len self sacc dest bytecode = (c', value, cost, SUCCESS_RETURN_CODE)"
    and "to_primitive_u256 v \<le> info_balance sacc"
  shows "value = copy_from dest \<and>
    journal_view (ctx_journal c') dest = Some (to_primitive_u256 v, 1, keccak256 h bytecode) \<and>
    (\<forall>key. journal_slot (ctx_journal c') dest key = 0) \<and>
    j_contracts (ctx_journal c') (keccak256 h bytecode) = Some bytecode \<and>
    (\<exists>k. journal_view (ctx_journal c') self = Some (info_balance sacc - to_primitive_u256 v, info_nonce sacc + 1, k))"
proof -
  let ?v = "to_primitive_u256 v" and ?j = "new_contract (keccak256 h) (ctx_journal c) dest bytecode (to_primitive_u256 v)"
  have "checked_sub (info_balance sacc) ?v = Some (info_balance sacc - ?v)"
    using assms(6) by (simp add: checked_sub_def word_le_nat_alt)
  then have j: "ctx_journal c' = set_balance (set_nonce ?j self (info_nonce sacc + 1)) self (info_balance sacc - ?v)"
    and val: "value = copy_from dest"
    using assms(5) by (auto simp: finish_create_def create_halt_def checked_add_def write_result_def Let_def gas_consts
        split: option.splits if_splits)
  have db: "j_db ?j = Some d" using assms(1) by (simp add: new_contract_def Let_def)
  have dest: "journal_view ?j dest = Some (?v, 1, keccak256 h bytecode)" "journal_slot ?j dest key = 0" for key
    using assms(1,2) by (simp_all add: new_contract_def Let_def journal_view_def journal_slot_eq loaded_eq slot_view_def
        fetch_storage_from_db_def slot_from_def db_storage_at_def db_read_storage_def)
  have "self \<in> dom (j_accounts ?j)" using assms(3) by (auto simp: new_contract_def Let_def)
  then have "loaded ?j self \<noteq> None" by (rule loaded_in_dom [OF db])
  then obtain b n k where s: "journal_view ?j self = Some (b, n, k)" by (auto simp: journal_view_def)
  note n = set_nonce_view [OF s, of "info_nonce sacc + 1"]
  then have s': "journal_view (set_nonce ?j self (info_nonce sacc + 1)) self = Some (b, info_nonce sacc + 1, k)" by simp
  note b = set_balance_view [OF s', of "info_balance sacc - ?v"]
  have con: "j_contracts (update_account j a f) = j_contracts j" for j a f
    by (cases "loaded j a") (simp_all add: update_account_None update_account_Some)
  have "j_contracts (ctx_journal c') (keccak256 h bytecode) = Some bytecode"
    by (simp add: j set_balance_def set_nonce_def con) (simp add: new_contract_def Let_def)
  then show ?thesis using val j n b dest assms(4) by simp
qed

text \<open>The context in which the initialization code of a creation runs, and the bytes of the memory that are this code.\<close>

definition init_context :: "syscall_context \<Rightarrow> journal \<Rightarrow> address \<Rightarrow> bytes \<Rightarrow> u64 \<Rightarrow> syscall_context" where
  "init_context c j dest code gas = map_inner (\<lambda>ic. ic\<lparr>ic_program := code\<rparr>)
     (syscall_context_new ((ctx_env c)\<lparr>tx := (tx (ctx_env c))\<lparr>transact_to := TransactTo_Call dest, gas_limit := gas\<rparr>\<rparr>)
        j (call_frame_new (this_address c)) gas)"

abbreviation output_bytes :: "syscall_context \<Rightarrow> bytes" where
  "output_bytes c \<equiv> (case result_output (res_result (get_result c)) of Some b \<Rightarrow> b | None \<Rightarrow> [])"

abbreviation init_code :: "syscall_context \<Rightarrow> u32 \<Rightarrow> u32 \<Rightarrow> bytes res" where
  "init_code c off len \<equiv> slice (memory (resize_memory_if_necessary (ctx_inner c) (unat off) (unat len)))
     (unat off) (unat off + unat len)"

text \<open>A creation that succeeds gets past every check to the initialization code.\<close>

lemma create_aux_success:
  assumes "create_aux h exec c n off v gas salt = Inr (c', value, cost, SUCCESS_RETURN_CODE)"
  obtains j1 sacc code w dest hc j2 c0 mw p pc where "get_account (ctx_journal c) (this_address c) = (j1, Some sacc)"
    and "init_code c off n = Inr code" and "from_bytecode code = Inr p" and "to_bytecode p = Inr pc"
    and "create_address h (this_address c) sacc code w salt = Some (dest, hc)"
    and "get_account j1 dest = (j2, None)" and "ctx_env c0 = ctx_env c"
    and "run_init_code h exec (c0\<lparr>ctx_journal := add_account_as_warm j2 dest\<rparr>) off mw v gas p pc
       (this_address c) sacc dest hc = Inr (c', value, cost, SUCCESS_RETURN_CODE)"
proof -
  let ?w = "(unat n + 31) div 32" and ?c = "map_inner (\<lambda>ic. resize_memory_if_necessary ic (unat off) (unat n)) c"
  obtain j1 sacc code dest hc j2 p pc where "get_account (ctx_journal c) (this_address c) = (j1, Some sacc)"
    "init_code c off n = Inr code" "from_bytecode code = Inr p" "to_bytecode p = Inr pc"
    "create_address h (this_address c) sacc code (of_nat ?w) salt = Some (dest, hc)" "get_account j1 dest = (j2, None)"
    "run_init_code h exec (?c\<lparr>ctx_journal := add_account_as_warm j2 dest\<rparr>) off ?w v gas p pc (this_address c) sacc dest hc =
      Inr (c', value, cost, SUCCESS_RETURN_CODE)"
    using assms
    by (auto simp: create_aux_def create_halt_def Let_def result_simps gas_consts split: if_splits prod.splits option.splits)
  then show ?thesis by (intro that [of j1 sacc code p pc _ dest hc j2 ?c]) simp_all
qed

lemma run_init_code_success:
  assumes "run_init_code h (execute h n) c off mw v gas p pc (this_address c) sacc dest hc = Inr (c', value, cost, code)"
  obtains sub len where
    "execute h n p (init_context c (new_account (ctx_journal c) dest (to_primitive_u256 v)) dest pc gas) gas = Inr sub"
    and "(journal_step (keccak256 h))\<^sup>*\<^sup>* (new_account (ctx_journal c) dest (to_primitive_u256 v)) (ctx_journal sub)"
    and "finish_create h (c\<lparr>ctx_journal := ctx_journal sub\<rparr>) off v cost len (this_address c) sacc dest (output_bytes sub) =
      (c', value, cost, code)"
proof -
  let ?sub = "init_context c (new_account (ctx_journal c) dest (to_primitive_u256 v)) dest pc gas"
  obtain sub gas' len where x: "execute h n p ?sub gas = Inr sub"
    and f: "finish_create h (c\<lparr>ctx_journal := ctx_journal sub\<rparr>) off v gas' len (this_address c) sacc dest (output_bytes sub) =
      (c', value, cost, code)"
    using assms
    by (auto simp: run_init_code_def init_context_def Let_def result_simps eject_base_def extend_from_successful_def)
  have "gas' = cost" using f by (auto simp: finish_create_def create_halt_def Let_def split: option.splits)
  moreover have "(journal_step (keccak256 h))\<^sup>*\<^sup>* (new_account (ctx_journal c) dest (to_primitive_u256 v)) (ctx_journal sub)"
    using evolution.S_execute [OF x] by (simp add: evolves_def init_context_def syscall_context_new_def)
  ultimately show ?thesis using that x f by blast
qed

lemma new_account_view:
  assumes "j_db j = Some d"
  shows "journal_view (new_account j a b) x = (if x = a then Some (b, 0, EMPTY_CODE_HASH) else journal_view j x)"
  using assms by (simp add: new_account_def journal_view_def loaded_eq new_created_def)

lemma add_account_as_warm_view:
  assumes "j_db j = Some d" and "x \<noteq> a"
  shows "journal_view (add_account_as_warm j a) x = journal_view j x"
  using assms by (simp add: add_account_as_warm_def journal_view_def loaded_eq Let_def)

text \<open>What holds when the initialization code has run: the address was free, the code began with the new account next to what
  the creator saw, and both accounts are in the journal.\<close>

definition opens :: "journal \<Rightarrow> address \<Rightarrow> u256 \<Rightarrow> journal \<Rightarrow> bool" where
  "opens j dest v j' \<longleftrightarrow> journal_view j' dest = Some (v, 0, EMPTY_CODE_HASH) \<and>
     (\<forall>x. x \<noteq> dest \<and> journal_view j x \<noteq> None \<longrightarrow> journal_view j' x = journal_view j x)"

lemma create_prepared:
  assumes "create_aux h (execute h n) c len off v gas salt = Inr (c', value, cost, SUCCESS_RETURN_CODE)"
    and "j_db (ctx_journal c) = Some d"
  obtains sacc dest code p pc j sub c0 l where
    "journal_view (ctx_journal c) (this_address c) = Some (info_balance sacc, info_nonce sacc, info_code_hash sacc)"
    "journal_view (ctx_journal c) dest = None" "db_accounts d dest = None"
    "dest = (case salt of None \<Rightarrow> compute_contract_address (keccak256 h) (this_address c) (info_nonce sacc)
       | Some s \<Rightarrow> compute_contract_address2 (keccak256 h) (this_address c) (to_primitive_u256 s) code)"
    "init_code c off len = Inr code" "from_bytecode code = Inr p" "to_bytecode p = Inr pc"
    "opens (ctx_journal c) dest (to_primitive_u256 v) j" "execute h n p (init_context c j dest pc gas) gas = Inr sub"
    "j_db (ctx_journal sub) = Some d" "this_address c \<in> dom (j_accounts (ctx_journal sub))"
    "dest \<in> dom (j_accounts (ctx_journal sub))"
    "finish_create h (c0\<lparr>ctx_journal := ctx_journal sub\<rparr>) off v cost l (this_address c) sacc dest (output_bytes sub) =
       (c', value, cost, SUCCESS_RETURN_CODE)"
proof -
  let ?J = "ctx_journal c" and ?self = "this_address c" and ?vv = "to_primitive_u256 v"
  obtain j1 sacc code w dest hc j2 c0 mw p pc where a: "get_account ?J ?self = (j1, Some sacc)"
    and code: "init_code c off len = Inr code" "from_bytecode code = Inr p" "to_bytecode p = Inr pc"
    and dest: "create_address h ?self sacc code w salt = Some (dest, hc)" "get_account j1 dest = (j2, None)"
    and env: "ctx_env c0 = ctx_env c"
    and r: "run_init_code h (execute h n) (c0\<lparr>ctx_journal := add_account_as_warm j2 dest\<rparr>) off mw v gas p pc
       ?self sacc dest hc = Inr (c', value, cost, SUCCESS_RETURN_CODE)"
    using create_aux_success [OF assms(1)] by metis
  let ?j0 = "new_account (add_account_as_warm j2 dest) dest ?vv"
  have "this_address (c0\<lparr>ctx_journal := add_account_as_warm j2 dest\<rparr>) = ?self" using env by simp
  then obtain sub l where x: "execute h n p (init_context c ?j0 dest pc gas) gas = Inr sub"
    and s: "(journal_step (keccak256 h))\<^sup>*\<^sup>* ?j0 (ctx_journal sub)"
    and f: "finish_create h (c0\<lparr>ctx_journal := ctx_journal sub\<rparr>) off v cost l ?self sacc dest (output_bytes sub) =
      (c', value, cost, SUCCESS_RETURN_CODE)"
    using run_init_code_success [of h n "c0\<lparr>ctx_journal := add_account_as_warm j2 dest\<rparr>" off mw v gas p pc sacc dest hc] r env
    by (auto simp: init_context_def)
  have i1: "intact ?J j1" by (rule intact_read [OF read_results(1) [OF a]])
  have dv: "journal_view j1 dest = None" using get_account_view [OF dest(2)] by simp
  then have dJ: "journal_view ?J dest = None" using intact_Some [OF i1] by (metis not_None_eq)
  have j2: "j2 = j1" using dv dest(2) by (auto simp: get_account_def journal_view_def get_account_mut_None)
  have db: "j_db j1 = Some d" using i1 assms(2) by (simp add: intact_def)
  then have "j_db (add_account_as_warm j1 dest) = Some d" by (simp add: add_account_as_warm_def Let_def)
  then have "opens ?J dest ?vv ?j0"
    using intact_Some [OF i1] db by (auto simp: opens_def new_account_view add_account_as_warm_view j2)
  moreover have "?self \<in> dom (j_accounts j1)"
    using a by (cases "loaded ?J ?self") (auto simp: get_account_def get_account_mut_Some get_account_mut_None)
  then have "?self \<in> dom (j_accounts ?j0)" "dest \<in> dom (j_accounts ?j0)" "j_db ?j0 = Some d"
    using db j2 by (auto simp: new_account_def add_account_as_warm_def Let_def)
  then have "?self \<in> dom (j_accounts (ctx_journal sub))" "dest \<in> dom (j_accounts (ctx_journal sub))"
    "j_db (ctx_journal sub) = Some d"
    using journal_steps_dom [OF s] journal_steps_db [OF s] by auto
  moreover have "db_accounts d dest = None"
    using dJ assms(2) by (auto simp: journal_view_def loaded_eq db_basic_def split: option.splits)
  moreover have "dest = (case salt of None \<Rightarrow> compute_contract_address (keccak256 h) ?self (info_nonce sacc)
       | Some s \<Rightarrow> compute_contract_address2 (keccak256 h) ?self (to_primitive_u256 s) code)"
    using dest(1) by (auto simp: create_address_def split: if_splits option.splits)
  ultimately show ?thesis using get_account_view [OF a] dJ f x code by (intro that) simp_all
qed

text \<open>C5: what a creation that reports success leaves behind. The address was free; it is the one that the
  sender and its nonce determine or, for \<open>CREATE2\<close>, the sender, the salt and the initialization code. The initialization
  code, the named bytes of the memory, has run as the new account with the value as its balance. When the sender owns the value,
  the address now holds a contract with that balance, nonce 1 and, as its code, exactly the output of that run, the sender
  has paid the value and its nonce has grown by one, counted from
  what it had before the initialization code ran. Every slot of the new contract is zero: what the initialization code stored is lost. When the
  sender does not own the value the result is the zero address, but the account that was opened with the value for the
  initialization code stays in the journal.\<close>

theorem create_deploys:
  assumes "create_aux h (execute h n) c len off v gas salt = Inr (c', value, cost, SUCCESS_RETURN_CODE)"
    and "j_db (ctx_journal c) = Some d"
  defines "J \<equiv> ctx_journal c" and "J' \<equiv> ctx_journal c'" and "self \<equiv> this_address c" and "vv \<equiv> to_primitive_u256 v"
  shows "\<exists>b nonce k dest code p pc j sub. journal_view J self = Some (b, nonce, k) \<and> journal_view J dest = None \<and>
    dest = (case salt of None \<Rightarrow> compute_contract_address (keccak256 h) self nonce
       | Some s \<Rightarrow> compute_contract_address2 (keccak256 h) self (to_primitive_u256 s) code) \<and>
    init_code c off len = Inr code \<and> from_bytecode code = Inr p \<and> to_bytecode p = Inr pc \<and>
    opens J dest vv j \<and> execute h n p (init_context c j dest pc gas) gas = Inr sub \<and>
    (if vv \<le> b
     then value = copy_from dest \<and>
       journal_view J' dest = Some (vv, 1, keccak256 h (output_bytes sub)) \<and>
       j_contracts J' (keccak256 h (output_bytes sub)) = Some (output_bytes sub) \<and>
       (\<forall>key. journal_slot J' dest key = 0) \<and>
       (\<exists>k'. journal_view J' self = Some (b - vv, nonce + 1, k'))
     else value = sysu256_zero \<and> journal_view J' dest \<noteq> None)"
proof -
  obtain sacc dest code p pc j sub c0 l where
    sv: "journal_view J self = Some (info_balance sacc, info_nonce sacc, info_code_hash sacc)"
    and dv: "journal_view J dest = None" and free: "db_accounts d dest = None"
    and addr: "dest = (case salt of None \<Rightarrow> compute_contract_address (keccak256 h) self (info_nonce sacc)
       | Some s \<Rightarrow> compute_contract_address2 (keccak256 h) self (to_primitive_u256 s) code)"
    and run: "init_code c off len = Inr code" "from_bytecode code = Inr p" "to_bytecode p = Inr pc"
      "opens J dest vv j" "execute h n p (init_context c j dest pc gas) gas = Inr sub"
    and j: "j_db (ctx_journal sub) = Some d" "self \<in> dom (j_accounts (ctx_journal sub))"
      "dest \<in> dom (j_accounts (ctx_journal sub))"
    and f: "finish_create h (c0\<lparr>ctx_journal := ctx_journal sub\<rparr>) off v cost l self sacc dest (output_bytes sub) =
      (c', value, cost, SUCCESS_RETURN_CODE)"
    unfolding J_def self_def vv_def by (rule create_prepared [OF assms(1,2)])
  have ne: "self \<noteq> dest" using sv dv by auto
  have "if vv \<le> info_balance sacc
     then value = copy_from dest \<and>
       journal_view J' dest = Some (vv, 1, keccak256 h (output_bytes sub)) \<and>
       j_contracts J' (keccak256 h (output_bytes sub)) = Some (output_bytes sub) \<and>
       (\<forall>key. journal_slot J' dest key = 0) \<and>
       (\<exists>k'. journal_view J' self = Some (info_balance sacc - vv, info_nonce sacc + 1, k'))
     else value = sysu256_zero \<and> journal_view J' dest \<noteq> None"
  proof (cases "vv \<le> info_balance sacc")
    case True
    then show ?thesis using finish_create_effect [OF _ free _ ne f] j by (simp add: J'_def vv_def)
  next
    case False
    then have "checked_sub (info_balance sacc) vv = None" by (simp add: checked_sub_def)
    then have "value = sysu256_zero" "J' = ctx_journal sub"
      using f by (auto simp: finish_create_def J'_def vv_def write_result_def)
    then show ?thesis using False loaded_in_dom [OF j(1,3)] by (simp add: journal_view_def)
  qed
  then show ?thesis using sv dv addr run by blast
qed

text \<open>A creation by an account with a balance of 10, whose initialization code returns one byte of its memory.\<close>

definition sample_init_code :: bytes where
  "sample_init_code = [0x60, 1, 0x5F, 0xF3]"

definition sample_init_program :: program where
  "sample_init_program = program_from [Push 1 1, Push0, Return]"

definition sample_creator :: syscall_context where
  "sample_creator = map_inner (\<lambda>ic. ic\<lparr>ic_program := [0xFE], memory := sample_init_code\<rparr>)
     (sample_ctx\<lparr>ctx_journal := sample_journal\<rparr>)"

abbreviation init_machine :: "syscall_context \<Rightarrow> u64 \<Rightarrow> (nat \<Rightarrow> u256) \<Rightarrow> nat \<Rightarrow> mstate" where
  "init_machine c g cells n \<equiv> \<lparr>gas_counter = g, stack_cells = cells, stack_ptr = n, memory_ptr = None, memory_size = 0,
     calldata_size = get_calldata_size_syscall c, m_ctx = c\<rparr>"

lemma sample_init_pushes:
  "run_block h e sample_init_program 0 (init_machine c 1000 cs 0) = Inr (Block 1 (init_machine c 997 (cs(0 := 1)) 1))"
  "run_block h e sample_init_program 1 (init_machine c 997 cs 1) = Inr (Block 2 (init_machine c 995 (cs(1 := 0)) 2))"
  by (simp_all add: sample_init_program_def program_from_def run_block_def follow_def codegen_push_def guarded_def
      consume_gas_def check_stack_has_space_for_def MAX_STACK_SIZE_def push_next_def stack_push_def store_cell_def
      inc_stack_pointer_def gas_consts numeral_2_eq_2)

lemma sample_init_returns:
  assumes "memory (ctx_inner c) = []"
  shows "\<exists>m k. run_block sample_host e sample_init_program 2 (init_machine c 995 ((\<lambda>_. 0)(0 := 1, 1 := 0)) 2) =
      Inr (Leave m k) \<and> output_bytes (m_ctx m) = [0]"
proof (simp add: assms sample_init_program_def program_from_def run_block_def follow_def codegen_return_def
      check_stack_has_at_least_def return_result_from_stack_def pop_def stack_pop_def MAX_STACK_SIZE_def
      extend_memory_block_def round_up_32_def compute_memory_cost_def consume_gas_as_value_def
      return_result_with_offset_and_size_def extend_memory_def sample_host_def Let_def)
qed (simp add: assms write_result_def get_result_def exit_status_from_u8_def return_values_def result_output_def
      into_output_def Let_def)

lemma sample_init_ends:
  assumes "memory (ctx_inner c) = []"
  shows "\<exists>sub. execute sample_host 3 sample_init_program c 1000 = Inr sub \<and> output_bytes sub = [0]"
proof -
  have "compile_program sample_init_program = Inr ()"
    by (simp add: sample_init_program_def compile_program_def program_from_def op_compiles_def jumpdest_pcs_def
        jumpdest_blocks_def register_jump_destination_def jumpdest_pc_def map_filter_simps)
  moreover have n: "(3 :: nat) = Suc (Suc (Suc 0))" by simp
  moreover obtain m k where "run_block sample_host (execute sample_host 0) sample_init_program 2
      (init_machine c 995 ((\<lambda>_. 0)(0 := 1, 1 := 0)) 2) = Inr (Leave m k)" "output_bytes (m_ctx m) = [0]"
    using sample_init_returns [OF assms] by blast
  ultimately show ?thesis
    unfolding execute_def [of _ _ _ c] n
    by (simp add: setup_code_eq run_Suc sample_init_pushes del: run.simps fun_upd_apply One_nat_def)
qed

lemma sample_init_context: "memory (ctx_inner (init_context c j dest code gas)) = []"
  by (simp add: init_context_def syscall_context_new_def inner_context_default_def)

lemma sample_init_code:
  assumes "info_balance i = 10" and "info_nonce i = 0"
  shows "\<exists>c' out cost. run_init_code sample_host (execute sample_host 3) c off w (halves 3) 1000 sample_init_program pc
      (this_address c) i da hc = Inr (c', out, cost, SUCCESS_RETURN_CODE)"
proof -
  obtain sub where "execute sample_host 3 sample_init_program (init_context c (new_account (ctx_journal c) da 3) da pc 1000) 1000 =
      Inr sub"
    using sample_init_ends [OF sample_init_context] by blast
  then show ?thesis
    using assms by (simp add: run_init_code_def eject_base_def finish_create_def checked_sub_def checked_add_def
        init_context_def Let_def)
qed

lemma sample_creator_address: "this_address sample_creator = 0"
  by (simp add: sample_creator_def sample_ctx_def syscall_context_new_def env_default_def tx_env_default_def get_address_def)

lemma sample_parses:
  "from_bytecode sample_init_code = Inr sample_init_program" "to_bytecode sample_init_program = Inr sample_init_code"
proof -
  let ?ops = "[Push 1 1, Push0, Return]"
  have f: "flat_map_bytecode ?ops = Inr sample_init_code"
    by (simp add: sample_init_code_def biguint_to_bytes_be.simps)
  then show "to_bytecode sample_init_program = Inr sample_init_code"
    by (simp add: to_bytecode_def sample_init_program_def program_from_def)
  have "canonical 0 ?ops" by (simp add: op_ok_def op_size_def)
  then have "ops_from ([] @ sample_init_code) 0 = ?ops" using canonical_print_parse f by fastforce
  then show "from_bytecode sample_init_code = Inr sample_init_program"
    by (simp add: from_bytecode_eq sample_init_program_def program_from_def)
qed

lemma sample_code_bytes: "init_code sample_creator 0 4 = Inr sample_init_code"
  by (simp add: sample_creator_def sample_init_code_def resize_memory_if_necessary_def slice_def)

lemma sample_creation:
  "\<exists>c' out cost. create_aux sample_host (execute sample_host 3) sample_creator 4 0 (halves 3) 1000 None =
     Inr (c', out, cost, SUCCESS_RETURN_CODE)"
proof -
  have "length (contract_address_preimage 0 0) = 31"
    by (simp add: contract_address_preimage_def encode_rlp_u64_def Let_def)
  then have d: "compute_contract_address (keccak256 sample_host) 0 0 = 31"
    by (simp add: compute_contract_address_def sample_host_def)
  have l: "loaded sample_journal 0 = Some (sample_account 10 0)"
    "loaded (sample_journal\<lparr>j_accounts := (j_accounts sample_journal)(0 \<mapsto> sample_account 10 0)\<rparr>) 31 = None"
    by (simp_all add: loaded_eq sample_journal_def journal_new_def db_basic_def db_new_def)
  have r: "resize_memory_if_necessary (ctx_inner sample_creator) 0 4 = ctx_inner sample_creator"
    by (simp add: resize_memory_if_necessary_def sample_creator_def sample_init_code_def)
  have c: "ctx_journal sample_creator = sample_journal" "ic_program (ctx_inner sample_creator) \<noteq> sample_init_code"
    by (simp_all add: sample_creator_def sample_init_code_def)
  have i: "info_balance (info_from_journal (sample_account 10 0)) = 10" "info_nonce (info_from_journal (sample_account 10 0)) = 0"
    by (simp_all add: info_from_journal_def sample_account_def)
  have run: "\<exists>c' out cost. run_init_code sample_host (execute sample_host 3) (sample_creator\<lparr>ctx_journal := j\<rparr>) off w (halves 3)
      1000 sample_init_program pc 0 (info_from_journal (sample_account 10 0)) da hc = Inr (c', out, cost, SUCCESS_RETURN_CODE)"
    for j off w pc da hc
    using sample_init_code [OF i, of "sample_creator\<lparr>ctx_journal := j\<rparr>"] sample_creator_address by simp
  show ?thesis
    using sample_creator_address sample_parses sample_code_bytes d r c i run
    by (simp add: create_aux_def get_account_def get_account_mut_Some [OF l(1)]
        get_account_mut_None [OF l(2)] create_address_def checked_add_def Let_def gas_consts)
qed

theorem create_deploys_witness:
  "\<exists>c' cost dest. create_aux sample_host (execute sample_host 3) sample_creator 4 0 (halves 3) 1000 None =
       Inr (c', copy_from dest, cost, SUCCESS_RETURN_CODE) \<and>
     journal_view (ctx_journal c') dest = Some (3, 1, keccak256 sample_host [0]) \<and>
     j_contracts (ctx_journal c') (keccak256 sample_host [0]) = Some [0] \<and>
     (\<exists>k. journal_view (ctx_journal c') 0 = Some (7, 1, k))"
proof -
  have db: "j_db (ctx_journal sample_creator) = Some db_new"
    by (simp add: sample_creator_def sample_journal_def journal_new_def)
  obtain c' out cost where r: "create_aux sample_host (execute sample_host 3) sample_creator 4 0 (halves 3) 1000 None =
      Inr (c', out, cost, SUCCESS_RETURN_CODE)"
    using sample_creation by blast
  obtain b nonce k dest code p pc j sub where d: "journal_view sample_journal 0 = Some (b, nonce, k)"
    "init_code sample_creator 0 4 = Inr code" "from_bytecode code = Inr p"
    "execute sample_host 3 p (init_context sample_creator j dest pc 1000) 1000 = Inr sub"
    "if 3 \<le> b then out = copy_from dest \<and>
        journal_view (ctx_journal c') dest = Some (3, 1, keccak256 sample_host (output_bytes sub)) \<and>
        j_contracts (ctx_journal c') (keccak256 sample_host (output_bytes sub)) = Some (output_bytes sub) \<and>
        (\<forall>key. journal_slot (ctx_journal c') dest key = 0) \<and>
        (\<exists>k'. journal_view (ctx_journal c') 0 = Some (b - 3, nonce + 1, k'))
     else out = sysu256_zero \<and> journal_view (ctx_journal c') dest \<noteq> None"
    using create_deploys [OF r db] unfolding sample_creator_address to_primitive_halves
    by (auto simp: sample_creator_def)
  have "p = sample_init_program" using d(2,3) sample_code_bytes sample_parses(1) by simp
  then have "output_bytes sub = [0]"
    using d(4) sample_init_ends [OF sample_init_context, of sample_creator j dest pc 1000] by auto
  then show ?thesis using d(1,5) r sample_journal_view(1) by auto
qed

end
