(* ===== verification/Mlir.thy ===== *)
theory Mlir
  imports Prelude
begin

text \<open>
  The intermediate representation that the code generator writes: types, values, the operations
  of the dialects \<open>func\<close>, \<open>arith\<close> and \<open>llvm\<close> that the fragments of \<open>src/utils\<close> and the system
  call wrappers append to a block, the symbols of a module (\<open>utils/llvm_mlir.rs\<close>), and the rules
  by which \<open>verify\<close> accepts an operation.
\<close>

section \<open>Types, values and operations\<close>

datatype mlir_type = Ptr | Int_type nat

text \<open>A value is an argument of the entry block or the result of an operation, which is named by
  its position in the block.\<close>

datatype mlir_value = Argument nat mlir_type | Op_result nat mlir_type

fun value_type :: "mlir_value \<Rightarrow> mlir_type" where
  "value_type (Argument _ t) = t"
| "value_type (Op_result _ t) = t"

datatype cmpi_predicate =
    Pred_eq | Pred_ne | Pred_slt | Pred_sgt | Pred_sge | Pred_ult | Pred_ugt | Pred_ule | Pred_uge

datatype arith_op =
    Addi | Subi | Muli | Divui | Remui | Llvm_sdiv | Llvm_srem | Andi | Ori | Xori
  | Shli | Shrui | Shrsi | Llvm_shl | Llvm_ashr | Minui | Maxui | Ipowi

datatype mlir_op =
    Func_call string "mlir_value list" "mlir_type list"
  | Addressof string mlir_type
  | Constant nat mlir_type
  | Cmpi cmpi_predicate mlir_value mlir_value
  | Icmp cmpi_predicate mlir_value mlir_value
  | Arith arith_op mlir_value mlir_value
  | Trunci mlir_value mlir_type
  | Extui mlir_value mlir_type
  | Alloca mlir_value mlir_type
  | Load mlir_value mlir_type
  | Store mlir_value mlir_value
  | Get_element_ptr mlir_value int mlir_type
  | Get_element_ptr_dynamic mlir_value mlir_value mlir_type
  | Intr_bswap mlir_value mlir_type
  | Intr_ctlz mlir_value mlir_type
  | Intr_memcpy mlir_value mlir_value mlir_value
  | Intr_memmove mlir_value mlir_value mlir_value
  | Intr_memset mlir_value mlir_value mlir_value

fun op_results :: "mlir_op \<Rightarrow> mlir_type list" where
  "op_results (Func_call _ _ ts) = ts"
| "op_results (Addressof _ t) = [t]"
| "op_results (Constant _ t) = [t]"
| "op_results (Cmpi _ _ _) = [Int_type 1]"
| "op_results (Icmp _ _ _) = [Int_type 1]"
| "op_results (Arith _ a _) = [value_type a]"
| "op_results (Trunci _ t) = [t]"
| "op_results (Extui _ t) = [t]"
| "op_results (Alloca _ _) = [Ptr]"
| "op_results (Load _ t) = [t]"
| "op_results (Store _ _) = []"
| "op_results (Get_element_ptr _ _ _) = [Ptr]"
| "op_results (Get_element_ptr_dynamic _ _ _) = [Ptr]"
| "op_results (Intr_bswap _ t) = [t]"
| "op_results (Intr_ctlz _ t) = [t]"
| "op_results (Intr_memcpy _ _ _) = []"
| "op_results (Intr_memmove _ _ _) = []"
| "op_results (Intr_memset _ _ _) = []"

text \<open>\<open>CodegenError\<close>; an I/O error is given by its message, and the error of the \<open>melior\<close> crate is opaque.
  \<open>Panicked\<close> is not one of its variants: it is the outcome of a generator that reaches \<open>unreachable!\<close>.\<close>

datatype codegen_error = LinkError string | LLVMCompileError string | MeliorError | NotImplemented string | Panicked

type_synonym mlir_block = "mlir_op list"
type_synonym 'a cg = "codegen_error + 'a"

text \<open>\<open>append_operation\<close>, and \<open>append_operation(..).result(0)?\<close>, which fails on an operation
  without results.\<close>

definition append_operation :: "mlir_block \<Rightarrow> mlir_op \<Rightarrow> mlir_block" where
  "append_operation b op = b @ [op]"

definition append_result :: "mlir_block \<Rightarrow> mlir_op \<Rightarrow> (mlir_block \<times> mlir_value) cg" where
  "append_result b op =
     (case op_results op of
        [] \<Rightarrow> Inl MeliorError
      | t # _ \<Rightarrow> Inr (b @ [op], Op_result (length b) t))"

text \<open>
  The blocks that one operation of a program emits, as a tree: a block and where it leads. \<open>Br_end\<close> is the
  branch to the block in which the operation, or the branches of an enclosing \<open>Cond_br_join\<close>, go on; the
  last block of an operation is continued by the first of the next one. A value is named by its position among the
  operations of its own block and of those that dominate it, which are the blocks above it in the tree.
\<close>

datatype mlir_code = Code mlir_block terminator
and terminator =
    Br_end
  | Br_revert
  | Br_jumptable mlir_value
  | Func_return mlir_value
  | Cond_br mlir_value branch_target branch_target
  | Cond_br_join mlir_value branch_target branch_target mlir_code
and branch_target = Revert_block | End_block | Jumptable_block mlir_value | Inner mlir_code

text \<open>Emitting a block piece by piece: \<open>b\<close> holds the operations that dominate the insertion point.\<close>

type_synonym 'v emit = "mlir_block \<Rightarrow> (mlir_block \<times> 'v) cg"
type_synonym emit_code = "mlir_block \<Rightarrow> mlir_code cg"

fun prefix_code :: "mlir_block \<Rightarrow> mlir_code \<Rightarrow> mlir_code" where
  "prefix_code ops (Code ops' t) = Code (ops @ ops') t"

definition emit_bind :: "'v emit \<Rightarrow> ('v \<Rightarrow> 'w emit) \<Rightarrow> 'w emit" where
  "emit_bind e k b = and_then (e b) (\<lambda>(b, v). k v b)"

definition emit_then :: "'v emit \<Rightarrow> ('v \<Rightarrow> emit_code) \<Rightarrow> emit_code" where
  "emit_then e k b = and_then (e b) (\<lambda>(b', v). and_then (k v b') (\<lambda>c. Inr (prefix_code (drop (length b) b') c)))"

definition emit_op :: "mlir_op \<Rightarrow> mlir_value emit" where
  "emit_op op b = append_result b op"

definition emit_effect :: "mlir_op \<Rightarrow> unit emit" where
  "emit_effect op b = Inr (append_operation b op, ())"

definition emit_value :: "'v \<Rightarrow> 'v emit" where
  "emit_value v b = Inr (b, v)"

text \<open>The ways to end a block.\<close>

definition emit_end :: emit_code where
  "emit_end b = Inr (Code [] Br_end)"

definition emit_revert :: emit_code where
  "emit_revert b = Inr (Code [] Br_revert)"

definition emit_jump :: "mlir_value \<Rightarrow> emit_code" where
  "emit_jump pc b = Inr (Code [] (Br_jumptable pc))"

definition emit_return :: "mlir_value \<Rightarrow> emit_code" where
  "emit_return v b = Inr (Code [] (Func_return v))"

definition emit_inner :: "emit_code \<Rightarrow> mlir_block \<Rightarrow> branch_target cg" where
  "emit_inner k b = and_then (k b) (\<lambda>c. Inr (Inner c))"

definition emit_target :: "branch_target \<Rightarrow> mlir_block \<Rightarrow> branch_target cg" where
  "emit_target t b = Inr t"

definition emit_cond_br ::
  "mlir_value \<Rightarrow> (mlir_block \<Rightarrow> branch_target cg) \<Rightarrow> (mlir_block \<Rightarrow> branch_target cg) \<Rightarrow> emit_code" where
  "emit_cond_br v t e b = and_then (t b) (\<lambda>t. and_then (e b) (\<lambda>e. Inr (Code [] (Cond_br v t e))))"

definition emit_cond_br_join ::
  "mlir_value \<Rightarrow> (mlir_block \<Rightarrow> branch_target cg) \<Rightarrow> (mlir_block \<Rightarrow> branch_target cg) \<Rightarrow> emit_code \<Rightarrow> emit_code" where
  "emit_cond_br_join v t e j b =
     and_then (t b) (\<lambda>t. and_then (e b) (\<lambda>e. and_then (j b) (\<lambda>j. Inr (Code [] (Cond_br_join v t e j)))))"

section \<open>Modules\<close>

datatype linkage = External | Internal
datatype visibility = Public | Private

datatype mlir_item =
    Global string mlir_type linkage
  | Func string "mlir_type list" "mlir_type list" visibility

type_synonym mlir_module = "mlir_item list"

fun item_name :: "mlir_item \<Rightarrow> string" where
  "item_name (Global s _ _) = s"
| "item_name (Func s _ _ _) = s"

text \<open>\<open>llvm_mlir::global\<close> and \<open>llvm_mlir::addressof\<close>.\<close>

definition mlir_global :: "string \<Rightarrow> mlir_type \<Rightarrow> linkage \<Rightarrow> mlir_item" where
  "mlir_global name global_type lk = Global name global_type lk"

definition mlir_addressof :: "string \<Rightarrow> mlir_type \<Rightarrow> mlir_op" where
  "mlir_addressof name result_type = Addressof name result_type"

definition find_item :: "mlir_module \<Rightarrow> string \<Rightarrow> mlir_item option" where
  "find_item M s = find (\<lambda>it. item_name it = s) M"

section \<open>Verification\<close>

text \<open>
  \<open>ts\<close> are the result types of the operations before this one in the block, \<open>args\<close> the types of
  the arguments of the entry block. A value may be used when it is defined, with its type. A call
  needs a function of the module with exactly its operand and result types, an \<open>addressof\<close> a
  global, a return the result types of the function it is in.
\<close>

fun value_ok :: "mlir_type list \<Rightarrow> mlir_type list list \<Rightarrow> mlir_value \<Rightarrow> bool" where
  "value_ok args ts (Argument i t) \<longleftrightarrow> i < length args \<and> args ! i = t"
| "value_ok args ts (Op_result i t) \<longleftrightarrow> i < length ts \<and> ts ! i = [t]"

fun is_int :: "mlir_type \<Rightarrow> bool" where
  "is_int (Int_type _) = True"
| "is_int Ptr = False"

fun narrower :: "mlir_type \<Rightarrow> mlir_type \<Rightarrow> bool" where
  "narrower (Int_type v) (Int_type w) \<longleftrightarrow> v < w"
| "narrower _ _ \<longleftrightarrow> False"

fun fits_type :: "nat \<Rightarrow> mlir_type \<Rightarrow> bool" where
  "fits_type n (Int_type w) \<longleftrightarrow> n < 2 ^ w"
| "fits_type n Ptr \<longleftrightarrow> False"

definition call_verifies :: "mlir_module \<Rightarrow> string \<Rightarrow> mlir_type list \<Rightarrow> mlir_type list \<Rightarrow> bool" where
  "call_verifies M s ats rts =
     (case find_item M s of Some (Func _ ps rs _) \<Rightarrow> ps = ats \<and> rs = rts | _ \<Rightarrow> False)"

definition global_verifies :: "mlir_module \<Rightarrow> string \<Rightarrow> bool" where
  "global_verifies M s = (case find_item M s of Some (Global _ _ _) \<Rightarrow> True | _ \<Rightarrow> False)"

fun op_operands :: "mlir_op \<Rightarrow> mlir_value list" where
  "op_operands (Func_call _ vs _) = vs"
| "op_operands (Addressof _ _) = []"
| "op_operands (Constant _ _) = []"
| "op_operands (Cmpi _ a b) = [a, b]"
| "op_operands (Icmp _ a b) = [a, b]"
| "op_operands (Arith _ a b) = [a, b]"
| "op_operands (Trunci a _) = [a]"
| "op_operands (Extui a _) = [a]"
| "op_operands (Alloca n _) = [n]"
| "op_operands (Load p _) = [p]"
| "op_operands (Store v p) = [v, p]"
| "op_operands (Get_element_ptr p _ _) = [p]"
| "op_operands (Get_element_ptr_dynamic p i _) = [p, i]"
| "op_operands (Intr_bswap a _) = [a]"
| "op_operands (Intr_ctlz a _) = [a]"
| "op_operands (Intr_memcpy d s n) = [d, s, n]"
| "op_operands (Intr_memmove d s n) = [d, s, n]"
| "op_operands (Intr_memset d x n) = [d, x, n]"

fun op_typed :: "mlir_module \<Rightarrow> mlir_op \<Rightarrow> bool" where
  "op_typed M (Func_call s vs ts) \<longleftrightarrow> call_verifies M s (map value_type vs) ts"
| "op_typed M (Addressof s t) \<longleftrightarrow> t = Ptr \<and> global_verifies M s"
| "op_typed M (Constant n t) \<longleftrightarrow> fits_type n t"
| "op_typed M (Cmpi _ a b) \<longleftrightarrow> is_int (value_type a) \<and> value_type b = value_type a"
| "op_typed M (Icmp _ a b) \<longleftrightarrow> value_type b = value_type a"
| "op_typed M (Arith _ a b) \<longleftrightarrow> is_int (value_type a) \<and> value_type b = value_type a"
| "op_typed M (Trunci a t) \<longleftrightarrow> narrower t (value_type a)"
| "op_typed M (Extui a t) \<longleftrightarrow> narrower (value_type a) t"
| "op_typed M (Alloca n _) \<longleftrightarrow> is_int (value_type n)"
| "op_typed M (Load p _) \<longleftrightarrow> value_type p = Ptr"
| "op_typed M (Store _ p) \<longleftrightarrow> value_type p = Ptr"
| "op_typed M (Get_element_ptr p _ _) \<longleftrightarrow> value_type p = Ptr"
| "op_typed M (Get_element_ptr_dynamic p i _) \<longleftrightarrow> value_type p = Ptr \<and> is_int (value_type i)"
| "op_typed M (Intr_bswap a t) \<longleftrightarrow> is_int t \<and> value_type a = t"
| "op_typed M (Intr_ctlz a t) \<longleftrightarrow> is_int t \<and> value_type a = t"
| "op_typed M (Intr_memcpy d s n) \<longleftrightarrow> value_type d = Ptr \<and> value_type s = Ptr \<and> is_int (value_type n)"
| "op_typed M (Intr_memmove d s n) \<longleftrightarrow> value_type d = Ptr \<and> value_type s = Ptr \<and> is_int (value_type n)"
| "op_typed M (Intr_memset d x n) \<longleftrightarrow> value_type d = Ptr \<and> value_type x = Int_type 8 \<and> is_int (value_type n)"

definition op_verifies :: "mlir_module \<Rightarrow> mlir_type list \<Rightarrow> mlir_type list list \<Rightarrow> mlir_op \<Rightarrow> bool" where
  "op_verifies M args ts op \<longleftrightarrow> list_all (value_ok args ts) (op_operands op) \<and> op_typed M op"

primrec ops_verify :: "mlir_module \<Rightarrow> mlir_type list \<Rightarrow> mlir_type list list \<Rightarrow> mlir_block \<Rightarrow> bool" where
  "ops_verify M args ts [] \<longleftrightarrow> True"
| "ops_verify M args ts (op # ops) \<longleftrightarrow>
     op_verifies M args ts op \<and> ops_verify M args (ts @ [op_results op]) ops"

abbreviation block_verifies :: "mlir_module \<Rightarrow> mlir_type list \<Rightarrow> mlir_block \<Rightarrow> bool" where
  "block_verifies M args b \<equiv> ops_verify M args [] b"

text \<open>A function returns a value of its result type \<open>ret\<close>, a branch tests one bit, and the jump table
  takes a position of 256 bits.\<close>

abbreviation operand_ok :: "mlir_type list \<Rightarrow> mlir_type list list \<Rightarrow> mlir_value \<Rightarrow> mlir_type \<Rightarrow> bool" where
  "operand_ok args ts v t \<equiv> value_ok args ts v \<and> value_type v = t"

primrec code_verifies :: "mlir_module \<Rightarrow> mlir_type \<Rightarrow> mlir_type list \<Rightarrow> mlir_type list list \<Rightarrow> mlir_code \<Rightarrow> bool"
  and terminator_verifies :: "mlir_module \<Rightarrow> mlir_type \<Rightarrow> mlir_type list \<Rightarrow> mlir_type list list \<Rightarrow> terminator \<Rightarrow> bool"
  and target_verifies :: "mlir_module \<Rightarrow> mlir_type \<Rightarrow> mlir_type list \<Rightarrow> mlir_type list list \<Rightarrow> branch_target \<Rightarrow> bool" where
  "code_verifies M ret args ts (Code ops t) \<longleftrightarrow>
     ops_verify M args ts ops \<and> terminator_verifies M ret args (ts @ map op_results ops) t"
| "terminator_verifies M ret args ts Br_end \<longleftrightarrow> True"
| "terminator_verifies M ret args ts Br_revert \<longleftrightarrow> True"
| "terminator_verifies M ret args ts (Br_jumptable v) \<longleftrightarrow> operand_ok args ts v (Int_type 256)"
| "terminator_verifies M ret args ts (Func_return v) \<longleftrightarrow> operand_ok args ts v ret"
| "terminator_verifies M ret args ts (Cond_br v t e) \<longleftrightarrow> operand_ok args ts v (Int_type 1) \<and>
     target_verifies M ret args ts t \<and> target_verifies M ret args ts e"
| "terminator_verifies M ret args ts (Cond_br_join v t e j) \<longleftrightarrow> operand_ok args ts v (Int_type 1) \<and>
     target_verifies M ret args ts t \<and> target_verifies M ret args ts e \<and> code_verifies M ret args ts j"
| "target_verifies M ret args ts Revert_block \<longleftrightarrow> True"
| "target_verifies M ret args ts End_block \<longleftrightarrow> True"
| "target_verifies M ret args ts (Jumptable_block v) \<longleftrightarrow> operand_ok args ts v (Int_type 256)"
| "target_verifies M ret args ts (Inner c) \<longleftrightarrow> code_verifies M ret args ts c"

lemma ops_verify_append:
  "ops_verify M args ts (xs @ ys) \<longleftrightarrow>
     ops_verify M args ts xs \<and> ops_verify M args (ts @ map op_results xs) ys"
  by (induction xs arbitrary: ts) auto

text \<open>A value that is defined stays defined when operations are appended.\<close>

lemma value_ok_append: "value_ok args ts v \<Longrightarrow> value_ok args (ts @ us) v"
  by (cases v) (auto simp: nth_append)

lemma find_item_append:
  "find_item (M @ N) s = (case find_item M s of Some it \<Rightarrow> Some it | None \<Rightarrow> find_item N s)"
  by (induction M) (auto simp: find_item_def)

lemma find_item_None: "find_item M s = None \<longleftrightarrow> s \<notin> item_name ` set M"
  by (auto simp: find_item_def find_None_iff)

lemma find_item_Some:
  assumes "distinct (map item_name M)" and "it \<in> set M"
  shows "find_item M (item_name it) = Some it"
  using assms by (induction M) (auto simp: find_item_def)

end
