(* ===== verification/Binding.thy ===== *)
theory Binding
  imports Mlir
begin

text \<open>
  How generated code reaches the system calls (\<open>syscall.rs\<close> from the module \<open>symbols\<close> on, and the
  wrappers in \<open>codegen/context.rs\<close>). Four tables have to agree, which no compiler checks: the \<open>extern "C"\<close>
  functions of \<open>SyscallContext\<close>, their registration in the execution engine, their declaration in the MLIR
  module, and the calls that the wrappers append to a block.
\<close>

section \<open>Symbols\<close>

text \<open>The module \<open>symbols\<close> of \<open>syscall.rs\<close>.\<close>

definition SYM_CONTEXT_IS_STATIC :: string where
  "SYM_CONTEXT_IS_STATIC = ''evm_mlir__context_is_static''"

definition SYM_WRITE_RESULT :: string where
  "SYM_WRITE_RESULT = ''evm_mlir__write_result''"

definition SYM_EXTEND_MEMORY :: string where
  "SYM_EXTEND_MEMORY = ''evm_mlir__extend_memory''"

definition SYM_KECCAK256_HASHER :: string where
  "SYM_KECCAK256_HASHER = ''evm_mlir__keccak256_hasher''"

definition SYM_STORAGE_WRITE :: string where
  "SYM_STORAGE_WRITE = ''evm_mlir__write_storage''"

definition SYM_STORAGE_READ :: string where
  "SYM_STORAGE_READ = ''evm_mlir__read_storage''"

definition SYM_APPEND_LOG :: string where
  "SYM_APPEND_LOG = ''evm_mlir__append_log''"

definition SYM_APPEND_LOG_ONE_TOPIC :: string where
  "SYM_APPEND_LOG_ONE_TOPIC = ''evm_mlir__append_log_with_one_topic''"

definition SYM_APPEND_LOG_TWO_TOPICS :: string where
  "SYM_APPEND_LOG_TWO_TOPICS = ''evm_mlir__append_log_with_two_topics''"

definition SYM_APPEND_LOG_THREE_TOPICS :: string where
  "SYM_APPEND_LOG_THREE_TOPICS = ''evm_mlir__append_log_with_three_topics''"

definition SYM_APPEND_LOG_FOUR_TOPICS :: string where
  "SYM_APPEND_LOG_FOUR_TOPICS = ''evm_mlir__append_log_with_four_topics''"

definition SYM_GET_CALLDATA_PTR :: string where
  "SYM_GET_CALLDATA_PTR = ''evm_mlir__get_calldata_ptr''"

definition SYM_GET_CALLDATA_SIZE :: string where
  "SYM_GET_CALLDATA_SIZE = ''evm_mlir__get_calldata_size''"

definition SYM_GET_CODESIZE_FROM_ADDRESS :: string where
  "SYM_GET_CODESIZE_FROM_ADDRESS = ''evm_mlir__get_codesize_from_address''"

definition SYM_COPY_CODE_TO_MEMORY :: string where
  "SYM_COPY_CODE_TO_MEMORY = ''evm_mlir__copy_code_to_memory''"

definition SYM_GET_ADDRESS_PTR :: string where
  "SYM_GET_ADDRESS_PTR = ''evm_mlir__get_address_ptr''"

definition SYM_GET_GASLIMIT :: string where
  "SYM_GET_GASLIMIT = ''evm_mlir__get_gaslimit''"

definition SYM_STORE_IN_CALLVALUE_PTR :: string where
  "SYM_STORE_IN_CALLVALUE_PTR = ''evm_mlir__store_in_callvalue_ptr''"

definition SYM_STORE_IN_BLOBBASEFEE_PTR :: string where
  "SYM_STORE_IN_BLOBBASEFEE_PTR = ''evm_mlir__store_in_blobbasefee_ptr''"

definition SYM_GET_BLOB_HASH_AT_INDEX :: string where
  "SYM_GET_BLOB_HASH_AT_INDEX = ''evm_mlir__get_blob_hash_at_index''"

definition SYM_STORE_IN_BALANCE :: string where
  "SYM_STORE_IN_BALANCE = ''evm_mlir__store_in_balance''"

definition SYM_GET_COINBASE_PTR :: string where
  "SYM_GET_COINBASE_PTR = ''evm_mlir__get_coinbase_ptr''"

definition SYM_STORE_IN_TIMESTAMP_PTR :: string where
  "SYM_STORE_IN_TIMESTAMP_PTR = ''evm_mlir__store_in_timestamp_ptr''"

definition SYM_STORE_IN_BASEFEE_PTR :: string where
  "SYM_STORE_IN_BASEFEE_PTR = ''evm_mlir__store_in_basefee_ptr''"

definition SYM_STORE_IN_CALLER_PTR :: string where
  "SYM_STORE_IN_CALLER_PTR = ''evm_mlir__store_in_caller_ptr''"

definition SYM_GET_ORIGIN :: string where
  "SYM_GET_ORIGIN = ''evm_mlir__get_origin''"

definition SYM_GET_CHAINID :: string where
  "SYM_GET_CHAINID = ''evm_mlir__get_chainid''"

definition SYM_STORE_IN_GASPRICE_PTR :: string where
  "SYM_STORE_IN_GASPRICE_PTR = ''evm_mlir__store_in_gasprice_ptr''"

definition SYM_GET_BLOCK_NUMBER :: string where
  "SYM_GET_BLOCK_NUMBER = ''evm_mlir__get_block_number''"

definition SYM_STORE_IN_SELFBALANCE_PTR :: string where
  "SYM_STORE_IN_SELFBALANCE_PTR = ''evm_mlir__store_in_selfbalance_ptr''"

definition SYM_COPY_EXT_CODE_TO_MEMORY :: string where
  "SYM_COPY_EXT_CODE_TO_MEMORY = ''evm_mlir__copy_ext_code_to_memory''"

definition SYM_GET_PREVRANDAO :: string where
  "SYM_GET_PREVRANDAO = ''evm_mlir__get_prevrandao''"

definition SYM_GET_BLOCK_HASH :: string where
  "SYM_GET_BLOCK_HASH = ''evm_mlir__get_block_hash''"

definition SYM_GET_CODE_HASH :: string where
  "SYM_GET_CODE_HASH = ''evm_mlir__get_code_hash''"

definition SYM_CALL :: string where
  "SYM_CALL = ''evm_mlir__call''"

definition SYM_CREATE :: string where
  "SYM_CREATE = ''evm_mlir__create''"

definition SYM_CREATE2 :: string where
  "SYM_CREATE2 = ''evm_mlir__create2''"

definition SYM_GET_RETURN_DATA_SIZE :: string where
  "SYM_GET_RETURN_DATA_SIZE = ''evm_mlir__get_return_data_size''"

definition SYM_COPY_RETURN_DATA_INTO_MEMORY :: string where
  "SYM_COPY_RETURN_DATA_INTO_MEMORY = ''evm_mlir__copy_return_data_into_memory''"

definition SYM_TRANSIENT_STORAGE_READ :: string where
  "SYM_TRANSIENT_STORAGE_READ = ''evm_mlir__transient_storage_read''"

definition SYM_TRANSIENT_STORAGE_WRITE :: string where
  "SYM_TRANSIENT_STORAGE_WRITE = ''evm_mlir__transient_storage_write''"

definition SYM_SELFDESTRUCT :: string where
  "SYM_SELFDESTRUCT = ''evm_mlir__selfdestruct''"

lemmas symbol_defs =
  SYM_CONTEXT_IS_STATIC_def SYM_WRITE_RESULT_def SYM_EXTEND_MEMORY_def SYM_KECCAK256_HASHER_def
  SYM_STORAGE_WRITE_def SYM_STORAGE_READ_def SYM_APPEND_LOG_def SYM_APPEND_LOG_ONE_TOPIC_def
  SYM_APPEND_LOG_TWO_TOPICS_def SYM_APPEND_LOG_THREE_TOPICS_def SYM_APPEND_LOG_FOUR_TOPICS_def SYM_GET_CALLDATA_PTR_def
  SYM_GET_CALLDATA_SIZE_def SYM_GET_CODESIZE_FROM_ADDRESS_def SYM_COPY_CODE_TO_MEMORY_def SYM_GET_ADDRESS_PTR_def
  SYM_GET_GASLIMIT_def SYM_STORE_IN_CALLVALUE_PTR_def SYM_STORE_IN_BLOBBASEFEE_PTR_def SYM_GET_BLOB_HASH_AT_INDEX_def
  SYM_STORE_IN_BALANCE_def SYM_GET_COINBASE_PTR_def SYM_STORE_IN_TIMESTAMP_PTR_def SYM_STORE_IN_BASEFEE_PTR_def
  SYM_STORE_IN_CALLER_PTR_def SYM_GET_ORIGIN_def SYM_GET_CHAINID_def SYM_STORE_IN_GASPRICE_PTR_def
  SYM_GET_BLOCK_NUMBER_def SYM_STORE_IN_SELFBALANCE_PTR_def SYM_COPY_EXT_CODE_TO_MEMORY_def SYM_GET_PREVRANDAO_def
  SYM_GET_BLOCK_HASH_def SYM_GET_CODE_HASH_def SYM_CALL_def SYM_CREATE_def
  SYM_CREATE2_def SYM_GET_RETURN_DATA_SIZE_def SYM_COPY_RETURN_DATA_INTO_MEMORY_def SYM_TRANSIENT_STORAGE_READ_def
  SYM_TRANSIENT_STORAGE_WRITE_def SYM_SELFDESTRUCT_def

section \<open>The functions on the Rust side\<close>

text \<open>The parameters and the result of every \<open>extern "C"\<close> function of \<open>SyscallContext\<close>. A reference
  or a raw pointer is passed as a pointer, an integer at its width.\<close>

datatype rust_type = Self_ref | Ref_to string | Raw_ptr string | R_u8 | R_u32 | R_u64 | R_i64

fun c_type :: "rust_type \<Rightarrow> mlir_type" where
  "c_type Self_ref = Ptr"
| "c_type (Ref_to _) = Ptr"
| "c_type (Raw_ptr _) = Ptr"
| "c_type R_u8 = Int_type 8"
| "c_type R_u32 = Int_type 32"
| "c_type R_u64 = Int_type 64"
| "c_type R_i64 = Int_type 64"

record rust_fn =
  fn_name :: string
  fn_params :: "rust_type list"
  fn_result :: "rust_type option"

definition fn_write_result :: rust_fn where
  "fn_write_result = \<lparr>fn_name = ''write_result'', fn_params = [Self_ref, R_u32, R_u32, R_u64, R_u8], fn_result = None\<rparr>"

definition fn_get_return_data_size :: rust_fn where
  "fn_get_return_data_size = \<lparr>fn_name = ''get_return_data_size'', fn_params = [Self_ref], fn_result = Some R_u32\<rparr>"

definition fn_copy_return_data_into_memory :: rust_fn where
  "fn_copy_return_data_into_memory = \<lparr>fn_name = ''copy_return_data_into_memory'', fn_params = [Self_ref, R_u32, R_u32, R_u32], fn_result = None\<rparr>"

definition fn_call :: rust_fn where
  "fn_call = \<lparr>fn_name = ''call'', fn_params = [Self_ref, R_u64, Ref_to ''U256'', Ref_to ''U256'', R_u32, R_u32, R_u32, R_u32, R_u64, Ref_to ''u64'', R_u8], fn_result = Some R_u8\<rparr>"

definition fn_store_in_selfbalance_ptr :: rust_fn where
  "fn_store_in_selfbalance_ptr = \<lparr>fn_name = ''store_in_selfbalance_ptr'', fn_params = [Self_ref, Ref_to ''U256''], fn_result = None\<rparr>"

definition fn_keccak256_hasher :: rust_fn where
  "fn_keccak256_hasher = \<lparr>fn_name = ''keccak256_hasher'', fn_params = [Self_ref, R_u32, R_u32, Ref_to ''U256''], fn_result = None\<rparr>"

definition fn_store_in_callvalue_ptr :: rust_fn where
  "fn_store_in_callvalue_ptr = \<lparr>fn_name = ''store_in_callvalue_ptr'', fn_params = [Self_ref, Ref_to ''U256''], fn_result = None\<rparr>"

definition fn_store_in_blobbasefee_ptr :: rust_fn where
  "fn_store_in_blobbasefee_ptr = \<lparr>fn_name = ''store_in_blobbasefee_ptr'', fn_params = [Self_ref, Ref_to ''u128''], fn_result = None\<rparr>"

definition fn_get_gaslimit :: rust_fn where
  "fn_get_gaslimit = \<lparr>fn_name = ''get_gaslimit'', fn_params = [Self_ref], fn_result = Some R_u64\<rparr>"

definition fn_store_in_caller_ptr :: rust_fn where
  "fn_store_in_caller_ptr = \<lparr>fn_name = ''store_in_caller_ptr'', fn_params = [Self_ref, Ref_to ''U256''], fn_result = None\<rparr>"

definition fn_store_in_gasprice_ptr :: rust_fn where
  "fn_store_in_gasprice_ptr = \<lparr>fn_name = ''store_in_gasprice_ptr'', fn_params = [Self_ref, Ref_to ''U256''], fn_result = None\<rparr>"

definition fn_get_chainid :: rust_fn where
  "fn_get_chainid = \<lparr>fn_name = ''get_chainid'', fn_params = [Self_ref], fn_result = Some R_u64\<rparr>"

definition fn_get_calldata_ptr :: rust_fn where
  "fn_get_calldata_ptr = \<lparr>fn_name = ''get_calldata_ptr'', fn_params = [Self_ref], fn_result = Some (Raw_ptr ''u8'')\<rparr>"

definition fn_get_calldata_size_syscall :: rust_fn where
  "fn_get_calldata_size_syscall = \<lparr>fn_name = ''get_calldata_size_syscall'', fn_params = [Self_ref], fn_result = Some R_u32\<rparr>"

definition fn_get_origin :: rust_fn where
  "fn_get_origin = \<lparr>fn_name = ''get_origin'', fn_params = [Self_ref, Ref_to ''U256''], fn_result = None\<rparr>"

definition fn_extend_memory :: rust_fn where
  "fn_extend_memory = \<lparr>fn_name = ''extend_memory'', fn_params = [Self_ref, R_u32], fn_result = Some (Raw_ptr ''u8'')\<rparr>"

definition fn_copy_code_to_memory :: rust_fn where
  "fn_copy_code_to_memory = \<lparr>fn_name = ''copy_code_to_memory'', fn_params = [Self_ref, R_u32, R_u32, R_u32], fn_result = None\<rparr>"

definition fn_read_storage :: rust_fn where
  "fn_read_storage = \<lparr>fn_name = ''read_storage'', fn_params = [Self_ref, Ref_to ''U256'', Ref_to ''U256''], fn_result = Some R_i64\<rparr>"

definition fn_write_storage :: rust_fn where
  "fn_write_storage = \<lparr>fn_name = ''write_storage'', fn_params = [Self_ref, Ref_to ''U256'', Ref_to ''U256''], fn_result = Some R_i64\<rparr>"

definition fn_append_log :: rust_fn where
  "fn_append_log = \<lparr>fn_name = ''append_log'', fn_params = [Self_ref, R_u32, R_u32], fn_result = None\<rparr>"

definition fn_append_log_with_one_topic :: rust_fn where
  "fn_append_log_with_one_topic = \<lparr>fn_name = ''append_log_with_one_topic'', fn_params = [Self_ref, R_u32, R_u32, Ref_to ''U256''], fn_result = None\<rparr>"

definition fn_append_log_with_two_topics :: rust_fn where
  "fn_append_log_with_two_topics = \<lparr>fn_name = ''append_log_with_two_topics'', fn_params = [Self_ref, R_u32, R_u32, Ref_to ''U256'', Ref_to ''U256''], fn_result = None\<rparr>"

definition fn_append_log_with_three_topics :: rust_fn where
  "fn_append_log_with_three_topics = \<lparr>fn_name = ''append_log_with_three_topics'', fn_params = [Self_ref, R_u32, R_u32, Ref_to ''U256'', Ref_to ''U256'', Ref_to ''U256''], fn_result = None\<rparr>"

definition fn_append_log_with_four_topics :: rust_fn where
  "fn_append_log_with_four_topics = \<lparr>fn_name = ''append_log_with_four_topics'', fn_params = [Self_ref, R_u32, R_u32, Ref_to ''U256'', Ref_to ''U256'', Ref_to ''U256'', Ref_to ''U256''], fn_result = None\<rparr>"

definition fn_get_block_number :: rust_fn where
  "fn_get_block_number = \<lparr>fn_name = ''get_block_number'', fn_params = [Self_ref, Ref_to ''U256''], fn_result = None\<rparr>"

definition fn_get_block_hash :: rust_fn where
  "fn_get_block_hash = \<lparr>fn_name = ''get_block_hash'', fn_params = [Self_ref, Ref_to ''U256''], fn_result = None\<rparr>"

definition fn_get_codesize_from_address :: rust_fn where
  "fn_get_codesize_from_address = \<lparr>fn_name = ''get_codesize_from_address'', fn_params = [Self_ref, Ref_to ''U256'', Ref_to ''u64''], fn_result = Some R_u64\<rparr>"

definition fn_get_address_ptr :: rust_fn where
  "fn_get_address_ptr = \<lparr>fn_name = ''get_address_ptr'', fn_params = [Self_ref], fn_result = Some (Raw_ptr ''u8'')\<rparr>"

definition fn_get_prevrandao :: rust_fn where
  "fn_get_prevrandao = \<lparr>fn_name = ''get_prevrandao'', fn_params = [Self_ref, Ref_to ''U256''], fn_result = None\<rparr>"

definition fn_get_coinbase_ptr :: rust_fn where
  "fn_get_coinbase_ptr = \<lparr>fn_name = ''get_coinbase_ptr'', fn_params = [Self_ref], fn_result = Some (Raw_ptr ''u8'')\<rparr>"

definition fn_store_in_timestamp_ptr :: rust_fn where
  "fn_store_in_timestamp_ptr = \<lparr>fn_name = ''store_in_timestamp_ptr'', fn_params = [Self_ref, Ref_to ''U256''], fn_result = None\<rparr>"

definition fn_store_in_basefee_ptr :: rust_fn where
  "fn_store_in_basefee_ptr = \<lparr>fn_name = ''store_in_basefee_ptr'', fn_params = [Self_ref, Ref_to ''U256''], fn_result = None\<rparr>"

definition fn_store_in_balance :: rust_fn where
  "fn_store_in_balance = \<lparr>fn_name = ''store_in_balance'', fn_params = [Self_ref, Ref_to ''U256'', Ref_to ''U256''], fn_result = Some R_i64\<rparr>"

definition fn_get_blob_hash_at_index :: rust_fn where
  "fn_get_blob_hash_at_index = \<lparr>fn_name = ''get_blob_hash_at_index'', fn_params = [Self_ref, Ref_to ''U256'', Ref_to ''U256''], fn_result = None\<rparr>"

definition fn_copy_ext_code_to_memory :: rust_fn where
  "fn_copy_ext_code_to_memory = \<lparr>fn_name = ''copy_ext_code_to_memory'', fn_params = [Self_ref, Ref_to ''U256'', R_u32, R_u32, R_u32], fn_result = Some R_u64\<rparr>"

definition fn_get_code_hash :: rust_fn where
  "fn_get_code_hash = \<lparr>fn_name = ''get_code_hash'', fn_params = [Self_ref, Ref_to ''U256''], fn_result = Some R_u64\<rparr>"

definition fn_create :: rust_fn where
  "fn_create = \<lparr>fn_name = ''create'', fn_params = [Self_ref, R_u32, R_u32, Ref_to ''U256'', Ref_to ''u64''], fn_result = Some R_u8\<rparr>"

definition fn_create2 :: rust_fn where
  "fn_create2 = \<lparr>fn_name = ''create2'', fn_params = [Self_ref, R_u32, R_u32, Ref_to ''U256'', Ref_to ''u64'', Ref_to ''U256''], fn_result = Some R_u8\<rparr>"

definition fn_selfdestruct :: rust_fn where
  "fn_selfdestruct = \<lparr>fn_name = ''selfdestruct'', fn_params = [Self_ref, Ref_to ''U256''], fn_result = Some R_u64\<rparr>"

definition fn_read_transient_storage :: rust_fn where
  "fn_read_transient_storage = \<lparr>fn_name = ''read_transient_storage'', fn_params = [Self_ref, Ref_to ''U256'', Ref_to ''U256''], fn_result = None\<rparr>"

definition fn_write_transient_storage :: rust_fn where
  "fn_write_transient_storage = \<lparr>fn_name = ''write_transient_storage'', fn_params = [Self_ref, Ref_to ''U256'', Ref_to ''U256''], fn_result = None\<rparr>"

lemmas extern_defs =
  fn_write_result_def fn_get_return_data_size_def fn_copy_return_data_into_memory_def fn_call_def
  fn_store_in_selfbalance_ptr_def fn_keccak256_hasher_def fn_store_in_callvalue_ptr_def fn_store_in_blobbasefee_ptr_def
  fn_get_gaslimit_def fn_store_in_caller_ptr_def fn_store_in_gasprice_ptr_def fn_get_chainid_def
  fn_get_calldata_ptr_def fn_get_calldata_size_syscall_def fn_get_origin_def fn_extend_memory_def
  fn_copy_code_to_memory_def fn_read_storage_def fn_write_storage_def fn_append_log_def
  fn_append_log_with_one_topic_def fn_append_log_with_two_topics_def fn_append_log_with_three_topics_def fn_append_log_with_four_topics_def
  fn_get_block_number_def fn_get_block_hash_def fn_get_codesize_from_address_def fn_get_address_ptr_def
  fn_get_prevrandao_def fn_get_coinbase_ptr_def fn_store_in_timestamp_ptr_def fn_store_in_basefee_ptr_def
  fn_store_in_balance_def fn_get_blob_hash_at_index_def fn_copy_ext_code_to_memory_def fn_get_code_hash_def
  fn_create_def fn_create2_def fn_selfdestruct_def fn_read_transient_storage_def
  fn_write_transient_storage_def

section \<open>Registration in the execution engine\<close>

text \<open>What a symbol of the engine stands for: an \<open>extern "C"\<close> function, or the flag
  \<open>ctx_is_static\<close> of the call frame. The function type that each registration casts to is dropped with the
  cast to a raw pointer.\<close>

datatype target = Function rust_fn | Static_flag

type_synonym engine = "string \<rightharpoonup> target"

definition register_symbol :: "engine \<Rightarrow> string \<Rightarrow> target \<Rightarrow> engine" where
  "register_symbol e s t = e(s \<mapsto> t)"

definition register_symbols_1 :: "(string \<times> target) list" where
  "register_symbols_1 =
    [(SYM_CONTEXT_IS_STATIC, Static_flag),
     (SYM_WRITE_RESULT, Function fn_write_result),
     (SYM_KECCAK256_HASHER, Function fn_keccak256_hasher),
     (SYM_EXTEND_MEMORY, Function fn_extend_memory),
     (SYM_STORAGE_READ, Function fn_read_storage),
     (SYM_STORAGE_WRITE, Function fn_write_storage),
     (SYM_APPEND_LOG, Function fn_append_log),
     (SYM_APPEND_LOG_ONE_TOPIC, Function fn_append_log_with_one_topic),
     (SYM_APPEND_LOG_TWO_TOPICS, Function fn_append_log_with_two_topics),
     (SYM_APPEND_LOG_THREE_TOPICS, Function fn_append_log_with_three_topics),
     (SYM_APPEND_LOG_FOUR_TOPICS, Function fn_append_log_with_four_topics),
     (SYM_CALL, Function fn_call),
     (SYM_GET_CALLDATA_PTR, Function fn_get_calldata_ptr),
     (SYM_GET_CALLDATA_SIZE, Function fn_get_calldata_size_syscall),
     (SYM_EXTEND_MEMORY, Function fn_extend_memory),
     (SYM_COPY_CODE_TO_MEMORY, Function fn_copy_code_to_memory),
     (SYM_GET_ORIGIN, Function fn_get_origin),
     (SYM_GET_ADDRESS_PTR, Function fn_get_address_ptr),
     (SYM_STORE_IN_CALLVALUE_PTR, Function fn_store_in_callvalue_ptr),
     (SYM_STORE_IN_BLOBBASEFEE_PTR, Function fn_store_in_blobbasefee_ptr),
     (SYM_GET_CODESIZE_FROM_ADDRESS, Function fn_get_codesize_from_address),
     (SYM_GET_COINBASE_PTR, Function fn_get_coinbase_ptr)]"

definition register_symbols_2 :: "(string \<times> target) list" where
  "register_symbols_2 =
    [(SYM_STORE_IN_TIMESTAMP_PTR, Function fn_store_in_timestamp_ptr),
     (SYM_STORE_IN_BASEFEE_PTR, Function fn_store_in_basefee_ptr),
     (SYM_STORE_IN_CALLER_PTR, Function fn_store_in_caller_ptr),
     (SYM_GET_GASLIMIT, Function fn_get_gaslimit),
     (SYM_STORE_IN_GASPRICE_PTR, Function fn_store_in_gasprice_ptr),
     (SYM_GET_BLOCK_NUMBER, Function fn_get_block_number),
     (SYM_GET_PREVRANDAO, Function fn_get_prevrandao),
     (SYM_GET_BLOB_HASH_AT_INDEX, Function fn_get_blob_hash_at_index),
     (SYM_GET_CHAINID, Function fn_get_chainid),
     (SYM_STORE_IN_BALANCE, Function fn_store_in_balance),
     (SYM_STORE_IN_SELFBALANCE_PTR, Function fn_store_in_selfbalance_ptr),
     (SYM_COPY_EXT_CODE_TO_MEMORY, Function fn_copy_ext_code_to_memory),
     (SYM_GET_BLOCK_HASH, Function fn_get_block_hash),
     (SYM_GET_CODE_HASH, Function fn_get_code_hash),
     (SYM_CREATE, Function fn_create),
     (SYM_CREATE2, Function fn_create2),
     (SYM_GET_RETURN_DATA_SIZE, Function fn_get_return_data_size),
     (SYM_COPY_RETURN_DATA_INTO_MEMORY, Function fn_copy_return_data_into_memory),
     (SYM_SELFDESTRUCT, Function fn_selfdestruct),
     (SYM_TRANSIENT_STORAGE_READ, Function fn_read_transient_storage),
     (SYM_TRANSIENT_STORAGE_WRITE, Function fn_write_transient_storage)]"

definition register_symbols :: "engine \<Rightarrow> engine" where
  "register_symbols e = foldl (\<lambda>e (s, t). register_symbol e s t) e (register_symbols_1 @ register_symbols_2)"

section \<open>Declaration in the module\<close>

definition declare_symbols_1 :: mlir_module where
  "declare_symbols_1 =
    [mlir_global SYM_CONTEXT_IS_STATIC Ptr External,
     Func SYM_WRITE_RESULT [Ptr, Int_type 32, Int_type 32, Int_type 64, Int_type 8] [] Private,
     Func SYM_KECCAK256_HASHER [Ptr, Int_type 32, Int_type 32, Ptr] [] Private,
     Func SYM_GET_CALLDATA_PTR [Ptr] [Ptr] Private,
     Func SYM_GET_CALLDATA_SIZE [Ptr] [Int_type 32] Private,
     Func SYM_GET_CHAINID [Ptr] [Int_type 64] Private,
     Func SYM_STORE_IN_CALLVALUE_PTR [Ptr, Ptr] [] Private,
     Func SYM_STORE_IN_CALLER_PTR [Ptr, Ptr] [] Private,
     Func SYM_STORE_IN_GASPRICE_PTR [Ptr, Ptr] [] Private,
     Func SYM_STORE_IN_SELFBALANCE_PTR [Ptr, Ptr] [] Private,
     Func SYM_STORE_IN_BLOBBASEFEE_PTR [Ptr, Ptr] [] Private]"

definition declare_symbols_2 :: mlir_module where
  "declare_symbols_2 =
    [Func SYM_GET_GASLIMIT [Ptr] [Int_type 64] Private,
     Func SYM_EXTEND_MEMORY [Ptr, Int_type 32] [Ptr] Private,
     Func SYM_COPY_CODE_TO_MEMORY [Ptr, Int_type 32, Int_type 32, Int_type 32] [] Private,
     Func SYM_STORAGE_READ [Ptr, Ptr, Ptr] [Int_type 64] Private,
     Func SYM_STORAGE_WRITE [Ptr, Ptr, Ptr] [Int_type 64] Private,
     Func SYM_APPEND_LOG [Ptr, Int_type 32, Int_type 32] [] Private,
     Func SYM_APPEND_LOG_ONE_TOPIC [Ptr, Int_type 32, Int_type 32, Ptr] [] Private,
     Func SYM_APPEND_LOG_TWO_TOPICS [Ptr, Int_type 32, Int_type 32, Ptr, Ptr] [] Private,
     Func SYM_APPEND_LOG_THREE_TOPICS [Ptr, Int_type 32, Int_type 32, Ptr, Ptr, Ptr] [] Private,
     Func SYM_APPEND_LOG_FOUR_TOPICS [Ptr, Int_type 32, Int_type 32, Ptr, Ptr, Ptr, Ptr] [] Private,
     Func SYM_GET_ORIGIN [Ptr, Ptr] [] Private]"

definition declare_symbols_3 :: mlir_module where
  "declare_symbols_3 =
    [Func SYM_GET_COINBASE_PTR [Ptr] [Ptr] Private,
     Func SYM_GET_BLOCK_NUMBER [Ptr, Ptr] [] Private,
     Func SYM_GET_CODESIZE_FROM_ADDRESS [Ptr, Ptr, Ptr] [Int_type 64] Private,
     Func SYM_GET_ADDRESS_PTR [Ptr] [Ptr] Private,
     Func SYM_GET_PREVRANDAO [Ptr, Ptr] [] Private,
     Func SYM_STORE_IN_TIMESTAMP_PTR [Ptr, Ptr] [] Private,
     Func SYM_STORE_IN_BASEFEE_PTR [Ptr, Ptr] [] Private,
     Func SYM_CALL [Ptr, Int_type 64, Ptr, Ptr, Int_type 32, Int_type 32, Int_type 32, Int_type 32, Int_type 64, Ptr, Int_type 8] [Int_type 8] Private,
     Func SYM_STORE_IN_BALANCE [Ptr, Ptr, Ptr] [Int_type 64] Private,
     Func SYM_COPY_EXT_CODE_TO_MEMORY [Ptr, Ptr, Int_type 32, Int_type 32, Int_type 32] [Int_type 64] Private,
     Func SYM_GET_BLOB_HASH_AT_INDEX [Ptr, Ptr, Ptr] [] Private]"

definition declare_symbols_4 :: mlir_module where
  "declare_symbols_4 =
    [Func SYM_GET_BLOCK_HASH [Ptr, Ptr] [] Private,
     Func SYM_GET_CODE_HASH [Ptr, Ptr] [Int_type 64] Private,
     Func SYM_CREATE [Ptr, Int_type 32, Int_type 32, Ptr, Ptr] [Int_type 8] Private,
     Func SYM_CREATE2 [Ptr, Int_type 32, Int_type 32, Ptr, Ptr, Ptr] [Int_type 8] Private,
     Func SYM_GET_RETURN_DATA_SIZE [Ptr] [Int_type 32] Private,
     Func SYM_COPY_RETURN_DATA_INTO_MEMORY [Ptr, Int_type 32, Int_type 32, Int_type 32] [] Private,
     Func SYM_SELFDESTRUCT [Ptr, Ptr] [Int_type 64] Private,
     Func SYM_TRANSIENT_STORAGE_READ [Ptr, Ptr, Ptr] [] Private,
     Func SYM_TRANSIENT_STORAGE_WRITE [Ptr, Ptr, Ptr] [] Private]"

text \<open>\<open>declare_symbols\<close> appends its declarations to the body of the module, in this order.\<close>

definition declare_symbols :: "mlir_module \<Rightarrow> mlir_module" where
  "declare_symbols M = M @ declare_symbols_1 @ declare_symbols_2 @ declare_symbols_3 @ declare_symbols_4"

section \<open>The calls of the module \<open>mlir\<close>\<close>

text \<open>One function per system call: it appends a call of the symbol to the block, and returns the
  value of the call when there is one.\<close>

definition mlir_write_result_syscall :: "mlir_value \<Rightarrow> mlir_block \<Rightarrow> mlir_value \<Rightarrow> mlir_value \<Rightarrow> mlir_value \<Rightarrow> mlir_value \<Rightarrow> mlir_block" where
  "mlir_write_result_syscall c b offset sz gas reason =
     append_operation b (Func_call SYM_WRITE_RESULT [c, offset, sz, gas, reason] [])"

definition mlir_keccak256_syscall :: "mlir_value \<Rightarrow> mlir_block \<Rightarrow> mlir_value \<Rightarrow> mlir_value \<Rightarrow> mlir_value \<Rightarrow> mlir_block" where
  "mlir_keccak256_syscall c b offset sz hash_ptr =
     append_operation b (Func_call SYM_KECCAK256_HASHER [c, offset, sz, hash_ptr] [])"

definition mlir_get_calldata_size_syscall :: "mlir_value \<Rightarrow> mlir_block \<Rightarrow> (mlir_block \<times> mlir_value) cg" where
  "mlir_get_calldata_size_syscall c b =
     append_result b (Func_call SYM_GET_CALLDATA_SIZE [c] [Int_type 32])"

definition mlir_get_calldata_ptr_syscall :: "mlir_value \<Rightarrow> mlir_block \<Rightarrow> (mlir_block \<times> mlir_value) cg" where
  "mlir_get_calldata_ptr_syscall c b =
     append_result b (Func_call SYM_GET_CALLDATA_PTR [c] [Ptr])"

definition mlir_get_gaslimit :: "mlir_value \<Rightarrow> mlir_block \<Rightarrow> (mlir_block \<times> mlir_value) cg" where
  "mlir_get_gaslimit c b =
     append_result b (Func_call SYM_GET_GASLIMIT [c] [Int_type 64])"

definition mlir_get_chainid_syscall :: "mlir_value \<Rightarrow> mlir_block \<Rightarrow> (mlir_block \<times> mlir_value) cg" where
  "mlir_get_chainid_syscall c b =
     append_result b (Func_call SYM_GET_CHAINID [c] [Int_type 64])"

definition mlir_store_in_callvalue_ptr :: "mlir_value \<Rightarrow> mlir_block \<Rightarrow> mlir_value \<Rightarrow> mlir_block" where
  "mlir_store_in_callvalue_ptr c b callvalue_ptr =
     append_operation b (Func_call SYM_STORE_IN_CALLVALUE_PTR [c, callvalue_ptr] [])"

definition mlir_store_in_blobbasefee_ptr :: "mlir_value \<Rightarrow> mlir_block \<Rightarrow> mlir_value \<Rightarrow> mlir_block" where
  "mlir_store_in_blobbasefee_ptr c b blob_base_fee_ptr =
     append_operation b (Func_call SYM_STORE_IN_BLOBBASEFEE_PTR [c, blob_base_fee_ptr] [])"

definition mlir_store_in_gasprice_ptr :: "mlir_value \<Rightarrow> mlir_block \<Rightarrow> mlir_value \<Rightarrow> mlir_block" where
  "mlir_store_in_gasprice_ptr c b gasprice_ptr =
     append_operation b (Func_call SYM_STORE_IN_GASPRICE_PTR [c, gasprice_ptr] [])"

definition mlir_store_in_caller_ptr :: "mlir_value \<Rightarrow> mlir_block \<Rightarrow> mlir_value \<Rightarrow> mlir_block" where
  "mlir_store_in_caller_ptr c b caller_ptr =
     append_operation b (Func_call SYM_STORE_IN_CALLER_PTR [c, caller_ptr] [])"

definition mlir_extend_memory_syscall :: "mlir_value \<Rightarrow> mlir_block \<Rightarrow> mlir_value \<Rightarrow> (mlir_block \<times> mlir_value) cg" where
  "mlir_extend_memory_syscall c b new_size =
     append_result b (Func_call SYM_EXTEND_MEMORY [c, new_size] [Ptr])"

definition mlir_store_in_selfbalance_ptr :: "mlir_value \<Rightarrow> mlir_block \<Rightarrow> mlir_value \<Rightarrow> mlir_block" where
  "mlir_store_in_selfbalance_ptr c b balance_ptr =
     append_operation b (Func_call SYM_STORE_IN_SELFBALANCE_PTR [c, balance_ptr] [])"

definition mlir_storage_read_syscall :: "mlir_value \<Rightarrow> mlir_block \<Rightarrow> mlir_value \<Rightarrow> mlir_value \<Rightarrow> (mlir_block \<times> mlir_value) cg" where
  "mlir_storage_read_syscall c b key value =
     append_result b (Func_call SYM_STORAGE_READ [c, key, value] [Int_type 64])"

definition mlir_storage_write_syscall :: "mlir_value \<Rightarrow> mlir_block \<Rightarrow> mlir_value \<Rightarrow> mlir_value \<Rightarrow> (mlir_block \<times> mlir_value) cg" where
  "mlir_storage_write_syscall c b key value =
     append_result b (Func_call SYM_STORAGE_WRITE [c, key, value] [Int_type 64])"

definition mlir_transient_storage_read_syscall :: "mlir_value \<Rightarrow> mlir_block \<Rightarrow> mlir_value \<Rightarrow> mlir_value \<Rightarrow> mlir_block" where
  "mlir_transient_storage_read_syscall c b key value =
     append_operation b (Func_call SYM_TRANSIENT_STORAGE_READ [c, key, value] [])"

definition mlir_transient_storage_write_syscall :: "mlir_value \<Rightarrow> mlir_block \<Rightarrow> mlir_value \<Rightarrow> mlir_value \<Rightarrow> mlir_block" where
  "mlir_transient_storage_write_syscall c b key value =
     append_operation b (Func_call SYM_TRANSIENT_STORAGE_WRITE [c, key, value] [])"

definition mlir_append_log_syscall :: "mlir_value \<Rightarrow> mlir_block \<Rightarrow> mlir_value \<Rightarrow> mlir_value \<Rightarrow> mlir_block" where
  "mlir_append_log_syscall c b data sz =
     append_operation b (Func_call SYM_APPEND_LOG [c, data, sz] [])"

definition mlir_append_log_with_one_topic_syscall :: "mlir_value \<Rightarrow> mlir_block \<Rightarrow> mlir_value \<Rightarrow> mlir_value \<Rightarrow> mlir_value \<Rightarrow> mlir_block" where
  "mlir_append_log_with_one_topic_syscall c b data sz topic =
     append_operation b (Func_call SYM_APPEND_LOG_ONE_TOPIC [c, data, sz, topic] [])"

definition mlir_append_log_with_two_topics_syscall :: "mlir_value \<Rightarrow> mlir_block \<Rightarrow> mlir_value \<Rightarrow> mlir_value \<Rightarrow> mlir_value \<Rightarrow> mlir_value \<Rightarrow> mlir_block" where
  "mlir_append_log_with_two_topics_syscall c b data sz topic1_ptr topic2_ptr =
     append_operation b (Func_call SYM_APPEND_LOG_TWO_TOPICS [c, data, sz, topic1_ptr, topic2_ptr] [])"

definition mlir_append_log_with_three_topics_syscall :: "mlir_value \<Rightarrow> mlir_block \<Rightarrow> mlir_value \<Rightarrow> mlir_value \<Rightarrow> mlir_value \<Rightarrow> mlir_value \<Rightarrow> mlir_value \<Rightarrow> mlir_block" where
  "mlir_append_log_with_three_topics_syscall c b data sz topic1_ptr topic2_ptr topic3_ptr =
     append_operation b (Func_call SYM_APPEND_LOG_THREE_TOPICS [c, data, sz, topic1_ptr, topic2_ptr, topic3_ptr] [])"

definition mlir_append_log_with_four_topics_syscall :: "mlir_value \<Rightarrow> mlir_block \<Rightarrow> mlir_value \<Rightarrow> mlir_value \<Rightarrow> mlir_value \<Rightarrow> mlir_value \<Rightarrow> mlir_value \<Rightarrow> mlir_value \<Rightarrow> mlir_block" where
  "mlir_append_log_with_four_topics_syscall c b data sz topic1_ptr topic2_ptr topic3_ptr topic4_ptr =
     append_operation b (Func_call SYM_APPEND_LOG_FOUR_TOPICS [c, data, sz, topic1_ptr, topic2_ptr, topic3_ptr, topic4_ptr] [])"

definition mlir_get_origin_syscall :: "mlir_value \<Rightarrow> mlir_block \<Rightarrow> mlir_value \<Rightarrow> mlir_block" where
  "mlir_get_origin_syscall c b address_pointer =
     append_operation b (Func_call SYM_GET_ORIGIN [c, address_pointer] [])"

definition mlir_get_coinbase_ptr_syscall :: "mlir_value \<Rightarrow> mlir_block \<Rightarrow> (mlir_block \<times> mlir_value) cg" where
  "mlir_get_coinbase_ptr_syscall c b =
     append_result b (Func_call SYM_GET_COINBASE_PTR [c] [Ptr])"

definition mlir_get_block_number_syscall :: "mlir_value \<Rightarrow> mlir_block \<Rightarrow> mlir_value \<Rightarrow> mlir_block" where
  "mlir_get_block_number_syscall c b number =
     append_operation b (Func_call SYM_GET_BLOCK_NUMBER [c, number] [])"

definition mlir_copy_code_to_memory_syscall :: "mlir_value \<Rightarrow> mlir_block \<Rightarrow> mlir_value \<Rightarrow> mlir_value \<Rightarrow> mlir_value \<Rightarrow> mlir_block" where
  "mlir_copy_code_to_memory_syscall c b offset sz dest_offset =
     append_operation b (Func_call SYM_COPY_CODE_TO_MEMORY [c, offset, sz, dest_offset] [])"

definition mlir_get_address_ptr_syscall :: "mlir_value \<Rightarrow> mlir_block \<Rightarrow> (mlir_block \<times> mlir_value) cg" where
  "mlir_get_address_ptr_syscall c b =
     append_result b (Func_call SYM_GET_ADDRESS_PTR [c] [Ptr])"

definition mlir_store_in_timestamp_ptr :: "mlir_value \<Rightarrow> mlir_block \<Rightarrow> mlir_value \<Rightarrow> mlir_block" where
  "mlir_store_in_timestamp_ptr c b timestamp_ptr =
     append_operation b (Func_call SYM_STORE_IN_TIMESTAMP_PTR [c, timestamp_ptr] [])"

definition mlir_store_in_basefee_ptr_syscall :: "mlir_value \<Rightarrow> mlir_value \<Rightarrow> mlir_block \<Rightarrow> mlir_block" where
  "mlir_store_in_basefee_ptr_syscall c basefee_ptr b =
     append_operation b (Func_call SYM_STORE_IN_BASEFEE_PTR [c, basefee_ptr] [])"

definition mlir_call_syscall :: "mlir_value \<Rightarrow> mlir_block \<Rightarrow> mlir_value \<Rightarrow> mlir_value \<Rightarrow> mlir_value \<Rightarrow> mlir_value \<Rightarrow> mlir_value \<Rightarrow> mlir_value \<Rightarrow> mlir_value \<Rightarrow> mlir_value \<Rightarrow> mlir_value \<Rightarrow> mlir_value \<Rightarrow> (mlir_block \<times> mlir_value) cg" where
  "mlir_call_syscall c b gas address value_ptr args_offset args_size ret_offset ret_size available_gas remaining_gas_ptr call_type =
     append_result b (Func_call SYM_CALL [c, gas, address, value_ptr, args_offset, args_size, ret_offset, ret_size, available_gas, remaining_gas_ptr, call_type] [Int_type 8])"

definition mlir_store_in_balance_syscall :: "mlir_value \<Rightarrow> mlir_block \<Rightarrow> mlir_value \<Rightarrow> mlir_value \<Rightarrow> (mlir_block \<times> mlir_value) cg" where
  "mlir_store_in_balance_syscall c b address balance =
     append_result b (Func_call SYM_STORE_IN_BALANCE [c, address, balance] [Int_type 64])"

definition mlir_copy_ext_code_to_memory_syscall :: "mlir_value \<Rightarrow> mlir_block \<Rightarrow> mlir_value \<Rightarrow> mlir_value \<Rightarrow> mlir_value \<Rightarrow> mlir_value \<Rightarrow> (mlir_block \<times> mlir_value) cg" where
  "mlir_copy_ext_code_to_memory_syscall c b address_ptr offset sz dest_offset =
     append_result b (Func_call SYM_COPY_EXT_CODE_TO_MEMORY [c, address_ptr, offset, sz, dest_offset] [Int_type 64])"

definition mlir_get_prevrandao_syscall :: "mlir_value \<Rightarrow> mlir_block \<Rightarrow> mlir_value \<Rightarrow> mlir_block" where
  "mlir_get_prevrandao_syscall c b prevrandao_ptr =
     append_operation b (Func_call SYM_GET_PREVRANDAO [c, prevrandao_ptr] [])"

definition mlir_get_codesize_from_address_syscall :: "mlir_value \<Rightarrow> mlir_block \<Rightarrow> mlir_value \<Rightarrow> mlir_value \<Rightarrow> (mlir_block \<times> mlir_value) cg" where
  "mlir_get_codesize_from_address_syscall c b address gas =
     append_result b (Func_call SYM_GET_CODESIZE_FROM_ADDRESS [c, address, gas] [Int_type 64])"

definition mlir_get_blob_hash_at_index_syscall :: "mlir_value \<Rightarrow> mlir_block \<Rightarrow> mlir_value \<Rightarrow> mlir_value \<Rightarrow> mlir_block" where
  "mlir_get_blob_hash_at_index_syscall c b index blobhash =
     append_operation b (Func_call SYM_GET_BLOB_HASH_AT_INDEX [c, index, blobhash] [])"

definition mlir_get_block_hash_syscall :: "mlir_value \<Rightarrow> mlir_block \<Rightarrow> mlir_value \<Rightarrow> mlir_block" where
  "mlir_get_block_hash_syscall c b block_number =
     append_operation b (Func_call SYM_GET_BLOCK_HASH [c, block_number] [])"

definition mlir_get_code_hash_syscall :: "mlir_value \<Rightarrow> mlir_block \<Rightarrow> mlir_value \<Rightarrow> (mlir_block \<times> mlir_value) cg" where
  "mlir_get_code_hash_syscall c b address =
     append_result b (Func_call SYM_GET_CODE_HASH [c, address] [Int_type 64])"

definition mlir_create_syscall :: "mlir_value \<Rightarrow> mlir_block \<Rightarrow> mlir_value \<Rightarrow> mlir_value \<Rightarrow> mlir_value \<Rightarrow> mlir_value \<Rightarrow> (mlir_block \<times> mlir_value) cg" where
  "mlir_create_syscall c b sz offset value remaining_gas =
     append_result b (Func_call SYM_CREATE [c, sz, offset, value, remaining_gas] [Int_type 8])"

definition mlir_create2_syscall :: "mlir_value \<Rightarrow> mlir_block \<Rightarrow> mlir_value \<Rightarrow> mlir_value \<Rightarrow> mlir_value \<Rightarrow> mlir_value \<Rightarrow> mlir_value \<Rightarrow> (mlir_block \<times> mlir_value) cg" where
  "mlir_create2_syscall c b sz offset value remaining_gas salt =
     append_result b (Func_call SYM_CREATE2 [c, sz, offset, value, remaining_gas, salt] [Int_type 8])"

definition mlir_get_return_data_size :: "mlir_value \<Rightarrow> mlir_block \<Rightarrow> (mlir_block \<times> mlir_value) cg" where
  "mlir_get_return_data_size c b =
     append_result b (Func_call SYM_GET_RETURN_DATA_SIZE [c] [Int_type 32])"

definition mlir_copy_return_data_into_memory :: "mlir_value \<Rightarrow> mlir_block \<Rightarrow> mlir_value \<Rightarrow> mlir_value \<Rightarrow> mlir_value \<Rightarrow> mlir_block" where
  "mlir_copy_return_data_into_memory c b dest_offset offset sz =
     append_operation b (Func_call SYM_COPY_RETURN_DATA_INTO_MEMORY [c, dest_offset, offset, sz] [])"

definition mlir_selfdestruct_syscall :: "mlir_value \<Rightarrow> mlir_block \<Rightarrow> mlir_value \<Rightarrow> (mlir_block \<times> mlir_value) cg" where
  "mlir_selfdestruct_syscall c b address =
     append_result b (Func_call SYM_SELFDESTRUCT [c, address] [Int_type 64])"

lemmas mlir_defs =
  mlir_write_result_syscall_def mlir_keccak256_syscall_def mlir_get_calldata_size_syscall_def
  mlir_get_calldata_ptr_syscall_def mlir_get_gaslimit_def mlir_get_chainid_syscall_def
  mlir_store_in_callvalue_ptr_def mlir_store_in_blobbasefee_ptr_def mlir_store_in_gasprice_ptr_def
  mlir_store_in_caller_ptr_def mlir_extend_memory_syscall_def mlir_store_in_selfbalance_ptr_def
  mlir_storage_read_syscall_def mlir_storage_write_syscall_def mlir_transient_storage_read_syscall_def
  mlir_transient_storage_write_syscall_def mlir_append_log_syscall_def mlir_append_log_with_one_topic_syscall_def
  mlir_append_log_with_two_topics_syscall_def mlir_append_log_with_three_topics_syscall_def mlir_append_log_with_four_topics_syscall_def
  mlir_get_origin_syscall_def mlir_get_coinbase_ptr_syscall_def mlir_get_block_number_syscall_def
  mlir_copy_code_to_memory_syscall_def mlir_get_address_ptr_syscall_def mlir_store_in_timestamp_ptr_def
  mlir_store_in_basefee_ptr_syscall_def mlir_call_syscall_def mlir_store_in_balance_syscall_def
  mlir_copy_ext_code_to_memory_syscall_def mlir_get_prevrandao_syscall_def mlir_get_codesize_from_address_syscall_def
  mlir_get_blob_hash_at_index_syscall_def mlir_get_block_hash_syscall_def mlir_get_code_hash_syscall_def
  mlir_create_syscall_def mlir_create2_syscall_def mlir_get_return_data_size_def
  mlir_copy_return_data_into_memory_def mlir_selfdestruct_syscall_def

section \<open>The wrappers of \<open>OperationCtx\<close>\<close>

text \<open>The part of \<open>OperationCtx\<close> that the wrappers use: the pointer to the context, which every system
  call gets as its first argument, and the revert block. The program and the jump table are in the theory of
  execution.\<close>

record operation_ctx =
  octx_syscall_ctx :: mlir_value
  octx_revert_block :: mlir_code

definition opctx_write_result_syscall :: "operation_ctx \<Rightarrow> mlir_block \<Rightarrow> mlir_value \<Rightarrow> mlir_value \<Rightarrow> mlir_value \<Rightarrow> mlir_value \<Rightarrow> mlir_block" where
  "opctx_write_result_syscall x b offset sz gas reason =
     mlir_write_result_syscall (octx_syscall_ctx x) b offset sz gas reason"

definition opctx_keccak256_syscall :: "operation_ctx \<Rightarrow> mlir_block \<Rightarrow> mlir_value \<Rightarrow> mlir_value \<Rightarrow> mlir_value \<Rightarrow> mlir_block" where
  "opctx_keccak256_syscall x b offset sz hash_ptr =
     mlir_keccak256_syscall (octx_syscall_ctx x) b offset sz hash_ptr"

definition opctx_get_calldata_size_syscall :: "operation_ctx \<Rightarrow> mlir_block \<Rightarrow> (mlir_block \<times> mlir_value) cg" where
  "opctx_get_calldata_size_syscall x b =
     mlir_get_calldata_size_syscall (octx_syscall_ctx x) b"

definition opctx_get_calldata_ptr_syscall :: "operation_ctx \<Rightarrow> mlir_block \<Rightarrow> (mlir_block \<times> mlir_value) cg" where
  "opctx_get_calldata_ptr_syscall x b =
     mlir_get_calldata_ptr_syscall (octx_syscall_ctx x) b"

definition opctx_get_origin_syscall :: "operation_ctx \<Rightarrow> mlir_block \<Rightarrow> mlir_value \<Rightarrow> mlir_block" where
  "opctx_get_origin_syscall x b address_ptr =
     mlir_get_origin_syscall (octx_syscall_ctx x) b address_ptr"

definition opctx_get_chainid_syscall :: "operation_ctx \<Rightarrow> mlir_block \<Rightarrow> (mlir_block \<times> mlir_value) cg" where
  "opctx_get_chainid_syscall x b =
     mlir_get_chainid_syscall (octx_syscall_ctx x) b"

definition opctx_store_in_callvalue_ptr :: "operation_ctx \<Rightarrow> mlir_block \<Rightarrow> mlir_value \<Rightarrow> mlir_block" where
  "opctx_store_in_callvalue_ptr x b callvalue_ptr =
     mlir_store_in_callvalue_ptr (octx_syscall_ctx x) b callvalue_ptr"

definition opctx_store_in_caller_ptr :: "operation_ctx \<Rightarrow> mlir_block \<Rightarrow> mlir_value \<Rightarrow> mlir_block" where
  "opctx_store_in_caller_ptr x b caller_ptr =
     mlir_store_in_caller_ptr (octx_syscall_ctx x) b caller_ptr"

definition opctx_store_in_blobbasefee_ptr :: "operation_ctx \<Rightarrow> mlir_block \<Rightarrow> mlir_value \<Rightarrow> mlir_block" where
  "opctx_store_in_blobbasefee_ptr x b blob_base_fee_ptr =
     mlir_store_in_blobbasefee_ptr (octx_syscall_ctx x) b blob_base_fee_ptr"

definition opctx_store_in_gasprice_ptr :: "operation_ctx \<Rightarrow> mlir_block \<Rightarrow> mlir_value \<Rightarrow> mlir_block" where
  "opctx_store_in_gasprice_ptr x b gasprice_ptr =
     mlir_store_in_gasprice_ptr (octx_syscall_ctx x) b gasprice_ptr"

definition opctx_get_gaslimit :: "operation_ctx \<Rightarrow> mlir_block \<Rightarrow> (mlir_block \<times> mlir_value) cg" where
  "opctx_get_gaslimit x b =
     mlir_get_gaslimit (octx_syscall_ctx x) b"

definition opctx_store_in_selfbalance_ptr :: "operation_ctx \<Rightarrow> mlir_block \<Rightarrow> mlir_value \<Rightarrow> mlir_block" where
  "opctx_store_in_selfbalance_ptr x b selfbalance_ptr =
     mlir_store_in_selfbalance_ptr (octx_syscall_ctx x) b selfbalance_ptr"

definition opctx_extend_memory_syscall :: "operation_ctx \<Rightarrow> mlir_block \<Rightarrow> mlir_value \<Rightarrow> (mlir_block \<times> mlir_value) cg" where
  "opctx_extend_memory_syscall x b new_size =
     mlir_extend_memory_syscall (octx_syscall_ctx x) b new_size"

definition opctx_storage_read_syscall :: "operation_ctx \<Rightarrow> mlir_block \<Rightarrow> mlir_value \<Rightarrow> mlir_value \<Rightarrow> (mlir_block \<times> mlir_value) cg" where
  "opctx_storage_read_syscall x b key value =
     mlir_storage_read_syscall (octx_syscall_ctx x) b key value"

definition opctx_storage_write_syscall :: "operation_ctx \<Rightarrow> mlir_block \<Rightarrow> mlir_value \<Rightarrow> mlir_value \<Rightarrow> (mlir_block \<times> mlir_value) cg" where
  "opctx_storage_write_syscall x b key value =
     mlir_storage_write_syscall (octx_syscall_ctx x) b key value"

definition opctx_transient_storage_read_syscall :: "operation_ctx \<Rightarrow> mlir_block \<Rightarrow> mlir_value \<Rightarrow> mlir_value \<Rightarrow> mlir_block" where
  "opctx_transient_storage_read_syscall x b key value =
     mlir_transient_storage_read_syscall (octx_syscall_ctx x) b key value"

definition opctx_transient_storage_write_syscall :: "operation_ctx \<Rightarrow> mlir_block \<Rightarrow> mlir_value \<Rightarrow> mlir_value \<Rightarrow> mlir_block" where
  "opctx_transient_storage_write_syscall x b key value =
     mlir_transient_storage_write_syscall (octx_syscall_ctx x) b key value"

definition opctx_append_log_syscall :: "operation_ctx \<Rightarrow> mlir_block \<Rightarrow> mlir_value \<Rightarrow> mlir_value \<Rightarrow> mlir_block" where
  "opctx_append_log_syscall x b data sz =
     mlir_append_log_syscall (octx_syscall_ctx x) b data sz"

definition opctx_append_log_with_one_topic_syscall :: "operation_ctx \<Rightarrow> mlir_block \<Rightarrow> mlir_value \<Rightarrow> mlir_value \<Rightarrow> mlir_value \<Rightarrow> mlir_block" where
  "opctx_append_log_with_one_topic_syscall x b data sz topic =
     mlir_append_log_with_one_topic_syscall (octx_syscall_ctx x) b data sz topic"

definition opctx_append_log_with_two_topics_syscall :: "operation_ctx \<Rightarrow> mlir_block \<Rightarrow> mlir_value \<Rightarrow> mlir_value \<Rightarrow> mlir_value \<Rightarrow> mlir_value \<Rightarrow> mlir_block" where
  "opctx_append_log_with_two_topics_syscall x b data sz topic1_ptr topic2_ptr =
     mlir_append_log_with_two_topics_syscall (octx_syscall_ctx x) b data sz topic1_ptr topic2_ptr"

definition opctx_append_log_with_three_topics_syscall :: "operation_ctx \<Rightarrow> mlir_block \<Rightarrow> mlir_value \<Rightarrow> mlir_value \<Rightarrow> mlir_value \<Rightarrow> mlir_value \<Rightarrow> mlir_value \<Rightarrow> mlir_block" where
  "opctx_append_log_with_three_topics_syscall x b data sz topic1_ptr topic2_ptr topic3_ptr =
     mlir_append_log_with_three_topics_syscall (octx_syscall_ctx x) b data sz topic1_ptr topic2_ptr topic3_ptr"

definition opctx_append_log_with_four_topics_syscall :: "operation_ctx \<Rightarrow> mlir_block \<Rightarrow> mlir_value \<Rightarrow> mlir_value \<Rightarrow> mlir_value \<Rightarrow> mlir_value \<Rightarrow> mlir_value \<Rightarrow> mlir_value \<Rightarrow> mlir_block" where
  "opctx_append_log_with_four_topics_syscall x b data sz topic1_ptr topic2_ptr topic3_ptr topic4_ptr =
     mlir_append_log_with_four_topics_syscall (octx_syscall_ctx x) b data sz topic1_ptr topic2_ptr topic3_ptr topic4_ptr"

definition opctx_get_coinbase_ptr_syscall :: "operation_ctx \<Rightarrow> mlir_block \<Rightarrow> (mlir_block \<times> mlir_value) cg" where
  "opctx_get_coinbase_ptr_syscall x b =
     mlir_get_coinbase_ptr_syscall (octx_syscall_ctx x) b"

definition opctx_get_block_number_syscall :: "operation_ctx \<Rightarrow> mlir_block \<Rightarrow> mlir_value \<Rightarrow> mlir_block" where
  "opctx_get_block_number_syscall x b number =
     mlir_get_block_number_syscall (octx_syscall_ctx x) b number"

definition opctx_store_in_timestamp_ptr :: "operation_ctx \<Rightarrow> mlir_block \<Rightarrow> mlir_value \<Rightarrow> mlir_block" where
  "opctx_store_in_timestamp_ptr x b timestamp_ptr =
     mlir_store_in_timestamp_ptr (octx_syscall_ctx x) b timestamp_ptr"

definition opctx_copy_code_to_memory_syscall :: "operation_ctx \<Rightarrow> mlir_block \<Rightarrow> mlir_value \<Rightarrow> mlir_value \<Rightarrow> mlir_value \<Rightarrow> mlir_block" where
  "opctx_copy_code_to_memory_syscall x b offset sz dest_offset =
     mlir_copy_code_to_memory_syscall (octx_syscall_ctx x) b offset sz dest_offset"

definition opctx_store_in_basefee_ptr_syscall :: "operation_ctx \<Rightarrow> mlir_value \<Rightarrow> mlir_block \<Rightarrow> mlir_block" where
  "opctx_store_in_basefee_ptr_syscall x basefee_ptr b =
     mlir_store_in_basefee_ptr_syscall (octx_syscall_ctx x) basefee_ptr b"

definition opctx_get_prevrandao_syscall :: "operation_ctx \<Rightarrow> mlir_block \<Rightarrow> mlir_value \<Rightarrow> mlir_block" where
  "opctx_get_prevrandao_syscall x b prevrandao_ptr =
     mlir_get_prevrandao_syscall (octx_syscall_ctx x) b prevrandao_ptr"

definition opctx_get_address_ptr_syscall :: "operation_ctx \<Rightarrow> mlir_block \<Rightarrow> (mlir_block \<times> mlir_value) cg" where
  "opctx_get_address_ptr_syscall x b =
     mlir_get_address_ptr_syscall (octx_syscall_ctx x) b"

definition opctx_store_in_balance_syscall :: "operation_ctx \<Rightarrow> mlir_block \<Rightarrow> mlir_value \<Rightarrow> mlir_value \<Rightarrow> (mlir_block \<times> mlir_value) cg" where
  "opctx_store_in_balance_syscall x b address balance =
     mlir_store_in_balance_syscall (octx_syscall_ctx x) b address balance"

definition opctx_copy_ext_code_to_memory_syscall :: "operation_ctx \<Rightarrow> mlir_block \<Rightarrow> mlir_value \<Rightarrow> mlir_value \<Rightarrow> mlir_value \<Rightarrow> mlir_value \<Rightarrow> (mlir_block \<times> mlir_value) cg" where
  "opctx_copy_ext_code_to_memory_syscall x b address_ptr offset sz dest_offset =
     mlir_copy_ext_code_to_memory_syscall (octx_syscall_ctx x) b address_ptr offset sz dest_offset"

definition opctx_get_codesize_from_address_syscall :: "operation_ctx \<Rightarrow> mlir_block \<Rightarrow> mlir_value \<Rightarrow> mlir_value \<Rightarrow> (mlir_block \<times> mlir_value) cg" where
  "opctx_get_codesize_from_address_syscall x b address gas =
     mlir_get_codesize_from_address_syscall (octx_syscall_ctx x) b address gas"

definition opctx_get_blob_hash_at_index_syscall :: "operation_ctx \<Rightarrow> mlir_block \<Rightarrow> mlir_value \<Rightarrow> mlir_value \<Rightarrow> mlir_block" where
  "opctx_get_blob_hash_at_index_syscall x b index blobhash =
     mlir_get_blob_hash_at_index_syscall (octx_syscall_ctx x) b index blobhash"

definition opctx_get_block_hash_syscall :: "operation_ctx \<Rightarrow> mlir_block \<Rightarrow> mlir_value \<Rightarrow> mlir_block" where
  "opctx_get_block_hash_syscall x b block_number =
     mlir_get_block_hash_syscall (octx_syscall_ctx x) b block_number"

definition opctx_get_code_hash_syscall :: "operation_ctx \<Rightarrow> mlir_block \<Rightarrow> mlir_value \<Rightarrow> (mlir_block \<times> mlir_value) cg" where
  "opctx_get_code_hash_syscall x b address =
     mlir_get_code_hash_syscall (octx_syscall_ctx x) b address"

definition opctx_create_syscall :: "operation_ctx \<Rightarrow> mlir_block \<Rightarrow> mlir_value \<Rightarrow> mlir_value \<Rightarrow> mlir_value \<Rightarrow> mlir_value \<Rightarrow> (mlir_block \<times> mlir_value) cg" where
  "opctx_create_syscall x b sz offset value remaining_gas =
     mlir_create_syscall (octx_syscall_ctx x) b sz offset value remaining_gas"

definition opctx_create2_syscall :: "operation_ctx \<Rightarrow> mlir_block \<Rightarrow> mlir_value \<Rightarrow> mlir_value \<Rightarrow> mlir_value \<Rightarrow> mlir_value \<Rightarrow> mlir_value \<Rightarrow> (mlir_block \<times> mlir_value) cg" where
  "opctx_create2_syscall x b sz offset value remaining_gas salt =
     mlir_create2_syscall (octx_syscall_ctx x) b sz offset value remaining_gas salt"

definition opctx_selfdestruct_syscall :: "operation_ctx \<Rightarrow> mlir_block \<Rightarrow> mlir_value \<Rightarrow> (mlir_block \<times> mlir_value) cg" where
  "opctx_selfdestruct_syscall x b address =
     mlir_selfdestruct_syscall (octx_syscall_ctx x) b address"

definition opctx_get_return_data_size :: "operation_ctx \<Rightarrow> mlir_block \<Rightarrow> (mlir_block \<times> mlir_value) cg" where
  "opctx_get_return_data_size x b =
     mlir_get_return_data_size (octx_syscall_ctx x) b"

definition opctx_copy_return_data_into_memory :: "operation_ctx \<Rightarrow> mlir_block \<Rightarrow> mlir_value \<Rightarrow> mlir_value \<Rightarrow> mlir_value \<Rightarrow> mlir_block" where
  "opctx_copy_return_data_into_memory x b dest_offset offset sz =
     mlir_copy_return_data_into_memory (octx_syscall_ctx x) b dest_offset offset sz"

lemmas opctx_defs =
  opctx_write_result_syscall_def opctx_keccak256_syscall_def opctx_get_calldata_size_syscall_def
  opctx_get_calldata_ptr_syscall_def opctx_get_origin_syscall_def opctx_get_chainid_syscall_def
  opctx_store_in_callvalue_ptr_def opctx_store_in_caller_ptr_def opctx_store_in_blobbasefee_ptr_def
  opctx_store_in_gasprice_ptr_def opctx_get_gaslimit_def opctx_store_in_selfbalance_ptr_def
  opctx_extend_memory_syscall_def opctx_storage_read_syscall_def opctx_storage_write_syscall_def
  opctx_transient_storage_read_syscall_def opctx_transient_storage_write_syscall_def opctx_append_log_syscall_def
  opctx_append_log_with_one_topic_syscall_def opctx_append_log_with_two_topics_syscall_def opctx_append_log_with_three_topics_syscall_def
  opctx_append_log_with_four_topics_syscall_def opctx_get_coinbase_ptr_syscall_def opctx_get_block_number_syscall_def
  opctx_store_in_timestamp_ptr_def opctx_copy_code_to_memory_syscall_def opctx_store_in_basefee_ptr_syscall_def
  opctx_get_prevrandao_syscall_def opctx_get_address_ptr_syscall_def opctx_store_in_balance_syscall_def
  opctx_copy_ext_code_to_memory_syscall_def opctx_get_codesize_from_address_syscall_def opctx_get_blob_hash_at_index_syscall_def
  opctx_get_block_hash_syscall_def opctx_get_code_hash_syscall_def opctx_create_syscall_def
  opctx_create2_syscall_def opctx_selfdestruct_syscall_def opctx_get_return_data_size_def
  opctx_copy_return_data_into_memory_def

section \<open>The calls by the function they are meant for\<close>

text \<open>The wrapper that generated code uses to call a function, with the operands in the order of the
  parameters of the function after \<open>self\<close>. \<open>call\<close> has its wrapper inside the code of the call operations.\<close>

type_synonym emitter = "operation_ctx \<Rightarrow> mlir_block \<Rightarrow> mlir_value list \<Rightarrow> (mlir_block \<times> mlir_value option) cg"

definition no_value :: "mlir_block \<Rightarrow> (mlir_block \<times> mlir_value option) cg" where
  "no_value b = Inr (b, None)"

definition with_value :: "(mlir_block \<times> mlir_value) cg \<Rightarrow> (mlir_block \<times> mlir_value option) cg" where
  "with_value r = and_then r (\<lambda>(b, v). Inr (b, Some v))"

definition system_calls :: "(rust_fn \<times> emitter) list" where
  "system_calls =
    [(fn_write_result, (\<lambda>x b vs. no_value (opctx_write_result_syscall x b (vs ! 0) (vs ! 1) (vs ! 2) (vs ! 3)))),
     (fn_keccak256_hasher, (\<lambda>x b vs. no_value (opctx_keccak256_syscall x b (vs ! 0) (vs ! 1) (vs ! 2)))),
     (fn_get_calldata_size_syscall, (\<lambda>x b vs. with_value (opctx_get_calldata_size_syscall x b))),
     (fn_get_calldata_ptr, (\<lambda>x b vs. with_value (opctx_get_calldata_ptr_syscall x b))),
     (fn_get_origin, (\<lambda>x b vs. no_value (opctx_get_origin_syscall x b (vs ! 0)))),
     (fn_get_chainid, (\<lambda>x b vs. with_value (opctx_get_chainid_syscall x b))),
     (fn_store_in_callvalue_ptr, (\<lambda>x b vs. no_value (opctx_store_in_callvalue_ptr x b (vs ! 0)))),
     (fn_store_in_caller_ptr, (\<lambda>x b vs. no_value (opctx_store_in_caller_ptr x b (vs ! 0)))),
     (fn_store_in_blobbasefee_ptr, (\<lambda>x b vs. no_value (opctx_store_in_blobbasefee_ptr x b (vs ! 0)))),
     (fn_store_in_gasprice_ptr, (\<lambda>x b vs. no_value (opctx_store_in_gasprice_ptr x b (vs ! 0)))),
     (fn_get_gaslimit, (\<lambda>x b vs. with_value (opctx_get_gaslimit x b))),
     (fn_store_in_selfbalance_ptr, (\<lambda>x b vs. no_value (opctx_store_in_selfbalance_ptr x b (vs ! 0)))),
     (fn_extend_memory, (\<lambda>x b vs. with_value (opctx_extend_memory_syscall x b (vs ! 0)))),
     (fn_read_storage, (\<lambda>x b vs. with_value (opctx_storage_read_syscall x b (vs ! 0) (vs ! 1)))),
     (fn_write_storage, (\<lambda>x b vs. with_value (opctx_storage_write_syscall x b (vs ! 0) (vs ! 1)))),
     (fn_read_transient_storage, (\<lambda>x b vs. no_value (opctx_transient_storage_read_syscall x b (vs ! 0) (vs ! 1)))),
     (fn_write_transient_storage, (\<lambda>x b vs. no_value (opctx_transient_storage_write_syscall x b (vs ! 0) (vs ! 1)))),
     (fn_append_log, (\<lambda>x b vs. no_value (opctx_append_log_syscall x b (vs ! 0) (vs ! 1)))),
     (fn_append_log_with_one_topic, (\<lambda>x b vs. no_value (opctx_append_log_with_one_topic_syscall x b (vs ! 0) (vs ! 1) (vs ! 2)))),
     (fn_append_log_with_two_topics, (\<lambda>x b vs. no_value (opctx_append_log_with_two_topics_syscall x b (vs ! 0) (vs ! 1) (vs ! 2) (vs ! 3)))),
     (fn_append_log_with_three_topics, (\<lambda>x b vs. no_value (opctx_append_log_with_three_topics_syscall x b (vs ! 0) (vs ! 1) (vs ! 2) (vs ! 3) (vs ! 4)))),
     (fn_append_log_with_four_topics, (\<lambda>x b vs. no_value (opctx_append_log_with_four_topics_syscall x b (vs ! 0) (vs ! 1) (vs ! 2) (vs ! 3) (vs ! 4) (vs ! 5)))),
     (fn_get_coinbase_ptr, (\<lambda>x b vs. with_value (opctx_get_coinbase_ptr_syscall x b))),
     (fn_get_block_number, (\<lambda>x b vs. no_value (opctx_get_block_number_syscall x b (vs ! 0)))),
     (fn_store_in_timestamp_ptr, (\<lambda>x b vs. no_value (opctx_store_in_timestamp_ptr x b (vs ! 0)))),
     (fn_copy_code_to_memory, (\<lambda>x b vs. no_value (opctx_copy_code_to_memory_syscall x b (vs ! 0) (vs ! 1) (vs ! 2)))),
     (fn_store_in_basefee_ptr, (\<lambda>x b vs. no_value (opctx_store_in_basefee_ptr_syscall x (vs ! 0) b))),
     (fn_get_prevrandao, (\<lambda>x b vs. no_value (opctx_get_prevrandao_syscall x b (vs ! 0)))),
     (fn_get_address_ptr, (\<lambda>x b vs. with_value (opctx_get_address_ptr_syscall x b))),
     (fn_store_in_balance, (\<lambda>x b vs. with_value (opctx_store_in_balance_syscall x b (vs ! 0) (vs ! 1)))),
     (fn_copy_ext_code_to_memory, (\<lambda>x b vs. with_value (opctx_copy_ext_code_to_memory_syscall x b (vs ! 0) (vs ! 1) (vs ! 2) (vs ! 3)))),
     (fn_get_codesize_from_address, (\<lambda>x b vs. with_value (opctx_get_codesize_from_address_syscall x b (vs ! 0) (vs ! 1)))),
     (fn_get_blob_hash_at_index, (\<lambda>x b vs. no_value (opctx_get_blob_hash_at_index_syscall x b (vs ! 0) (vs ! 1)))),
     (fn_get_block_hash, (\<lambda>x b vs. no_value (opctx_get_block_hash_syscall x b (vs ! 0)))),
     (fn_get_code_hash, (\<lambda>x b vs. with_value (opctx_get_code_hash_syscall x b (vs ! 0)))),
     (fn_create, (\<lambda>x b vs. with_value (opctx_create_syscall x b (vs ! 0) (vs ! 1) (vs ! 2) (vs ! 3)))),
     (fn_create2, (\<lambda>x b vs. with_value (opctx_create2_syscall x b (vs ! 0) (vs ! 1) (vs ! 2) (vs ! 3) (vs ! 4)))),
     (fn_selfdestruct, (\<lambda>x b vs. with_value (opctx_selfdestruct_syscall x b (vs ! 0)))),
     (fn_get_return_data_size, (\<lambda>x b vs. with_value (opctx_get_return_data_size x b))),
     (fn_copy_return_data_into_memory, (\<lambda>x b vs. no_value (opctx_copy_return_data_into_memory x b (vs ! 0) (vs ! 1) (vs ! 2)))),
     (fn_call, (\<lambda>x b vs. with_value (mlir_call_syscall (octx_syscall_ctx x) b (vs ! 0) (vs ! 1) (vs ! 2) (vs ! 3) (vs ! 4) (vs ! 5) (vs ! 6) (vs ! 7) (vs ! 8) (vs ! 9))))]"

section \<open>Agreement of the tables\<close>

abbreviation declared_symbols :: mlir_module where
  "declared_symbols \<equiv> declare_symbols_1 @ declare_symbols_2 @ declare_symbols_3 @ declare_symbols_4"

abbreviation registered_symbols :: "(string \<times> target) list" where
  "registered_symbols \<equiv> register_symbols_1 @ register_symbols_2"

lemmas declare_defs = declare_symbols_1_def declare_symbols_2_def declare_symbols_3_def declare_symbols_4_def
lemmas register_defs = register_symbols_1_def register_symbols_2_def

lemma declared_distinct: "distinct (map item_name declared_symbols)"
  by code_simp

lemma registered_distinct: "distinct (map fst (remdups registered_symbols))"
  by code_simp

lemma foldl_register:
  "foldl (\<lambda>e (s, t). register_symbol e s t) e l s = (case map_of (rev l) s of Some t \<Rightarrow> Some t | None \<Rightarrow> e s)"
  by (induction l arbitrary: e) (auto simp: register_symbol_def map_add_def split: option.splits)

lemma map_of_functional:
  assumes "distinct (map fst (remdups l))" and "(k, v) \<in> set l"
  shows "map_of l k = Some v"
proof -
  obtain v' where v': "map_of l k = Some v'" using assms(2) weak_map_of_SomeI by metis
  then have "(k, v') \<in> set (remdups l)" "(k, v) \<in> set (remdups l)" using map_of_SomeD assms(2) by simp_all
  then show ?thesis using assms(1) v' by (metis map_of_is_SomeI option.inject)
qed

lemma register_symbols_lookup:
  assumes "(s, t) \<in> set registered_symbols"
  shows "register_symbols e s = Some t"
proof -
  have "distinct (map fst (remdups (rev registered_symbols)))"
    using registered_distinct by (metis distinct_map distinct_remdups set_remdups set_rev)
  then have "map_of (rev registered_symbols) s = Some t" using assms by (intro map_of_functional) auto
  then show ?thesis unfolding register_symbols_def foldl_register by (simp only: option.case)
qed

lemma declare_symbols_lookup:
  assumes "it \<in> set declared_symbols" and "item_name it \<notin> item_name ` set M"
  shows "find_item (declare_symbols M) (item_name it) = Some it"
  using find_item_Some [OF declared_distinct assms(1)] assms(2) find_item_None [of M "item_name it"]
  by (simp add: declare_symbols_def find_item_append)

text \<open>A wrapper is linked when it appends one call, with the context and the operands in their order,
  of a symbol that the module declares with the types of the function and the engine resolves to it.\<close>

definition fn_results :: "rust_fn \<Rightarrow> mlir_type list" where
  "fn_results f = (case fn_result f of None \<Rightarrow> [] | Some t \<Rightarrow> [c_type t])"

definition linked :: "rust_fn \<Rightarrow> emitter \<Rightarrow> bool" where
  "linked f w \<longleftrightarrow> (\<exists>s.
     (s, Function f) \<in> set registered_symbols \<and>
     Func s (map c_type (fn_params f)) (fn_results f) Private \<in> set declared_symbols \<and>
     (\<forall>x b vs. length (octx_syscall_ctx x # vs) = length (fn_params f) \<longrightarrow>
        w x b vs = Inr (b @ [Func_call s (octx_syscall_ctx x # vs) (fn_results f)],
                        map_option (\<lambda>t. Op_result (length b) (c_type t)) (fn_result f))))"

lemma linkedI:
  assumes "(s, Function f) \<in> set registered_symbols"
    and "Func s (map c_type (fn_params f)) (fn_results f) Private \<in> set declared_symbols"
    and "\<And>x b vs. Suc (length vs) = length (fn_params f) \<Longrightarrow>
        w x b vs = Inr (b @ [Func_call s (octx_syscall_ctx x # vs) (fn_results f)],
                        map_option (\<lambda>t. Op_result (length b) (c_type t)) (fn_result f))"
  shows "linked f w"
  using assms unfolding linked_def by (metis length_Cons)

lemmas emission_defs = append_operation_def append_result_def no_value_def with_value_def fn_results_def
  mlir_defs opctx_defs extern_defs

lemma nth_lists:
  "length vs = Suc 0 \<Longrightarrow> [vs ! 0] = vs"
  "length vs = 2 \<Longrightarrow> [vs ! 0, vs ! Suc 0] = vs"
  "length vs = 3 \<Longrightarrow> [vs ! 0, vs ! Suc 0, vs ! 2] = vs"
  "length vs = 4 \<Longrightarrow> [vs ! 0, vs ! Suc 0, vs ! 2, vs ! 3] = vs"
  "length vs = 5 \<Longrightarrow> [vs ! 0, vs ! Suc 0, vs ! 2, vs ! 3, vs ! 4] = vs"
  "length vs = 6 \<Longrightarrow> [vs ! 0, vs ! Suc 0, vs ! 2, vs ! 3, vs ! 4, vs ! 5] = vs"
  "length vs = 10 \<Longrightarrow>
     [vs ! 0, vs ! Suc 0, vs ! 2, vs ! 3, vs ! 4, vs ! 5, vs ! 6, vs ! 7, vs ! 8, vs ! 9] = vs"
  by (auto simp: length_Suc_conv eval_nat_numeral)

lemma system_calls_linked: "\<forall>(f, w) \<in> set system_calls. linked f w"
  unfolding system_calls_def
  apply (simp only: list.set ball_simps prod.case)
  apply (intro conjI TrueI)
  apply (rule linkedI,
      (simp only: register_defs append_Cons append_Nil, (rule list.set_intros(1) | rule list.set_intros(2))+)[1],
      (simp add: declare_defs extern_defs fn_results_def; fail),
      (simp add: emission_defs nth_lists; fail))+
  done

end
