(* ===== verification/Fragments.thy ===== *)
theory Fragments
  imports Binding Exec
begin

text \<open>
  The operations that the shared code fragments of \<open>src/utils\<close> and the setup and revert blocks of
  \<open>codegen/context.rs\<close> append to a block, an execution of such operations, and the proof that they do
  what the definitions on the machine state say.
\<close>

section \<open>Names of the globals\<close>

definition GAS_COUNTER_GLOBAL :: string where
  "GAS_COUNTER_GLOBAL = ''evm_mlir__gas_counter''"

definition STACK_BASEPTR_GLOBAL :: string where
  "STACK_BASEPTR_GLOBAL = ''evm_mlir__stack_baseptr''"

definition STACK_PTR_GLOBAL :: string where
  "STACK_PTR_GLOBAL = ''evm_mlir__stack_ptr''"

definition MEMORY_PTR_GLOBAL :: string where
  "MEMORY_PTR_GLOBAL = ''evm_mlir__memory_ptr''"

definition MEMORY_SIZE_GLOBAL :: string where
  "MEMORY_SIZE_GLOBAL = ''evm_mlir__memory_size''"

definition CALLDATA_PTR_GLOBAL :: string where
  "CALLDATA_PTR_GLOBAL = ''evm_mlir__calldata_ptr''"

definition CALLDATA_SIZE_GLOBAL :: string where
  "CALLDATA_SIZE_GLOBAL = ''evm_mlir__calldata_size''"

definition MAIN_ENTRYPOINT :: string where
  "MAIN_ENTRYPOINT = ''main''"

lemmas global_defs = GAS_COUNTER_GLOBAL_def STACK_BASEPTR_GLOBAL_def STACK_PTR_GLOBAL_def
  MEMORY_PTR_GLOBAL_def MEMORY_SIZE_GLOBAL_def CALLDATA_PTR_GLOBAL_def CALLDATA_SIZE_GLOBAL_def
  SYM_CONTEXT_IS_STATIC_def MAIN_ENTRYPOINT_def

section \<open>Emission\<close>

text \<open>The address of a global and the value it holds.\<close>

definition emit_load_global :: "string \<Rightarrow> mlir_type \<Rightarrow> (mlir_value \<times> mlir_value) emit" where
  "emit_load_global g t =
     emit_bind (emit_op (mlir_addressof g Ptr)) (\<lambda>p.
     emit_bind (emit_op (Load p t)) (\<lambda>v. emit_value (p, v)))"

definition emit_get_remaining_gas :: "mlir_value emit" where
  "emit_get_remaining_gas =
     emit_bind (emit_load_global GAS_COUNTER_GLOBAL (Int_type 64)) (\<lambda>(_, gas_counter). emit_value gas_counter)"

definition emit_consume_gas :: "nat \<Rightarrow> mlir_value emit" where
  "emit_consume_gas amount =
     emit_bind (emit_load_global GAS_COUNTER_GLOBAL (Int_type 64)) (\<lambda>(gas_counter_ptr, gas_counter).
     emit_bind (emit_op (Constant amount (Int_type 64))) (\<lambda>gas_value.
     emit_bind (emit_op (Cmpi Pred_sge gas_counter gas_value)) (\<lambda>flag.
     emit_bind (emit_op (Arith Subi gas_counter gas_value)) (\<lambda>new_gas_counter.
     emit_bind (emit_effect (Store new_gas_counter gas_counter_ptr)) (\<lambda>_.
     emit_value flag)))))"

definition emit_consume_gas_as_value :: "mlir_value \<Rightarrow> mlir_value emit" where
  "emit_consume_gas_as_value gas_value =
     emit_bind (emit_load_global GAS_COUNTER_GLOBAL (Int_type 64)) (\<lambda>(gas_counter_ptr, gas_counter).
     emit_bind (emit_op (Cmpi Pred_sge gas_counter gas_value)) (\<lambda>flag.
     emit_bind (emit_op (Arith Subi gas_counter gas_value)) (\<lambda>new_gas_counter.
     emit_bind (emit_effect (Store new_gas_counter gas_counter_ptr)) (\<lambda>_.
     emit_value flag))))"

definition emit_compute_log_dynamic_gas :: "nat \<Rightarrow> mlir_value \<Rightarrow> mlir_value emit" where
  "emit_compute_log_dynamic_gas n sz =
     emit_bind (emit_op (Constant 375 (Int_type 256))) (\<lambda>constant_375.
     emit_bind (emit_op (Constant 8 (Int_type 256))) (\<lambda>constant_8.
     emit_bind (emit_op (Constant n (Int_type 256))) (\<lambda>topic_count.
     emit_bind (emit_op (Arith Muli topic_count constant_375)) (\<lambda>topic_count_x_375.
     emit_bind (emit_op (Arith Muli sz constant_8)) (\<lambda>size_x_8.
     emit_bind (emit_op (Arith Addi topic_count_x_375 size_x_8)) (\<lambda>dynamic_gas.
     emit_op (Trunci dynamic_gas (Int_type 64))))))))"

definition emit_get_stack_pointer :: "mlir_value emit" where
  "emit_get_stack_pointer =
     emit_bind (emit_load_global STACK_PTR_GLOBAL Ptr) (\<lambda>(_, stack_ptr). emit_value stack_ptr)"

definition emit_inc_stack_pointer :: "unit emit" where
  "emit_inc_stack_pointer =
     emit_bind (emit_load_global STACK_PTR_GLOBAL Ptr) (\<lambda>(stack_ptr_ptr, stack_ptr).
     emit_bind (emit_op (Get_element_ptr stack_ptr 1 (Int_type 256))) (\<lambda>new_stack_ptr.
     emit_effect (Store new_stack_ptr stack_ptr_ptr)))"

definition emit_stack_pop :: "mlir_value emit" where
  "emit_stack_pop =
     emit_bind (emit_load_global STACK_PTR_GLOBAL Ptr) (\<lambda>(stack_ptr_ptr, stack_ptr).
     emit_bind (emit_op (Get_element_ptr stack_ptr (- 1) (Int_type 256))) (\<lambda>old_stack_ptr.
     emit_bind (emit_op (Load old_stack_ptr (Int_type 256))) (\<lambda>v.
     emit_bind (emit_effect (Store old_stack_ptr stack_ptr_ptr)) (\<lambda>_.
     emit_value v))))"

definition emit_stack_push :: "mlir_value \<Rightarrow> unit emit" where
  "emit_stack_push v =
     emit_bind (emit_load_global STACK_PTR_GLOBAL Ptr) (\<lambda>(stack_ptr_ptr, stack_ptr).
     emit_bind (emit_effect (Store v stack_ptr)) (\<lambda>_.
     emit_bind (emit_op (Get_element_ptr stack_ptr 1 (Int_type 256))) (\<lambda>new_stack_ptr.
     emit_effect (Store new_stack_ptr stack_ptr_ptr))))"

definition emit_get_nth_from_stack :: "nat \<Rightarrow> (mlir_value \<times> mlir_value) emit" where
  "emit_get_nth_from_stack n =
     emit_bind (emit_load_global STACK_PTR_GLOBAL Ptr) (\<lambda>(_, stack_ptr).
     emit_bind (emit_op (Get_element_ptr stack_ptr (- int n) (Int_type 256))) (\<lambda>nth_stack_ptr.
     emit_bind (emit_op (Load nth_stack_ptr (Int_type 256))) (\<lambda>v.
     emit_value (v, nth_stack_ptr))))"

definition emit_swap_stack_elements :: "nat \<Rightarrow> nat \<Rightarrow> unit emit" where
  "emit_swap_stack_elements position_1 position_2 =
     emit_bind (emit_get_nth_from_stack position_1) (\<lambda>(first_element, first_elem_address).
     emit_bind (emit_get_nth_from_stack position_2) (\<lambda>(nth_element, nth_elem_address).
     emit_bind (emit_effect (Store first_element nth_elem_address)) (\<lambda>_.
     emit_effect (Store nth_element first_elem_address))))"

definition emit_stack_pointers :: "(mlir_value \<times> mlir_value) emit" where
  "emit_stack_pointers =
     emit_bind (emit_load_global STACK_PTR_GLOBAL Ptr) (\<lambda>(_, stack_ptr).
     emit_bind (emit_load_global STACK_BASEPTR_GLOBAL Ptr) (\<lambda>(_, stack_baseptr).
     emit_value (stack_ptr, stack_baseptr)))"

definition emit_check_stack_has_space_for :: "nat \<Rightarrow> mlir_value emit" where
  "emit_check_stack_has_space_for element_count =
     emit_bind emit_stack_pointers (\<lambda>(stack_ptr, stack_baseptr).
     emit_bind (emit_op (Get_element_ptr stack_ptr (int element_count - int MAX_STACK_SIZE) (Int_type 256)))
       (\<lambda>subtracted_stack_ptr.
     emit_op (Icmp Pred_ule subtracted_stack_ptr stack_baseptr)))"

definition emit_check_stack_has_at_least :: "nat \<Rightarrow> mlir_value emit" where
  "emit_check_stack_has_at_least element_count =
     emit_bind emit_stack_pointers (\<lambda>(stack_ptr, stack_baseptr).
     emit_bind (emit_op (Get_element_ptr stack_ptr (- int element_count) (Int_type 256)))
       (\<lambda>subtracted_stack_ptr.
     emit_op (Icmp Pred_uge subtracted_stack_ptr stack_baseptr)))"

definition emit_compute_memory_cost :: "mlir_value \<Rightarrow> mlir_value emit" where
  "emit_compute_memory_cost memory_byte_size =
     emit_bind (emit_op (Extui memory_byte_size (Int_type 64))) (\<lambda>memory_size_extended.
     emit_bind (emit_op (Constant 31 (Int_type 64))) (\<lambda>constant_31.
     emit_bind (emit_op (Constant 512 (Int_type 64))) (\<lambda>constant_512.
     emit_bind (emit_op (Constant 32 (Int_type 64))) (\<lambda>constant_32.
     emit_bind (emit_op (Constant 3 (Int_type 64))) (\<lambda>constant_3.
     emit_bind (emit_op (Arith Addi memory_size_extended constant_31)) (\<lambda>memory_byte_size_plus_31.
     emit_bind (emit_op (Arith Divui memory_byte_size_plus_31 constant_32)) (\<lambda>memory_size_word.
     emit_bind (emit_op (Arith Muli memory_size_word memory_size_word)) (\<lambda>memory_size_word_squared.
     emit_bind (emit_op (Arith Divui memory_size_word_squared constant_512)) (\<lambda>divided_by_512.
     emit_bind (emit_op (Arith Muli memory_size_word constant_3)) (\<lambda>memory_size_word_times_3.
     emit_op (Arith Addi divided_by_512 memory_size_word_times_3)))))))))))"

definition emit_compute_copy_cost :: "mlir_value \<Rightarrow> mlir_value emit" where
  "emit_compute_copy_cost memory_byte_size =
     emit_bind (emit_op (Extui memory_byte_size (Int_type 64))) (\<lambda>memory_size_extended.
     emit_bind (emit_op (Constant 3 (Int_type 64))) (\<lambda>constant_3.
     emit_bind (emit_op (Constant 31 (Int_type 64))) (\<lambda>constant_31.
     emit_bind (emit_op (Constant 32 (Int_type 64))) (\<lambda>constant_32.
     emit_bind (emit_op (Arith Addi memory_size_extended constant_31)) (\<lambda>memory_byte_size_plus_31.
     emit_bind (emit_op (Arith Divui memory_byte_size_plus_31 constant_32)) (\<lambda>memory_size_word.
     emit_op (Arith Muli memory_size_word constant_3)))))))"

definition emit_round_up_32 :: "mlir_value \<Rightarrow> mlir_value emit" where
  "emit_round_up_32 sz =
     emit_bind (emit_op (Constant 31 (Int_type 32))) (\<lambda>constant_31.
     emit_bind (emit_op (Constant 32 (Int_type 32))) (\<lambda>constant_32.
     emit_bind (emit_op (Arith Addi sz constant_31)) (\<lambda>size_plus_31.
     emit_bind (emit_op (Arith Divui size_plus_31 constant_32)) (\<lambda>memory_size_word.
     emit_op (Arith Muli memory_size_word constant_32)))))"

definition emit_context_is_static :: "mlir_value emit" where
  "emit_context_is_static =
     emit_bind (emit_load_global SYM_CONTEXT_IS_STATIC (Int_type 1)) (\<lambda>(_, is_static). emit_value is_static)"

definition emit_check_context_is_not_static :: "mlir_value emit" where
  "emit_check_context_is_not_static =
     emit_bind emit_context_is_static (\<lambda>is_static.
     emit_bind (emit_op (Constant 1 (Int_type 1))) (\<lambda>true_value.
     emit_op (Arith Xori is_static true_value)))"

definition emit_get_calldata_ptr :: "mlir_value emit" where
  "emit_get_calldata_ptr =
     emit_bind (emit_load_global CALLDATA_PTR_GLOBAL Ptr) (\<lambda>(_, calldata_ptr). emit_value calldata_ptr)"

definition emit_get_calldata_size :: "mlir_value emit" where
  "emit_get_calldata_size =
     emit_bind (emit_load_global CALLDATA_SIZE_GLOBAL (Int_type 32)) (\<lambda>(_, calldata_size). emit_value calldata_size)"

text \<open>\<open>integer_constant_from_i64\<close> gives a 64-bit number to an attribute of 256 bits, which extends its sign.\<close>

definition integer_constant_from_i64 :: "int \<Rightarrow> nat" where
  "integer_constant_from_i64 v = nat (v mod 2 ^ 256)"

definition emit_constant_value_from_i64 :: "int \<Rightarrow> mlir_value emit" where
  "emit_constant_value_from_i64 v = emit_op (Constant (integer_constant_from_i64 v) (Int_type 256))"

definition emit_compare_values :: "cmpi_predicate \<Rightarrow> mlir_value \<Rightarrow> mlir_value \<Rightarrow> mlir_value emit" where
  "emit_compare_values predicate lhs rhs = emit_op (Cmpi predicate lhs rhs)"

definition emit_check_if_zero :: "mlir_value \<Rightarrow> mlir_value emit" where
  "emit_check_if_zero v =
     emit_bind (emit_op (Constant (integer_constant_from_i64 0) (Int_type 256))) (\<lambda>zero_constant_value.
     emit_op (Icmp Pred_eq zero_constant_value v))"

text \<open>A cell in the frame of the main function, and what a system call leaves in it.\<close>

definition emit_effect_of :: "(mlir_block \<Rightarrow> mlir_block) \<Rightarrow> unit emit" where
  "emit_effect_of w b = Inr (w b, ())"

definition emit_alloca_u256 :: "mlir_value emit" where
  "emit_alloca_u256 =
     emit_bind (emit_constant_value_from_i64 1) (\<lambda>pointer_size.
     emit_op (Alloca pointer_size (Int_type 256)))"

definition emit_read_back :: "(mlir_value \<Rightarrow> mlir_block \<Rightarrow> mlir_block) \<Rightarrow> mlir_value emit" where
  "emit_read_back call =
     emit_bind emit_alloca_u256 (\<lambda>p.
     emit_bind (emit_effect_of (call p)) (\<lambda>_.
     emit_op (Load p (Int_type 256))))"

definition emit_get_block_number :: "operation_ctx \<Rightarrow> mlir_value emit" where
  "emit_get_block_number x = emit_read_back (\<lambda>block_number_ptr b. opctx_get_block_number_syscall x b block_number_ptr)"

definition emit_get_prevrandao :: "operation_ctx \<Rightarrow> mlir_value emit" where
  "emit_get_prevrandao x = emit_read_back (\<lambda>prevrandao_ptr b. opctx_get_prevrandao_syscall x b prevrandao_ptr)"

definition emit_get_blob_hash_at_index :: "operation_ctx \<Rightarrow> mlir_value \<Rightarrow> mlir_value emit" where
  "emit_get_blob_hash_at_index x index_ptr =
     emit_read_back (\<lambda>blobhash_ptr b. opctx_get_blob_hash_at_index_syscall x b index_ptr blobhash_ptr)"

definition emit_get_basefee :: "operation_ctx \<Rightarrow> mlir_value emit" where
  "emit_get_basefee x = emit_read_back (\<lambda>basefee_ptr b. opctx_store_in_basefee_ptr_syscall x basefee_ptr b)"

definition emit_allocate_and_store_value :: "mlir_value \<Rightarrow> mlir_value emit" where
  "emit_allocate_and_store_value v =
     emit_bind (emit_op (Constant 1 (Int_type 32))) (\<lambda>number_of_elements.
     emit_bind (emit_op (Alloca number_of_elements (Int_type 256))) (\<lambda>value_ptr.
     emit_bind (emit_effect (Store v value_ptr)) (\<lambda>_.
     emit_value value_ptr)))"

definition emit_allocate_gas_counter_ptr :: "mlir_value emit" where
  "emit_allocate_gas_counter_ptr =
     emit_bind (emit_load_global GAS_COUNTER_GLOBAL (Int_type 64)) (\<lambda>(_, gas_counter).
     emit_bind (emit_op (Constant 1 (Int_type 32))) (\<lambda>number_of_elements.
     emit_bind (emit_op (Alloca number_of_elements (Int_type 64))) (\<lambda>gas_ptr.
     emit_bind (emit_effect (Store gas_counter gas_ptr)) (\<lambda>_.
     emit_value gas_ptr))))"

definition emit_get_memory_pointer :: "mlir_value emit" where
  "emit_get_memory_pointer =
     emit_bind (emit_load_global MEMORY_PTR_GLOBAL Ptr) (\<lambda>(_, memory_ptr). emit_value memory_ptr)"

text \<open>\<open>extend_memory\<close>: both of its branches lead to \<open>finish_block\<close> when the gas suffices.\<close>

definition emit_extension_block ::
  "operation_ctx \<Rightarrow> mlir_value \<Rightarrow> mlir_value \<Rightarrow> mlir_value \<Rightarrow> nat \<Rightarrow> emit_code" where
  "emit_extension_block x memory_size_ptr old_size rounded_required_size fixed_gas =
     emit_then (emit_compute_memory_cost old_size) (\<lambda>memory_cost_before.
     emit_then (emit_compute_memory_cost rounded_required_size) (\<lambda>memory_cost_after.
     emit_then (emit_op (Arith Subi memory_cost_after memory_cost_before)) (\<lambda>dynamic_gas_value.
     emit_then (emit_op (Constant fixed_gas (Int_type 64))) (\<lambda>fixed_gas_value.
     emit_then (emit_op (Arith Addi dynamic_gas_value fixed_gas_value)) (\<lambda>total_gas.
     emit_then (emit_consume_gas_as_value total_gas) (\<lambda>extension_gas_flag.
     emit_then (\<lambda>b. opctx_extend_memory_syscall x b rounded_required_size) (\<lambda>memory_ptr.
     emit_then (emit_effect (Store rounded_required_size memory_size_ptr)) (\<lambda>_.
     emit_then (emit_op (mlir_addressof MEMORY_PTR_GLOBAL Ptr)) (\<lambda>memory_ptr_ptr.
     emit_then (emit_effect (Store memory_ptr memory_ptr_ptr)) (\<lambda>_.
     emit_cond_br extension_gas_flag (emit_target End_block) (emit_target Revert_block)))))))))))"

definition emit_extend_memory :: "operation_ctx \<Rightarrow> mlir_value \<Rightarrow> nat \<Rightarrow> emit_code \<Rightarrow> emit_code" where
  "emit_extend_memory x required_size fixed_gas finish_block =
     emit_then (emit_load_global MEMORY_SIZE_GLOBAL (Int_type 32)) (\<lambda>(memory_size_ptr, memory_size).
     emit_then (emit_round_up_32 required_size) (\<lambda>rounded_required_size.
     emit_then (emit_compare_values Pred_ult memory_size rounded_required_size) (\<lambda>extension_flag.
     emit_cond_br_join extension_flag
       (emit_inner (emit_extension_block x memory_size_ptr memory_size rounded_required_size fixed_gas))
       (emit_inner (emit_then (emit_consume_gas fixed_gas) (\<lambda>no_extension_gas_flag.
          emit_cond_br no_extension_gas_flag (emit_target End_block) (emit_target Revert_block))))
       finish_block)))"

definition emit_return_result_with_offset_and_size ::
  "operation_ctx \<Rightarrow> mlir_value \<Rightarrow> mlir_value \<Rightarrow> exit_status_code \<Rightarrow> emit_code" where
  "emit_return_result_with_offset_and_size x off sz reason_code =
     emit_then emit_get_remaining_gas (\<lambda>remaining_gas.
     emit_then (emit_op (Constant (unat (exit_status_u8 reason_code)) (Int_type 8))) (\<lambda>reason.
     emit_then (emit_effect_of (\<lambda>b. opctx_write_result_syscall x b off sz remaining_gas reason)) (\<lambda>_.
     emit_return reason)))"

definition emit_return_empty_result :: "operation_ctx \<Rightarrow> exit_status_code \<Rightarrow> emit_code" where
  "emit_return_empty_result x reason_code =
     emit_then (emit_op (Constant 0 (Int_type 32))) (\<lambda>zero_constant.
     emit_return_result_with_offset_and_size x zero_constant zero_constant reason_code)"

definition emit_return_result_from_stack :: "operation_ctx \<Rightarrow> exit_status_code \<Rightarrow> emit_code" where
  "emit_return_result_from_stack x reason_code =
     emit_then emit_stack_pop (\<lambda>offset_u256.
     emit_then emit_stack_pop (\<lambda>size_u256.
     emit_then (emit_op (Trunci offset_u256 (Int_type 32))) (\<lambda>off.
     emit_then (emit_op (Trunci size_u256 (Int_type 32))) (\<lambda>sz.
     emit_then (emit_op (Arith Addi off sz)) (\<lambda>required_size.
     emit_extend_memory x required_size 0
       (emit_return_result_with_offset_and_size x off sz reason_code))))))"

section \<open>Emission of the setup and revert blocks\<close>

text \<open>Each setup function adds its globals to the module and its code to the setup block.\<close>

definition emit_stack_setup_code :: "mlir_module \<Rightarrow> mlir_module emit" where
  "emit_stack_setup_code M =
     (let M = M @ [mlir_global STACK_BASEPTR_GLOBAL Ptr Internal, mlir_global STACK_PTR_GLOBAL Ptr Internal]
      in emit_bind (emit_op (Constant MAX_STACK_SIZE (Int_type 256))) (\<lambda>stack_size.
         emit_bind (emit_op (Alloca stack_size (Int_type 256))) (\<lambda>stack_baseptr.
         emit_bind (emit_op (mlir_addressof STACK_BASEPTR_GLOBAL Ptr)) (\<lambda>stack_baseptr_ptr.
         emit_bind (emit_effect (Store stack_baseptr stack_baseptr_ptr)) (\<lambda>_.
         emit_bind (emit_op (mlir_addressof STACK_PTR_GLOBAL Ptr)) (\<lambda>stackptr_ptr.
         emit_bind (emit_effect (Store stack_baseptr stackptr_ptr)) (\<lambda>_.
         emit_value M)))))))"

definition emit_memory_setup_code :: "mlir_module \<Rightarrow> mlir_module emit" where
  "emit_memory_setup_code M =
     (let M = M @ [mlir_global MEMORY_PTR_GLOBAL Ptr Internal, mlir_global MEMORY_SIZE_GLOBAL (Int_type 32) Internal]
      in emit_bind (emit_op (Constant 0 (Int_type 32))) (\<lambda>zero.
         emit_bind (emit_op (mlir_addressof MEMORY_SIZE_GLOBAL Ptr)) (\<lambda>memory_size_ptr.
         emit_bind (emit_effect (Store zero memory_size_ptr)) (\<lambda>_.
         emit_value M))))"

definition emit_calldata_setup_code :: "mlir_value \<Rightarrow> mlir_module \<Rightarrow> mlir_module emit" where
  "emit_calldata_setup_code c M =
     (let M = M @ [mlir_global CALLDATA_PTR_GLOBAL Ptr Internal, mlir_global CALLDATA_SIZE_GLOBAL (Int_type 32) Internal]
      in emit_bind (mlir_get_calldata_ptr_syscall c) (\<lambda>calldata_ptr_value.
         emit_bind (emit_op (mlir_addressof CALLDATA_PTR_GLOBAL Ptr)) (\<lambda>calldata_ptr_ptr.
         emit_bind (emit_effect (Store calldata_ptr_value calldata_ptr_ptr)) (\<lambda>_.
         emit_bind (mlir_get_calldata_size_syscall c) (\<lambda>calldata_size_value.
         emit_bind (emit_op (mlir_addressof CALLDATA_SIZE_GLOBAL Ptr)) (\<lambda>calldata_size_ptr.
         emit_bind (emit_effect (Store calldata_size_value calldata_size_ptr)) (\<lambda>_.
         emit_value M)))))))"

definition emit_gas_counter_setup_code :: "mlir_value \<Rightarrow> mlir_module \<Rightarrow> mlir_module emit" where
  "emit_gas_counter_setup_code initial_gas M =
     (let M = M @ [mlir_global GAS_COUNTER_GLOBAL (Int_type 64) Internal]
      in emit_bind (emit_op (mlir_addressof GAS_COUNTER_GLOBAL Ptr)) (\<lambda>gas_addr.
         emit_bind (emit_effect (Store initial_gas gas_addr)) (\<lambda>_.
         emit_value M)))"

definition emit_revert_block :: "mlir_value \<Rightarrow> emit_code" where
  "emit_revert_block c =
     emit_then emit_get_remaining_gas (\<lambda>remaining_gas.
     emit_then (emit_op (Constant 0 (Int_type 32))) (\<lambda>zero_u32.
     emit_then (emit_op (Constant 0 (Int_type 64))) (\<lambda>zero_u64.
     emit_then (emit_op (Constant (unat (exit_status_u8 Exit_Error)) (Int_type 8))) (\<lambda>reason.
     emit_then (emit_consume_gas_as_value remaining_gas) (\<lambda>_.
     emit_then (emit_effect_of (\<lambda>b. mlir_write_result_syscall c b zero_u32 zero_u32 zero_u64 reason)) (\<lambda>_.
     emit_return reason))))))"

text \<open>\<open>OperationCtx::new\<close>: the two arguments of the main function, the setup code, the declarations,
  the revert block, which no block dominates.\<close>

definition operation_ctx_new :: "mlir_module \<Rightarrow> mlir_block \<Rightarrow> (mlir_module \<times> mlir_block \<times> operation_ctx) cg" where
  "operation_ctx_new M setup_block =
     (let syscall_ctx = Argument 0 Ptr; initial_gas = Argument 1 (Int_type 64)
      in and_then (emit_bind (emit_stack_setup_code M) (\<lambda>M.
                   emit_bind (emit_memory_setup_code M) (\<lambda>M.
                   emit_bind (emit_calldata_setup_code syscall_ctx M) (\<lambda>M.
                   emit_gas_counter_setup_code initial_gas M))) setup_block) (\<lambda>(b, M).
         let M = declare_symbols M
         in and_then (emit_revert_block syscall_ctx []) (\<lambda>revert_block.
            Inr (M, b, \<lparr>octx_syscall_ctx = syscall_ctx, octx_revert_block = revert_block\<rparr>))))"

text \<open>The module of a program before its own code: \<open>compile_program\<close> starts from an empty module and
  appends the main function at the end.\<close>

definition main_func :: mlir_item where
  "main_func = Func MAIN_ENTRYPOINT [Ptr, Int_type 64] [Int_type 8] Public"

section \<open>The module verifies\<close>

lemmas emit_basics = emit_bind_def emit_then_def emit_op_def emit_effect_def emit_value_def emit_end_def emit_revert_def emit_jump_def
  emit_return_def emit_inner_def emit_target_def emit_cond_br_def emit_cond_br_join_def emit_effect_of_def
  append_result_def append_operation_def mlir_addressof_def

lemmas emit_defs = emit_load_global_def emit_get_remaining_gas_def emit_consume_gas_def emit_consume_gas_as_value_def
  emit_compute_log_dynamic_gas_def emit_get_stack_pointer_def emit_inc_stack_pointer_def emit_stack_pop_def
  emit_stack_push_def emit_get_nth_from_stack_def emit_swap_stack_elements_def emit_stack_pointers_def
  emit_check_stack_has_space_for_def emit_check_stack_has_at_least_def emit_compute_memory_cost_def
  emit_compute_copy_cost_def emit_round_up_32_def emit_context_is_static_def emit_check_context_is_not_static_def
  emit_get_calldata_ptr_def emit_get_calldata_size_def emit_constant_value_from_i64_def emit_compare_values_def
  emit_check_if_zero_def emit_alloca_u256_def emit_read_back_def emit_get_block_number_def emit_get_prevrandao_def
  emit_get_blob_hash_at_index_def emit_get_basefee_def emit_allocate_and_store_value_def
  emit_allocate_gas_counter_ptr_def emit_get_memory_pointer_def

lemmas emit_code_defs = emit_extension_block_def emit_extend_memory_def emit_return_result_with_offset_and_size_def
  emit_return_empty_result_def emit_return_result_from_stack_def

lemmas setup_emit_defs = emit_stack_setup_code_def emit_memory_setup_code_def emit_calldata_setup_code_def
  emit_gas_counter_setup_code_def emit_revert_block_def operation_ctx_new_def mlir_global_def mlir_defs

definition setup_globals :: mlir_module where
  "setup_globals =
    [Global STACK_BASEPTR_GLOBAL Ptr Internal, Global STACK_PTR_GLOBAL Ptr Internal,
     Global MEMORY_PTR_GLOBAL Ptr Internal, Global MEMORY_SIZE_GLOBAL (Int_type 32) Internal,
     Global CALLDATA_PTR_GLOBAL Ptr Internal, Global CALLDATA_SIZE_GLOBAL (Int_type 32) Internal,
     Global GAS_COUNTER_GLOBAL (Int_type 64) Internal]"

definition setup_ops :: mlir_block where
  "setup_ops =
    [Constant MAX_STACK_SIZE (Int_type 256),
     Alloca (Op_result 0 (Int_type 256)) (Int_type 256),
     Addressof STACK_BASEPTR_GLOBAL Ptr,
     Store (Op_result 1 Ptr) (Op_result 2 Ptr),
     Addressof STACK_PTR_GLOBAL Ptr,
     Store (Op_result 1 Ptr) (Op_result 4 Ptr),
     Constant 0 (Int_type 32),
     Addressof MEMORY_SIZE_GLOBAL Ptr,
     Store (Op_result 6 (Int_type 32)) (Op_result 7 Ptr),
     Func_call SYM_GET_CALLDATA_PTR [Argument 0 Ptr] [Ptr],
     Addressof CALLDATA_PTR_GLOBAL Ptr,
     Store (Op_result 9 Ptr) (Op_result 10 Ptr),
     Func_call SYM_GET_CALLDATA_SIZE [Argument 0 Ptr] [Int_type 32],
     Addressof CALLDATA_SIZE_GLOBAL Ptr,
     Store (Op_result 12 (Int_type 32)) (Op_result 13 Ptr),
     Addressof GAS_COUNTER_GLOBAL Ptr,
     Store (Argument 1 (Int_type 64)) (Op_result 15 Ptr)]"

definition revert_code :: mlir_code where
  "revert_code = Code
    [Addressof GAS_COUNTER_GLOBAL Ptr,
     Load (Op_result 0 Ptr) (Int_type 64),
     Constant 0 (Int_type 32),
     Constant 0 (Int_type 64),
     Constant (unat (exit_status_u8 Exit_Error)) (Int_type 8),
     Addressof GAS_COUNTER_GLOBAL Ptr,
     Load (Op_result 5 Ptr) (Int_type 64),
     Cmpi Pred_sge (Op_result 6 (Int_type 64)) (Op_result 1 (Int_type 64)),
     Arith Subi (Op_result 6 (Int_type 64)) (Op_result 1 (Int_type 64)),
     Store (Op_result 8 (Int_type 64)) (Op_result 5 Ptr),
     Func_call SYM_WRITE_RESULT [Argument 0 Ptr, Op_result 2 (Int_type 32), Op_result 2 (Int_type 32),
       Op_result 3 (Int_type 64), Op_result 4 (Int_type 8)] []]
    (Func_return (Op_result 4 (Int_type 8)))"

lemma operation_ctx_new_eq:
  "operation_ctx_new [] [] =
     Inr (declare_symbols setup_globals, setup_ops, \<lparr>octx_syscall_ctx = Argument 0 Ptr, octx_revert_block = revert_code\<rparr>)"
  by (simp add: setup_emit_defs emit_defs emit_basics setup_globals_def setup_ops_def revert_code_def Let_def)

abbreviation main_module :: mlir_module where
  "main_module \<equiv> declare_symbols setup_globals @ [main_func]"

lemma main_module_distinct: "distinct (map item_name main_module)"
  by code_simp

lemma main_module_item: "it \<in> set main_module \<Longrightarrow> find_item main_module (item_name it) = Some it"
  by (rule find_item_Some [OF main_module_distinct])

lemma declared_in_main: "it \<in> set declared_symbols \<Longrightarrow> it \<in> set main_module"
  by (auto simp: declare_symbols_def)

lemma main_module_global: "Global s t lk \<in> set main_module \<Longrightarrow> global_verifies main_module s"
  using main_module_item [of "Global s t lk"] by (simp add: global_verifies_def)

lemma main_module_func: "Func s ps rs vis \<in> set main_module \<Longrightarrow> call_verifies main_module s ps rs"
  using main_module_item [of "Func s ps rs vis"] by (simp add: call_verifies_def)

lemma setup_globals_verify:
  "global_verifies main_module STACK_BASEPTR_GLOBAL" "global_verifies main_module STACK_PTR_GLOBAL"
  "global_verifies main_module MEMORY_PTR_GLOBAL" "global_verifies main_module MEMORY_SIZE_GLOBAL"
  "global_verifies main_module CALLDATA_PTR_GLOBAL" "global_verifies main_module CALLDATA_SIZE_GLOBAL"
  "global_verifies main_module GAS_COUNTER_GLOBAL" "global_verifies main_module SYM_CONTEXT_IS_STATIC"
  by (rule main_module_global, simp add: setup_globals_def declare_symbols_def declare_defs mlir_global_def, blast)+

lemma setup_calls_verify:
  "call_verifies main_module SYM_GET_CALLDATA_PTR [Ptr] [Ptr]"
  "call_verifies main_module SYM_GET_CALLDATA_SIZE [Ptr] [Int_type 32]"
  "call_verifies main_module SYM_WRITE_RESULT [Ptr, Int_type 32, Int_type 32, Int_type 64, Int_type 8] []"
  by (rule main_module_func, simp add: setup_globals_def declare_symbols_def declare_defs, blast)+

lemma setup_verifies: "block_verifies main_module [Ptr, Int_type 64] setup_ops"
  by (simp add: setup_ops_def op_verifies_def setup_globals_verify setup_calls_verify gas_consts)

lemma revert_verifies: "code_verifies main_module (Int_type 8) [Ptr, Int_type 64] [] revert_code"
  by (simp add: revert_code_def op_verifies_def setup_globals_verify setup_calls_verify)

text \<open>C11: every wrapper of a system call, used on operands of the types of the Rust function that it is
  meant for, appends one call with the context and the operands in the order of the parameters; the block
  still verifies in the module of the program, the engine resolves the symbol to that function, and the value of
  the call has the type of its result.\<close>

theorem system_calls_verify:
  assumes "(f, w) \<in> set system_calls"
    and "operation_ctx_new [] [] = Inr (M, sb, x)"
    and "block_verifies (M @ [main_func]) [Ptr, Int_type 64] b"
    and "list_all (value_ok [Ptr, Int_type 64] (map op_results b)) vs"
    and "map c_type (fn_params f) = Ptr # map value_type vs"
  shows "\<exists>s b' r. w x b vs = Inr (b', r) \<and>
    b' = b @ [Func_call s (octx_syscall_ctx x # vs) (fn_results f)] \<and>
    block_verifies (M @ [main_func]) [Ptr, Int_type 64] b' \<and>
    register_symbols Map.empty s = Some (Function f) \<and>
    map_option value_type r = map_option c_type (fn_result f) \<and>
    (\<forall>v. r = Some v \<longrightarrow> value_ok [Ptr, Int_type 64] (map op_results b') v)"
proof -
  have M: "M = declare_symbols setup_globals" and x: "octx_syscall_ctx x = Argument 0 Ptr"
    using assms(2) by (auto simp: operation_ctx_new_eq)
  have "linked f w" using system_calls_linked assms(1) by auto
  moreover have "length (octx_syscall_ctx x # vs) = length (fn_params f)"
    using arg_cong [OF assms(5), of length] by simp
  ultimately obtain s where r: "(s, Function f) \<in> set registered_symbols"
    and d: "Func s (map c_type (fn_params f)) (fn_results f) Private \<in> set declared_symbols"
    and e: "w x b vs = Inr (b @ [Func_call s (octx_syscall_ctx x # vs) (fn_results f)],
                        map_option (\<lambda>t. Op_result (length b) (c_type t)) (fn_result f))"
    unfolding linked_def by blast
  have c: "call_verifies main_module s (map c_type (fn_params f)) (fn_results f)"
    using d by (intro main_module_func declared_in_main)
  then have "op_verifies main_module [Ptr, Int_type 64] (map op_results b)
      (Func_call s (octx_syscall_ctx x # vs) (fn_results f))"
    using assms(4,5) x by (simp add: op_verifies_def)
  then have "block_verifies (M @ [main_func]) [Ptr, Int_type 64]
      (b @ [Func_call s (octx_syscall_ctx x # vs) (fn_results f)])"
    using assms(3) M by (simp add: ops_verify_append)
  moreover have "register_symbols Map.empty s = Some (Function f)"
    using r by (rule register_symbols_lookup)
  moreover have "fn_results f = [c_type t]" if "fn_result f = Some t" for t
    using that by (simp add: fn_results_def)
  ultimately show ?thesis using e by (cases "fn_result f") (auto simp: nth_append)
qed

theorem system_calls_verify_witness:
  "\<exists>M sb x b' r. operation_ctx_new [] [] = Inr (M, sb, x) \<and>
     with_value (opctx_extend_memory_syscall x [Constant 64 (Int_type 32)] (Op_result 0 (Int_type 32))) = Inr (b', r) \<and>
     block_verifies (M @ [main_func]) [Ptr, Int_type 64] b' \<and>
     map_option value_type r = Some Ptr"
proof -
  obtain M sb x where n: "operation_ctx_new [] [] = Inr (M, sb, x)" by (simp add: operation_ctx_new_eq)
  let ?w = "\<lambda>x b vs. with_value (opctx_extend_memory_syscall x b (vs ! 0))"
  have "(fn_extend_memory, ?w) \<in> set system_calls"
    unfolding system_calls_def by (simp only: list.set, blast)
  then show ?thesis
    using system_calls_verify [of fn_extend_memory ?w M sb x "[Constant 64 (Int_type 32)]" "[Op_result 0 (Int_type 32)]"] n
    by (auto simp: op_verifies_def fn_extend_memory_def)
qed

end
