(* ===== verification/Mlir_Exec.thy ===== *)
theory Mlir_Exec
  imports Fragments
begin

text \<open>
  Execution of the emitted operations: the values of a block, the globals of the module, the cells that
  \<open>alloca\<close> makes, loads and stores through pointers, the calls that leave the module, and the branches
  between the blocks of an operation.
\<close>

section \<open>States\<close>

text \<open>
  A pointer goes to a global, to a cell of the stack (counted from the base), to another cell of the
  frame, to the context, to a byte of the call data or of the memory buffer, or to bytes of the
  context. \<open>To_memory n off\<close> is an offset into the buffer that had \<open>n\<close> bytes, as in the machine. \<open>Invalid\<close>
  is the null pointer and the content of a pointer that was never set. Comparing pointers compares stack cells; the
  stack does not wrap around the address space.
\<close>

datatype pointer =
    To_global string | To_cell int | To_slot nat | To_context | To_calldata int | To_memory nat int
  | To_bytes bytes | Invalid

datatype rval = Num nat nat | Pointer pointer

fun rval_type :: "rval \<Rightarrow> mlir_type" where
  "rval_type (Num w _) = Int_type w"
| "rval_type (Pointer _) = Ptr"

text \<open>A slot is a cell of the frame: its width in bits and, once written, what was written last.\<close>

type_synonym slot = "nat \<times> rval option"

record lstate =
  l_args :: "rval list"
  l_results :: "rval option list"
  l_globals :: "string \<rightharpoonup> rval"
  l_cells :: "nat \<Rightarrow> u256"
  l_slots :: "slot list"
  l_ctx :: syscall_context

abbreviation l_memory :: "lstate \<Rightarrow> bytes" where
  "l_memory s \<equiv> memory (ctx_inner (l_ctx s))"

abbreviation l_calldata :: "lstate \<Rightarrow> bytes" where
  "l_calldata s \<equiv> tx_data (tx (ctx_env (l_ctx s)))"

fun eval_value :: "lstate \<Rightarrow> mlir_value \<Rightarrow> rval option" where
  "eval_value s (Argument i t) = (if i < length (l_args s) then Some (l_args s ! i) else None)"
| "eval_value s (Op_result i t) = (if i < length (l_results s) then l_results s ! i else None)"

definition done_op :: "rval option \<Rightarrow> lstate \<Rightarrow> lstate" where
  "done_op r s = s\<lparr>l_results := l_results s @ [r]\<rparr>"

definition or_undefined :: "'a option \<Rightarrow> ('a \<Rightarrow> 'b res) \<Rightarrow> 'b res" where
  "or_undefined x k = (case x of Some y \<Rightarrow> k y | None \<Rightarrow> Inl Undefined_Behaviour)"

section \<open>Integers\<close>

definition signed_value :: "nat \<Rightarrow> nat \<Rightarrow> int" where
  "signed_value w n = (if n < 2 ^ (w - 1) then int n else int n - 2 ^ w)"

definition unsigned_value :: "nat \<Rightarrow> int \<Rightarrow> nat" where
  "unsigned_value w i = nat (i mod 2 ^ w)"

fun cmp_nums :: "cmpi_predicate \<Rightarrow> nat \<Rightarrow> nat \<Rightarrow> nat \<Rightarrow> bool" where
  "cmp_nums Pred_eq w a b \<longleftrightarrow> a = b"
| "cmp_nums Pred_ne w a b \<longleftrightarrow> a \<noteq> b"
| "cmp_nums Pred_slt w a b \<longleftrightarrow> signed_value w a < signed_value w b"
| "cmp_nums Pred_sgt w a b \<longleftrightarrow> signed_value w b < signed_value w a"
| "cmp_nums Pred_sge w a b \<longleftrightarrow> signed_value w b \<le> signed_value w a"
| "cmp_nums Pred_ult w a b \<longleftrightarrow> a < b"
| "cmp_nums Pred_ugt w a b \<longleftrightarrow> b < a"
| "cmp_nums Pred_ule w a b \<longleftrightarrow> a \<le> b"
| "cmp_nums Pred_uge w a b \<longleftrightarrow> b \<le> a"

text \<open>Only the unsigned comparisons apply to pointers.\<close>

fun cmp_cells :: "cmpi_predicate \<Rightarrow> int \<Rightarrow> int \<Rightarrow> bool option" where
  "cmp_cells Pred_eq a b = Some (a = b)"
| "cmp_cells Pred_ne a b = Some (a \<noteq> b)"
| "cmp_cells Pred_ult a b = Some (a < b)"
| "cmp_cells Pred_ugt a b = Some (b < a)"
| "cmp_cells Pred_ule a b = Some (a \<le> b)"
| "cmp_cells Pred_uge a b = Some (b \<le> a)"
| "cmp_cells _ a b = None"

text \<open>Integer operations at the width of their operands. A division by zero, a signed division that
  overflows and a shift by the width or more are undefined.\<close>

definition sdiv_defined :: "nat \<Rightarrow> nat \<Rightarrow> nat \<Rightarrow> bool" where
  "sdiv_defined w a b \<longleftrightarrow> b \<noteq> 0 \<and> \<not> (signed_value w a = - (2 ^ (w - 1)) \<and> signed_value w b = - 1)"

fun arith_result :: "host \<Rightarrow> arith_op \<Rightarrow> nat \<Rightarrow> nat \<Rightarrow> nat \<Rightarrow> nat option" where
  "arith_result h Addi w a b = Some ((a + b) mod 2 ^ w)"
| "arith_result h Subi w a b = Some ((2 ^ w + a - b) mod 2 ^ w)"
| "arith_result h Muli w a b = Some ((a * b) mod 2 ^ w)"
| "arith_result h Divui w a b = (if b = 0 then None else Some (a div b))"
| "arith_result h Remui w a b = (if b = 0 then None else Some (a mod b))"
| "arith_result h Llvm_sdiv w a b =
     (if sdiv_defined w a b then Some (unsigned_value w (signed_value w a sdiv signed_value w b)) else None)"
| "arith_result h Llvm_srem w a b =
     (if sdiv_defined w a b then Some (unsigned_value w (signed_value w a smod signed_value w b)) else None)"
| "arith_result h Andi w a b = Some (a AND b)"
| "arith_result h Ori w a b = Some (a OR b)"
| "arith_result h Xori w a b = Some (a XOR b)"
| "arith_result h Shli w a b = (if b < w then Some ((a * 2 ^ b) mod 2 ^ w) else None)"
| "arith_result h Llvm_shl w a b = (if b < w then Some ((a * 2 ^ b) mod 2 ^ w) else None)"
| "arith_result h Shrui w a b = (if b < w then Some (a div 2 ^ b) else None)"
| "arith_result h Shrsi w a b = (if b < w then Some (unsigned_value w (signed_value w a div 2 ^ b)) else None)"
| "arith_result h Llvm_ashr w a b = (if b < w then Some (unsigned_value w (signed_value w a div 2 ^ b)) else None)"
| "arith_result h Minui w a b = Some (min a b)"
| "arith_result h Maxui w a b = Some (max a b)"
| "arith_result h Ipowi w a b = (if w = 256 then Some (unat (ipowi h (of_nat a) (of_nat b))) else None)"

definition swapped_bytes :: "nat \<Rightarrow> nat \<Rightarrow> nat" where
  "swapped_bytes w n = le_nat (nat_to_be (w div 8) n)"

definition leading_zeros :: "nat \<Rightarrow> nat \<Rightarrow> nat" where
  "leading_zeros w n = length (takeWhile (\<lambda>i. \<not> bit n i) (rev [0..<w]))"

text \<open>The index of \<open>getelementptr\<close>, a signed number of at most 64 bits.\<close>

definition gep_index :: "nat \<Rightarrow> nat \<Rightarrow> int" where
  "gep_index w n = signed_value (min w 64) (n mod 2 ^ min w 64)"

section \<open>Memory\<close>

text \<open>Bytes of the call data and of the memory buffer; reading or writing no bytes needs no valid pointer.\<close>

fun read_bytes :: "lstate \<Rightarrow> pointer \<Rightarrow> nat \<Rightarrow> bytes option" where
  "read_bytes s (To_calldata off) n =
     (if n = 0 then Some []
      else if 0 \<le> off \<and> nat off + n \<le> length (l_calldata s) then Some (take n (drop (nat off) (l_calldata s)))
      else None)"
| "read_bytes s (To_memory k off) n =
     (if n = 0 then Some []
      else if k = length (l_memory s) \<and> 0 \<le> off \<and> nat off + n \<le> length (l_memory s)
      then Some (take n (drop (nat off) (l_memory s))) else None)"
| "read_bytes s _ n = (if n = 0 then Some [] else None)"

fun write_bytes :: "lstate \<Rightarrow> pointer \<Rightarrow> bytes \<Rightarrow> lstate option" where
  "write_bytes s (To_memory k off) bs =
     (if bs = [] then Some s
      else if k = length (l_memory s) \<and> 0 \<le> off \<and> nat off + length bs \<le> length (l_memory s)
      then Some (s\<lparr>l_ctx := map_inner (\<lambda>ic. ic\<lparr>memory :=
             take (nat off) (memory ic) @ bs @ drop (nat off + length bs) (memory ic)\<rparr>) (l_ctx s)\<rparr>)
      else None)"
| "write_bytes s (To_cell k) bs =
     (if bs = [] then Some s
      else if 0 \<le> k \<and> k < int MAX_STACK_SIZE \<and> length bs \<le> 32
      then Some (s\<lparr>l_cells := (l_cells s)(nat k :=
             word_from_le (bs @ drop (length bs) (word_to_le (l_cells s (nat k)))))\<rparr>)
      else None)"
| "write_bytes s _ bs = (if bs = [] then Some s else None)"

text \<open>The value of a slot; its width is that of the last write.\<close>

definition slot_value :: "lstate \<Rightarrow> nat \<Rightarrow> rval option" where
  "slot_value s i = (if i < length (l_slots s) then snd (l_slots s ! i) else None)"

definition store_slot :: "lstate \<Rightarrow> nat \<Rightarrow> rval \<Rightarrow> lstate option" where
  "store_slot s i v =
     (case v of
        Num w n \<Rightarrow> if i < length (l_slots s) \<and> w \<le> fst (l_slots s ! i)
                   then Some (s\<lparr>l_slots := (l_slots s)[i := (fst (l_slots s ! i), Some v)]\<rparr>) else None
      | Pointer _ \<Rightarrow> None)"

text \<open>The flag of the context is the only global that lives outside the module. A global pointer that was
  never set is an invalid pointer.\<close>

definition load_global :: "lstate \<Rightarrow> string \<Rightarrow> mlir_type \<Rightarrow> rval option" where
  "load_global s g t =
     (if g = SYM_CONTEXT_IS_STATIC
      then (if t = Int_type 1 then Some (Num 1 (of_bool (ctx_is_static (ctx_frame (l_ctx s))))) else None)
      else case l_globals s g of
             Some v \<Rightarrow> if rval_type v = t then Some v else None
           | None \<Rightarrow> if t = Ptr then Some (Pointer Invalid) else None)"

fun load_from :: "lstate \<Rightarrow> pointer \<Rightarrow> mlir_type \<Rightarrow> rval option" where
  "load_from s (To_global g) t = load_global s g t"
| "load_from s (To_cell k) t =
     (if 0 \<le> k \<and> k < int MAX_STACK_SIZE \<and> t = Int_type 256 then Some (Num 256 (unat (l_cells s (nat k)))) else None)"
| "load_from s (To_slot i) t =
     (case slot_value s i of Some v \<Rightarrow> if rval_type v = t then Some v else None | None \<Rightarrow> None)"
| "load_from s (To_memory k off) (Int_type w) =
     (if 8 dvd w then map_option (\<lambda>bs. Num w (le_nat bs)) (read_bytes s (To_memory k off) (w div 8)) else None)"
| "load_from s (To_bytes bs) (Int_type w) = Some (Num w (le_nat bs mod 2 ^ w))"
| "load_from s _ t = None"

fun store_to :: "lstate \<Rightarrow> pointer \<Rightarrow> rval \<Rightarrow> lstate option" where
  "store_to s (To_global g) v =
     (if g = SYM_CONTEXT_IS_STATIC then None else Some (s\<lparr>l_globals := (l_globals s)(g \<mapsto> v)\<rparr>))"
| "store_to s (To_cell k) (Num w n) =
     (if 0 \<le> k \<and> k < int MAX_STACK_SIZE \<and> w = 256 then Some (s\<lparr>l_cells := (l_cells s)(nat k := of_nat n)\<rparr>) else None)"
| "store_to s (To_slot i) v = store_slot s i v"
| "store_to s (To_memory k off) (Num w n) =
     (if 8 dvd w then write_bytes s (To_memory k off) (rev (nat_to_be (w div 8) n)) else None)"
| "store_to s _ v = None"

fun offset_pointer :: "pointer \<Rightarrow> int \<Rightarrow> mlir_type \<Rightarrow> pointer option" where
  "offset_pointer (To_cell k) i t = (if t = Int_type 256 then Some (To_cell (k + i)) else None)"
| "offset_pointer (To_calldata k) i t = (if t = Int_type 8 then Some (To_calldata (k + i)) else None)"
| "offset_pointer (To_memory n k) i t = (if t = Int_type 8 then Some (To_memory n (k + i)) else None)"
| "offset_pointer Invalid i t = Some Invalid"
| "offset_pointer _ i t = None"

text \<open>The stack, of \<open>MAX_STACK_SIZE\<close> elements, or a slot of one element.\<close>

definition allocate :: "lstate \<Rightarrow> nat \<Rightarrow> mlir_type \<Rightarrow> (lstate \<times> pointer) option" where
  "allocate s n t =
     (case t of
        Int_type w \<Rightarrow>
          if n = 1 then Some (s\<lparr>l_slots := l_slots s @ [(w, None)]\<rparr>, To_slot (length (l_slots s)))
          else if n = MAX_STACK_SIZE \<and> w = 256 then Some (s, To_cell 0) else None
      | Ptr \<Rightarrow> None)"

section \<open>Calls of the Rust side\<close>

text \<open>
  What a call does, by the function that the engine resolves its symbol to: arguments that are references
  are read from and written to slots. \<open>self\<close> is the context that the first argument points to.
\<close>

type_synonym extern = "host \<Rightarrow> executor \<Rightarrow> rval list \<Rightarrow> lstate \<Rightarrow> (lstate \<times> rval option) res"

definition ref_u256 :: "lstate \<Rightarrow> nat \<Rightarrow> sysu256 option" where
  "ref_u256 s i = (case slot_value s i of Some (Num w n) \<Rightarrow> if w = 256 then Some (halves (of_nat n)) else None | _ \<Rightarrow> None)"

definition ref_u64 :: "lstate \<Rightarrow> nat \<Rightarrow> u64 option" where
  "ref_u64 s i = (case slot_value s i of Some (Num w n) \<Rightarrow> if w = 64 then Some (of_nat n) else None | _ \<Rightarrow> None)"

abbreviation set_u256 :: "lstate \<Rightarrow> nat \<Rightarrow> sysu256 \<Rightarrow> lstate option" where
  "set_u256 s i v \<equiv> store_slot s i (Num 256 (unat (to_primitive_u256 v)))"

abbreviation set_u64 :: "lstate \<Rightarrow> nat \<Rightarrow> u64 \<Rightarrow> lstate option" where
  "set_u64 s i v \<equiv> store_slot s i (Num 64 (unat v))"

abbreviation returns :: "lstate \<Rightarrow> rval \<Rightarrow> (lstate \<times> rval option) res" where
  "returns s v \<equiv> Inr (s, Some v)"

abbreviation returns_nothing :: "lstate \<Rightarrow> (lstate \<times> rval option) res" where
  "returns_nothing s \<equiv> Inr (s, None)"

text \<open>The functions that write one number of the context through their reference, and those that return one.\<close>

definition ext_store :: "(syscall_context \<Rightarrow> sysu256) \<Rightarrow> extern" where
  "ext_store f h exec vs s =
     (case vs of [Pointer To_context, Pointer (To_slot p)] \<Rightarrow>
        or_undefined (set_u256 s p (f (l_ctx s))) returns_nothing
      | _ \<Rightarrow> Inl Undefined_Behaviour)"

definition ext_get :: "(host \<Rightarrow> syscall_context \<Rightarrow> rval) \<Rightarrow> extern" where
  "ext_get f h exec vs s =
     (case vs of [Pointer To_context] \<Rightarrow> returns s (f h (l_ctx s)) | _ \<Rightarrow> Inl Undefined_Behaviour)"

definition ext_store_in_blobbasefee_ptr :: extern where
  "ext_store_in_blobbasefee_ptr h exec vs s =
     (case vs of [Pointer To_context, Pointer (To_slot p)] \<Rightarrow>
        or_undefined (store_slot s p (Num 128 (unat (store_in_blobbasefee_ptr (l_ctx s))))) returns_nothing
      | _ \<Rightarrow> Inl Undefined_Behaviour)"

definition ext_store_in_selfbalance_ptr :: extern where
  "ext_store_in_selfbalance_ptr h exec vs s =
     (case vs of [Pointer To_context, Pointer (To_slot p)] \<Rightarrow>
        (case store_in_selfbalance_ptr (l_ctx s) of (c, v) \<Rightarrow>
           or_undefined (set_u256 (s\<lparr>l_ctx := c\<rparr>) p v) returns_nothing)
      | _ \<Rightarrow> Inl Undefined_Behaviour)"

text \<open>Functions on the memory, with offsets and sizes of 32 bits.\<close>

definition ext_write_result :: extern where
  "ext_write_result h exec vs s =
     (case vs of [Pointer To_context, Num _ off, Num _ sz, Num _ gas, Num _ reason] \<Rightarrow>
        returns_nothing (s\<lparr>l_ctx := write_result (l_ctx s) (of_nat off) (of_nat sz) (of_nat gas) (of_nat reason)\<rparr>)
      | _ \<Rightarrow> Inl Undefined_Behaviour)"

definition buffer_pointer :: "nat option \<Rightarrow> pointer" where
  "buffer_pointer p = (case p of Some n \<Rightarrow> To_memory n 0 | None \<Rightarrow> Invalid)"

definition ext_extend_memory :: extern where
  "ext_extend_memory h exec vs s =
     (case vs of [Pointer To_context, Num _ new_size] \<Rightarrow>
        (case extend_memory h (l_ctx s) (of_nat new_size) of (c, p) \<Rightarrow>
           returns (s\<lparr>l_ctx := c\<rparr>) (Pointer (buffer_pointer p)))
      | _ \<Rightarrow> Inl Undefined_Behaviour)"

definition ext_keccak256_hasher :: extern where
  "ext_keccak256_hasher h exec vs s =
     (case vs of [Pointer To_context, Num _ off, Num _ sz, Pointer (To_slot p)] \<Rightarrow>
        and_then (keccak256_hasher h (l_ctx s) (of_nat off) (of_nat sz)) (\<lambda>(c, hash).
          or_undefined (set_u256 (s\<lparr>l_ctx := c\<rparr>) p hash) returns_nothing)
      | _ \<Rightarrow> Inl Undefined_Behaviour)"

definition ext_copy :: "(syscall_context \<Rightarrow> u32 \<Rightarrow> u32 \<Rightarrow> u32 \<Rightarrow> syscall_context res) \<Rightarrow> extern" where
  "ext_copy f h exec vs s =
     (case vs of [Pointer To_context, Num _ a, Num _ b, Num _ c] \<Rightarrow>
        and_then (f (l_ctx s) (of_nat a) (of_nat b) (of_nat c)) (\<lambda>c. returns_nothing (s\<lparr>l_ctx := c\<rparr>))
      | _ \<Rightarrow> Inl Undefined_Behaviour)"

definition ext_copy_ext_code_to_memory :: extern where
  "ext_copy_ext_code_to_memory h exec vs s =
     (case vs of [Pointer To_context, Pointer (To_slot a), Num _ off, Num _ sz, Num _ dest] \<Rightarrow>
        or_undefined (ref_u256 s a) (\<lambda>address.
          and_then (copy_ext_code_to_memory (l_ctx s) address (of_nat off) (of_nat sz) (of_nat dest)) (\<lambda>(c, gas).
            returns (s\<lparr>l_ctx := c\<rparr>) (Num 64 (unat gas))))
      | _ \<Rightarrow> Inl Undefined_Behaviour)"

definition slot_refs :: "rval list \<Rightarrow> nat list option" where
  "slot_refs vs = those (map (\<lambda>v. case v of Pointer (To_slot i) \<Rightarrow> Some i | _ \<Rightarrow> None) vs)"

definition ext_append_log :: "nat \<Rightarrow> (syscall_context \<Rightarrow> u32 \<Rightarrow> u32 \<Rightarrow> sysu256 list \<Rightarrow> syscall_context res) \<Rightarrow> extern" where
  "ext_append_log n f h exec vs s =
     (case vs of Pointer To_context # Num _ off # Num _ sz # ts \<Rightarrow>
        if length ts = n
        then or_undefined (slot_refs ts) (\<lambda>is. or_undefined (those (map (ref_u256 s) is)) (\<lambda>topics.
          and_then (f (l_ctx s) (of_nat off) (of_nat sz) topics) (\<lambda>c. returns_nothing (s\<lparr>l_ctx := c\<rparr>))))
        else Inl Undefined_Behaviour
      | _ \<Rightarrow> Inl Undefined_Behaviour)"

text \<open>Functions that look up an account or a storage slot, and those that write one.\<close>

definition ext_lookup :: "(syscall_context \<Rightarrow> sysu256 \<Rightarrow> syscall_context \<times> sysu256 \<times> u64) \<Rightarrow> extern" where
  "ext_lookup f h exec vs s =
     (case vs of [Pointer To_context, Pointer (To_slot k), Pointer (To_slot p)] \<Rightarrow>
        or_undefined (ref_u256 s k) (\<lambda>key.
          case f (l_ctx s) key of (c, v, gas) \<Rightarrow>
            or_undefined (set_u256 (s\<lparr>l_ctx := c\<rparr>) p v) (\<lambda>s. returns s (Num 64 (unat gas))))
      | _ \<Rightarrow> Inl Undefined_Behaviour)"

definition ext_get_code_hash :: extern where
  "ext_get_code_hash h exec vs s =
     (case vs of [Pointer To_context, Pointer (To_slot a)] \<Rightarrow>
        or_undefined (ref_u256 s a) (\<lambda>address.
          case get_code_hash (l_ctx s) address of (c, v, gas) \<Rightarrow>
            or_undefined (set_u256 (s\<lparr>l_ctx := c\<rparr>) a v) (\<lambda>s. returns s (Num 64 (unat gas))))
      | _ \<Rightarrow> Inl Undefined_Behaviour)"

definition ext_get_codesize_from_address :: extern where
  "ext_get_codesize_from_address h exec vs s =
     (case vs of [Pointer To_context, Pointer (To_slot a), Pointer (To_slot g)] \<Rightarrow>
        or_undefined (ref_u256 s a) (\<lambda>address.
          case get_codesize_from_address (l_ctx s) address of (c, n, gas) \<Rightarrow>
            or_undefined (set_u64 (s\<lparr>l_ctx := c\<rparr>) g gas) (\<lambda>s. returns s (Num 64 (unat n))))
      | _ \<Rightarrow> Inl Undefined_Behaviour)"

definition ext_get_block_hash :: extern where
  "ext_get_block_hash h exec vs s =
     (case vs of [Pointer To_context, Pointer (To_slot n)] \<Rightarrow>
        or_undefined (ref_u256 s n) (\<lambda>number.
          case syscall_get_block_hash (l_ctx s) number of (c, v) \<Rightarrow>
            or_undefined (set_u256 (s\<lparr>l_ctx := c\<rparr>) n v) returns_nothing)
      | _ \<Rightarrow> Inl Undefined_Behaviour)"

definition ext_read :: "(syscall_context \<Rightarrow> sysu256 \<Rightarrow> sysu256) \<Rightarrow> extern" where
  "ext_read f h exec vs s =
     (case vs of [Pointer To_context, Pointer (To_slot k), Pointer (To_slot p)] \<Rightarrow>
        or_undefined (ref_u256 s k) (\<lambda>key. or_undefined (set_u256 s p (f (l_ctx s) key)) returns_nothing)
      | _ \<Rightarrow> Inl Undefined_Behaviour)"

definition ext_write_storage :: extern where
  "ext_write_storage h exec vs s =
     (case vs of [Pointer To_context, Pointer (To_slot k), Pointer (To_slot p)] \<Rightarrow>
        or_undefined (ref_u256 s k) (\<lambda>key. or_undefined (ref_u256 s p) (\<lambda>v.
          and_then (syscall_write_storage (l_ctx s) key v) (\<lambda>(c, gas).
            returns (s\<lparr>l_ctx := c\<rparr>) (Num 64 (unat gas)))))
      | _ \<Rightarrow> Inl Undefined_Behaviour)"

definition ext_write_transient_storage :: extern where
  "ext_write_transient_storage h exec vs s =
     (case vs of [Pointer To_context, Pointer (To_slot k), Pointer (To_slot p)] \<Rightarrow>
        or_undefined (ref_u256 s k) (\<lambda>key. or_undefined (ref_u256 s p) (\<lambda>v.
          returns_nothing (s\<lparr>l_ctx := write_transient_storage (l_ctx s) key v\<rparr>)))
      | _ \<Rightarrow> Inl Undefined_Behaviour)"

definition ext_selfdestruct :: extern where
  "ext_selfdestruct h exec vs s =
     (case vs of [Pointer To_context, Pointer (To_slot a)] \<Rightarrow>
        or_undefined (ref_u256 s a) (\<lambda>receiver.
          and_then (selfdestruct (l_ctx s) receiver) (\<lambda>(c, gas). returns (s\<lparr>l_ctx := c\<rparr>) (Num 64 (unat gas))))
      | _ \<Rightarrow> Inl Undefined_Behaviour)"

text \<open>Calls and creations. \<open>call\<close> leaves its gas reference alone when it halts before the call.\<close>

definition ext_call :: extern where
  "ext_call h exec vs s =
     (case vs of [Pointer To_context, Num _ gas, Pointer (To_slot a), Pointer (To_slot v), Num _ args_offset,
                  Num _ args_size, Num _ ret_offset, Num _ ret_size, Num _ available_gas, Pointer (To_slot g), Num _ ct] \<Rightarrow>
        or_undefined (ref_u256 s a) (\<lambda>address. or_undefined (ref_u256 s v) (\<lambda>v.
          and_then (syscall_call h exec (l_ctx s) (of_nat gas) address v (of_nat args_offset) (of_nat args_size)
                      (of_nat ret_offset) (of_nat ret_size) (of_nat available_gas) (ref_u64 s g) (of_nat ct))
            (\<lambda>(c, consumed_gas, result).
              or_undefined (case consumed_gas of None \<Rightarrow> Some (s\<lparr>l_ctx := c\<rparr>) | Some gas \<Rightarrow> set_u64 (s\<lparr>l_ctx := c\<rparr>) g gas)
                (\<lambda>s. returns s (Num 8 (unat result))))))
      | _ \<Rightarrow> Inl Undefined_Behaviour)"

definition ext_created :: "lstate \<Rightarrow> nat \<Rightarrow> nat \<Rightarrow> create_outcome res \<Rightarrow> (lstate \<times> rval option) res" where
  "ext_created s v g r =
     and_then r (\<lambda>(c, address, gas, result).
       or_undefined (set_u256 (s\<lparr>l_ctx := c\<rparr>) v address) (\<lambda>s.
       or_undefined (set_u64 s g gas) (\<lambda>s. returns s (Num 8 (unat result)))))"

definition ext_create :: extern where
  "ext_create h exec vs s =
     (case vs of [Pointer To_context, Num _ sz, Num _ off, Pointer (To_slot v), Pointer (To_slot g)] \<Rightarrow>
        or_undefined (ref_u256 s v) (\<lambda>amount. or_undefined (ref_u64 s g) (\<lambda>gas.
          ext_created s v g (create h exec (l_ctx s) (of_nat sz) (of_nat off) amount gas)))
      | _ \<Rightarrow> Inl Undefined_Behaviour)"

definition ext_create2 :: extern where
  "ext_create2 h exec vs s =
     (case vs of [Pointer To_context, Num _ sz, Num _ off, Pointer (To_slot v), Pointer (To_slot g), Pointer (To_slot t)] \<Rightarrow>
        or_undefined (ref_u256 s v) (\<lambda>amount. or_undefined (ref_u64 s g) (\<lambda>gas. or_undefined (ref_u256 s t) (\<lambda>salt.
          ext_created s v g (create2 h exec (l_ctx s) (of_nat sz) (of_nat off) amount gas salt))))
      | _ \<Rightarrow> Inl Undefined_Behaviour)"

definition externs :: "(rust_fn \<times> extern) list" where
  "externs =
    [(fn_write_result, ext_write_result),
     (fn_get_return_data_size, ext_get (\<lambda>_ c. Num 32 (unat (get_return_data_size c)))),
     (fn_copy_return_data_into_memory, ext_copy copy_return_data_into_memory),
     (fn_call, ext_call),
     (fn_store_in_selfbalance_ptr, ext_store_in_selfbalance_ptr),
     (fn_keccak256_hasher, ext_keccak256_hasher),
     (fn_store_in_callvalue_ptr, ext_store store_in_callvalue_ptr),
     (fn_store_in_blobbasefee_ptr, ext_store_in_blobbasefee_ptr),
     (fn_get_gaslimit, ext_get (\<lambda>_ c. Num 64 (unat (get_gaslimit c)))),
     (fn_store_in_caller_ptr, ext_store store_in_caller_ptr),
     (fn_store_in_gasprice_ptr, ext_store store_in_gasprice_ptr),
     (fn_get_chainid, ext_get (\<lambda>_ c. Num 64 (unat (get_chainid c)))),
     (fn_get_calldata_ptr, ext_get (\<lambda>_ _. Pointer (To_calldata 0))),
     (fn_get_calldata_size_syscall, ext_get (\<lambda>_ c. Num 32 (unat (get_calldata_size_syscall c)))),
     (fn_get_origin, ext_store get_origin),
     (fn_extend_memory, ext_extend_memory),
     (fn_copy_code_to_memory, ext_copy copy_code_to_memory),
     (fn_read_storage, ext_lookup syscall_read_storage),
     (fn_write_storage, ext_write_storage),
     (fn_append_log, ext_append_log 0 (\<lambda>c off sz t. append_log c off sz)),
     (fn_append_log_with_one_topic, ext_append_log 1 (\<lambda>c off sz t. append_log_with_one_topic c off sz (t ! 0))),
     (fn_append_log_with_two_topics,
        ext_append_log 2 (\<lambda>c off sz t. append_log_with_two_topics c off sz (t ! 0) (t ! 1))),
     (fn_append_log_with_three_topics,
        ext_append_log 3 (\<lambda>c off sz t. append_log_with_three_topics c off sz (t ! 0) (t ! 1) (t ! 2))),
     (fn_append_log_with_four_topics,
        ext_append_log 4 (\<lambda>c off sz t. append_log_with_four_topics c off sz (t ! 0) (t ! 1) (t ! 2) (t ! 3))),
     (fn_get_block_number, ext_store get_block_number),
     (fn_get_block_hash, ext_get_block_hash),
     (fn_get_codesize_from_address, ext_get_codesize_from_address),
     (fn_get_address_ptr, ext_get (\<lambda>h c. Pointer (To_bytes (get_address_ptr h c)))),
     (fn_get_prevrandao, ext_store get_prevrandao),
     (fn_get_coinbase_ptr, ext_get (\<lambda>_ c. Pointer (To_bytes (get_coinbase_ptr c)))),
     (fn_store_in_timestamp_ptr, ext_store store_in_timestamp_ptr),
     (fn_store_in_basefee_ptr, ext_store store_in_basefee_ptr),
     (fn_store_in_balance, ext_lookup store_in_balance),
     (fn_get_blob_hash_at_index, ext_read get_blob_hash_at_index),
     (fn_copy_ext_code_to_memory, ext_copy_ext_code_to_memory),
     (fn_get_code_hash, ext_get_code_hash),
     (fn_create, ext_create),
     (fn_create2, ext_create2),
     (fn_selfdestruct, ext_selfdestruct),
     (fn_read_transient_storage, ext_read read_transient_storage),
     (fn_write_transient_storage, ext_write_transient_storage)]"

definition call_symbol :: "string \<Rightarrow> extern option" where
  "call_symbol g = (case register_symbols Map.empty g of Some (Function f) \<Rightarrow> map_of externs f | _ \<Rightarrow> None)"

section \<open>Operations\<close>

definition unary_result :: "lstate \<Rightarrow> mlir_value \<Rightarrow> mlir_type \<Rightarrow> (nat \<Rightarrow> nat \<Rightarrow> nat) \<Rightarrow> lstate res" where
  "unary_result s a t f =
     (case (eval_value s a, t) of
        (Some (Num _ x), Int_type w) \<Rightarrow> Inr (done_op (Some (Num w (f w x))) s)
      | _ \<Rightarrow> Inl Undefined_Behaviour)"

definition exec_copy :: "lstate \<Rightarrow> mlir_value \<Rightarrow> mlir_value \<Rightarrow> mlir_value \<Rightarrow> lstate res" where
  "exec_copy s d p n =
     (case (eval_value s d, eval_value s p, eval_value s n) of
        (Some (Pointer dest), Some (Pointer src), Some (Num _ len)) \<Rightarrow>
          or_undefined (read_bytes s src len) (\<lambda>bs.
          or_undefined (write_bytes s dest bs) (\<lambda>s. Inr (done_op None s)))
      | _ \<Rightarrow> Inl Undefined_Behaviour)"

fun exec_op :: "host \<Rightarrow> executor \<Rightarrow> lstate \<Rightarrow> mlir_op \<Rightarrow> lstate res" where
  "exec_op h exec s (Func_call g vs ts) =
     or_undefined (those (map (eval_value s) vs)) (\<lambda>rs.
     or_undefined (call_symbol g) (\<lambda>f.
     and_then (f h exec rs s) (\<lambda>(s, r). Inr (done_op r s))))"
| "exec_op h exec s (Addressof g t) = Inr (done_op (Some (Pointer (To_global g))) s)"
| "exec_op h exec s (Constant n t) =
     (case t of Int_type w \<Rightarrow> Inr (done_op (Some (Num w n)) s) | Ptr \<Rightarrow> Inl Undefined_Behaviour)"
| "exec_op h exec s (Cmpi p a b) =
     (case (eval_value s a, eval_value s b) of
        (Some (Num w x), Some (Num _ y)) \<Rightarrow> Inr (done_op (Some (Num 1 (of_bool (cmp_nums p w x y)))) s)
      | _ \<Rightarrow> Inl Undefined_Behaviour)"
| "exec_op h exec s (Icmp p a b) =
     (case (eval_value s a, eval_value s b) of
        (Some (Num w x), Some (Num _ y)) \<Rightarrow> Inr (done_op (Some (Num 1 (of_bool (cmp_nums p w x y)))) s)
      | (Some (Pointer (To_cell x)), Some (Pointer (To_cell y))) \<Rightarrow>
          or_undefined (cmp_cells p x y) (\<lambda>r. Inr (done_op (Some (Num 1 (of_bool r))) s))
      | _ \<Rightarrow> Inl Undefined_Behaviour)"
| "exec_op h exec s (Arith f a b) =
     (case (eval_value s a, eval_value s b) of
        (Some (Num w x), Some (Num _ y)) \<Rightarrow>
          or_undefined (arith_result h f w x y) (\<lambda>r. Inr (done_op (Some (Num w r)) s))
      | _ \<Rightarrow> Inl Undefined_Behaviour)"
| "exec_op h exec s (Trunci a t) = unary_result s a t (\<lambda>w x. x mod 2 ^ w)"
| "exec_op h exec s (Extui a t) = unary_result s a t (\<lambda>w x. x)"
| "exec_op h exec s (Intr_bswap a t) = unary_result s a t swapped_bytes"
| "exec_op h exec s (Intr_ctlz a t) = unary_result s a t leading_zeros"
| "exec_op h exec s (Alloca n t) =
     (case eval_value s n of
        Some (Num _ k) \<Rightarrow> or_undefined (allocate s k t) (\<lambda>(s, p). Inr (done_op (Some (Pointer p)) s))
      | _ \<Rightarrow> Inl Undefined_Behaviour)"
| "exec_op h exec s (Load p t) =
     (case eval_value s p of
        Some (Pointer a) \<Rightarrow> or_undefined (load_from s a t) (\<lambda>v. Inr (done_op (Some v) s))
      | _ \<Rightarrow> Inl Undefined_Behaviour)"
| "exec_op h exec s (Store v p) =
     (case (eval_value s v, eval_value s p) of
        (Some x, Some (Pointer a)) \<Rightarrow> or_undefined (store_to s a x) (\<lambda>s. Inr (done_op None s))
      | _ \<Rightarrow> Inl Undefined_Behaviour)"
| "exec_op h exec s (Get_element_ptr p i t) =
     (case eval_value s p of
        Some (Pointer a) \<Rightarrow> or_undefined (offset_pointer a i t) (\<lambda>a. Inr (done_op (Some (Pointer a)) s))
      | _ \<Rightarrow> Inl Undefined_Behaviour)"
| "exec_op h exec s (Get_element_ptr_dynamic p i t) =
     (case (eval_value s p, eval_value s i) of
        (Some (Pointer a), Some (Num w n)) \<Rightarrow>
          or_undefined (offset_pointer a (gep_index w n) t) (\<lambda>a. Inr (done_op (Some (Pointer a)) s))
      | _ \<Rightarrow> Inl Undefined_Behaviour)"
| "exec_op h exec s (Intr_memcpy d p n) = exec_copy s d p n"
| "exec_op h exec s (Intr_memmove d p n) = exec_copy s d p n"
| "exec_op h exec s (Intr_memset d x n) =
     (case (eval_value s d, eval_value s x, eval_value s n) of
        (Some (Pointer dest), Some (Num _ v), Some (Num _ len)) \<Rightarrow>
          or_undefined (write_bytes s dest (replicate len (of_nat v))) (\<lambda>s. Inr (done_op None s))
      | _ \<Rightarrow> Inl Undefined_Behaviour)"

primrec exec_ops :: "host \<Rightarrow> executor \<Rightarrow> lstate \<Rightarrow> mlir_block \<Rightarrow> lstate res" where
  "exec_ops h exec s [] = Inr s"
| "exec_ops h exec s (op # ops) = and_then (exec_op h exec s op) (\<lambda>s. exec_ops h exec s ops)"

lemma exec_ops_append: "exec_ops h exec s (xs @ ys) = and_then (exec_ops h exec s xs) (\<lambda>s. exec_ops h exec s ys)"
  by (induction xs arbitrary: s) (simp_all add: and_then_assoc)

section \<open>Blocks\<close>

text \<open>After a branch only the values that dominate the join are known.\<close>

definition rejoin :: "lstate \<Rightarrow> lstate \<Rightarrow> lstate" where
  "rejoin s s' = s'\<lparr>l_results := take (length (l_results s)) (l_results s')\<rparr>"

definition take_branch :: "lstate \<Rightarrow> mlir_value \<Rightarrow> 'a res \<Rightarrow> 'a res \<Rightarrow> 'a res" where
  "take_branch s v t e =
     (case eval_value s v of Some (Num _ n) \<Rightarrow> if n = 1 then t else e | _ \<Rightarrow> Inl Undefined_Behaviour)"

definition goto_table :: "lstate \<Rightarrow> mlir_value \<Rightarrow> (lstate \<times> flow) res" where
  "goto_table s v =
     (case eval_value s v of Some (Num _ n) \<Rightarrow> Inr (s, To_jumptable (of_nat n)) | _ \<Rightarrow> Inl Undefined_Behaviour)"

primrec exec_code :: "host \<Rightarrow> executor \<Rightarrow> mlir_code \<Rightarrow> lstate \<Rightarrow> (lstate \<times> flow) res"
  and exec_terminator :: "host \<Rightarrow> executor \<Rightarrow> terminator \<Rightarrow> lstate \<Rightarrow> (lstate \<times> flow) res"
  and exec_target :: "host \<Rightarrow> executor \<Rightarrow> branch_target \<Rightarrow> lstate \<Rightarrow> (lstate \<times> flow) res" where
  "exec_code h exec (Code ops t) s = and_then (exec_ops h exec s ops) (exec_terminator h exec t)"
| "exec_terminator h exec Br_end s = Inr (s, Next)"
| "exec_terminator h exec Br_revert s = Inr (s, To_revert)"
| "exec_terminator h exec (Br_jumptable v) s = goto_table s v"
| "exec_terminator h exec (Func_return v) s =
     (case eval_value s v of Some (Num _ n) \<Rightarrow> Inr (s, Returned (of_nat n)) | _ \<Rightarrow> Inl Undefined_Behaviour)"
| "exec_terminator h exec (Cond_br v t e) s = take_branch s v (exec_target h exec t s) (exec_target h exec e s)"
| "exec_terminator h exec (Cond_br_join v t e j) s =
     and_then (take_branch s v (exec_target h exec t s) (exec_target h exec e s)) (\<lambda>(s', fl).
       case fl of Next \<Rightarrow> exec_code h exec j (rejoin s s') | _ \<Rightarrow> Inr (s', fl))"
| "exec_target h exec Revert_block s = Inr (s, To_revert)"
| "exec_target h exec End_block s = Inr (s, Next)"
| "exec_target h exec (Jumptable_block v) s = goto_table s v"
| "exec_target h exec (Inner c) s = exec_code h exec c s"

lemma exec_code_prefix:
  "exec_code h exec (prefix_code ops c) s = and_then (exec_ops h exec s ops) (\<lambda>s. exec_code h exec c s)"
  by (cases c) (simp add: exec_ops_append and_then_assoc)

end
