(* ===== verification/Implements.thy ===== *)
theory Implements
  imports Mlir_Exec
begin

text \<open>
  What it means that emitted code implements a step of the machine, and the rules by which pieces of code
  that do are put together: in sequence, under a branch, and with a join after a branch.
\<close>

section \<open>States that represent a machine\<close>

definition represents :: "lstate \<Rightarrow> mstate \<Rightarrow> bool" where
  "represents s m \<longleftrightarrow>
     l_globals s GAS_COUNTER_GLOBAL = Some (Num 64 (unat (gas_counter m))) \<and>
     l_globals s STACK_BASEPTR_GLOBAL = Some (Pointer (To_cell 0)) \<and>
     l_globals s STACK_PTR_GLOBAL = Some (Pointer (To_cell (int (stack_ptr m)))) \<and>
     load_global s MEMORY_PTR_GLOBAL Ptr = Some (Pointer (buffer_pointer (memory_ptr m))) \<and>
     l_globals s MEMORY_SIZE_GLOBAL = Some (Num 32 (unat (memory_size m))) \<and>
     l_globals s CALLDATA_PTR_GLOBAL = Some (Pointer (To_calldata 0)) \<and>
     l_globals s CALLDATA_SIZE_GLOBAL = Some (Num 32 (unat (calldata_size m))) \<and>
     (\<forall>i < stack_ptr m. l_cells s i = stack_cells m i) \<and>
     l_ctx s = m_ctx m \<and>
     l_args s \<noteq> [] \<and> l_args s ! 0 = Pointer To_context"

text \<open>Code only adds values and slots to those it finds: what is known of them stays true.\<close>

definition extends :: "lstate \<Rightarrow> lstate \<Rightarrow> bool" where
  "extends s s' \<longleftrightarrow> l_args s' = l_args s \<and> (\<exists>r. l_results s' = l_results s @ r) \<and> (\<exists>z. l_slots s' = l_slots s @ z)"

definition stable :: "(lstate \<Rightarrow> bool) \<Rightarrow> bool" where
  "stable P \<longleftrightarrow> (\<forall>s s'. P s \<longrightarrow> extends s s' \<longrightarrow> P s')"

lemma extends_refl [simp]: "extends s s"
  by (simp add: extends_def)

lemma extends_trans: "extends s t \<Longrightarrow> extends t u \<Longrightarrow> extends s u"
  unfolding extends_def by (metis append_assoc)

text \<open>The results of comparisons.\<close>

definition flag :: "bool \<Rightarrow> rval" where
  "flag p = Num 1 (of_bool p)"

text \<open>What is known of values: their number, their pointer, and the slot that a pointer goes to.\<close>

definition holds :: "mlir_value \<Rightarrow> rval \<Rightarrow> lstate \<Rightarrow> bool" where
  "holds v r s \<longleftrightarrow> eval_value s v = Some r"

definition slot_holds :: "nat \<Rightarrow> rval option \<Rightarrow> mlir_value \<Rightarrow> lstate \<Rightarrow> bool" where
  "slot_holds w r v s \<longleftrightarrow> (\<exists>i < length (l_slots s). eval_value s v = Some (Pointer (To_slot i)) \<and> l_slots s ! i = (w, r))"

lemma eval_value_extends:
  assumes "eval_value s v = Some r" and "extends s s'"
  shows "eval_value s' v = Some r"
proof -
  obtain q where "l_args s' = l_args s" "l_results s' = l_results s @ q" using assms(2) unfolding extends_def by blast
  then show ?thesis using assms(1) by (cases v) (simp_all add: nth_append split: if_splits)
qed

lemma holds_extends: "holds v r s \<Longrightarrow> extends s s' \<Longrightarrow> holds v r s'"
  unfolding holds_def by (rule eval_value_extends)

lemma slot_holds_extends:
  assumes "slot_holds w r v s" and e: "extends s s'"
  shows "slot_holds w r v s'"
proof -
  obtain i where i: "i < length (l_slots s)" "eval_value s v = Some (Pointer (To_slot i))" "l_slots s ! i = (w, r)"
    using assms(1) by (auto simp: slot_holds_def)
  obtain z where z: "l_slots s' = l_slots s @ z" using e by (auto simp: extends_def)
  show ?thesis unfolding slot_holds_def
    using i z eval_value_extends [OF i(2) e] by (intro exI [of _ i]) (simp add: nth_append)
qed

lemma stable_True [intro]: "stable (\<lambda>_. True)"
  by (simp add: stable_def)

lemma stable_holds [intro]: "stable (holds v r)"
  unfolding stable_def using holds_extends by blast

lemma stable_slot_holds [intro]: "stable (slot_holds w r v)"
  unfolding stable_def using slot_holds_extends by blast

lemma stable_const [intro]: "stable (\<lambda>_. p)"
  by (simp add: stable_def)

lemma stable_conj [intro]: "stable P \<Longrightarrow> stable Q \<Longrightarrow> stable (\<lambda>s. P s \<and> Q s)"
  by (auto simp: stable_def)

text \<open>What follows from what is known: the last fact, one before it, or a property of the numbers.\<close>

definition knows :: "(lstate \<Rightarrow> bool) \<Rightarrow> (lstate \<Rightarrow> bool) \<Rightarrow> bool" where
  "knows P Q \<longleftrightarrow> (\<forall>s. P s \<longrightarrow> Q s)"

definition ensures :: "(lstate \<Rightarrow> bool) \<Rightarrow> bool \<Rightarrow> bool" where
  "ensures P q \<longleftrightarrow> (\<forall>s. P s \<longrightarrow> q)"

lemma knowsD: "knows P Q \<Longrightarrow> P s \<Longrightarrow> Q s"
  by (simp add: knows_def)

lemma ensuresD: "ensures P q \<Longrightarrow> P s \<Longrightarrow> q"
  by (auto simp: ensures_def)

lemma knows_last: "knows (\<lambda>s. P s \<and> Q s) Q"
  by (simp add: knows_def)

lemma knows_refl: "knows P P"
  by (simp add: knows_def)

lemma knows_last_left: "knows (\<lambda>s. P s \<and> Q s \<and> R s) Q"
  by (simp add: knows_def)

lemma knows_last_right: "knows (\<lambda>s. P s \<and> Q s \<and> R s) R"
  by (simp add: knows_def)

lemma knows_before: "knows P Q \<Longrightarrow> knows (\<lambda>s. P s \<and> R s) Q"
  by (simp add: knows_def)

section \<open>Straight-line code\<close>

text \<open>
  \<open>e\<close> implements \<open>f\<close> where \<open>P\<close> holds: appended to any block, its code runs as \<open>f\<close> does on the
  machine, to a state that represents the result and in which \<open>R\<close> relates the values it returned to those of \<open>f\<close>, or
  to the same fault.
\<close>

definition implements ::
  "host \<Rightarrow> executor \<Rightarrow> (lstate \<Rightarrow> bool) \<Rightarrow> 'v emit \<Rightarrow> (mstate \<Rightarrow> (mstate \<times> 'x) res) \<Rightarrow>
   ('x \<Rightarrow> 'v \<Rightarrow> lstate \<Rightarrow> bool) \<Rightarrow> bool" where
  "implements h exec P e f R \<longleftrightarrow>
     (\<forall>b. \<exists>ops v. e b = Inr (b @ ops, v) \<and>
        (\<forall>s m. length (l_results s) = length b \<longrightarrow> represents s m \<longrightarrow> P s \<longrightarrow>
           (case f m of
              Inl err \<Rightarrow> exec_ops h exec s ops = Inl err
            | Inr (m', x) \<Rightarrow> \<exists>s'. exec_ops h exec s ops = Inr s' \<and> represents s' m' \<and> extends s s' \<and>
                length (l_results s') = length b + length ops \<and> R x v s')))"

lemma implementsE:
  assumes "implements h exec P e f R"
  obtains ops v where "e b = Inr (b @ ops, v)"
    "\<And>s m err. length (l_results s) = length b \<Longrightarrow> represents s m \<Longrightarrow> P s \<Longrightarrow> f m = Inl err \<Longrightarrow>
       exec_ops h exec s ops = Inl err"
    "\<And>s m m' x. length (l_results s) = length b \<Longrightarrow> represents s m \<Longrightarrow> P s \<Longrightarrow> f m = Inr (m', x) \<Longrightarrow>
       \<exists>s'. exec_ops h exec s ops = Inr s' \<and> represents s' m' \<and> extends s s' \<and>
         length (l_results s') = length b + length ops \<and> R x v s'"
proof -
  obtain ops v where e: "e b = Inr (b @ ops, v)" and r: "\<And>s m. length (l_results s) = length b \<Longrightarrow> represents s m \<Longrightarrow> P s \<Longrightarrow>
      (case f m of Inl err \<Rightarrow> exec_ops h exec s ops = Inl err
       | Inr (m', x) \<Rightarrow> \<exists>s'. exec_ops h exec s ops = Inr s' \<and> represents s' m' \<and> extends s s' \<and>
           length (l_results s') = length b + length ops \<and> R x v s')"
    using assms unfolding implements_def by meson
  show thesis by (rule that [OF e]) (use r in force)+
qed

lemma implements_weaken:
  assumes "implements h exec P e f R" and "\<And>s. Q s \<Longrightarrow> P s"
  shows "implements h exec Q e f R"
  using assms unfolding implements_def by meson

lemma implements_value: "implements h exec P (emit_value v) (\<lambda>m. Inr (m, x)) (\<lambda>x' v' s. x' = x \<and> v' = v \<and> P s)"
  by (auto simp: implements_def emit_value_def)

lemma implements_bind:
  assumes e: "implements h exec P e f R"
    and k: "\<And>v x. implements h exec (\<lambda>s. P s \<and> R x v s) (k v) (g x) Q"
    and P: "stable P"
  shows "implements h exec P (emit_bind e k) (\<lambda>m. and_then (f m) (\<lambda>(m, x). g x m)) Q"
  unfolding implements_def
proof
  fix b
  obtain ops v where eb: "e b = Inr (b @ ops, v)"
    and e1: "\<And>s m err. length (l_results s) = length b \<Longrightarrow> represents s m \<Longrightarrow> P s \<Longrightarrow> f m = Inl err \<Longrightarrow>
       exec_ops h exec s ops = Inl err"
    and e2: "\<And>s m m' x. length (l_results s) = length b \<Longrightarrow> represents s m \<Longrightarrow> P s \<Longrightarrow> f m = Inr (m', x) \<Longrightarrow>
       \<exists>s'. exec_ops h exec s ops = Inr s' \<and> represents s' m' \<and> extends s s' \<and>
         length (l_results s') = length b + length ops \<and> R x v s'"
    using implementsE [OF e, of b] by metis
  obtain ops' w where kb: "k v (b @ ops) = Inr ((b @ ops) @ ops', w)"
    using implementsE [OF k [of undefined v], of "b @ ops"] by metis
  have k': "case g x m of Inl err \<Rightarrow> exec_ops h exec s ops' = Inl err
      | Inr (m', y) \<Rightarrow> \<exists>s'. exec_ops h exec s ops' = Inr s' \<and> represents s' m' \<and> extends s s' \<and>
           length (l_results s') = length (b @ ops) + length ops' \<and> Q y w s'"
    if "length (l_results s) = length (b @ ops)" "represents s m" "P s" "R x v s" for s m x
  proof -
    obtain ops2 w2 where k2: "k v (b @ ops) = Inr ((b @ ops) @ ops2, w2)"
      and r: "\<And>s m. length (l_results s) = length (b @ ops) \<Longrightarrow> represents s m \<Longrightarrow> P s \<and> R x v s \<Longrightarrow>
        (case g x m of Inl err \<Rightarrow> exec_ops h exec s ops2 = Inl err
         | Inr (m', y) \<Rightarrow> \<exists>s'. exec_ops h exec s ops2 = Inr s' \<and> represents s' m' \<and> extends s s' \<and>
             length (l_results s') = length (b @ ops) + length ops2 \<and> Q y w2 s')"
      using k [of x v] unfolding implements_def by meson
    have "ops2 = ops'" "w2 = w" using k2 kb by simp_all
    then show ?thesis using r [of s m] that by blast
  qed
  have "case and_then (f m) (\<lambda>(m, x). g x m) of Inl err \<Rightarrow> exec_ops h exec s (ops @ ops') = Inl err
      | Inr (m', y) \<Rightarrow> \<exists>s'. exec_ops h exec s (ops @ ops') = Inr s' \<and> represents s' m' \<and> extends s s' \<and>
           length (l_results s') = length b + length (ops @ ops') \<and> Q y w s'"
    if s: "length (l_results s) = length b" "represents s m" "P s" for s m
  proof (cases "f m")
    case (Inl err)
    then show ?thesis using e1 [OF s] by (simp add: exec_ops_append)
  next
    case (Inr p)
    obtain m1 x where p: "p = (m1, x)" by fastforce
    obtain s1 where s1: "exec_ops h exec s ops = Inr s1" "represents s1 m1" "extends s s1"
      "length (l_results s1) = length (b @ ops)" "R x v s1"
      using e2 [OF s, of m1 x] Inr p by auto
    have "P s1" using P s(3) s1(3) by (auto simp: stable_def)
    from k' [OF s1(4,2) this s1(5)] show ?thesis
      using s1(1,3) Inr p by (auto simp: exec_ops_append split: sum.splits) (use extends_trans in blast)
  qed
  then show "\<exists>ops v. emit_bind e k b = Inr (b @ ops, v) \<and>
      (\<forall>s m. length (l_results s) = length b \<longrightarrow> represents s m \<longrightarrow> P s \<longrightarrow>
         (case and_then (f m) (\<lambda>(m, x). g x m) of Inl err \<Rightarrow> exec_ops h exec s ops = Inl err
          | Inr (m', x) \<Rightarrow> \<exists>s'. exec_ops h exec s ops = Inr s' \<and> represents s' m' \<and> extends s s' \<and>
              length (l_results s') = length b + length ops \<and> Q x v s'))"
    using eb kb by (intro exI [of _ "ops @ ops'"] exI [of _ w]) (simp add: emit_bind_def)
qed

section \<open>Blocks and branches\<close>

text \<open>Code that ends a block runs as the step of the machine does, and leaves it in the same way.\<close>

definition runs_as ::
  "(lstate \<Rightarrow> (lstate \<times> flow) res) \<Rightarrow> (mstate \<Rightarrow> step) \<Rightarrow> lstate \<Rightarrow> mstate \<Rightarrow> bool" where
  "runs_as go f s m \<longleftrightarrow>
     (case f m of
        Inl err \<Rightarrow> go s = Inl err
      | Inr (m', fl) \<Rightarrow> \<exists>s'. go s = Inr (s', fl) \<and> represents s' m' \<and> extends s s')"

definition code_implements ::
  "host \<Rightarrow> executor \<Rightarrow> (lstate \<Rightarrow> bool) \<Rightarrow> emit_code \<Rightarrow> (mstate \<Rightarrow> step) \<Rightarrow> bool" where
  "code_implements h exec P c f \<longleftrightarrow>
     (\<forall>b. \<exists>code. c b = Inr code \<and>
        (\<forall>s m. length (l_results s) = length b \<longrightarrow> represents s m \<longrightarrow> P s \<longrightarrow> runs_as (exec_code h exec code) f s m))"

definition target_implements ::
  "host \<Rightarrow> executor \<Rightarrow> (lstate \<Rightarrow> bool) \<Rightarrow> (mlir_block \<Rightarrow> branch_target cg) \<Rightarrow> (mstate \<Rightarrow> step) \<Rightarrow> bool" where
  "target_implements h exec P t f \<longleftrightarrow>
     (\<forall>b. \<exists>tg. t b = Inr tg \<and>
        (\<forall>s m. length (l_results s) = length b \<longrightarrow> represents s m \<longrightarrow> P s \<longrightarrow> runs_as (exec_target h exec tg) f s m))"

lemma code_implements_cong:
  assumes "code_implements h exec P c f" and "\<And>m. f m = g m"
  shows "code_implements h exec P c g"
proof -
  have "f = g" using assms(2) by (rule ext)
  then show ?thesis using assms(1) by simp
qed

lemma code_weaken:
  assumes "code_implements h exec P c f" and "knows Q P"
  shows "code_implements h exec Q c f"
  using assms unfolding code_implements_def knows_def by meson

lemma code_prod: "code_implements h exec P (k (fst v) (snd v)) f \<Longrightarrow> code_implements h exec P (case v of (a, b) \<Rightarrow> k a b) f"
  by (simp add: case_prod_beta)

lemma code_end: "code_implements h exec P emit_end (\<lambda>m. Inr (m, Next))"
  by (simp add: code_implements_def runs_as_def emit_end_def)

lemma code_revert: "code_implements h exec P emit_revert revert"
  by (simp add: code_implements_def runs_as_def emit_revert_def)

lemma target_revert: "target_implements h exec P (emit_target Revert_block) revert"
  by (simp add: target_implements_def runs_as_def emit_target_def)

lemma target_end: "target_implements h exec P (emit_target End_block) (\<lambda>m. Inr (m, Next))"
  by (simp add: target_implements_def runs_as_def emit_target_def)

lemma target_inner:
  assumes "code_implements h exec P c f"
  shows "target_implements h exec P (emit_inner c) f"
  unfolding target_implements_def
proof
  fix b
  obtain code where "c b = Inr code"
    "\<forall>s m. length (l_results s) = length b \<longrightarrow> represents s m \<longrightarrow> P s \<longrightarrow> runs_as (exec_code h exec code) f s m"
    using assms unfolding code_implements_def by blast
  moreover have "exec_target h exec (Inner code) = exec_code h exec code" by (rule ext) simp
  ultimately show "\<exists>tg. emit_inner c b = Inr tg \<and> (\<forall>s m. length (l_results s) = length b \<longrightarrow> represents s m \<longrightarrow> P s \<longrightarrow>
      runs_as (exec_target h exec tg) f s m)"
    by (intro exI [of _ "Inner code"]) (simp add: emit_inner_def)
qed

lemma code_then:
  assumes e: "implements h exec P e f R"
    and k: "\<And>v x. code_implements h exec (\<lambda>s. P s \<and> R x v s) (k v) (g x)"
    and P: "stable P"
  shows "code_implements h exec P (emit_then e k) (\<lambda>m. and_then (f m) (\<lambda>(m, x). g x m))"
  unfolding code_implements_def
proof
  fix b
  obtain ops v where eb: "e b = Inr (b @ ops, v)"
    and e1: "\<And>s m err. length (l_results s) = length b \<Longrightarrow> represents s m \<Longrightarrow> P s \<Longrightarrow> f m = Inl err \<Longrightarrow>
       exec_ops h exec s ops = Inl err"
    and e2: "\<And>s m m' x. length (l_results s) = length b \<Longrightarrow> represents s m \<Longrightarrow> P s \<Longrightarrow> f m = Inr (m', x) \<Longrightarrow>
       \<exists>s'. exec_ops h exec s ops = Inr s' \<and> represents s' m' \<and> extends s s' \<and>
         length (l_results s') = length b + length ops \<and> R x v s'"
    using implementsE [OF e, of b] by metis
  obtain code where kb: "k v (b @ ops) = Inr code" using k [of undefined v] unfolding code_implements_def by metis
  have k': "runs_as (exec_code h exec code) (g x) s m"
    if "length (l_results s) = length (b @ ops)" "represents s m" "P s" "R x v s" for s m x
    using k [of x v] kb that unfolding code_implements_def by (metis sum.inject(2))
  have "runs_as (exec_code h exec (prefix_code ops code)) (\<lambda>m. and_then (f m) (\<lambda>(m, x). g x m)) s m"
    if s: "length (l_results s) = length b" "represents s m" "P s" for s m
  proof (cases "f m")
    case (Inl err)
    then show ?thesis using e1 [OF s] by (simp add: runs_as_def exec_code_prefix)
  next
    case (Inr p)
    obtain m1 x where p: "p = (m1, x)" by fastforce
    obtain s1 where s1: "exec_ops h exec s ops = Inr s1" "represents s1 m1" "extends s s1"
      "length (l_results s1) = length (b @ ops)" "R x v s1"
      using e2 [OF s, of m1 x] Inr p by auto
    have "P s1" using P s(3) s1(3) by (auto simp: stable_def)
    from k' [OF s1(4,2) this s1(5)] show ?thesis
      using s1(1,3) Inr p by (auto simp: runs_as_def exec_code_prefix split: sum.splits) (use extends_trans in blast)
  qed
  then show "\<exists>code. emit_then e k b = Inr code \<and>
      (\<forall>s m. length (l_results s) = length b \<longrightarrow> represents s m \<longrightarrow> P s \<longrightarrow>
         runs_as (exec_code h exec code) (\<lambda>m. and_then (f m) (\<lambda>(m, x). g x m)) s m)"
    using eb kb by (intro exI [of _ "prefix_code ops code"]) (simp add: emit_then_def)
qed

lemma take_branch_flag: "holds v (flag p) s \<Longrightarrow> take_branch s v t e = (if p then t else e)"
  by (simp add: take_branch_def holds_def flag_def)

lemma exec_cond_br:
  assumes "holds v (flag p) s"
  shows "exec_code h exec (Code [] (Cond_br v t e)) s = (if p then exec_target h exec t s else exec_target h exec e s)"
    and "exec_code h exec (Code [] (Cond_br_join v t e j)) s =
      and_then (if p then exec_target h exec t s else exec_target h exec e s)
        (\<lambda>(s', fl). case fl of Next \<Rightarrow> exec_code h exec j (rejoin s s') | _ \<Rightarrow> Inr (s', fl))"
  by (simp_all add: take_branch_flag [OF assms])

lemma code_cond_br:
  assumes v: "knows P (holds v (flag p))"
    and t: "target_implements h exec (\<lambda>s. P s \<and> p) t f"
    and e: "target_implements h exec (\<lambda>s. P s \<and> \<not> p) e g"
  shows "code_implements h exec P (emit_cond_br v t e) (\<lambda>m. if p then f m else g m)"
  unfolding code_implements_def
proof
  fix b
  obtain t' where t': "t b = Inr t'" "\<And>s m. length (l_results s) = length b \<Longrightarrow> represents s m \<Longrightarrow> P s \<Longrightarrow> p \<Longrightarrow>
      runs_as (exec_target h exec t') f s m"
    using t unfolding target_implements_def by metis
  obtain e' where e': "e b = Inr e'" "\<And>s m. length (l_results s) = length b \<Longrightarrow> represents s m \<Longrightarrow> P s \<Longrightarrow> \<not> p \<Longrightarrow>
      runs_as (exec_target h exec e') g s m"
    using e unfolding target_implements_def by metis
  have "runs_as (exec_code h exec (Code [] (Cond_br v t' e'))) (\<lambda>m. if p then f m else g m) s m"
    if s: "length (l_results s) = length b" "represents s m" "P s" for s m
    using t'(2) [OF s] e'(2) [OF s] unfolding runs_as_def exec_cond_br(1) [OF knowsD [OF v s(3)]] by (cases p) simp_all
  then show "\<exists>code. emit_cond_br v t e b = Inr code \<and>
      (\<forall>s m. length (l_results s) = length b \<longrightarrow> represents s m \<longrightarrow> P s \<longrightarrow>
         runs_as (exec_code h exec code) (\<lambda>m. if p then f m else g m) s m)"
    using t'(1) e'(1) by (simp add: emit_cond_br_def)
qed

text \<open>A step of the machine after another, when that one does not leave.\<close>

definition and_next :: "step \<Rightarrow> (mstate \<Rightarrow> step) \<Rightarrow> step" where
  "and_next r k = and_then r (\<lambda>(m, fl). case fl of Next \<Rightarrow> k m | _ \<Rightarrow> Inr (m, fl))"

lemma represents_rejoin: "represents (rejoin s s') m \<longleftrightarrow> represents s' m"
  by (simp add: represents_def rejoin_def load_global_def)

lemma extends_rejoin:
  assumes "extends s s'"
  shows "extends s (rejoin s s')" "length (l_results (rejoin s s')) = length (l_results s)"
proof -
  obtain r where "l_results s' = l_results s @ r" using assms by (auto simp: extends_def)
  then show "extends s (rejoin s s')" "length (l_results (rejoin s s')) = length (l_results s)"
    using assms by (simp_all add: extends_def rejoin_def)
qed

lemma code_cond_br_join:
  assumes v: "knows P (holds v (flag p))"
    and t: "target_implements h exec (\<lambda>s. P s \<and> p) t f"
    and e: "target_implements h exec (\<lambda>s. P s \<and> \<not> p) e g"
    and j: "code_implements h exec P j k" and P: "stable P"
  shows "code_implements h exec P (emit_cond_br_join v t e j) (\<lambda>m. and_next (if p then f m else g m) k)"
  unfolding code_implements_def
proof
  fix b
  obtain t' where t': "t b = Inr t'" "\<And>s m. length (l_results s) = length b \<Longrightarrow> represents s m \<Longrightarrow> P s \<Longrightarrow> p \<Longrightarrow>
      runs_as (exec_target h exec t') f s m"
    using t unfolding target_implements_def by metis
  obtain e' where e': "e b = Inr e'" "\<And>s m. length (l_results s) = length b \<Longrightarrow> represents s m \<Longrightarrow> P s \<Longrightarrow> \<not> p \<Longrightarrow>
      runs_as (exec_target h exec e') g s m"
    using e unfolding target_implements_def by metis
  obtain j' where j': "j b = Inr j'" "\<And>s m. length (l_results s) = length b \<Longrightarrow> represents s m \<Longrightarrow> P s \<Longrightarrow>
      runs_as (exec_code h exec j') k s m"
    using j unfolding code_implements_def by metis
  let ?br = "\<lambda>s. if p then exec_target h exec t' s else exec_target h exec e' s"
  have "runs_as (exec_code h exec (Code [] (Cond_br_join v t' e' j'))) (\<lambda>m. and_next (if p then f m else g m) k) s m"
    if s: "length (l_results s) = length b" "represents s m" "P s" for s m
  proof -
    have x: "exec_code h exec (Code [] (Cond_br_join v t' e' j')) s =
        and_then (?br s) (\<lambda>(s', fl). case fl of Next \<Rightarrow> exec_code h exec j' (rejoin s s') | _ \<Rightarrow> Inr (s', fl))"
      by (rule exec_cond_br(2) [OF knowsD [OF v s(3)]])
    have br: "runs_as ?br (\<lambda>m. if p then f m else g m) s m"
      using t'(2) [OF s] e'(2) [OF s] by (cases p) (simp_all add: runs_as_def)
    show ?thesis
    proof (cases "if p then f m else g m")
      case (Inl err)
      then show ?thesis using br x by (simp add: runs_as_def and_next_def)
    next
      case (Inr q)
      obtain m1 fl where q: "q = (m1, fl)" by fastforce
      obtain s1 where s1: "?br s = Inr (s1, fl)" "represents s1 m1" "extends s s1"
        using br Inr q by (auto simp: runs_as_def)
      show ?thesis
      proof (cases "fl = Next")
        case True
        have "P (rejoin s s1)" using P s(3) extends_rejoin(1) [OF s1(3)] by (auto simp: stable_def)
        then have "runs_as (exec_code h exec j') k (rejoin s s1) m1"
          using j'(2) extends_rejoin(2) [OF s1(3)] s(1) s1(2) by (simp add: represents_rejoin)
        moreover have "exec_code h exec (Code [] (Cond_br_join v t' e' j')) s = exec_code h exec j' (rejoin s s1)"
          unfolding x s1(1) True by simp
        ultimately show ?thesis using Inr q True extends_trans [OF extends_rejoin(1) [OF s1(3)]]
          unfolding runs_as_def and_next_def by (cases "k m1") auto
      next
        case False
        then have "exec_code h exec (Code [] (Cond_br_join v t' e' j')) s = Inr (s1, fl)"
          unfolding x s1(1) by (cases fl) simp_all
        then show ?thesis using s1(2,3) Inr q False unfolding runs_as_def and_next_def by (cases fl) auto
      qed
    qed
  qed
  then show "\<exists>code. emit_cond_br_join v t e j b = Inr code \<and>
      (\<forall>s m. length (l_results s) = length b \<longrightarrow> represents s m \<longrightarrow> P s \<longrightarrow>
         runs_as (exec_code h exec code) (\<lambda>m. and_next (if p then f m else g m) k) s m)"
    using t'(1) e'(1) j'(1) by (simp add: emit_cond_br_join_def)
qed

end
