(* ===== verification/Emit_Rules.thy ===== *)
theory Emit_Rules
  imports Implements
begin

text \<open>
  The rules for single operations: what an emitted operation adds to what is known of the values of a
  block, with the numbers of the emitted code read as machine words.
\<close>

section \<open>Numbers\<close>

definition wnum :: "'a::len word \<Rightarrow> rval" where
  "wnum x = Num LENGTH('a) (unat x)"

lemma unat_sub_mod: "unat (a - b :: 'a::len word) = (2 ^ LENGTH('a) + unat a - unat b) mod 2 ^ LENGTH('a)"
proof -
  have "unat b \<le> 2 ^ LENGTH('a) + unat a" using unat_less_pow [of b] by linarith
  then have "(of_nat (2 ^ LENGTH('a) + unat a - unat b) :: 'a word) = a - b" by (simp add: of_nat_diff)
  then show ?thesis by (metis unat_of_nat)
qed

lemma signed_value_sint: "signed_value LENGTH('a) (unat (x :: 'a::len word)) = sint x"
  by (simp add: sint_unat signed_value_def)

lemma unsigned_value_word: "unsigned_value LENGTH('a) i = unat (word_of_int i :: 'a::len word)"
  by (simp add: unsigned_value_def unsigned_of_int take_bit_eq_mod)

lemma unat_ucast_down: "unat (ucast w :: 'b::len word) = unat (w :: 'a::len word) mod 2 ^ LENGTH('b)"
  by (simp add: unsigned_ucast_eq take_bit_eq_mod)

lemma unat_bitwise:
  "unat (x AND y :: 'a::len word) = unat x AND unat y" "unat (x OR y :: 'a::len word) = unat x OR unat y"
  "unat (x XOR y :: 'a::len word) = unat x XOR unat y"
  by (simp_all add: unsigned_and_eq unsigned_or_eq unsigned_xor_eq)

lemma unat_push_bit: "unat (push_bit n (x :: 'a::len word)) = (unat x * 2 ^ n) mod 2 ^ LENGTH('a)"
  unfolding unsigned_push_bit_eq by (simp only: take_bit_eq_mod push_bit_eq_mult)

lemma unat_drop_bit_div: "unat (drop_bit n (x :: 'a::len word)) = unat x div 2 ^ n"
  unfolding unat_drop_bit_eq by (simp only: drop_bit_eq_div)

lemma unat_signed_drop_bit:
  "unat (signed_drop_bit n (x :: 'a::len word)) = unsigned_value LENGTH('a) (sint x div 2 ^ n)"
proof -
  have "sint (signed_drop_bit n x) = sint x div 2 ^ n" by (simp add: sint_signed_drop_bit_eq drop_bit_eq_div)
  then have "signed_drop_bit n x = word_of_int (sint x div 2 ^ n)" by (metis scast_eq scast_id)
  then show ?thesis by (simp add: unsigned_value_word)
qed

lemma unat_min_max:
  "unat (min x y :: 'a::len word) = min (unat x) (unat y)" "unat (max x y :: 'a::len word) = max (unat x) (unat y)"
  by (simp_all add: min_def max_def word_le_nat_alt)

section \<open>Operations without effect\<close>

text \<open>Code that leaves the machine alone and yields values of which \<open>R\<close> is known.\<close>

abbreviation evaluates :: "host \<Rightarrow> executor \<Rightarrow> (lstate \<Rightarrow> bool) \<Rightarrow> 'v emit \<Rightarrow> ('v \<Rightarrow> lstate \<Rightarrow> bool) \<Rightarrow> bool" where
  "evaluates h exec P e R \<equiv> implements h exec P e (\<lambda>m. Inr (m, ())) (\<lambda>_. R)"

text \<open>An operation that yields a number from numbers that are known.\<close>

lemma represents_results: "represents (s\<lparr>l_results := r\<rparr>) m \<longleftrightarrow> represents s m"
  by (simp add: represents_def load_global_def)

lemma evaluates_op:
  assumes "\<And>s. P s \<Longrightarrow> exec_op h exec s op = Inr (done_op (Some r) s)" and "op_results op = [t]"
  shows "evaluates h exec P (emit_op op) (\<lambda>v. holds v r)"
  using assms by (simp add: implements_def emit_op_def append_result_def done_op_def
      represents_results extends_def holds_def nth_append)

lemma op_constant:
  assumes "n < 2 ^ LENGTH('a::len)"
  shows "evaluates h exec P (emit_op (Constant n (Int_type LENGTH('a)))) (\<lambda>v. holds v (wnum (of_nat n :: 'a word)))"
  using assms by (intro evaluates_op) (simp_all add: wnum_def unat_of_nat)

lemma op_arith:
  assumes "knows P (holds a (wnum (x :: 'a::len word)))" and "knows P (holds b (wnum (y :: 'b::len word)))"
    and "\<And>s. P s \<Longrightarrow> arith_result h f LENGTH('a) (unat x) (unat y) = Some (unat (z :: 'a word))"
  shows "evaluates h exec P (emit_op (Arith f a b)) (\<lambda>v. holds v (wnum z))"
  using assms by (intro evaluates_op) (simp_all add: wnum_def knows_def holds_def or_undefined_def)

lemma op_cmpi:
  assumes "knows P (holds a (wnum (x :: 'a::len word)))" and "knows P (holds b (wnum (y :: 'a word)))"
    and "cmp_nums p LENGTH('a) (unat x) (unat y) = q"
  shows "evaluates h exec P (emit_op (Cmpi p a b)) (\<lambda>v. holds v (flag q))"
  using assms by (intro evaluates_op) (simp_all add: wnum_def knows_def holds_def flag_def)

lemma op_trunci:
  assumes "knows P (holds a (wnum (x :: 'a::len word)))"
  shows "evaluates h exec P (emit_op (Trunci a (Int_type LENGTH('b::len)))) (\<lambda>v. holds v (wnum (ucast x :: 'b word)))"
  using assms by (intro evaluates_op) (simp_all add: wnum_def knows_def holds_def unary_result_def unat_ucast_down)

lemma op_extui:
  assumes "knows P (holds a (wnum (x :: 'a::len word)))" and "LENGTH('a) \<le> LENGTH('b::len)"
  shows "evaluates h exec P (emit_op (Extui a (Int_type LENGTH('b)))) (\<lambda>v. holds v (wnum (ucast x :: 'b word)))"
  using assms by (intro evaluates_op) (simp_all add: wnum_def knows_def holds_def unary_result_def unat_ucast_up)

lemma op_extui_flag:
  assumes "knows P (holds a (flag p))"
  shows "evaluates h exec P (emit_op (Extui a (Int_type 256))) (\<lambda>v. holds v (wnum (flag_word p)))"
  using assms by (intro evaluates_op) (simp_all add: wnum_def knows_def holds_def flag_def unary_result_def flag_word_def)

lemma op_andi_flags:
  assumes "knows P (holds a (flag p))" and "knows P (holds b (flag q))"
  shows "evaluates h exec P (emit_op (Arith Andi a b)) (\<lambda>v. holds v (flag (p \<and> q)))"
proof -
  have f: "(of_bool p AND of_bool q :: nat) = of_bool (p \<and> q)" by (cases p; cases q) simp_all
  show ?thesis using assms by (intro evaluates_op) (simp_all add: knows_def holds_def flag_def or_undefined_def f)
qed

lemma swapped_bytes_word:
  assumes "LENGTH('a::len) = 8 * (LENGTH('a) div 8)"
  shows "swapped_bytes LENGTH('a) (unat x) = unat (bswap (x :: 'a word))"
proof -
  have "le_nat (nat_to_be (LENGTH('a) div 8) n) < 2 ^ LENGTH('a)" for n
  proof -
    have "le_nat (nat_to_be (LENGTH('a) div 8) n) < 256 ^ (LENGTH('a) div 8)"
      using be_nat_bound [of "rev (nat_to_be (LENGTH('a) div 8) n)"] by (simp add: le_nat_def)
    moreover have "(256 :: nat) ^ (LENGTH('a) div 8) = 2 ^ LENGTH('a)"
      by (subst (2) assms) (simp add: power_mult)
    ultimately show ?thesis by simp
  qed
  then show ?thesis
    by (simp add: swapped_bytes_def bswap_def word_from_be_def word_to_be_def le_nat_def unat_of_nat)
qed

lemma op_bswap:
  assumes "knows P (holds a (wnum (x :: 'a::len word)))" and "LENGTH('a) = 8 * (LENGTH('a) div 8)"
  shows "evaluates h exec P (emit_op (Intr_bswap a (Int_type LENGTH('a)))) (\<lambda>v. holds v (wnum (bswap x)))"
  using assms by (intro evaluates_op) (simp_all add: wnum_def knows_def holds_def unary_result_def swapped_bytes_word [OF assms(2)])

lemma op_ctlz:
  assumes "knows P (holds a (wnum (x :: u256)))"
  shows "evaluates h exec P (emit_op (Intr_ctlz a (Int_type 256))) (\<lambda>v. holds v (wnum (ctlz x)))"
proof -
  have l: "leading_zeros 256 (unat x) \<le> 256" unfolding leading_zeros_def
    using length_takeWhile_le [of "\<lambda>i. \<not> bit (unat x) i" "rev [0..<256]"] by simp
  have "ctlz x = of_nat (leading_zeros 256 (unat x))"
    unfolding ctlz_def leading_zeros_def rev_map takeWhile_map length_map
    by (simp add: comp_def bit_unsigned_iff)
  moreover have "unat (of_nat (leading_zeros 256 (unat x)) :: u256) = leading_zeros 256 (unat x)"
    using l by (simp add: unat_of_nat)
  ultimately have "leading_zeros 256 (unat x) = unat (ctlz x)" by simp
  then show ?thesis using assms by (intro evaluates_op) (simp_all add: wnum_def knows_def holds_def unary_result_def)
qed

section \<open>Operations at the widths of the generated code\<close>

lemmas constant_rules =
  op_constant [where 'a = 8, simplified] op_constant [where 'a = 32, simplified]
  op_constant [where 'a = 64, simplified] op_constant [where 'a = 256, simplified]

lemmas trunci_rules =
  op_trunci [where 'b = 8, simplified] op_trunci [where 'b = 32, simplified]
  op_trunci [where 'b = 64, simplified] op_trunci [where 'b = 256, simplified]

lemmas extui_rules =
  op_extui [where 'b = 64, simplified] op_extui [where 'b = 256, simplified]
  op_extui [where 'b = 257, simplified] op_extui [where 'b = 512, simplified]

lemmas bswap_rules =
  op_bswap [where 'a = 160, simplified] op_bswap [where 'a = 256, simplified]

lemma op_addi:
  assumes "knows P (holds a (wnum x))" and "knows P (holds b (wnum y))"
  shows "evaluates h exec P (emit_op (Arith Addi a b)) (\<lambda>v. holds v (wnum (x + y)))"
  using assms by (rule op_arith) (simp add: unat_word_ariths)

lemma op_subi:
  assumes "knows P (holds a (wnum x))" and "knows P (holds b (wnum y))"
  shows "evaluates h exec P (emit_op (Arith Subi a b)) (\<lambda>v. holds v (wnum (x - y)))"
  using assms by (rule op_arith) (simp add: unat_sub_mod)

lemma op_muli:
  assumes "knows P (holds a (wnum x))" and "knows P (holds b (wnum y))"
  shows "evaluates h exec P (emit_op (Arith Muli a b)) (\<lambda>v. holds v (wnum (x * y)))"
  using assms by (rule op_arith) (simp add: unat_word_ariths)

lemma op_bitwise:
  assumes "knows P (holds a (wnum x))" and "knows P (holds b (wnum y))"
  shows "evaluates h exec P (emit_op (Arith Andi a b)) (\<lambda>v. holds v (wnum (x AND y)))"
    and "evaluates h exec P (emit_op (Arith Ori a b)) (\<lambda>v. holds v (wnum (x OR y)))"
    and "evaluates h exec P (emit_op (Arith Xori a b)) (\<lambda>v. holds v (wnum (x XOR y)))"
  by (rule op_arith [OF assms], simp add: unat_bitwise)+

lemma op_min_max:
  assumes "knows P (holds a (wnum x))" and "knows P (holds b (wnum y))"
  shows "evaluates h exec P (emit_op (Arith Minui a b)) (\<lambda>v. holds v (wnum (min x y)))"
    and "evaluates h exec P (emit_op (Arith Maxui a b)) (\<lambda>v. holds v (wnum (max x y)))"
  by (rule op_arith [OF assms], simp add: unat_min_max)+

lemma op_divisions:
  assumes "knows P (holds a (wnum x))" and "knows P (holds b (wnum y))" and "ensures P (\<not> y = 0)"
  shows "evaluates h exec P (emit_op (Arith Divui a b)) (\<lambda>v. holds v (wnum (x div y)))"
    and "evaluates h exec P (emit_op (Arith Remui a b)) (\<lambda>v. holds v (wnum (x mod y)))"
  using assms(3) by (auto intro!: op_arith [OF assms(1,2)] simp: ensures_def unat_eq_0 unat_div unat_mod)

lemma op_shifts:
  assumes "knows P (holds a (wnum (x :: 'a::len word)))" and "knows P (holds b (wnum (y :: 'a word)))"
    and "ensures P (unat y < LENGTH('a))"
  shows "evaluates h exec P (emit_op (Arith Shli a b)) (\<lambda>v. holds v (wnum (push_bit (unat y) x)))"
    and "evaluates h exec P (emit_op (Arith Llvm_shl a b)) (\<lambda>v. holds v (wnum (push_bit (unat y) x)))"
    and "evaluates h exec P (emit_op (Arith Shrui a b)) (\<lambda>v. holds v (wnum (drop_bit (unat y) x)))"
    and "evaluates h exec P (emit_op (Arith Shrsi a b)) (\<lambda>v. holds v (wnum (signed_drop_bit (unat y) x)))"
    and "evaluates h exec P (emit_op (Arith Llvm_ashr a b)) (\<lambda>v. holds v (wnum (signed_drop_bit (unat y) x)))"
proof -
  have y: "P s \<Longrightarrow> unat y < LENGTH('a)" for s using ensuresD [OF assms(3)] by blast
  show "evaluates h exec P (emit_op (Arith Shli a b)) (\<lambda>v. holds v (wnum (push_bit (unat y) x)))"
    and "evaluates h exec P (emit_op (Arith Llvm_shl a b)) (\<lambda>v. holds v (wnum (push_bit (unat y) x)))"
    and "evaluates h exec P (emit_op (Arith Shrui a b)) (\<lambda>v. holds v (wnum (drop_bit (unat y) x)))"
    and "evaluates h exec P (emit_op (Arith Shrsi a b)) (\<lambda>v. holds v (wnum (signed_drop_bit (unat y) x)))"
    and "evaluates h exec P (emit_op (Arith Llvm_ashr a b)) (\<lambda>v. holds v (wnum (signed_drop_bit (unat y) x)))"
    by (rule op_arith [OF assms(1,2)],
        simp add: y unat_push_bit unat_drop_bit_div unat_signed_drop_bit signed_value_sint del: push_bit_of_nat; fail)+
qed

lemma op_ipowi:
  assumes "knows P (holds a (wnum x))" and "knows P (holds b (wnum y))"
  shows "evaluates h exec P (emit_op (Arith Ipowi a b)) (\<lambda>v. holds v (wnum (ipowi h x y)))"
  using assms by (rule op_arith) simp

lemma op_compare:
  assumes "knows P (holds a (wnum (x :: 'a::len word)))" and "knows P (holds b (wnum (y :: 'a word)))"
  shows "evaluates h exec P (emit_op (Cmpi Pred_eq a b)) (\<lambda>v. holds v (flag (x = y)))"
    and "evaluates h exec P (emit_op (Cmpi Pred_ne a b)) (\<lambda>v. holds v (flag (x \<noteq> y)))"
    and "evaluates h exec P (emit_op (Cmpi Pred_slt a b)) (\<lambda>v. holds v (flag (sint x < sint y)))"
    and "evaluates h exec P (emit_op (Cmpi Pred_sgt a b)) (\<lambda>v. holds v (flag (sint x > sint y)))"
    and "evaluates h exec P (emit_op (Cmpi Pred_sge a b)) (\<lambda>v. holds v (flag (sint x \<ge> sint y)))"
    and "evaluates h exec P (emit_op (Cmpi Pred_ult a b)) (\<lambda>v. holds v (flag (x < y)))"
    and "evaluates h exec P (emit_op (Cmpi Pred_ugt a b)) (\<lambda>v. holds v (flag (x > y)))"
    and "evaluates h exec P (emit_op (Cmpi Pred_ule a b)) (\<lambda>v. holds v (flag (x \<le> y)))"
  by (rule op_cmpi [OF assms], simp add: signed_value_sint word_less_nat_alt word_le_nat_alt word_unat_eq_iff; fail)+

text \<open>LLVM leaves the overflowing signed division undefined, as the machine does.\<close>

lemma implements_arith:
  assumes "knows P (holds a (wnum (x :: 'a::len word)))" and "knows P (holds b (wnum (y :: 'b::len word)))"
    and "\<And>s. P s \<Longrightarrow> (case r of Inl err \<Rightarrow> err = Undefined_Behaviour \<and> arith_result h f LENGTH('a) (unat x) (unat y) = None
      | Inr z \<Rightarrow> arith_result h f LENGTH('a) (unat x) (unat y) = Some (unat (z :: 'a word)))"
  shows "implements h exec P (emit_op (Arith f a b)) (\<lambda>m. and_then r (\<lambda>z. Inr (m, z))) (\<lambda>z v. holds v (wnum z))"
proof -
  have "exec_op h exec s (Arith f a b) =
      and_then r (\<lambda>z. Inr (done_op (Some (wnum z)) s))" if "P s" for s
    using assms(1,2) assms(3) [OF that] that
    by (cases r) (auto simp: knows_def holds_def wnum_def or_undefined_def)
  then show ?thesis
    by (cases r) (auto simp: implements_def emit_op_def append_result_def done_op_def represents_results extends_def holds_def nth_append)
qed

lemma op_signed_divisions:
  assumes "knows P (holds a (wnum (x :: u256)))" and "knows P (holds b (wnum (y :: u256)))" and "ensures P (\<not> y = 0)"
  shows "implements h exec P (emit_op (Arith Llvm_sdiv a b)) (\<lambda>m. and_then (llvm_sdiv x y) (\<lambda>z. Inr (m, z))) (\<lambda>z v. holds v (wnum z))"
    and "implements h exec P (emit_op (Arith Llvm_srem a b)) (\<lambda>m. and_then (llvm_srem x y) (\<lambda>z. Inr (m, z))) (\<lambda>z v. holds v (wnum z))"
proof -
  have s: "signed_value 256 (unat z) = sint z" for z :: u256 using signed_value_sint [of z] by simp
  have u: "unsigned_value 256 i = unat (word_of_int i :: u256)" for i using unsigned_value_word [where 'a = 256] by simp
  show "implements h exec P (emit_op (Arith Llvm_sdiv a b)) (\<lambda>m. and_then (llvm_sdiv x y) (\<lambda>z. Inr (m, z))) (\<lambda>z v. holds v (wnum z))"
    and "implements h exec P (emit_op (Arith Llvm_srem a b)) (\<lambda>m. and_then (llvm_srem x y) (\<lambda>z. Inr (m, z))) (\<lambda>z v. holds v (wnum z))"
    using ensuresD [OF assms(3)]
    by (rule_tac implements_arith [OF assms(1,2)], simp add: llvm_sdiv_def llvm_srem_def sdiv_defined_def s u unat_eq_0; fail)+
qed

end
