(* ===== verification/Fragment_Exec.thy ===== *)
theory Fragment_Exec
  imports Emit_Rules
begin

text \<open>
  The emitted fragments of \<open>src/utils\<close> implement the definitions on the machine state that every operation of
  the development is built from.
\<close>

section \<open>Globals, values and calls\<close>

lemma globals_distinct [simp]:
  "GAS_COUNTER_GLOBAL \<noteq> STACK_BASEPTR_GLOBAL" "GAS_COUNTER_GLOBAL \<noteq> STACK_PTR_GLOBAL"
  "GAS_COUNTER_GLOBAL \<noteq> MEMORY_PTR_GLOBAL" "GAS_COUNTER_GLOBAL \<noteq> MEMORY_SIZE_GLOBAL"
  "GAS_COUNTER_GLOBAL \<noteq> CALLDATA_PTR_GLOBAL" "GAS_COUNTER_GLOBAL \<noteq> CALLDATA_SIZE_GLOBAL"
  "STACK_BASEPTR_GLOBAL \<noteq> STACK_PTR_GLOBAL" "STACK_BASEPTR_GLOBAL \<noteq> MEMORY_PTR_GLOBAL"
  "STACK_BASEPTR_GLOBAL \<noteq> MEMORY_SIZE_GLOBAL" "STACK_BASEPTR_GLOBAL \<noteq> CALLDATA_PTR_GLOBAL"
  "STACK_BASEPTR_GLOBAL \<noteq> CALLDATA_SIZE_GLOBAL" "STACK_PTR_GLOBAL \<noteq> MEMORY_PTR_GLOBAL"
  "STACK_PTR_GLOBAL \<noteq> MEMORY_SIZE_GLOBAL" "STACK_PTR_GLOBAL \<noteq> CALLDATA_PTR_GLOBAL"
  "STACK_PTR_GLOBAL \<noteq> CALLDATA_SIZE_GLOBAL" "MEMORY_PTR_GLOBAL \<noteq> MEMORY_SIZE_GLOBAL"
  "MEMORY_PTR_GLOBAL \<noteq> CALLDATA_PTR_GLOBAL" "MEMORY_PTR_GLOBAL \<noteq> CALLDATA_SIZE_GLOBAL"
  "MEMORY_SIZE_GLOBAL \<noteq> CALLDATA_PTR_GLOBAL" "MEMORY_SIZE_GLOBAL \<noteq> CALLDATA_SIZE_GLOBAL"
  "CALLDATA_PTR_GLOBAL \<noteq> CALLDATA_SIZE_GLOBAL"
  "GAS_COUNTER_GLOBAL \<noteq> SYM_CONTEXT_IS_STATIC" "STACK_BASEPTR_GLOBAL \<noteq> SYM_CONTEXT_IS_STATIC"
  "STACK_PTR_GLOBAL \<noteq> SYM_CONTEXT_IS_STATIC" "MEMORY_PTR_GLOBAL \<noteq> SYM_CONTEXT_IS_STATIC"
  "MEMORY_SIZE_GLOBAL \<noteq> SYM_CONTEXT_IS_STATIC" "CALLDATA_PTR_GLOBAL \<noteq> SYM_CONTEXT_IS_STATIC"
  "CALLDATA_SIZE_GLOBAL \<noteq> SYM_CONTEXT_IS_STATIC"
  by (simp_all add: global_defs)

lemmas globals_distinct_sym [simp] = globals_distinct [symmetric]

lemmas exec_defs = done_op_def or_undefined_def load_global_def nth_append

lemma eval_value_more [simp]:
  "eval_value s v = Some r \<Longrightarrow> l_args t = l_args s \<Longrightarrow> eval_value (t\<lparr>l_results := l_results s @ xs\<rparr>) v = Some r"
  by (cases v) (auto simp: nth_append split: if_splits)

lemma eval_value_frame [simp]:
  "eval_value (s\<lparr>l_globals := g\<rparr>) v = eval_value s v"
  "eval_value (s\<lparr>l_cells := f\<rparr>) v = eval_value s v"
  "eval_value (s\<lparr>l_slots := z\<rparr>) v = eval_value s v"
  "eval_value (s\<lparr>l_ctx := c\<rparr>) v = eval_value s v"
  by (cases v; simp)+

lemma externs_distinct: "distinct (map fst externs)"
  by (simp add: externs_def extern_defs)

lemma call_symbol_extern:
  assumes "(g, Function f) \<in> set registered_symbols" and "(f, e) \<in> set externs"
  shows "call_symbol g = Some e"
  using register_symbols_lookup [OF assms(1)] map_of_is_SomeI [OF externs_distinct assms(2)] by (simp add: call_symbol_def)

lemma call_symbols [simp]:
  "call_symbol SYM_WRITE_RESULT = Some (ext_write_result)"
  "call_symbol SYM_GET_RETURN_DATA_SIZE = Some (ext_get (\<lambda>_ c. Num 32 (unat (get_return_data_size c))))"
  "call_symbol SYM_COPY_RETURN_DATA_INTO_MEMORY = Some (ext_copy copy_return_data_into_memory)"
  "call_symbol SYM_CALL = Some (ext_call)"
  "call_symbol SYM_STORE_IN_SELFBALANCE_PTR = Some (ext_store_in_selfbalance_ptr)"
  "call_symbol SYM_KECCAK256_HASHER = Some (ext_keccak256_hasher)"
  "call_symbol SYM_STORE_IN_CALLVALUE_PTR = Some (ext_store store_in_callvalue_ptr)"
  "call_symbol SYM_STORE_IN_BLOBBASEFEE_PTR = Some (ext_store_in_blobbasefee_ptr)"
  "call_symbol SYM_GET_GASLIMIT = Some (ext_get (\<lambda>_ c. Num 64 (unat (get_gaslimit c))))"
  "call_symbol SYM_STORE_IN_CALLER_PTR = Some (ext_store store_in_caller_ptr)"
  "call_symbol SYM_STORE_IN_GASPRICE_PTR = Some (ext_store store_in_gasprice_ptr)"
  "call_symbol SYM_GET_CHAINID = Some (ext_get (\<lambda>_ c. Num 64 (unat (get_chainid c))))"
  "call_symbol SYM_GET_CALLDATA_PTR = Some (ext_get (\<lambda>_ _. Pointer (To_calldata 0)))"
  "call_symbol SYM_GET_CALLDATA_SIZE = Some (ext_get (\<lambda>_ c. Num 32 (unat (get_calldata_size_syscall c))))"
  "call_symbol SYM_GET_ORIGIN = Some (ext_store get_origin)"
  "call_symbol SYM_EXTEND_MEMORY = Some (ext_extend_memory)"
  "call_symbol SYM_COPY_CODE_TO_MEMORY = Some (ext_copy copy_code_to_memory)"
  "call_symbol SYM_STORAGE_READ = Some (ext_lookup syscall_read_storage)"
  "call_symbol SYM_STORAGE_WRITE = Some (ext_write_storage)"
  "call_symbol SYM_APPEND_LOG = Some (ext_append_log 0 (\<lambda>c off sz t. append_log c off sz))"
  "call_symbol SYM_APPEND_LOG_ONE_TOPIC = Some (ext_append_log 1 (\<lambda>c off sz t. append_log_with_one_topic c off sz (t ! 0)))"
  "call_symbol SYM_APPEND_LOG_TWO_TOPICS = Some (ext_append_log 2 (\<lambda>c off sz t. append_log_with_two_topics c off sz (t ! 0) (t ! 1)))"
  "call_symbol SYM_APPEND_LOG_THREE_TOPICS = Some (ext_append_log 3 (\<lambda>c off sz t. append_log_with_three_topics c off sz (t ! 0) (t ! 1) (t ! 2)))"
  "call_symbol SYM_APPEND_LOG_FOUR_TOPICS = Some (ext_append_log 4 (\<lambda>c off sz t. append_log_with_four_topics c off sz (t ! 0) (t ! 1) (t ! 2) (t ! 3)))"
  "call_symbol SYM_GET_BLOCK_NUMBER = Some (ext_store get_block_number)"
  "call_symbol SYM_GET_BLOCK_HASH = Some (ext_get_block_hash)"
  "call_symbol SYM_GET_CODESIZE_FROM_ADDRESS = Some (ext_get_codesize_from_address)"
  "call_symbol SYM_GET_ADDRESS_PTR = Some (ext_get (\<lambda>h c. Pointer (To_bytes (get_address_ptr h c))))"
  "call_symbol SYM_GET_PREVRANDAO = Some (ext_store get_prevrandao)"
  "call_symbol SYM_GET_COINBASE_PTR = Some (ext_get (\<lambda>_ c. Pointer (To_bytes (get_coinbase_ptr c))))"
  "call_symbol SYM_STORE_IN_TIMESTAMP_PTR = Some (ext_store store_in_timestamp_ptr)"
  "call_symbol SYM_STORE_IN_BASEFEE_PTR = Some (ext_store store_in_basefee_ptr)"
  "call_symbol SYM_STORE_IN_BALANCE = Some (ext_lookup store_in_balance)"
  "call_symbol SYM_GET_BLOB_HASH_AT_INDEX = Some (ext_read get_blob_hash_at_index)"
  "call_symbol SYM_COPY_EXT_CODE_TO_MEMORY = Some (ext_copy_ext_code_to_memory)"
  "call_symbol SYM_GET_CODE_HASH = Some (ext_get_code_hash)"
  "call_symbol SYM_CREATE = Some (ext_create)"
  "call_symbol SYM_CREATE2 = Some (ext_create2)"
  "call_symbol SYM_SELFDESTRUCT = Some (ext_selfdestruct)"
  "call_symbol SYM_TRANSIENT_STORAGE_READ = Some (ext_read read_transient_storage)"
  "call_symbol SYM_TRANSIENT_STORAGE_WRITE = Some (ext_write_transient_storage)"
  by (rule call_symbol_extern,
      (simp only: register_defs append_Cons append_Nil, (rule list.set_intros(1) | rule list.set_intros(2))+)[1],
      (simp add: externs_def; fail))+

section \<open>Fragments\<close>

text \<open>The code of a main function: \<open>x\<close> is an \<open>OperationCtx\<close> whose context is the first argument.\<close>

locale main_function =
  fixes h :: host and exec :: executor and x :: operation_ctx
  assumes syscall_ctx: "octx_syscall_ctx x = Argument 0 Ptr"
begin

lemmas fragment_defs = implements_def represents_def extends_def knows_def holds_def wnum_def flag_def

lemma sge_64: "signed_value 64 (unat (b :: u64)) \<le> signed_value 64 (unat a) \<longleftrightarrow> sint b \<le> sint (a :: u64)"
  using signed_value_sint [of a] signed_value_sint [of b] by simp

lemma nat_int_minus: "nat (int k - int n) = k - n" "0 < k \<Longrightarrow> nat (int k - 1) = k - Suc 0"
  by simp_all

lemma cell_in_stack:
  "int k - int n < int l \<longleftrightarrow> k < n + l"
  "k - n < MAX_STACK_SIZE \<longleftrightarrow> k < n + MAX_STACK_SIZE"
  by (linarith, simp add: gas_consts, linarith)

lemma get_remaining_gas_implemented:
  "implements h exec P emit_get_remaining_gas (\<lambda>m. Inr (m, get_remaining_gas m)) (\<lambda>y v. holds v (wnum y))"
  by (simp add: emit_defs emit_basics exec_defs fragment_defs get_remaining_gas_def)

lemma consume_gas_implemented:
  "implements h exec P (emit_consume_gas (unat amount)) (\<lambda>m. Inr (consume_gas m amount)) (\<lambda>p v. holds v (flag p))"
  by (simp add: emit_defs emit_basics exec_defs fragment_defs consume_gas_def unat_sub_mod sge_64)

lemma consume_gas_as_value_implemented:
  assumes "knows P (holds v (wnum g))"
  shows "implements h exec P (emit_consume_gas_as_value v) (\<lambda>m. Inr (consume_gas_as_value m g)) (\<lambda>p v. holds v (flag p))"
  using assms by (simp add: emit_defs emit_basics exec_defs fragment_defs consume_gas_as_value_def unat_sub_mod sge_64)

lemma stack_pop_implemented:
  "implements h exec P emit_stack_pop stack_pop (\<lambda>y v. holds v (wnum y))"
  by (simp add: emit_defs emit_basics exec_defs fragment_defs stack_pop_def nat_int_minus)

lemma stack_push_implemented:
  assumes "knows P (holds v (wnum y))"
  shows "implements h exec P (emit_stack_push v) (\<lambda>m. and_then (stack_push m y) (\<lambda>m. Inr (m, ()))) (\<lambda>_ _ _. True)"
  using assms
  by (simp add: emit_defs emit_basics exec_defs fragment_defs stack_push_def store_cell_def inc_stack_pointer_def)

lemma check_stack_has_space_for_implemented:
  "implements h exec P (emit_check_stack_has_space_for n) (\<lambda>m. Inr (m, space_for n m)) (\<lambda>p v. holds v (flag p))"
  by (simp add: emit_defs emit_basics exec_defs fragment_defs check_stack_has_space_for_def)

lemma check_stack_has_at_least_implemented:
  "implements h exec P (emit_check_stack_has_at_least n) (\<lambda>m. Inr (m, at_least n m)) (\<lambda>p v. holds v (flag p))"
  by (simp add: emit_defs emit_basics exec_defs fragment_defs check_stack_has_at_least_def)

lemma context_is_static_implemented:
  "implements h exec P emit_context_is_static (\<lambda>m. Inr (m, context_is_static m)) (\<lambda>p v. holds v (flag p))"
  by (simp add: emit_defs emit_basics exec_defs fragment_defs context_is_static_def)

lemma check_context_is_not_static_implemented:
  "implements h exec P emit_check_context_is_not_static (\<lambda>m. Inr (m, check_context_is_not_static m)) (\<lambda>p v. holds v (flag p))"
  by (simp add: emit_defs emit_basics exec_defs fragment_defs check_context_is_not_static_def context_is_static_def)

lemma swap_stack_elements_implemented:
  assumes "0 < p" "0 < q"
  shows "implements h exec P (emit_swap_stack_elements p q)
     (\<lambda>m. and_then (swap_stack_elements m p q) (\<lambda>m. Inr (m, ()))) (\<lambda>_ _ _. True)"
  using assms by (simp add: emit_defs emit_basics exec_defs fragment_defs swap_stack_elements_def get_nth_from_stack_def
      store_cell_def nat_int_minus cell_in_stack)

lemma get_nth_from_stack_implemented:
  assumes "0 < n"
  shows "implements h exec P (emit_get_nth_from_stack n) (\<lambda>m. and_then (get_nth_from_stack m n) (\<lambda>r. Inr (m, r)))
     (\<lambda>r v. holds (fst v) (wnum (fst r)))"
  using assms by (simp add: emit_defs emit_basics exec_defs fragment_defs get_nth_from_stack_def nat_int_minus cell_in_stack)

lemmas word_nat_simps = unat_word_ariths unat_div unat_ucast_up unat_ucast_down mod_simps

lemma round_up_32_implemented:
  assumes "knows P (holds v (wnum sz))"
  shows "evaluates h exec P (emit_round_up_32 v) (\<lambda>v. holds v (wnum (round_up_32 sz)))"
  using assms by (simp add: emit_defs emit_basics exec_defs fragment_defs round_up_32_def word_nat_simps)

lemma compute_memory_cost_implemented:
  assumes "knows P (holds v (wnum sz))"
  shows "evaluates h exec P (emit_compute_memory_cost v) (\<lambda>v. holds v (wnum (compute_memory_cost sz)))"
  using assms by (simp add: emit_defs emit_basics exec_defs fragment_defs unary_result_def compute_memory_cost_def word_nat_simps Let_def)

lemma compute_copy_cost_implemented:
  assumes "knows P (holds v (wnum sz))"
  shows "evaluates h exec P (emit_compute_copy_cost v) (\<lambda>v. holds v (wnum (compute_copy_cost sz)))"
  using assms by (simp add: emit_defs emit_basics exec_defs fragment_defs unary_result_def compute_copy_cost_def word_nat_simps)

lemma compute_log_dynamic_gas_implemented:
  assumes "knows P (holds v (wnum sz))"
  shows "evaluates h exec P (emit_compute_log_dynamic_gas (unat n) v) (\<lambda>v. holds v (wnum (compute_log_dynamic_gas n sz)))"
  using assms by (simp add: emit_defs emit_basics exec_defs fragment_defs unary_result_def compute_log_dynamic_gas_def word_nat_simps)

lemma integer_constant_unat: "unat (of_int v :: u256) = integer_constant_from_i64 v"
  by (simp add: integer_constant_from_i64_def unsigned_of_int take_bit_eq_mod)

lemma constant_value_implemented:
  "evaluates h exec P (emit_constant_value_from_i64 i) (\<lambda>v. holds v (wnum (of_int i :: u256)))"
  by (simp add: emit_defs emit_basics exec_defs fragment_defs integer_constant_unat)

lemma check_if_zero_implemented:
  assumes "knows P (holds v (wnum (y :: u256)))"
  shows "evaluates h exec P (emit_check_if_zero v) (\<lambda>v. holds v (flag (y = 0)))"
  using assms
  by (simp add: emit_defs emit_basics exec_defs fragment_defs integer_constant_from_i64_def unat_eq_0 eq_commute [of 0])

text \<open>Slots.\<close>

lemma allocate_and_store_value_implemented:
  assumes "knows P (holds v (wnum (y :: u256)))"
  shows "evaluates h exec P (emit_allocate_and_store_value v) (slot_holds 256 (Some (wnum y)))"
  using assms
  by (simp add: emit_defs emit_basics exec_defs fragment_defs allocate_def store_slot_def slot_holds_def gas_consts)

text \<open>Memory.\<close>

lemma get_memory_pointer_implemented:
  "implements h exec P emit_get_memory_pointer (\<lambda>m. Inr (m, memory_ptr m)) (\<lambda>p v. holds v (Pointer (buffer_pointer p)))"
  by (simp add: emit_defs emit_basics exec_defs fragment_defs split: option.splits)

lemma load_memory_size_implemented:
  "implements h exec P (emit_load_global MEMORY_SIZE_GLOBAL (Int_type 32)) (\<lambda>m. Inr (m, memory_size m))
     (\<lambda>y v s. holds (fst v) (Pointer (To_global MEMORY_SIZE_GLOBAL)) s \<and> holds (snd v) (wnum y) s)"
  by (simp add: emit_defs emit_basics exec_defs fragment_defs)

lemma addressof_implemented:
  "evaluates h exec P (emit_op (mlir_addressof g Ptr)) (\<lambda>v. holds v (Pointer (To_global g)))"
  by (rule evaluates_op) (simp_all add: mlir_addressof_def)

lemma store_memory_size_implemented:
  assumes "knows P (holds p (Pointer (To_global MEMORY_SIZE_GLOBAL)))" and "knows P (holds v (wnum y))"
  shows "implements h exec P (emit_effect (Store v p)) (\<lambda>m. Inr (m\<lparr>memory_size := y\<rparr>, ())) (\<lambda>_ _ _. True)"
  using assms by (simp add: emit_basics exec_defs fragment_defs)

lemma store_memory_ptr_implemented:
  assumes "knows P (holds p (Pointer (To_global MEMORY_PTR_GLOBAL)))" and "knows P (holds v (Pointer (buffer_pointer y)))"
  shows "implements h exec P (emit_effect (Store v p)) (\<lambda>m. Inr (m\<lparr>memory_ptr := y\<rparr>, ())) (\<lambda>_ _ _. True)"
  using assms by (simp add: emit_basics exec_defs fragment_defs)

lemma extend_memory_syscall_implemented:
  assumes "knows P (holds v (wnum y))"
  shows "implements h exec P (\<lambda>b. opctx_extend_memory_syscall x b v)
     (\<lambda>m. Inr (case extend_memory h (m_ctx m) y of (c, p) \<Rightarrow> (m\<lparr>m_ctx := c\<rparr>, p))) (\<lambda>p v. holds v (Pointer (buffer_pointer p)))"
  using assms
  by (simp add: opctx_extend_memory_syscall_def mlir_extend_memory_syscall_def syscall_ctx emit_basics exec_defs
      fragment_defs ext_extend_memory_def case_prod_beta)

end

end
