(* ===== verification/Code_Rules.thy ===== *)
theory Code_Rules
  imports Fragment_Exec
begin

text \<open>
  The blocks that operations share (the start block with its checks, the ends of blocks) and the rules by
  which the code of an operation is matched with its machine model, one emitted step at a time.
\<close>

section \<open>Shared blocks\<close>

text \<open>A branch to the revert block unless the condition holds, and the push that ends an operation.\<close>

definition emit_branch :: "mlir_value \<Rightarrow> emit_code \<Rightarrow> emit_code" where
  "emit_branch condition ok_block = emit_cond_br condition (emit_inner ok_block) (emit_target Revert_block)"

definition emit_push_end :: "mlir_value \<Rightarrow> emit_code" where
  "emit_push_end result = emit_then (emit_stack_push result) (\<lambda>_. emit_end)"

text \<open>The start block of most operations. Some operations give the two flags to \<open>andi\<close> in the other order, and some
  charge the gas before they check the stack.\<close>

definition emit_guarded :: "mlir_value emit \<Rightarrow> u64 \<Rightarrow> emit_code \<Rightarrow> emit_code" where
  "emit_guarded check cost ok_block =
     emit_then check (\<lambda>flag.
     emit_then (emit_consume_gas (unat cost)) (\<lambda>gas_flag.
     emit_then (emit_op (Arith Andi gas_flag flag)) (\<lambda>condition.
     emit_branch condition ok_block)))"

definition emit_guarded_swapped :: "mlir_value emit \<Rightarrow> u64 \<Rightarrow> emit_code \<Rightarrow> emit_code" where
  "emit_guarded_swapped check cost ok_block =
     emit_then check (\<lambda>flag.
     emit_then (emit_consume_gas (unat cost)) (\<lambda>gas_flag.
     emit_then (emit_op (Arith Andi flag gas_flag)) (\<lambda>ok_flag.
     emit_branch ok_flag ok_block)))"

definition emit_guarded_gas_first :: "mlir_value emit \<Rightarrow> u64 \<Rightarrow> emit_code \<Rightarrow> emit_code" where
  "emit_guarded_gas_first check cost ok_block =
     emit_then (emit_consume_gas (unat cost)) (\<lambda>gas_flag.
     emit_then check (\<lambda>flag.
     emit_then (emit_op (Arith Andi gas_flag flag)) (\<lambda>condition.
     emit_branch condition ok_block)))"

section \<open>Rules\<close>

text \<open>A check of the stack or the context does not depend on the gas.\<close>

definition checks :: "host \<Rightarrow> executor \<Rightarrow> mlir_value emit \<Rightarrow> (mstate \<Rightarrow> bool) \<Rightarrow> bool" where
  "checks h exec e c \<longleftrightarrow> (\<forall>P. implements h exec P e (\<lambda>m. Inr (m, c m)) (\<lambda>p v. holds v (flag p))) \<and>
     (\<forall>m g. c (m\<lparr>gas_counter := g\<rparr>) = c m)"

lemma checksD: "checks h exec e c \<Longrightarrow> implements h exec P e (\<lambda>m. Inr (m, c m)) (\<lambda>p v. holds v (flag p))"
  "checks h exec e c \<Longrightarrow> c (m\<lparr>gas_counter := g\<rparr>) = c m"
  by (simp_all add: checks_def)

lemma code_value:
  assumes "evaluates h exec P e R" and "\<And>v. code_implements h exec (\<lambda>s. P s \<and> R v s) (k v) f" and "stable P"
  shows "code_implements h exec P (emit_then e k) f"
  using code_then [OF assms(1), of k "\<lambda>_. f"] assms(2,3) by simp

lemma code_read:
  assumes "implements h exec P e (\<lambda>m. Inr (m, g m)) R" and "\<And>v y. code_implements h exec (\<lambda>s. P s \<and> R y v s) (k v) (f y)"
    and "stable P"
  shows "code_implements h exec P (emit_then e k) (\<lambda>m. f (g m) m)"
  using code_then [OF assms] by simp

lemma code_branch:
  assumes "knows P (holds v (flag p))" and "code_implements h exec (\<lambda>s. P s \<and> p) ok f"
  shows "code_implements h exec P (emit_branch v ok) (\<lambda>m. cond_br p f m)"
  unfolding emit_branch_def by (rule code_cond_br [OF assms(1) target_inner [OF assms(2)] target_revert])

context main_function
begin

lemma checks_at_least: "checks h exec (emit_check_stack_has_at_least n) (at_least n)"
  unfolding checks_def by (intro conjI allI check_stack_has_at_least_implemented) (simp add: check_stack_has_at_least_def)

lemma checks_space_for: "checks h exec (emit_check_stack_has_space_for n) (space_for n)"
  unfolding checks_def by (intro conjI allI check_stack_has_space_for_implemented) (simp add: check_stack_has_space_for_def)

lemma code_consume_gas:
  assumes "\<And>v p. code_implements h exec (\<lambda>s. P s \<and> holds v (flag p) s) (k v) (f p)" and "stable P"
  shows "code_implements h exec P (emit_then (emit_consume_gas (unat cost)) k) (\<lambda>m. let (m, p) = consume_gas m cost in f p m)"
  using code_then [OF consume_gas_implemented, where g = f] assms by simp

lemma code_consume_gas_as_value:
  assumes "knows P (holds w (wnum g))" and "\<And>v p. code_implements h exec (\<lambda>s. P s \<and> holds v (flag p) s) (k v) (f p)" and "stable P"
  shows "code_implements h exec P (emit_then (emit_consume_gas_as_value w) k)
     (\<lambda>m. let (m, p) = consume_gas_as_value m g in f p m)"
  using code_then [OF consume_gas_as_value_implemented, where g = f] assms by simp

lemmas and_flags = op_andi_flags [THEN code_value]
lemmas fact_rules = knows_refl knows_last knows_last_left knows_last_right knows_before
lemmas stable_rules = stable_conj stable_holds stable_slot_holds stable_const stable_True

lemma code_guarded:
  assumes c: "checks h exec check c" and ok: "code_implements h exec P ok f" and P: "stable P"
  shows "code_implements h exec P (emit_guarded check cost ok) (guarded cost c f)"
    and "code_implements h exec P (emit_guarded_swapped check cost ok) (guarded cost c f)"
    and "code_implements h exec P (emit_guarded_gas_first check cost ok) (guarded cost c f)"
  unfolding emit_guarded_def emit_guarded_swapped_def emit_guarded_gas_first_def
  by (rule code_implements_cong,
      (rule code_read [OF checksD(1) [OF c]] code_consume_gas and_flags code_branch code_weaken [OF ok] fact_rules stable_rules P)+,
      simp add: guarded_def consume_gas_def Let_def checksD(2) [OF c] conj_commute)+

text \<open>The stack.\<close>

lemma code_pop:
  assumes "\<And>v y. code_implements h exec (\<lambda>s. P s \<and> holds v (wnum y) s) (k v) (f y)" and "stable P"
  shows "code_implements h exec P (emit_then emit_stack_pop k) (\<lambda>m. pop m f)"
  unfolding pop_def using code_then [OF stack_pop_implemented assms] .

lemma code_push:
  assumes "knows P (holds v (wnum y))" and "code_implements h exec P k f" and "stable P"
  shows "code_implements h exec P (emit_then (emit_stack_push v) (\<lambda>_. k)) (\<lambda>m. and_then (stack_push m y) f)"
proof (rule code_implements_cong)
  show "code_implements h exec P (emit_then (emit_stack_push v) (\<lambda>_. k))
      (\<lambda>m. and_then (and_then (stack_push m y) (\<lambda>m. Inr (m, ()))) (\<lambda>(m, _). f m))"
    using code_then [OF stack_push_implemented [OF assms(1)], of "\<lambda>_. k" "\<lambda>_. f"] assms(2,3) by simp
qed (simp add: and_then_assoc)

lemma code_push_end:
  assumes "knows P (holds v (wnum y))" and "stable P"
  shows "code_implements h exec P (emit_push_end v) (\<lambda>m. push_next m y)"
  unfolding emit_push_end_def push_next_def by (rule code_push [OF assms(1) code_end assms(2)])

text \<open>One step of an operation, by the operation that is emitted.\<close>

lemmas op_steps =
  op_addi [THEN code_value] op_subi [THEN code_value] op_muli [THEN code_value]
  op_bitwise(1) [THEN code_value] op_bitwise(2) [THEN code_value] op_bitwise(3) [THEN code_value]
  op_min_max(1) [THEN code_value] op_min_max(2) [THEN code_value]
  op_divisions(1) [THEN code_value] op_divisions(2) [THEN code_value]
  op_shifts(1) [THEN code_value] op_shifts(2) [THEN code_value] op_shifts(3) [THEN code_value]
  op_shifts(4) [THEN code_value] op_shifts(5) [THEN code_value]
  op_ipowi [THEN code_value] op_ctlz [THEN code_value] bswap_rules [THEN code_value]
  constant_rules [THEN code_value] trunci_rules [THEN code_value] extui_rules [THEN code_value]
  constant_value_implemented [THEN code_value] check_if_zero_implemented [THEN code_value]

end

end
