(* ===== verification/Emit_Alu.thy ===== *)
theory Emit_Alu
  imports Code_Rules
begin

text \<open>
  The blocks of the operations that compute on the stack alone, as \<open>codegen/operations.rs\<close> emits them, and
  the proofs that they implement the machine model of these operations.
\<close>

section \<open>Shapes\<close>

text \<open>Two operands, a result, and the push that ends the operation.\<close>

definition emit_binary :: "(mlir_value \<Rightarrow> mlir_value \<Rightarrow> mlir_value emit) \<Rightarrow> emit_code" where
  "emit_binary body =
     emit_then emit_stack_pop (\<lambda>lhs.
     emit_then emit_stack_pop (\<lambda>rhs.
     emit_then (body lhs rhs) emit_push_end))"

text \<open>A comparison, extended to 256 bits.\<close>

definition emit_compare :: "cmpi_predicate \<Rightarrow> mlir_value \<Rightarrow> mlir_value \<Rightarrow> mlir_value emit" where
  "emit_compare p lhs rhs =
     emit_bind (emit_op (Cmpi p lhs rhs)) (\<lambda>result.
     emit_op (Extui result (Int_type 256)))"

text \<open>The blocks of a division: zero when the denominator is zero.\<close>

definition emit_unless_zero :: "mlir_value \<Rightarrow> mlir_value emit \<Rightarrow> emit_code" where
  "emit_unless_zero den result =
     emit_then (emit_check_if_zero den) (\<lambda>den_is_zero.
     emit_cond_br den_is_zero
       (emit_inner (emit_then (emit_constant_value_from_i64 0) emit_push_end))
       (emit_inner (emit_then result emit_push_end)))"

section \<open>Arithmetic\<close>

definition emit_codegen_add :: emit_code where
  "emit_codegen_add = emit_guarded (emit_check_stack_has_at_least 2) gas_ADD
     (emit_binary (\<lambda>lhs rhs. emit_op (Arith Addi lhs rhs)))"

definition emit_codegen_sub :: emit_code where
  "emit_codegen_sub = emit_guarded (emit_check_stack_has_at_least 2) gas_SUB
     (emit_binary (\<lambda>lhs rhs. emit_op (Arith Subi lhs rhs)))"

definition emit_codegen_mul :: emit_code where
  "emit_codegen_mul = emit_guarded_swapped (emit_check_stack_has_at_least 2) gas_MUL
     (emit_binary (\<lambda>lhs rhs. emit_op (Arith Muli lhs rhs)))"

definition emit_codegen_div :: emit_code where
  "emit_codegen_div = emit_guarded_swapped (emit_check_stack_has_at_least 2) gas_DIV
     (emit_then emit_stack_pop (\<lambda>num.
      emit_then emit_stack_pop (\<lambda>den.
      emit_unless_zero den (emit_op (Arith Divui num den)))))"

definition emit_codegen_sdiv :: emit_code where
  "emit_codegen_sdiv = emit_guarded_swapped (emit_check_stack_has_at_least 2) gas_SDIV
     (emit_then emit_stack_pop (\<lambda>num.
      emit_then emit_stack_pop (\<lambda>den.
      emit_unless_zero den (emit_op (Arith Llvm_sdiv num den)))))"

definition emit_codegen_mod :: emit_code where
  "emit_codegen_mod = emit_guarded (emit_check_stack_has_at_least 2) gas_MOD
     (emit_then emit_stack_pop (\<lambda>num.
      emit_then emit_stack_pop (\<lambda>den.
      emit_unless_zero den (emit_op (Arith Remui num den)))))"

definition emit_codegen_smod :: emit_code where
  "emit_codegen_smod = emit_guarded (emit_check_stack_has_at_least 2) gas_SMOD
     (emit_then emit_stack_pop (\<lambda>num.
      emit_then emit_stack_pop (\<lambda>den.
      emit_unless_zero den (emit_op (Arith Llvm_srem num den)))))"

text \<open>The operands are extended, so that the sum or the product does not wrap.\<close>

definition emit_modular :: "nat \<Rightarrow> arith_op \<Rightarrow> mlir_value \<Rightarrow> mlir_value \<Rightarrow> mlir_value \<Rightarrow> mlir_value emit" where
  "emit_modular w f a b den =
     emit_bind (emit_op (Extui a (Int_type w))) (\<lambda>extended_a.
     emit_bind (emit_op (Extui b (Int_type w))) (\<lambda>extended_b.
     emit_bind (emit_op (Extui den (Int_type w))) (\<lambda>extended_den.
     emit_bind (emit_op (Arith f extended_a extended_b)) (\<lambda>result.
     emit_bind (emit_op (Arith Remui result extended_den)) (\<lambda>mod_result.
     emit_op (Trunci mod_result (Int_type 256)))))))"

definition emit_codegen_addmod :: emit_code where
  "emit_codegen_addmod = emit_guarded (emit_check_stack_has_at_least 3) gas_ADDMOD
     (emit_then emit_stack_pop (\<lambda>a.
      emit_then emit_stack_pop (\<lambda>b.
      emit_then emit_stack_pop (\<lambda>den.
      emit_unless_zero den (emit_modular 257 Addi a b den)))))"

definition emit_codegen_mulmod :: emit_code where
  "emit_codegen_mulmod = emit_guarded (emit_check_stack_has_at_least 3) gas_MULMOD
     (emit_then emit_stack_pop (\<lambda>a.
      emit_then emit_stack_pop (\<lambda>b.
      emit_then emit_stack_pop (\<lambda>den.
      emit_unless_zero den (emit_modular 512 Muli a b den)))))"

definition emit_codegen_exp :: emit_code where
  "emit_codegen_exp =
     emit_then (emit_check_stack_has_at_least 2) (\<lambda>flag. emit_branch flag
     (emit_then emit_stack_pop (\<lambda>base.
      emit_then emit_stack_pop (\<lambda>exponent.
      emit_then (emit_op (Arith Ipowi base exponent)) (\<lambda>result.
      emit_then (emit_op (Intr_ctlz exponent (Int_type 256))) (\<lambda>leading_zeros.
      emit_then (emit_constant_value_from_i64 256) (\<lambda>constant_256.
      emit_then (emit_op (Arith Subi constant_256 leading_zeros)) (\<lambda>number_of_bits.
      emit_then (emit_constant_value_from_i64 7) (\<lambda>constant_7.
      emit_then (emit_op (Arith Addi number_of_bits constant_7)) (\<lambda>bits_with_offset.
      emit_then (emit_constant_value_from_i64 8) (\<lambda>constant_8.
      emit_then (emit_op (Arith Divui bits_with_offset constant_8)) (\<lambda>number_of_bytes.
      emit_then (emit_constant_value_from_i64 50) (\<lambda>constant_50.
      emit_then (emit_op (Arith Muli number_of_bytes constant_50)) (\<lambda>dynamic_gas_cost.
      emit_then (emit_constant_value_from_i64 (sint gas_EXP)) (\<lambda>constant_exp.
      emit_then (emit_op (Arith Addi constant_exp dynamic_gas_cost)) (\<lambda>total_gas_cost.
      emit_then (emit_op (Trunci total_gas_cost (Int_type 64))) (\<lambda>total_gas_cost.
      emit_then (emit_consume_gas_as_value total_gas_cost) (\<lambda>gas_flag.
      emit_branch gas_flag (emit_push_end result)))))))))))))))))))"

definition emit_codegen_signextend :: emit_code where
  "emit_codegen_signextend = emit_guarded_swapped (emit_check_stack_has_at_least 2) gas_SIGNEXTEND
     (emit_then emit_stack_pop (\<lambda>byte_size.
      emit_then emit_stack_pop (\<lambda>value_to_extend.
      emit_then (emit_constant_value_from_i64 31) (\<lambda>max_byte_size.
      emit_then (emit_constant_value_from_i64 8) (\<lambda>bits_per_byte.
      emit_then (emit_constant_value_from_i64 7) (\<lambda>sign_bit_position_on_byte.
      emit_then (emit_constant_value_from_i64 255) (\<lambda>max_bits.
      emit_then (emit_op (Arith Minui byte_size max_byte_size)) (\<lambda>byte_size.
      emit_then (emit_op (Arith Muli byte_size bits_per_byte)) (\<lambda>byte_number_in_bits.
      emit_then (emit_op (Arith Addi byte_number_in_bits sign_bit_position_on_byte)) (\<lambda>value_size_in_bits.
      emit_then (emit_op (Arith Subi max_bits value_size_in_bits)) (\<lambda>bits_to_shift.
      emit_then (emit_op (Arith Llvm_shl value_to_extend bits_to_shift)) (\<lambda>left_shifted_value.
      emit_then (emit_op (Arith Llvm_ashr left_shifted_value bits_to_shift)) emit_push_end))))))))))))"

section \<open>Comparisons\<close>

definition emit_codegen_lt :: emit_code where
  "emit_codegen_lt = emit_guarded (emit_check_stack_has_at_least 2) gas_LT (emit_binary (emit_compare Pred_ult))"

definition emit_codegen_gt :: emit_code where
  "emit_codegen_gt = emit_guarded (emit_check_stack_has_at_least 2) gas_GT (emit_binary (emit_compare Pred_ugt))"

definition emit_codegen_slt :: emit_code where
  "emit_codegen_slt = emit_guarded_swapped (emit_check_stack_has_at_least 2) gas_SLT (emit_binary (emit_compare Pred_slt))"

definition emit_codegen_sgt :: emit_code where
  "emit_codegen_sgt = emit_guarded (emit_check_stack_has_at_least 2) gas_SGT (emit_binary (emit_compare Pred_sgt))"

definition emit_codegen_eq :: emit_code where
  "emit_codegen_eq = emit_guarded (emit_check_stack_has_at_least 2) gas_EQ (emit_binary (emit_compare Pred_eq))"

definition emit_codegen_iszero :: emit_code where
  "emit_codegen_iszero = emit_guarded (emit_check_stack_has_at_least 1) gas_ISZERO
     (emit_then emit_stack_pop (\<lambda>v.
      emit_then (emit_constant_value_from_i64 0) (\<lambda>zero_constant.
      emit_then (emit_compare Pred_eq v zero_constant) emit_push_end)))"

section \<open>Bitwise operations and shifts\<close>

definition emit_codegen_and :: emit_code where
  "emit_codegen_and = emit_guarded (emit_check_stack_has_at_least 2) gas_AND
     (emit_binary (\<lambda>lhs rhs. emit_op (Arith Andi lhs rhs)))"

definition emit_codegen_or :: emit_code where
  "emit_codegen_or = emit_guarded (emit_check_stack_has_at_least 2) gas_OR
     (emit_binary (\<lambda>lhs rhs. emit_op (Arith Ori lhs rhs)))"

definition emit_codegen_xor :: emit_code where
  "emit_codegen_xor = emit_guarded (emit_check_stack_has_at_least 2) gas_XOR
     (emit_binary (\<lambda>lhs rhs. emit_op (Arith Xori lhs rhs)))"

definition emit_codegen_not :: emit_code where
  "emit_codegen_not = emit_guarded_swapped (emit_check_stack_has_at_least 1) gas_NOT
     (emit_then emit_stack_pop (\<lambda>lhs.
      emit_then (emit_op (Constant (be_nat (replicate 32 0xff)) (Int_type 256))) (\<lambda>mask.
      emit_then (emit_op (Arith Xori lhs mask)) emit_push_end)))"

definition emit_codegen_byte :: emit_code where
  "emit_codegen_byte = emit_guarded (emit_check_stack_has_at_least 2) gas_BYTE
     (emit_then emit_stack_pop (\<lambda>off.
      emit_then emit_stack_pop (\<lambda>v.
      emit_then (emit_constant_value_from_i64 8) (\<lambda>constant_bits_per_byte.
      emit_then (emit_constant_value_from_i64 (31 * 8)) (\<lambda>constant_max_shift_in_bits.
      emit_then (emit_op (Arith Muli off constant_bits_per_byte)) (\<lambda>offset_in_bits.
      emit_then (emit_op (Cmpi Pred_ugt offset_in_bits constant_max_shift_in_bits)) (\<lambda>is_offset_out_of_bounds.
      emit_cond_br is_offset_out_of_bounds
        (emit_inner (emit_then (emit_constant_value_from_i64 0) emit_push_end))
        (emit_inner
          (emit_then (emit_op (Arith Subi constant_max_shift_in_bits offset_in_bits)) (\<lambda>shift_right_in_bits.
           emit_then (emit_op (Arith Shrui v shift_right_in_bits)) (\<lambda>shifted_right_value.
           emit_then (emit_constant_value_from_i64 0xff) (\<lambda>mask.
           emit_then (emit_op (Arith Andi shifted_right_value mask)) emit_push_end))))))))))))"

text \<open>A shift below 255 is made, any other gives zero.\<close>

definition emit_shift :: "arith_op \<Rightarrow> emit_code" where
  "emit_shift f =
     emit_then emit_stack_pop (\<lambda>shift.
     emit_then emit_stack_pop (\<lambda>v.
     emit_then (emit_op (Constant 255 (Int_type 256))) (\<lambda>value_255.
     emit_then (emit_compare_values Pred_ult shift value_255) (\<lambda>flag.
     emit_cond_br flag
       (emit_inner (emit_then (emit_op (Arith f v shift)) emit_push_end))
       (emit_inner (emit_then (emit_op (Constant 0 (Int_type 256))) emit_push_end))))))"

definition emit_codegen_shr :: emit_code where
  "emit_codegen_shr = emit_guarded (emit_check_stack_has_at_least 2) 3 (emit_shift Shrui)"

definition emit_codegen_shl :: emit_code where
  "emit_codegen_shl = emit_guarded (emit_check_stack_has_at_least 2) gas_SHL (emit_shift Shli)"

definition emit_codegen_sar :: emit_code where
  "emit_codegen_sar = emit_guarded (emit_check_stack_has_at_least 2) gas_SAR
     (emit_then emit_stack_pop (\<lambda>shift.
      emit_then emit_stack_pop (\<lambda>v.
      emit_then (emit_constant_value_from_i64 255) (\<lambda>max_shift.
      emit_then (emit_op (Arith Minui shift max_shift)) (\<lambda>shift.
      emit_then (emit_op (Arith Shrsi v shift)) emit_push_end)))))"

section \<open>Stack operations\<close>

definition emit_codegen_push :: "nat \<Rightarrow> bool \<Rightarrow> emit_code" where
  "emit_codegen_push value_to_push is_zero =
     emit_guarded (emit_check_stack_has_space_for 1) (if is_zero then gas_PUSH0 else gas_PUSHN)
       (emit_then (emit_op (Constant value_to_push (Int_type 256))) emit_push_end)"

definition emit_codegen_pop :: emit_code where
  "emit_codegen_pop = emit_guarded (emit_check_stack_has_at_least 1) gas_POP
     (emit_then emit_stack_pop (\<lambda>_. emit_end))"

definition emit_codegen_dup :: "u8 \<Rightarrow> emit_code" where
  "emit_codegen_dup n = emit_guarded (emit_check_stack_has_at_least (unat n)) gas_DUPN
     (emit_then (emit_get_nth_from_stack (unat n)) (\<lambda>(nth_value, _). emit_push_end nth_value))"

definition emit_codegen_swap :: "u8 \<Rightarrow> emit_code" where
  "emit_codegen_swap n = emit_guarded (emit_check_stack_has_at_least (unat (n + 1))) gas_SWAPN
     (emit_then (emit_swap_stack_elements 1 (unat (n + 1))) (\<lambda>_. emit_end))"

section \<open>The blocks implement the machine model\<close>

lemma evaluates_bind:
  assumes "evaluates h exec P e R" and "\<And>v. evaluates h exec (\<lambda>s. P s \<and> R v s) (k v) Q" and "stable P"
  shows "evaluates h exec P (emit_bind e k) Q"
  using implements_bind [OF assms(1), of k "\<lambda>_ m. Inr (m, ())"] assms(2,3) by simp

text \<open>Denominators stay different from zero, and the shifts that are made are below the width.\<close>

lemma ucast_wide_zero: "(ucast (z :: u256) :: 257 word) = 0 \<longleftrightarrow> z = 0" "(ucast (z :: u256) :: 512 word) = 0 \<longleftrightarrow> z = 0"
  by (simp_all add: unat_eq_0 [symmetric] unat_ucast_up)

lemma sign_shift_bound: "unat (255 - (min z 31 * 8 + 7) :: u256) < 256"
proof -
  have "min z 31 \<le> 31" by simp
  then have m: "unat (min z 31) \<le> 31" by (simp add: word_le_nat_alt)
  then have "unat (min z 31 * 8 + 7) = unat (min z 31) * 8 + 7" by (simp add: unat_word_ariths)
  then have "min z 31 * 8 + 7 \<le> 255" using m by (simp only: word_le_nat_alt) simp
  then have "unat (255 - (min z 31 * 8 + 7)) = 255 - unat (min z 31 * 8 + 7)" by (simp only: unat_sub) simp
  then show ?thesis by linarith
qed

lemma shift_bounds:
  "z < 255 \<Longrightarrow> unat (z :: u256) < 256"
  "unat (min z 255 :: u256) < 256"
  "\<not> 248 < z \<Longrightarrow> unat (248 - z :: u256) < 256"
  using word_less_nat_alt [of z 255] word_le_nat_alt [of "min z 255" 255] by (simp_all add: unat_sub not_less)

lemma compare_implemented:
  assumes "knows P (holds a (wnum (x :: u256)))" and "knows P (holds b (wnum (y :: u256)))" and "stable P"
  shows "evaluates h exec P (emit_compare Pred_eq a b) (\<lambda>v. holds v (wnum (flag_word (x = y))))"
    and "evaluates h exec P (emit_compare Pred_slt a b) (\<lambda>v. holds v (wnum (flag_word (sint x < sint y))))"
    and "evaluates h exec P (emit_compare Pred_sgt a b) (\<lambda>v. holds v (wnum (flag_word (sint x > sint y))))"
    and "evaluates h exec P (emit_compare Pred_ult a b) (\<lambda>v. holds v (wnum (flag_word (x < y))))"
    and "evaluates h exec P (emit_compare Pred_ugt a b) (\<lambda>v. holds v (wnum (flag_word (x > y))))"
  unfolding emit_compare_def
  by (rule op_compare [THEN evaluates_bind] op_extui_flag knows_last assms)+

lemma ensures_before: "ensures P q \<Longrightarrow> ensures (\<lambda>s. P s \<and> Q s) q"
  by (auto simp: ensures_def)

text \<open>The result of a modular operation.\<close>

lemma modular_implemented:
  assumes "knows P (holds a (wnum (x :: u256)))" and "knows P (holds b (wnum (y :: u256)))" and "knows P (holds den (wnum (z :: u256)))"
    and "ensures P (\<not> z = 0)" and "stable P"
  shows "evaluates h exec P (emit_modular 257 Addi a b den)
      (\<lambda>v. holds v (wnum (ucast (((ucast x :: 257 word) + ucast y) mod ucast z) :: u256)))"
    and "evaluates h exec P (emit_modular 512 Muli a b den)
      (\<lambda>v. holds v (wnum (ucast (((ucast x :: 512 word) * ucast y) mod ucast z) :: u256)))"
proof -
  have n: "ensures P (\<not> (ucast z :: 257 word) = 0)" "ensures P (\<not> (ucast z :: 512 word) = 0)"
    using assms(4) by (simp_all only: ucast_wide_zero)
  show "evaluates h exec P (emit_modular 257 Addi a b den)
      (\<lambda>v. holds v (wnum (ucast (((ucast x :: 257 word) + ucast y) mod ucast z) :: u256)))"
    and "evaluates h exec P (emit_modular 512 Muli a b den)
      (\<lambda>v. holds v (wnum (ucast (((ucast x :: 512 word) * ucast y) mod ucast z) :: u256)))"
    unfolding emit_modular_def
    by (rule extui_rules [THEN evaluates_bind] op_addi [THEN evaluates_bind] op_muli [THEN evaluates_bind]
          op_divisions(2) [THEN evaluates_bind] trunci_rules knows_last assms knows_before n ensures_before stable_conj stable_holds
        | (simp; fail))+
qed

lemma branch_distribs:
  "push_next m (if p then y else z) = (if p then push_next m y else push_next m z)"
  "and_then (if p then r else r') k = (if p then and_then r k else and_then r' k)"
  by simp_all

context main_function
begin

lemmas compare_steps = compare_implemented [THEN code_value] op_compare [THEN code_value]

lemmas alu_steps = op_steps compare_steps modular_implemented [THEN code_value]
  op_signed_divisions [THEN code_then] code_pop code_push_end
  code_guarded [OF checks_at_least] code_guarded [OF checks_space_for]
  target_inner code_cond_br code_end fact_rules stable_rules

lemmas bounds = sign_shift_bound [simplified] shift_bounds

lemmas alu_shapes = unary_op_def binary_op_def ternary_op_def emit_binary_def emit_unless_zero_def emit_shift_def
  emit_compare_values_def

lemma arithmetic_implemented:
  "code_implements h exec (\<lambda>_. True) emit_codegen_add codegen_add"
  "code_implements h exec (\<lambda>_. True) emit_codegen_sub codegen_sub"
  "code_implements h exec (\<lambda>_. True) emit_codegen_mul codegen_mul"
  "code_implements h exec (\<lambda>_. True) emit_codegen_and codegen_and"
  "code_implements h exec (\<lambda>_. True) emit_codegen_or codegen_or"
  "code_implements h exec (\<lambda>_. True) emit_codegen_xor codegen_xor"
  unfolding emit_codegen_add_def emit_codegen_sub_def emit_codegen_mul_def emit_codegen_and_def emit_codegen_or_def
    emit_codegen_xor_def codegen_add_def codegen_sub_def codegen_mul_def codegen_and_def codegen_or_def codegen_xor_def alu_shapes
  by ((rule code_implements_cong, ((rule alu_steps | (simp add: ensures_def bounds; fail))+)[1], simp)[1])+

lemma comparisons_implemented:
  "code_implements h exec (\<lambda>_. True) emit_codegen_lt codegen_lt"
  "code_implements h exec (\<lambda>_. True) emit_codegen_gt codegen_gt"
  "code_implements h exec (\<lambda>_. True) emit_codegen_slt codegen_slt"
  "code_implements h exec (\<lambda>_. True) emit_codegen_sgt codegen_sgt"
  "code_implements h exec (\<lambda>_. True) emit_codegen_eq codegen_eq"
  "code_implements h exec (\<lambda>_. True) emit_codegen_iszero codegen_iszero"
  unfolding emit_codegen_lt_def emit_codegen_gt_def emit_codegen_slt_def emit_codegen_sgt_def emit_codegen_eq_def
    emit_codegen_iszero_def codegen_lt_def codegen_gt_def codegen_slt_def codegen_sgt_def codegen_eq_def codegen_iszero_def alu_shapes
  by ((rule code_implements_cong, ((rule alu_steps | (simp add: ensures_def bounds; fail))+)[1], simp)[1])+

lemma divisions_implemented:
  "code_implements h exec (\<lambda>_. True) emit_codegen_div codegen_div"
  "code_implements h exec (\<lambda>_. True) emit_codegen_mod codegen_mod"
  "code_implements h exec (\<lambda>_. True) emit_codegen_sdiv codegen_sdiv"
  "code_implements h exec (\<lambda>_. True) emit_codegen_smod codegen_smod"
  unfolding emit_codegen_div_def emit_codegen_mod_def emit_codegen_sdiv_def emit_codegen_smod_def
    codegen_div_def codegen_mod_def codegen_sdiv_def codegen_smod_def alu_shapes
  by ((rule code_implements_cong, ((rule alu_steps | (simp add: ensures_def bounds; fail))+)[1], simp add: and_then_assoc branch_distribs cong: if_cong)[1])+

lemma modular_operations_implemented:
  "code_implements h exec (\<lambda>_. True) emit_codegen_addmod codegen_addmod"
  "code_implements h exec (\<lambda>_. True) emit_codegen_mulmod codegen_mulmod"
  unfolding emit_codegen_addmod_def emit_codegen_mulmod_def codegen_addmod_def codegen_mulmod_def alu_shapes
  by ((rule code_implements_cong, ((rule alu_steps | (simp add: ensures_def bounds; fail))+)[1], simp add: branch_distribs cong: if_cong)[1])+

lemma shifts_implemented:
  "code_implements h exec (\<lambda>_. True) emit_codegen_shl codegen_shl"
  "code_implements h exec (\<lambda>_. True) emit_codegen_shr codegen_shr"
  "code_implements h exec (\<lambda>_. True) emit_codegen_sar codegen_sar"
  "code_implements h exec (\<lambda>_. True) emit_codegen_byte codegen_byte"
  "code_implements h exec (\<lambda>_. True) emit_codegen_signextend codegen_signextend"
  unfolding emit_codegen_shl_def emit_codegen_shr_def emit_codegen_sar_def emit_codegen_byte_def emit_codegen_signextend_def
    codegen_shl_def codegen_shr_def codegen_sar_def codegen_byte_def codegen_signextend_def alu_shapes
  by ((rule code_implements_cong, ((rule alu_steps | (simp add: ensures_def bounds; fail))+)[1], simp add: Let_def branch_distribs cong: if_cong)[1])+

lemma exp_implemented: "code_implements h exec (\<lambda>_. True) emit_codegen_exp (codegen_exp h)"
  unfolding emit_codegen_exp_def codegen_exp_def
  apply (rule code_implements_cong)
   apply (rule alu_steps code_read [OF checksD(1) [OF checks_at_least]] code_branch code_consume_gas_as_value | (simp add: ensures_def bounds; fail))+
  apply (simp add: Let_def exp_total_gas_def gas_EXP_def)
  done

lemma not_implemented: "code_implements h exec (\<lambda>_. True) emit_codegen_not codegen_not"
proof -
  have "be_nat (replicate 32 0xff) < (2 :: nat) ^ 256" using be_nat_bound [of "replicate 32 0xff"] by simp
  note mask = constant_rules(4) [OF this [simplified], THEN code_value]
  show ?thesis
    unfolding emit_codegen_not_def codegen_not_def alu_shapes
    by (rule code_implements_cong, ((rule mask alu_steps)+)[1], simp)
qed

lemma push_implemented:
  assumes "value_to_push < 2 ^ 256"
  shows "code_implements h exec (\<lambda>_. True) (emit_codegen_push value_to_push is_zero) (codegen_push value_to_push is_zero)"
  unfolding emit_codegen_push_def codegen_push_def
  by (rule code_implements_cong, ((rule constant_rules(4) [OF assms [simplified], THEN code_value] alu_steps)+)[1], simp)

lemma stack_operations_implemented:
  "code_implements h exec (\<lambda>_. True) emit_codegen_pop codegen_pop"
  "0 < unat n \<Longrightarrow> code_implements h exec (\<lambda>_. True) (emit_codegen_dup n) (codegen_dup n)"
  "0 < unat (n + 1) \<Longrightarrow> code_implements h exec (\<lambda>_. True) (emit_codegen_swap n) (codegen_swap n)"
  unfolding emit_codegen_pop_def codegen_pop_def emit_codegen_dup_def codegen_dup_def emit_codegen_swap_def codegen_swap_def
  by ((rule code_implements_cong, ((rule alu_steps get_nth_from_stack_implemented [THEN code_then]
        swap_stack_elements_implemented [THEN code_then] code_prod zero_less_one | assumption)+)[1],
      simp add: and_then_assoc case_prod_unfold)[1])+

end

end
