(* ===== verification/Emit_Env.thy ===== *)
theory Emit_Env
  imports Emit_Alu
begin

text \<open>
  The blocks of the operations that push a value of the environment, of the block or of the machine, and of
  those that look at other accounts or at the call data, as \<open>codegen/operations.rs\<close> emits them, and the proofs that
  they implement the machine model of these operations.
\<close>

section \<open>Constants of the run\<close>

definition emit_push_op :: "mlir_value emit \<Rightarrow> emit_code" where
  "emit_push_op v = emit_then v emit_push_end"

definition emit_codegen_origin :: "operation_ctx \<Rightarrow> emit_code" where
  "emit_codegen_origin x = emit_guarded_gas_first (emit_check_stack_has_space_for 1) gas_ORIGIN
     (emit_push_op (emit_read_back (\<lambda>address_ptr b. opctx_get_origin_syscall x b address_ptr)))"

definition emit_codegen_caller :: "operation_ctx \<Rightarrow> emit_code" where
  "emit_codegen_caller x = emit_guarded_swapped (emit_check_stack_has_space_for 1) gas_CALLER
     (emit_push_op (emit_read_back (\<lambda>caller_ptr b. opctx_store_in_caller_ptr x b caller_ptr)))"

definition emit_codegen_callvalue :: "operation_ctx \<Rightarrow> emit_code" where
  "emit_codegen_callvalue x = emit_guarded_swapped (emit_check_stack_has_space_for 1) gas_CALLVALUE
     (emit_push_op (emit_read_back (\<lambda>callvalue_ptr b. opctx_store_in_callvalue_ptr x b callvalue_ptr)))"

definition emit_codegen_gasprice :: "operation_ctx \<Rightarrow> emit_code" where
  "emit_codegen_gasprice x = emit_guarded_swapped (emit_check_stack_has_space_for 1) gas_GASPRICE
     (emit_push_op (emit_read_back (\<lambda>gasprice_ptr b. opctx_store_in_gasprice_ptr x b gasprice_ptr)))"

definition emit_codegen_number :: "operation_ctx \<Rightarrow> emit_code" where
  "emit_codegen_number x = emit_guarded (emit_check_stack_has_space_for 1) gas_NUMBER (emit_push_op (emit_get_block_number x))"

definition emit_codegen_timestamp :: "operation_ctx \<Rightarrow> emit_code" where
  "emit_codegen_timestamp x = emit_guarded_swapped (emit_check_stack_has_space_for 1) gas_TIMESTAMP
     (emit_push_op (emit_read_back (\<lambda>timestamp_ptr b. opctx_store_in_timestamp_ptr x b timestamp_ptr)))"

definition emit_codegen_basefee :: "operation_ctx \<Rightarrow> emit_code" where
  "emit_codegen_basefee x = emit_guarded_swapped (emit_check_stack_has_space_for 1) gas_BASEFEE (emit_push_op (emit_get_basefee x))"

definition emit_codegen_prevrandao :: "operation_ctx \<Rightarrow> emit_code" where
  "emit_codegen_prevrandao x = emit_guarded (emit_check_stack_has_space_for 1) gas_PREVRANDAO (emit_push_op (emit_get_prevrandao x))"

text \<open>A number of fewer bits is extended before it is pushed.\<close>

definition emit_push_extended :: "mlir_value emit \<Rightarrow> emit_code" where
  "emit_push_extended v = emit_then v (\<lambda>r. emit_then (emit_op (Extui r (Int_type 256))) emit_push_end)"

definition emit_codegen_chaind :: "operation_ctx \<Rightarrow> emit_code" where
  "emit_codegen_chaind x = emit_guarded_swapped (emit_check_stack_has_space_for 1) gas_CHAINID
     (emit_push_extended (opctx_get_chainid_syscall x))"

definition emit_codegen_gaslimit :: "operation_ctx \<Rightarrow> emit_code" where
  "emit_codegen_gaslimit x = emit_guarded_swapped (emit_check_stack_has_space_for 1) gas_GASLIMIT
     (emit_push_extended (opctx_get_gaslimit x))"

text \<open>The cell has 256 bits, of which the system call writes and the code reads 128.\<close>

definition emit_blobbasefee :: "operation_ctx \<Rightarrow> mlir_value emit" where
  "emit_blobbasefee x =
     emit_bind emit_alloca_u256 (\<lambda>blob_base_fee_ptr.
     emit_bind (emit_effect_of (\<lambda>b. opctx_store_in_blobbasefee_ptr x b blob_base_fee_ptr)) (\<lambda>_.
     emit_op (Load blob_base_fee_ptr (Int_type 128))))"

definition emit_codegen_blobbasefee :: "operation_ctx \<Rightarrow> emit_code" where
  "emit_codegen_blobbasefee x = emit_guarded_swapped (emit_check_stack_has_space_for 1) gas_BLOBBASEFEE
     (emit_push_extended (emit_blobbasefee x))"

text \<open>20 bytes behind a pointer, loaded and swapped (the target is little-endian).\<close>

definition emit_load_address :: "mlir_value emit \<Rightarrow> mlir_value emit" where
  "emit_load_address ptr =
     emit_bind ptr (\<lambda>address_ptr.
     emit_bind (emit_op (Load address_ptr (Int_type 160))) (\<lambda>address.
     emit_op (Intr_bswap address (Int_type 160))))"

definition emit_codegen_coinbase :: "operation_ctx \<Rightarrow> emit_code" where
  "emit_codegen_coinbase x = emit_guarded (emit_check_stack_has_space_for 1) gas_COINBASE
     (emit_push_extended (emit_load_address (opctx_get_coinbase_ptr_syscall x)))"

definition emit_codegen_address :: "operation_ctx \<Rightarrow> emit_code" where
  "emit_codegen_address x = emit_guarded (emit_check_stack_has_space_for 1) gas_ADDRESS
     (emit_push_extended (emit_load_address (opctx_get_address_ptr_syscall x)))"

definition emit_codegen_codesize :: "program \<Rightarrow> emit_code" where
  "emit_codegen_codesize p = emit_guarded (emit_check_stack_has_space_for 1) gas_CODESIZE
     (emit_push_op (emit_op (Constant (unat (code_size p)) (Int_type 256))))"

definition emit_codegen_returndatasize :: "operation_ctx \<Rightarrow> emit_code" where
  "emit_codegen_returndatasize x = emit_guarded (emit_check_stack_has_space_for 1) gas_RETURNDATASIZE
     (emit_push_extended (opctx_get_return_data_size x))"

text \<open>The position is cast to \<open>i64\<close>.\<close>

definition emit_codegen_pc :: "nat \<Rightarrow> emit_code" where
  "emit_codegen_pc pc = emit_guarded_swapped (emit_check_stack_has_space_for 1) gas_PC
     (emit_push_op (emit_constant_value_from_i64 (sint (of_nat pc :: u64))))"

definition emit_codegen_msize :: emit_code where
  "emit_codegen_msize = emit_guarded (emit_check_stack_has_space_for 1) gas_MSIZE
     (emit_push_extended (emit_bind (emit_load_global MEMORY_SIZE_GLOBAL (Int_type 32)) (\<lambda>(_, memory_size). emit_value memory_size)))"

definition emit_codegen_gas :: emit_code where
  "emit_codegen_gas = emit_guarded_swapped (emit_check_stack_has_space_for 1) gas_GAS
     (emit_push_extended emit_get_remaining_gas)"

definition emit_codegen_calldatasize :: "operation_ctx \<Rightarrow> emit_code" where
  "emit_codegen_calldatasize x =
     emit_then (emit_consume_gas (unat gas_CALLDATASIZE)) (\<lambda>gas_flag.
     emit_branch gas_flag (emit_push_extended (opctx_get_calldata_size_syscall x)))"

section \<open>Values looked up by a system call\<close>

definition emit_codegen_selfbalance :: "operation_ctx \<Rightarrow> emit_code" where
  "emit_codegen_selfbalance x = emit_guarded_swapped (emit_check_stack_has_space_for 1) gas_SELFBALANCE
     (emit_push_op (emit_read_back (\<lambda>selfbalance_ptr b. opctx_store_in_selfbalance_ptr x b selfbalance_ptr)))"

text \<open>The hash replaces the number in its cell.\<close>

definition emit_block_hash :: "operation_ctx \<Rightarrow> mlir_value \<Rightarrow> mlir_value emit" where
  "emit_block_hash x block_number =
     emit_bind (emit_allocate_and_store_value block_number) (\<lambda>block_number_ptr.
     emit_bind (emit_effect_of (\<lambda>b. opctx_get_block_hash_syscall x b block_number_ptr)) (\<lambda>_.
     emit_op (Load block_number_ptr (Int_type 256))))"

definition emit_codegen_blockhash :: "operation_ctx \<Rightarrow> emit_code" where
  "emit_codegen_blockhash x = emit_guarded_gas_first (emit_check_stack_has_at_least 1) gas_BLOCKHASH
     (emit_then emit_stack_pop (\<lambda>block_number.
      emit_then (emit_block_hash x block_number) emit_push_end))"

definition emit_codegen_blobhash :: "operation_ctx \<Rightarrow> emit_code" where
  "emit_codegen_blobhash x = emit_guarded (emit_check_stack_has_at_least 1) gas_BLOBHASH
     (emit_then emit_stack_pop (\<lambda>index.
      emit_then (emit_allocate_and_store_value index) (\<lambda>index_ptr.
      emit_then (emit_get_blob_hash_at_index x index_ptr) emit_push_end)))"

text \<open>A cell with the key, a cell for the value, and the call that fills it; its result is the gas.\<close>

definition emit_lookup ::
  "mlir_value \<Rightarrow> mlir_value \<Rightarrow> (mlir_value \<Rightarrow> mlir_value \<Rightarrow> mlir_value emit) \<Rightarrow> (mlir_value \<times> mlir_value) emit" where
  "emit_lookup pointer_size key call =
     emit_bind (emit_op (Alloca pointer_size (Int_type 256))) (\<lambda>key_ptr.
     emit_bind (emit_effect (Store key key_ptr)) (\<lambda>_.
     emit_bind (emit_op (Alloca pointer_size (Int_type 256))) (\<lambda>value_ptr.
     emit_bind (call key_ptr value_ptr) (\<lambda>gas_cost.
     emit_value (gas_cost, value_ptr)))))"

definition emit_lookup_op :: "(mlir_value \<Rightarrow> mlir_value \<Rightarrow> mlir_value emit) \<Rightarrow> emit_code" where
  "emit_lookup_op call =
     emit_then (emit_constant_value_from_i64 1) (\<lambda>pointer_size.
     emit_then (emit_check_stack_has_at_least 1) (\<lambda>flag. emit_branch flag
     (emit_then emit_stack_pop (\<lambda>key.
      emit_then (emit_lookup pointer_size key call) (\<lambda>(gas_cost, value_ptr).
      emit_then (emit_consume_gas_as_value gas_cost) (\<lambda>gas_flag. emit_branch gas_flag
      (emit_then (emit_op (Load value_ptr (Int_type 256))) emit_push_end)))))))"

definition emit_codegen_balance :: "operation_ctx \<Rightarrow> emit_code" where
  "emit_codegen_balance x = emit_lookup_op (\<lambda>address_ptr balance_ptr b. opctx_store_in_balance_syscall x b address_ptr balance_ptr)"

definition emit_codegen_sload :: "operation_ctx \<Rightarrow> emit_code" where
  "emit_codegen_sload x = emit_lookup_op (\<lambda>key_ptr read_value_ptr b. opctx_storage_read_syscall x b key_ptr read_value_ptr)"

definition emit_code_size_of :: "operation_ctx \<Rightarrow> mlir_value \<Rightarrow> (mlir_value \<times> mlir_value) emit" where
  "emit_code_size_of x address =
     emit_bind (emit_allocate_and_store_value address) (\<lambda>address_ptr.
     emit_bind emit_allocate_gas_counter_ptr (\<lambda>gas_ptr.
     emit_bind (\<lambda>b. opctx_get_codesize_from_address_syscall x b address_ptr gas_ptr) (\<lambda>codesize.
     emit_bind (emit_op (Load gas_ptr (Int_type 64))) (\<lambda>gas_cost.
     emit_value (codesize, gas_cost)))))"

definition emit_codegen_extcodesize :: "operation_ctx \<Rightarrow> emit_code" where
  "emit_codegen_extcodesize x =
     emit_then (emit_check_stack_has_at_least 1) (\<lambda>flag. emit_branch flag
     (emit_then emit_stack_pop (\<lambda>address.
      emit_then (emit_code_size_of x address) (\<lambda>(codesize, gas_cost).
      emit_then (emit_consume_gas_as_value gas_cost) (\<lambda>gas_flag. emit_branch gas_flag
      (emit_then (emit_op (Extui codesize (Int_type 256))) emit_push_end))))))"

definition emit_code_hash_of :: "operation_ctx \<Rightarrow> mlir_value \<Rightarrow> (mlir_value \<times> mlir_value) emit" where
  "emit_code_hash_of x address =
     emit_bind (emit_allocate_and_store_value address) (\<lambda>address_ptr.
     emit_bind (\<lambda>b. opctx_get_code_hash_syscall x b address_ptr) (\<lambda>gas_cost.
     emit_value (gas_cost, address_ptr)))"

definition emit_codegen_extcodehash :: "operation_ctx \<Rightarrow> emit_code" where
  "emit_codegen_extcodehash x =
     emit_then (emit_check_stack_has_at_least 1) (\<lambda>flag. emit_branch flag
     (emit_then emit_stack_pop (\<lambda>address.
      emit_then (emit_code_hash_of x address) (\<lambda>(gas_cost, address_ptr).
      emit_then (emit_consume_gas_as_value gas_cost) (\<lambda>gas_flag. emit_branch gas_flag
      (emit_then (emit_op (Load address_ptr (Int_type 256))) emit_push_end))))))"

definition emit_transient_read :: "operation_ctx \<Rightarrow> mlir_value \<Rightarrow> mlir_value \<Rightarrow> mlir_value emit" where
  "emit_transient_read x pointer_size key =
     emit_bind (emit_allocate_and_store_value key) (\<lambda>key_ptr.
     emit_bind (emit_op (Alloca pointer_size (Int_type 256))) (\<lambda>read_value_ptr.
     emit_bind (emit_effect_of (\<lambda>b. opctx_transient_storage_read_syscall x b key_ptr read_value_ptr)) (\<lambda>_.
     emit_op (Load read_value_ptr (Int_type 256)))))"

definition emit_codegen_tload :: "operation_ctx \<Rightarrow> emit_code" where
  "emit_codegen_tload x =
     emit_then (emit_constant_value_from_i64 1) (\<lambda>pointer_size.
     emit_guarded (emit_check_stack_has_at_least 1) gas_TLOAD
     (emit_then emit_stack_pop (\<lambda>key.
      emit_then (emit_transient_read x pointer_size key) emit_push_end)))"

section \<open>Call data\<close>

text \<open>The slice is copied over zeros to the free cell on top of the stack.\<close>

definition emit_calldata_slice :: "mlir_value \<Rightarrow> mlir_value \<Rightarrow> mlir_value \<Rightarrow> mlir_value \<Rightarrow> mlir_value \<Rightarrow> unit emit" where
  "emit_calldata_slice zero calldata_ptr off data_size max_slice_width =
     emit_bind emit_get_stack_pointer (\<lambda>stack_ptr.
     emit_bind (emit_effect (Store zero stack_ptr)) (\<lambda>_.
     emit_bind (emit_op (Get_element_ptr_dynamic calldata_ptr off (Int_type 8))) (\<lambda>calldata_ptr_at_offset.
     emit_bind (emit_op (Arith Subi data_size off)) (\<lambda>len.
     emit_bind (emit_op (Arith Minui len max_slice_width)) (\<lambda>len.
     emit_bind (emit_effect (Intr_memcpy stack_ptr calldata_ptr_at_offset len)) (\<lambda>_.
     emit_inc_stack_pointer))))))"

definition emit_codegen_calldataload :: emit_code where
  "emit_codegen_calldataload = emit_guarded (emit_check_stack_has_at_least 1) gas_CALLDATALOAD
     (emit_then emit_stack_pop (\<lambda>off.
      emit_then emit_get_calldata_ptr (\<lambda>calldata_ptr.
      emit_then (emit_constant_value_from_i64 32) (\<lambda>max_slice_width.
      emit_then emit_get_calldata_size (\<lambda>calldata_size_u32.
      emit_then (emit_op (Extui calldata_size_u32 (Int_type 256))) (\<lambda>calldata_size.
      emit_then (emit_op (Constant 0 (Int_type 256))) (\<lambda>zero.
      emit_then (emit_op (Cmpi Pred_ult off calldata_size)) (\<lambda>offset_ok.
      emit_cond_br offset_ok
        (emit_inner
          (emit_then (emit_calldata_slice zero calldata_ptr off calldata_size max_slice_width) (\<lambda>_.
           emit_then emit_stack_pop (\<lambda>calldata_slice.
           emit_then (emit_op (Intr_bswap calldata_slice (Int_type 256))) emit_push_end))))
        (emit_inner (emit_push_end zero))))))))))"

section \<open>The blocks implement the machine model\<close>

lemma knows_slot:
  assumes "knows P (slot_holds w r p)"
  obtains i where "\<And>s. P s \<Longrightarrow> i s < length (l_slots s)" "\<And>s. P s \<Longrightarrow> eval_value s p = Some (Pointer (To_slot (i s)))"
    "\<And>s. P s \<Longrightarrow> l_slots s ! i s = (w, r)"
  using assms unfolding knows_def slot_holds_def by metis

context main_function
begin

lemmas slot_defs = allocate_def store_slot_def slot_value_def ref_u256_def ref_u64_def slot_holds_def gas_consts
  list_update_append integer_constant_from_i64_def
lemmas slot_call_defs = emit_defs emit_basics opctx_defs mlir_defs syscall_ctx exec_defs fragment_defs slot_defs

lemma read_back_store:
  assumes "\<And>p b. call p b = b @ [Func_call g [Argument 0 Ptr, p] []]" and "call_symbol g = Some (ext_store f)"
  shows "implements h exec P (emit_read_back call) (\<lambda>m. Inr (m, to_primitive_u256 (f (m_ctx m)))) (\<lambda>y v. holds v (wnum y))"
  by (simp add: slot_call_defs assms ext_store_def)

lemma read_backs_implemented:
  "implements h exec P (emit_read_back (\<lambda>p b. opctx_get_origin_syscall x b p))
     (\<lambda>m. Inr (m, to_primitive_u256 (get_origin (m_ctx m)))) (\<lambda>y v. holds v (wnum y))"
  "implements h exec P (emit_read_back (\<lambda>p b. opctx_store_in_caller_ptr x b p))
     (\<lambda>m. Inr (m, to_primitive_u256 (store_in_caller_ptr (m_ctx m)))) (\<lambda>y v. holds v (wnum y))"
  "implements h exec P (emit_read_back (\<lambda>p b. opctx_store_in_callvalue_ptr x b p))
     (\<lambda>m. Inr (m, to_primitive_u256 (store_in_callvalue_ptr (m_ctx m)))) (\<lambda>y v. holds v (wnum y))"
  "implements h exec P (emit_read_back (\<lambda>p b. opctx_store_in_gasprice_ptr x b p))
     (\<lambda>m. Inr (m, to_primitive_u256 (store_in_gasprice_ptr (m_ctx m)))) (\<lambda>y v. holds v (wnum y))"
  "implements h exec P (emit_read_back (\<lambda>p b. opctx_store_in_timestamp_ptr x b p))
     (\<lambda>m. Inr (m, to_primitive_u256 (store_in_timestamp_ptr (m_ctx m)))) (\<lambda>y v. holds v (wnum y))"
  "implements h exec P (emit_get_block_number x)
     (\<lambda>m. Inr (m, to_primitive_u256 (get_block_number (m_ctx m)))) (\<lambda>y v. holds v (wnum y))"
  "implements h exec P (emit_get_basefee x)
     (\<lambda>m. Inr (m, to_primitive_u256 (store_in_basefee_ptr (m_ctx m)))) (\<lambda>y v. holds v (wnum y))"
  "implements h exec P (emit_get_prevrandao x)
     (\<lambda>m. Inr (m, to_primitive_u256 (get_prevrandao (m_ctx m)))) (\<lambda>y v. holds v (wnum y))"
  unfolding emit_get_block_number_def emit_get_basefee_def emit_get_prevrandao_def
  by (rule read_back_store, simp add: opctx_defs mlir_defs append_operation_def syscall_ctx, simp)+

lemma selfbalance_implemented:
  "implements h exec P (emit_read_back (\<lambda>p b. opctx_store_in_selfbalance_ptr x b p))
     (\<lambda>m. Inr (case store_in_selfbalance_ptr (m_ctx m) of (c, v) \<Rightarrow> (m\<lparr>m_ctx := c\<rparr>, to_primitive_u256 v))) (\<lambda>y v. holds v (wnum y))"
  by (simp add: slot_call_defs ext_store_in_selfbalance_ptr_def case_prod_beta)

lemma lookup_implemented:
  assumes "\<And>k p b. call k p b = Inr (b @ [Func_call g [Argument 0 Ptr, k, p] [Int_type 64]], Op_result (length b) (Int_type 64))"
    and "call_symbol g = Some (ext_lookup f)"
    and "knows P (holds pointer_size (wnum (of_int 1 :: u256)))" and "knows P (holds key (wnum y))"
  shows "implements h exec P (emit_lookup pointer_size key call)
     (\<lambda>m. Inr (case f (m_ctx m) (halves y) of (c, v, gas) \<Rightarrow> (m\<lparr>m_ctx := c\<rparr>, to_primitive_u256 v, gas)))
     (\<lambda>r v s. holds (fst v) (wnum (snd r)) s \<and> slot_holds 256 (Some (wnum (fst r))) (snd v) s)"
  using assms(3,4)
  by (simp add: slot_call_defs emit_lookup_def assms(1,2) ext_lookup_def case_prod_beta)

lemma lookups_implemented:
  assumes "knows P (holds pointer_size (wnum (of_int 1 :: u256)))" and "knows P (holds key (wnum y))"
  shows "implements h exec P (emit_lookup pointer_size key (\<lambda>k p b. opctx_store_in_balance_syscall x b k p))
     (\<lambda>m. Inr (case store_in_balance (m_ctx m) (halves y) of (c, v, gas) \<Rightarrow> (m\<lparr>m_ctx := c\<rparr>, to_primitive_u256 v, gas)))
     (\<lambda>r v s. holds (fst v) (wnum (snd r)) s \<and> slot_holds 256 (Some (wnum (fst r))) (snd v) s)"
    and "implements h exec P (emit_lookup pointer_size key (\<lambda>k p b. opctx_storage_read_syscall x b k p))
     (\<lambda>m. Inr (case syscall_read_storage (m_ctx m) (halves y) of (c, v, gas) \<Rightarrow> (m\<lparr>m_ctx := c\<rparr>, to_primitive_u256 v, gas)))
     (\<lambda>r v s. holds (fst v) (wnum (snd r)) s \<and> slot_holds 256 (Some (wnum (fst r))) (snd v) s)"
  by (rule lookup_implemented [OF _ _ assms], simp add: opctx_defs mlir_defs append_result_def syscall_ctx, simp)+

lemma block_hash_implemented:
  assumes "knows P (holds v (wnum y))"
  shows "implements h exec P (emit_block_hash x v)
     (\<lambda>m. Inr (case syscall_get_block_hash (m_ctx m) (halves y) of (c, v) \<Rightarrow> (m\<lparr>m_ctx := c\<rparr>, to_primitive_u256 v)))
     (\<lambda>y v. holds v (wnum y))"
  using assms by (simp add: slot_call_defs emit_block_hash_def ext_get_block_hash_def case_prod_beta)

lemma blob_hash_implemented:
  assumes "knows P (slot_holds 256 (Some (wnum y)) p)"
  shows "implements h exec P (emit_get_blob_hash_at_index x p)
     (\<lambda>m. Inr (m, to_primitive_u256 (get_blob_hash_at_index (m_ctx m) (halves y)))) (\<lambda>y v. holds v (wnum y))"
proof -
  obtain i where "\<And>s. P s \<Longrightarrow> i s < length (l_slots s)" "\<And>s. P s \<Longrightarrow> eval_value s p = Some (Pointer (To_slot (i s)))"
    "\<And>s. P s \<Longrightarrow> l_slots s ! i s = (256, Some (wnum y))"
    using knows_slot [OF assms] by metis
  then show ?thesis by (simp add: slot_call_defs ext_read_def less_SucI)
qed

lemma code_size_of_implemented:
  assumes "knows P (holds v (wnum y))"
  shows "implements h exec P (emit_code_size_of x v)
     (\<lambda>m. Inr (case get_codesize_from_address (m_ctx m) (halves y) of (c, n, gas) \<Rightarrow> (m\<lparr>m_ctx := c\<rparr>, n, gas)))
     (\<lambda>r v s. holds (fst v) (wnum (fst r)) s \<and> holds (snd v) (wnum (snd r)) s)"
  using assms by (simp add: slot_call_defs emit_code_size_of_def ext_get_codesize_from_address_def case_prod_beta)

lemma code_hash_of_implemented:
  assumes "knows P (holds v (wnum y))"
  shows "implements h exec P (emit_code_hash_of x v)
     (\<lambda>m. Inr (case get_code_hash (m_ctx m) (halves y) of (c, v, gas) \<Rightarrow> (m\<lparr>m_ctx := c\<rparr>, to_primitive_u256 v, gas)))
     (\<lambda>r v s. holds (fst v) (wnum (snd r)) s \<and> slot_holds 256 (Some (wnum (fst r))) (snd v) s)"
  using assms by (simp add: slot_call_defs emit_code_hash_of_def ext_get_code_hash_def case_prod_beta)

lemma transient_read_implemented:
  assumes "knows P (holds pointer_size (wnum (of_int 1 :: u256)))" and "knows P (holds v (wnum y))"
  shows "implements h exec P (emit_transient_read x pointer_size v)
     (\<lambda>m. Inr (m, to_primitive_u256 (read_transient_storage (m_ctx m) (halves y)))) (\<lambda>y v. holds v (wnum y))"
  using assms by (simp add: slot_call_defs emit_transient_read_def ext_read_def)

lemma load_slot_implemented:
  assumes "knows P (slot_holds w (Some (Num k n)) p)"
  shows "evaluates h exec P (emit_op (Load p (Int_type k))) (\<lambda>v. holds v (Num k n))"
  using assms by (intro evaluates_op) (auto simp: knows_def slot_holds_def slot_value_def or_undefined_def)

text \<open>Functions that return a number of the context.\<close>

lemma context_numbers_implemented:
  "implements h exec P (opctx_get_chainid_syscall x) (\<lambda>m. Inr (m, get_chainid (m_ctx m))) (\<lambda>y v. holds v (wnum y))"
  "implements h exec P (opctx_get_gaslimit x) (\<lambda>m. Inr (m, get_gaslimit (m_ctx m))) (\<lambda>y v. holds v (wnum y))"
  "implements h exec P (opctx_get_return_data_size x) (\<lambda>m. Inr (m, get_return_data_size (m_ctx m))) (\<lambda>y v. holds v (wnum y))"
  "implements h exec P (opctx_get_calldata_size_syscall x) (\<lambda>m. Inr (m, get_calldata_size_syscall (m_ctx m)))
     (\<lambda>y v. holds v (wnum y))"
  "implements h exec P (emit_blobbasefee x) (\<lambda>m. Inr (m, store_in_blobbasefee_ptr (m_ctx m))) (\<lambda>y v. holds v (wnum y))"
  by (simp_all add: slot_call_defs emit_blobbasefee_def ext_get_def ext_store_in_blobbasefee_ptr_def)

text \<open>An address behind a pointer that a system call returns.\<close>

lemma le_nat_word: "le_nat bs mod 2 ^ LENGTH('a) = unat (word_from_le bs :: 'a::len word)"
  by (simp add: word_from_le_def unat_of_nat)

lemma swapped_address: "swapped_bytes 160 (unat a) = unat (bswap (a :: address))"
  using swapped_bytes_word [of a] by simp

lemma addresses_implemented:
  "implements h exec P (emit_load_address (opctx_get_coinbase_ptr_syscall x))
     (\<lambda>m. Inr (m, bswap (word_from_le (get_coinbase_ptr (m_ctx m)) :: address))) (\<lambda>y v. holds v (wnum y))"
  "implements h exec P (emit_load_address (opctx_get_address_ptr_syscall x))
     (\<lambda>m. Inr (m, bswap (word_from_le (get_address_ptr h (m_ctx m)) :: address))) (\<lambda>y v. holds v (wnum y))"
  by (simp_all add: slot_call_defs emit_load_address_def ext_get_def unary_result_def le_nat_word [where 'a = 160, simplified] swapped_address)

lemmas env_reads = read_backs_implemented [THEN code_read] context_numbers_implemented [THEN code_read]
  addresses_implemented [THEN code_read] get_remaining_gas_implemented [THEN code_read]

lemma pushes_implemented:
  "code_implements h exec (\<lambda>_. True) (emit_codegen_origin x) codegen_origin"
  "code_implements h exec (\<lambda>_. True) (emit_codegen_caller x) codegen_caller"
  "code_implements h exec (\<lambda>_. True) (emit_codegen_callvalue x) codegen_callvalue"
  "code_implements h exec (\<lambda>_. True) (emit_codegen_gasprice x) codegen_gasprice"
  "code_implements h exec (\<lambda>_. True) (emit_codegen_number x) codegen_number"
  "code_implements h exec (\<lambda>_. True) (emit_codegen_timestamp x) codegen_timestamp"
  "code_implements h exec (\<lambda>_. True) (emit_codegen_basefee x) codegen_basefee"
  "code_implements h exec (\<lambda>_. True) (emit_codegen_prevrandao x) codegen_prevrandao"
  "code_implements h exec (\<lambda>_. True) (emit_codegen_chaind x) codegen_chaind"
  "code_implements h exec (\<lambda>_. True) (emit_codegen_gaslimit x) codegen_gaslimit"
  "code_implements h exec (\<lambda>_. True) (emit_codegen_blobbasefee x) codegen_blobbasefee"
  "code_implements h exec (\<lambda>_. True) (emit_codegen_coinbase x) codegen_coinbase"
  "code_implements h exec (\<lambda>_. True) (emit_codegen_address x) (codegen_address h)"
  "code_implements h exec (\<lambda>_. True) (emit_codegen_returndatasize x) codegen_returndatasize"
  "code_implements h exec (\<lambda>_. True) emit_codegen_gas codegen_gas"
  unfolding emit_codegen_origin_def emit_codegen_caller_def emit_codegen_callvalue_def emit_codegen_gasprice_def
    emit_codegen_number_def emit_codegen_timestamp_def emit_codegen_basefee_def emit_codegen_prevrandao_def
    emit_codegen_chaind_def emit_codegen_gaslimit_def emit_codegen_blobbasefee_def emit_codegen_coinbase_def
    emit_codegen_address_def emit_codegen_returndatasize_def emit_codegen_gas_def
    shape_defs push_op_def emit_push_op_def emit_push_extended_def
  by ((rule code_implements_cong, ((rule env_reads alu_steps | (simp; fail))+)[1], simp)[1])+

lemma load_u256_implemented:
  assumes "knows P (slot_holds w (Some (wnum (y :: u256))) p)"
  shows "evaluates h exec P (emit_op (Load p (Int_type 256))) (\<lambda>v. holds v (wnum y))"
  using load_slot_implemented [of P w 256 "unat y" p] assms by (simp add: wnum_def)

lemma msize_implemented: "code_implements h exec (\<lambda>_. True) emit_codegen_msize codegen_msize"
proof -
  have m: "implements h exec P (emit_bind (emit_load_global MEMORY_SIZE_GLOBAL (Int_type 32)) (\<lambda>(_, n). emit_value n))
      (\<lambda>m. Inr (m, memory_size m)) (\<lambda>y v. holds v (wnum y))" for P
    by (simp add: slot_call_defs)
  show ?thesis
    unfolding emit_codegen_msize_def codegen_msize_def push_op_def emit_push_extended_def
    by (rule code_implements_cong, ((rule m [THEN code_read] alu_steps | (simp; fail))+)[1], simp)
qed

lemma codesize_implemented: "code_implements h exec (\<lambda>_. True) (emit_codegen_codesize p) (codegen_codesize p)"
proof -
  have "unat (code_size p) < 2 ^ 256" using unat_less_pow [of "code_size p"] by simp
  then have c: "evaluates h exec P (emit_op (Constant (unat (code_size p)) (Int_type 256)))
      (\<lambda>v. holds v (wnum (ucast (code_size p) :: u256)))" for P
    using constant_rules(4) [of "unat (code_size p)" h exec P] by simp
  show ?thesis
    unfolding emit_codegen_codesize_def codegen_codesize_def push_op_def emit_push_op_def
    by (rule code_implements_cong, ((rule c [THEN code_value] alu_steps)+)[1], simp)
qed

lemma pc_implemented: "code_implements h exec (\<lambda>_. True) (emit_codegen_pc pc) (codegen_pc pc)"
  unfolding emit_codegen_pc_def codegen_pc_def push_op_def emit_push_op_def
  by (rule code_implements_cong, ((rule alu_steps)+)[1], simp)

lemmas env_steps = env_reads selfbalance_implemented [THEN code_then] lookups_implemented [THEN code_then]
  block_hash_implemented [THEN code_then] blob_hash_implemented [THEN code_read] code_size_of_implemented [THEN code_then]
  code_hash_of_implemented [THEN code_then] transient_read_implemented [THEN code_read]
  load_u256_implemented [THEN code_value] allocate_and_store_value_implemented [THEN code_value]
  code_read [OF checksD(1) [OF checks_at_least]] code_branch code_consume_gas code_consume_gas_as_value code_prod alu_steps

lemma calldatasize_implemented: "code_implements h exec (\<lambda>_. True) (emit_codegen_calldatasize x) codegen_calldatasize"
  unfolding emit_codegen_calldatasize_def codegen_calldatasize_def emit_push_extended_def
  by (rule code_implements_cong, ((rule env_steps | (simp; fail))+)[1], simp)

lemma account_operations_implemented:
  "code_implements h exec (\<lambda>_. True) (emit_codegen_selfbalance x) codegen_selfbalance"
  "code_implements h exec (\<lambda>_. True) (emit_codegen_blockhash x) codegen_blockhash"
  "code_implements h exec (\<lambda>_. True) (emit_codegen_blobhash x) codegen_blobhash"
  "code_implements h exec (\<lambda>_. True) (emit_codegen_tload x) codegen_tload"
  unfolding emit_codegen_selfbalance_def codegen_selfbalance_def emit_codegen_blockhash_def codegen_blockhash_def
    emit_codegen_blobhash_def codegen_blobhash_def emit_codegen_tload_def codegen_tload_def emit_push_op_def
  by ((rule code_implements_cong, ((rule env_steps | (simp; fail))+)[1], simp add: Let_def case_prod_unfold)[1])+

lemma lookup_operations_implemented:
  "code_implements h exec (\<lambda>_. True) (emit_codegen_balance x) codegen_balance"
  "code_implements h exec (\<lambda>_. True) (emit_codegen_sload x) codegen_sload"
  "code_implements h exec (\<lambda>_. True) (emit_codegen_extcodesize x) codegen_extcodesize"
  "code_implements h exec (\<lambda>_. True) (emit_codegen_extcodehash x) codegen_extcodehash"
  unfolding emit_codegen_balance_def codegen_balance_def emit_codegen_sload_def codegen_sload_def
    emit_codegen_extcodesize_def codegen_extcodesize_def emit_codegen_extcodehash_def codegen_extcodehash_def
    emit_lookup_op_def lookup_op_def
  by ((rule code_implements_cong, ((rule env_steps | (simp; fail))+)[1], simp add: Let_def case_prod_unfold cong: if_cong)[1])+

lemma calldata_globals_implemented:
  "evaluates h exec P emit_get_calldata_ptr (\<lambda>v. holds v (Pointer (To_calldata 0)))"
  "implements h exec P emit_get_calldata_size (\<lambda>m. Inr (m, calldata_size m)) (\<lambda>y v. holds v (wnum y))"
  by (simp_all add: slot_call_defs)

lemma write_cell:
  assumes "k < MAX_STACK_SIZE" and "length bs \<le> 32" and "l_cells s k = 0"
  shows "write_bytes s (To_cell (int k)) bs =
    Some (s\<lparr>l_cells := (l_cells s)(k := word_from_le (bs @ replicate (32 - length bs) 0))\<rparr>)"
proof -
  have z: "word_to_le (0 :: u256) = replicate 32 0" by code_simp
  have "word_from_le (replicate 32 0) = (0 :: u256)" by code_simp
  then have "s\<lparr>l_cells := (l_cells s)(k := word_from_le (replicate 32 0))\<rparr> = s" using assms(3) by (simp add: fun_upd_idem)
  then show ?thesis using assms by (simp add: z)
qed

lemma gep_index_small:
  assumes "unat (y :: u256) < 2 ^ 32"
  shows "gep_index 256 (unat y) = sint y" "sint y = int (unat y)"
  using assms by (simp_all add: gep_index_def signed_value_def sint_unat)

definition slice_of :: "bytes \<Rightarrow> int \<Rightarrow> nat \<Rightarrow> bytes option" where
  "slice_of d i n =
     (if n = 0 then Some [] else if 0 \<le> i \<and> nat i + n \<le> length d then Some (take n (drop (nat i) d)) else None)"

lemma read_calldata: "read_bytes s (To_calldata i) n = slice_of (l_calldata s) i n"
  by (simp add: slice_of_def)

lemma calldata_read_slice: "calldata_read m i n = (case slice_of (m_calldata m) i n of None \<Rightarrow> Inl Undefined_Behaviour | Some bs \<Rightarrow> Inr bs)"
  by (simp add: slice_of_def calldata_read_def)

lemma length_slice_of: "slice_of d i n = Some bs \<Longrightarrow> length bs = n"
  by (auto simp: slice_of_def split: if_splits)

lemma calldata_slice_implemented:
  assumes "knows P (holds zero (wnum (of_nat 0 :: u256)))" and "knows P (holds ptr (Pointer (To_calldata 0)))"
    and "knows P (holds off (wnum (y :: u256)))" and "knows P (holds sz (wnum z))" and "knows P (holds width (wnum (of_int 32 :: u256)))"
    and "ensures P (unat y < 2 ^ 32)"
  shows "implements h exec P (emit_calldata_slice zero ptr off sz width)
    (\<lambda>m. and_then (store_cell m (stack_ptr m) 0) (\<lambda>m.
       and_then (calldata_read m (sint y) (unat (min (z - y) 32))) (\<lambda>bs.
       and_then (store_cell m (stack_ptr m) (word_from_le (bs @ replicate (32 - length bs) 0))) (\<lambda>m.
       Inr (inc_stack_pointer m, ()))))) (\<lambda>_ _ _. True)"
proof -
  have y: "gep_index 256 (unat y) = sint y" if "P s" for s
    using gep_index_small ensuresD [OF assms(6) that] by blast
  define n where "n = unat (min (z - y) 32)"
  have m: "min ((2 ^ 256 + unat z - unat y) mod 2 ^ 256) 32 = n"
    by (simp add: n_def unat_min_max unat_sub_mod)
  have l: "n \<le> 32" by (simp add: n_def unat_min_max)
  define i where "i = sint y"
  let ?f = "\<lambda>m. and_then (store_cell m (stack_ptr m) 0) (\<lambda>m. and_then (calldata_read m i n) (\<lambda>bs.
      and_then (store_cell m (stack_ptr m) (word_from_le (bs @ replicate (32 - length bs) 0))) (\<lambda>m. Inr (inc_stack_pointer m, ()))))"
  let ?ops = "\<lambda>b. [Addressof STACK_PTR_GLOBAL Ptr, Load (Op_result b Ptr) Ptr, Store zero (Op_result (b + 1) Ptr),
      Get_element_ptr_dynamic ptr off (Int_type 8), Arith Subi sz off,
      Arith Minui (Op_result (b + 4) (value_type sz)) width,
      Intr_memcpy (Op_result (b + 1) Ptr) (Op_result (b + 3) Ptr) (Op_result (b + 5) (value_type sz)),
      Addressof STACK_PTR_GLOBAL Ptr, Load (Op_result (b + 7) Ptr) Ptr, Get_element_ptr (Op_result (b + 8) Ptr) 1 (Int_type 256),
      Store (Op_result (b + 9) Ptr) (Op_result (b + 7) Ptr)]"
  have e: "emit_calldata_slice zero ptr off sz width b = Inr (b @ ?ops (length b), ())" for b
    by (simp add: emit_calldata_slice_def emit_defs emit_basics)
  have r: "case ?f m of Inl err \<Rightarrow> exec_ops h exec s (?ops (length b)) = Inl err
      | Inr (m', x) \<Rightarrow> \<exists>s'. exec_ops h exec s (?ops (length b)) = Inr s' \<and> represents s' m' \<and> extends s s' \<and>
          length (l_results s') = length b + length (?ops (length b)) \<and> True"
    if s: "length (l_results s) = length b" "represents s m" "P s" for s m and b :: mlir_block
  proof -
    have v: "eval_value s zero = Some (Num 256 0)" "eval_value s ptr = Some (Pointer (To_calldata 0))"
      "eval_value s off = Some (Num 256 (unat y))" "eval_value s sz = Some (Num 256 (unat z))"
      "eval_value s width = Some (Num 256 32)" "gep_index 256 (unat y) = i"
      using s(3) assms(1-5) y [OF s(3)] by (simp_all add: knows_def holds_def wnum_def i_def)
    note run = emit_calldata_slice_def store_cell_def inc_stack_pointer_def exec_copy_def exec_defs read_calldata calldata_read_slice
      represents_def extends_def
    show ?thesis
    proof (cases "stack_ptr m < MAX_STACK_SIZE")
      case False
      then show ?thesis using s(1,2) v m [simplified] by (simp add: run)
    next
      case True
      show ?thesis
      proof (cases "slice_of (m_calldata m) i n")
        case None
        then show ?thesis using s(1,2) v m [simplified] True by (simp add: run del: read_bytes.simps)
      next
        case (Some bs)
        have "length bs \<le> 32" using length_slice_of [OF Some] l by simp
        then show ?thesis using s(1,2) v m [simplified] True Some by (simp add: run write_cell del: read_bytes.simps write_bytes.simps)
      qed
    qed
  qed
  show ?thesis
    unfolding implements_def n_def [symmetric] i_def [symmetric] using e r by blast
qed

lemma below_calldata_size: "ensures (\<lambda>s. P s \<and> y < (ucast (z :: u32) :: u256)) (unat y < 2 ^ 32)"
  using unat_less_pow [of z] by (auto simp: ensures_def word_less_nat_alt unat_ucast_up)

lemma calldataload_implemented: "code_implements h exec (\<lambda>_. True) emit_codegen_calldataload codegen_calldataload"
  unfolding emit_codegen_calldataload_def codegen_calldataload_def
  by (rule code_implements_cong,
      ((rule calldata_globals_implemented(1) [THEN code_value] calldata_globals_implemented(2) [THEN code_read]
          calldata_slice_implemented [THEN code_then] below_calldata_size env_steps | (simp; fail))+)[1],
      simp add: Let_def and_then_assoc cong: if_cong)

end

end
