(* ===== verification/Emit_Memory.thy ===== *)
theory Emit_Memory
  imports Emit_Env
begin

text \<open>
  The blocks of the operations that read or write the memory of the running contract, as
  \<open>codegen/operations.rs\<close> emits them, and the proofs that they implement the machine model of these operations.
\<close>

section \<open>Emission\<close>

text \<open>A start block that checks the stack only.\<close>

definition emit_checked :: "nat \<Rightarrow> emit_code \<Rightarrow> emit_code" where
  "emit_checked n ok_block = emit_then (emit_check_stack_has_at_least n) (\<lambda>flag. emit_branch flag ok_block)"

definition emit_codegen_mload :: "operation_ctx \<Rightarrow> emit_code" where
  "emit_codegen_mload x = emit_checked 1
     (emit_then emit_stack_pop (\<lambda>off.
      emit_then (emit_op (Trunci off (Int_type 32))) (\<lambda>off.
      emit_then (emit_op (Constant 32 (Int_type 32))) (\<lambda>value_size.
      emit_then (emit_op (Arith Addi off value_size)) (\<lambda>required_size.
      emit_extend_memory x required_size (unat gas_MLOAD)
        (emit_then emit_get_memory_pointer (\<lambda>memory_ptr.
         emit_then (emit_op (Get_element_ptr_dynamic memory_ptr off (Int_type 8))) (\<lambda>memory_destination.
         emit_then (emit_op (Load memory_destination (Int_type 256))) (\<lambda>read_value.
         emit_then (emit_op (Intr_bswap read_value (Int_type 256))) emit_push_end)))))))))"

definition emit_codegen_mstore :: "operation_ctx \<Rightarrow> emit_code" where
  "emit_codegen_mstore x = emit_checked 2
     (emit_then emit_stack_pop (\<lambda>off.
      emit_then emit_stack_pop (\<lambda>v.
      emit_then (emit_op (Trunci off (Int_type 32))) (\<lambda>off.
      emit_then (emit_op (Constant 32 (Int_type 32))) (\<lambda>value_size.
      emit_then (emit_op (Arith Addi off value_size)) (\<lambda>required_size.
      emit_extend_memory x required_size (unat gas_MSTORE)
        (emit_then emit_get_memory_pointer (\<lambda>memory_ptr.
         emit_then (emit_op (Get_element_ptr_dynamic memory_ptr off (Int_type 8))) (\<lambda>memory_destination.
         emit_then (emit_op (Intr_bswap v (Int_type 256))) (\<lambda>v.
         emit_then (emit_effect (Store v memory_destination)) (\<lambda>_. emit_end)))))))))))"

definition emit_codegen_mstore8 :: "operation_ctx \<Rightarrow> emit_code" where
  "emit_codegen_mstore8 x = emit_checked 2
     (emit_then emit_stack_pop (\<lambda>off.
      emit_then emit_stack_pop (\<lambda>v.
      emit_then (emit_op (Trunci v (Int_type 8))) (\<lambda>v.
      emit_then (emit_op (Trunci off (Int_type 32))) (\<lambda>off.
      emit_then (emit_op (Constant 1 (Int_type 32))) (\<lambda>value_size.
      emit_then (emit_op (Arith Addi off value_size)) (\<lambda>required_size.
      emit_extend_memory x required_size (unat gas_MSTORE8)
        (emit_then emit_get_memory_pointer (\<lambda>memory_ptr.
         emit_then (emit_op (Get_element_ptr_dynamic memory_ptr off (Int_type 8))) (\<lambda>memory_destination.
         emit_then (emit_effect (Store v memory_destination)) (\<lambda>_. emit_end)))))))))))"

definition emit_codegen_mcopy :: "operation_ctx \<Rightarrow> emit_code" where
  "emit_codegen_mcopy x = emit_checked 3
     (emit_then emit_stack_pop (\<lambda>dest_offset.
      emit_then emit_stack_pop (\<lambda>off.
      emit_then emit_stack_pop (\<lambda>sz.
      emit_then (emit_op (Trunci off (Int_type 32))) (\<lambda>off.
      emit_then (emit_op (Trunci dest_offset (Int_type 32))) (\<lambda>dest_offset.
      emit_then (emit_op (Trunci sz (Int_type 32))) (\<lambda>sz.
      emit_then (emit_op (Arith Addi off sz)) (\<lambda>src_required_size.
      emit_then (emit_op (Arith Addi dest_offset sz)) (\<lambda>dest_required_size.
      emit_then (emit_op (Arith Maxui src_required_size dest_required_size)) (\<lambda>required_size.
      emit_extend_memory x required_size (unat gas_MCOPY)
        (emit_then emit_get_memory_pointer (\<lambda>memory_ptr.
         emit_then (emit_op (Get_element_ptr_dynamic memory_ptr off (Int_type 8))) (\<lambda>source.
         emit_then (emit_op (Get_element_ptr_dynamic memory_ptr dest_offset (Int_type 8))) (\<lambda>destination.
         emit_then (emit_effect (Intr_memmove destination source sz)) (\<lambda>_.
         emit_then (emit_compute_copy_cost sz) (\<lambda>dynamic_gas.
         emit_then (emit_consume_gas_as_value dynamic_gas) (\<lambda>_. emit_end)))))))))))))))))"

definition emit_codegen_keccak256 :: "operation_ctx \<Rightarrow> emit_code" where
  "emit_codegen_keccak256 x = emit_checked 2
     (emit_then emit_stack_pop (\<lambda>off.
      emit_then emit_stack_pop (\<lambda>sz.
      emit_then (emit_op (Trunci off (Int_type 32))) (\<lambda>off.
      emit_then (emit_op (Trunci sz (Int_type 32))) (\<lambda>sz.
      emit_then (emit_op (Arith Addi off sz)) (\<lambda>required_size.
      emit_then (emit_compute_copy_cost sz) (\<lambda>dynamic_gas_cost.
      emit_then (emit_op (Constant 2 (Int_type 64))) (\<lambda>constant_2.
      emit_then (emit_op (Arith Muli dynamic_gas_cost constant_2)) (\<lambda>dynamic_gas_cost.
      emit_then (emit_consume_gas_as_value dynamic_gas_cost) (\<lambda>gas_flag. emit_branch gas_flag
      (emit_extend_memory x required_size (unat gas_KECCAK256)
        (emit_then (emit_read_back (\<lambda>hash_ptr b. opctx_keccak256_syscall x b off sz hash_ptr)) emit_push_end))))))))))))"

definition emit_codegen_calldatacopy :: "operation_ctx \<Rightarrow> emit_code" where
  "emit_codegen_calldatacopy x = emit_guarded_gas_first (emit_check_stack_has_at_least 3) gas_CALLDATACOPY
     (emit_then emit_stack_pop (\<lambda>dest_offset.
      emit_then emit_stack_pop (\<lambda>call_data_offset.
      emit_then emit_stack_pop (\<lambda>sz.
      emit_then (emit_op (Trunci call_data_offset (Int_type 32))) (\<lambda>call_data_offset.
      emit_then (emit_op (Trunci dest_offset (Int_type 32))) (\<lambda>dest_offset.
      emit_then (emit_op (Trunci sz (Int_type 32))) (\<lambda>sz.
      emit_then (emit_op (Arith Addi dest_offset sz)) (\<lambda>required_memory_size.
      emit_extend_memory x required_memory_size (unat gas_CALLDATACOPY)
        (emit_then emit_get_memory_pointer (\<lambda>memory_ptr.
         emit_then (emit_op (Get_element_ptr_dynamic memory_ptr dest_offset (Int_type 8))) (\<lambda>memory_dest.
         emit_then (emit_op (Constant 0 (Int_type 8))) (\<lambda>zero_value.
         emit_then (emit_effect (Intr_memset memory_dest zero_value sz)) (\<lambda>_.
         emit_then (opctx_get_calldata_size_syscall x) (\<lambda>calldatasize.
         emit_then (emit_op (Cmpi Pred_ugt call_data_offset calldatasize)) (\<lambda>offset_bigger_than_size_flag.
         emit_cond_br offset_bigger_than_size_flag
           (emit_inner emit_end)
           (emit_inner
             (emit_then (emit_op (Arith Subi calldatasize call_data_offset)) (\<lambda>remaining_calldata_size.
              emit_then (emit_op (Arith Minui remaining_calldata_size sz)) (\<lambda>memcpy_len.
              emit_then (opctx_get_calldata_ptr_syscall x) (\<lambda>calldata_ptr.
              emit_then (emit_op (Get_element_ptr_dynamic calldata_ptr call_data_offset (Int_type 8))) (\<lambda>calldata_src.
              emit_then (emit_effect (Intr_memcpy memory_dest calldata_src memcpy_len)) (\<lambda>_. emit_end))))))))))))))))))))))"

definition emit_codegen_codecopy :: "operation_ctx \<Rightarrow> emit_code" where
  "emit_codegen_codecopy x = emit_checked 3
     (emit_then emit_stack_pop (\<lambda>dest_offset.
      emit_then emit_stack_pop (\<lambda>offset_u256.
      emit_then emit_stack_pop (\<lambda>size_u256.
      emit_then (emit_op (Trunci offset_u256 (Int_type 32))) (\<lambda>off.
      emit_then (emit_op (Trunci size_u256 (Int_type 32))) (\<lambda>sz.
      emit_then (emit_op (Trunci dest_offset (Int_type 32))) (\<lambda>dest_offset.
      emit_then (emit_op (Arith Addi dest_offset sz)) (\<lambda>required_size.
      emit_then (emit_compute_copy_cost sz) (\<lambda>dynamic_gas_cost.
      emit_then (emit_consume_gas_as_value dynamic_gas_cost) (\<lambda>flag. emit_branch flag
      (emit_extend_memory x required_size (unat gas_CODECOPY)
        (emit_then (emit_effect_of (\<lambda>b. opctx_copy_code_to_memory_syscall x b off sz dest_offset)) (\<lambda>_. emit_end)))))))))))))"

definition emit_codegen_extcodecopy :: "operation_ctx \<Rightarrow> emit_code" where
  "emit_codegen_extcodecopy x = emit_checked 4
     (emit_then emit_stack_pop (\<lambda>address.
      emit_then emit_stack_pop (\<lambda>dest_offset.
      emit_then emit_stack_pop (\<lambda>offset_u256.
      emit_then emit_stack_pop (\<lambda>size_u256.
      emit_then (emit_op (Trunci offset_u256 (Int_type 32))) (\<lambda>off.
      emit_then (emit_op (Trunci size_u256 (Int_type 32))) (\<lambda>sz.
      emit_then (emit_op (Trunci dest_offset (Int_type 32))) (\<lambda>dest_offset.
      emit_then (emit_op (Arith Addi dest_offset sz)) (\<lambda>required_size.
      emit_then (emit_compute_copy_cost sz) (\<lambda>dynamic_gas_cost.
      emit_then (emit_consume_gas_as_value dynamic_gas_cost) (\<lambda>flag. emit_branch flag
      (emit_extend_memory x required_size 0
        (emit_then (emit_allocate_and_store_value address) (\<lambda>address_ptr.
         emit_then (\<lambda>b. opctx_copy_ext_code_to_memory_syscall x b address_ptr off sz dest_offset) (\<lambda>gas_cost.
         emit_then (emit_consume_gas_as_value gas_cost) (\<lambda>gas_flag.
         emit_branch gas_flag emit_end))))))))))))))))"

definition emit_codegen_returndatacopy :: "operation_ctx \<Rightarrow> emit_code" where
  "emit_codegen_returndatacopy x = emit_checked 3
     (emit_then emit_stack_pop (\<lambda>dest_offset.
      emit_then emit_stack_pop (\<lambda>off.
      emit_then emit_stack_pop (\<lambda>sz.
      emit_then (emit_op (Trunci dest_offset (Int_type 32))) (\<lambda>dest_offset.
      emit_then (emit_op (Trunci off (Int_type 32))) (\<lambda>off.
      emit_then (emit_op (Trunci sz (Int_type 32))) (\<lambda>sz.
      emit_then (emit_compute_copy_cost sz) (\<lambda>copy_gas_cost.
      emit_then (emit_consume_gas_as_value copy_gas_cost) (\<lambda>copy_gas_cost_flag. emit_branch copy_gas_cost_flag
      (emit_then (emit_op (Arith Addi dest_offset sz)) (\<lambda>req_mem_size.
       emit_then (emit_op (Arith Addi off sz)) (\<lambda>req_return_data_size.
       emit_extend_memory x req_mem_size (unat gas_RETURNDATACOPY)
         (emit_then (opctx_get_return_data_size x) (\<lambda>return_data_size.
          emit_then (emit_op (Cmpi Pred_ule req_return_data_size return_data_size)) (\<lambda>req_mem_size_ok.
          emit_branch req_mem_size_ok
            (emit_then (emit_effect_of (\<lambda>b. opctx_copy_return_data_into_memory x b dest_offset off sz)) (\<lambda>_. emit_end)))))))))))))))))"

section \<open>Growing the memory\<close>

context main_function
begin

lemma and_next_simps [simp]:
  "and_next (Inr (m, Next)) k = k m" "and_next (revert m) k = revert m" "and_next (Inl err) k = Inl err"
  "and_next (if p then r else r') k = (if p then and_next r k else and_next r' k)"
  by (simp_all add: and_next_def)

lemma code_set_memory_ptr:
  assumes v: "knows P (holds v (Pointer (buffer_pointer y)))" and k: "code_implements h exec P k f" and P: "stable P"
  shows "code_implements h exec P (emit_then (emit_op (mlir_addressof MEMORY_PTR_GLOBAL Ptr)) (\<lambda>p.
      emit_then (emit_effect (Store v p)) (\<lambda>_. k))) (\<lambda>m. f (m\<lparr>memory_ptr := y\<rparr>))"
  by (rule code_implements_cong, ((rule addressof_implemented [THEN code_value] store_memory_ptr_implemented [THEN code_then]
        code_weaken [OF k] v P fact_rules stable_rules)+)[1], simp)

lemma code_extend_memory:
  assumes v: "knows P (holds v (wnum r))" and fin: "code_implements h exec P fin f" and P: "stable P"
  shows "code_implements h exec P (emit_extend_memory x v (unat g) fin) (\<lambda>m. extend_memory_block h m r g f)"
proof -
  have g: "evaluates h exec Q (emit_op (Constant (unat g) (Int_type 64))) (\<lambda>v. holds v (wnum g))" for Q
    by (rule evaluates_op) (simp_all add: wnum_def)
  show ?thesis
    unfolding emit_extend_memory_def emit_extension_block_def emit_compare_values_def
    by (rule code_implements_cong,
      ((rule load_memory_size_implemented [THEN code_read] code_prod round_up_32_implemented [THEN code_value]
        code_cond_br_join [OF _ _ _ code_weaken [OF fin]] compute_memory_cost_implemented [THEN code_value] g [THEN code_value]
        consume_gas_as_value_implemented [THEN code_then] consume_gas_implemented [THEN code_then]
        extend_memory_syscall_implemented [THEN code_then] store_memory_size_implemented [THEN code_then]
        code_set_memory_ptr target_end target_revert op_compare(6) [THEN code_value] env_steps P v)+)[1],
      simp add: extend_memory_block_def Let_def case_prod_unfold cong: if_cong)
qed

end

section \<open>Access through pointers\<close>

text \<open>A pointer into the buffer that \<open>p\<close> identifies, and the accesses of the machine through it.\<close>

definition pointer_at :: "nat option \<Rightarrow> int \<Rightarrow> pointer" where
  "pointer_at p i = (case p of Some n \<Rightarrow> To_memory n i | None \<Rightarrow> Invalid)"

abbreviation read_via :: "nat option \<Rightarrow> mstate \<Rightarrow> u32 \<Rightarrow> nat \<Rightarrow> bytes res" where
  "read_via p m off n \<equiv> memory_read (m\<lparr>memory_ptr := p\<rparr>) off n"

definition write_via :: "nat option \<Rightarrow> mstate \<Rightarrow> u32 \<Rightarrow> bytes \<Rightarrow> mstate res" where
  "write_via p m off bs =
     and_then (memory_write (m\<lparr>memory_ptr := p\<rparr>) off bs) (\<lambda>m'. Inr (m'\<lparr>memory_ptr := memory_ptr m\<rparr>))"

lemma write_via_self: "write_via (memory_ptr m) m off bs = memory_write m off bs"
  by (simp add: write_via_def memory_write_def)

lemma memory_write_ptr: "memory_write m off bs = Inr m' \<Longrightarrow> memory_ptr m' = memory_ptr m"
  by (auto simp: memory_write_def split: if_splits)

lemma buffer_pointer_at: "buffer_pointer p = pointer_at p 0"
  by (simp add: buffer_pointer_def pointer_at_def)

lemma nat_sint: "0 \<le> sint (y :: u32) \<Longrightarrow> nat (sint y) = unat y"
  using unsigned_less [of y, where ?'a = int] by (cases "unat y < 2 ^ 31") (simp_all add: sint_unat)

lemma read_bytes_via:
  assumes "l_ctx s = m_ctx m"
  shows "or_undefined (read_bytes s (pointer_at p (sint off)) n) Inr = read_via p m off n"
  using assms by (cases p) (auto simp: pointer_at_def or_undefined_def memory_read_def in_memory_def nat_sint)

lemma or_undefined_read:
  assumes "l_ctx s = m_ctx m"
  shows "and_then (read_via p m off n) k = or_undefined (read_bytes s (pointer_at p (sint off)) n) k"
  unfolding read_bytes_via [OF assms, symmetric] by (cases "read_bytes s (pointer_at p (sint off)) n") (simp_all add: or_undefined_def)

lemma write_bytes_via:
  assumes "represents s m"
  shows "case write_via p m off bs of
      Inl err \<Rightarrow> err = Undefined_Behaviour \<and> write_bytes s (pointer_at p (sint off)) bs = None
    | Inr m' \<Rightarrow> \<exists>s'. write_bytes s (pointer_at p (sint off)) bs = Some s' \<and> represents s' m' \<and>
        l_results s' = l_results s \<and> l_args s' = l_args s \<and> l_slots s' = l_slots s"
  using assms
  by (cases p) (auto simp: pointer_at_def write_via_def memory_write_def in_memory_def nat_sint represents_def load_global_def)

text \<open>The numbers that bytes stand for.\<close>

lemma wnum_word_from_le: "length bs = 32 \<Longrightarrow> wnum (word_from_le bs :: u256) = Num 256 (le_nat bs)"
  using be_nat_bound [of "rev bs"] by (simp add: wnum_def word_from_le_def le_nat_def unat_of_nat)

lemma store_bytes: "rev (nat_to_be 32 (unat y)) = word_to_le (y :: u256)" "rev (nat_to_be (Suc 0) (unat b)) = [b :: u8]"
  using unat_less_pow [of b] by (simp_all add: word_to_le_def word_to_be_def)

text \<open>Code may be looked at for one context at a time.\<close>

lemma implements_ctx:
  assumes "\<And>c. implements h exec (\<lambda>s. P s \<and> l_ctx s = c) e f R"
  shows "implements h exec P e f R"
  unfolding implements_def
proof
  fix b
  obtain ops v where e: "e b = Inr (b @ ops, v)" using implementsE [OF assms] by metis
  have "case f m of Inl err \<Rightarrow> exec_ops h exec s ops = Inl err
      | Inr (m', x) \<Rightarrow> \<exists>s'. exec_ops h exec s ops = Inr s' \<and> represents s' m' \<and> extends s s' \<and>
          length (l_results s') = length b + length ops \<and> R x v s'"
    if "length (l_results s) = length b" "represents s m" "P s" for s m
  proof -
    have "\<exists>ops v. e b = Inr (b @ ops, v) \<and> (\<forall>t m. length (l_results t) = length b \<longrightarrow> represents t m \<longrightarrow>
        P t \<and> l_ctx t = l_ctx s \<longrightarrow> (case f m of Inl err \<Rightarrow> exec_ops h exec t ops = Inl err
         | Inr (m', x) \<Rightarrow> \<exists>s'. exec_ops h exec t ops = Inr s' \<and> represents s' m' \<and> extends t s' \<and>
             length (l_results s') = length b + length ops \<and> R x v s'))"
      using assms [of "l_ctx s"] unfolding implements_def by (rule spec)
    then show ?thesis using e that by auto
  qed
  then show "\<exists>ops v. e b = Inr (b @ ops, v) \<and> (\<forall>s m. length (l_results s) = length b \<longrightarrow> represents s m \<longrightarrow> P s \<longrightarrow>
      (case f m of Inl err \<Rightarrow> exec_ops h exec s ops = Inl err
       | Inr (m', x) \<Rightarrow> \<exists>s'. exec_ops h exec s ops = Inr s' \<and> represents s' m' \<and> extends s s' \<and>
           length (l_results s') = length b + length ops \<and> R x v s'))"
    using e by blast
qed

text \<open>An operation whose result depends on the machine.\<close>

lemma implements_read:
  assumes "\<And>s m. represents s m \<Longrightarrow> P s \<Longrightarrow> exec_op h exec s op = and_then (r m) (\<lambda>y. Inr (done_op (Some (enc y)) s))"
    and "op_results op = [t]"
  shows "implements h exec P (emit_op op) (\<lambda>m. and_then (r m) (\<lambda>y. Inr (m, y))) (\<lambda>y v. holds v (enc y))"
proof -
  have w: "case and_then (r m) (\<lambda>y. Inr (m, y)) of
      Inl err \<Rightarrow> exec_ops h exec s [op] = Inl err
    | Inr (m', y) \<Rightarrow> \<exists>s'. exec_ops h exec s [op] = Inr s' \<and> represents s' m' \<and> extends s s' \<and>
        length (l_results s') = length (l_results s) + 1 \<and> holds (Op_result (length (l_results s)) t) (enc y) s'"
    if "represents s m" "P s" for s m
    using that assms(1) [OF that]
    by (cases "r m") (auto simp: done_op_def represents_results extends_def holds_def nth_append)
  show ?thesis unfolding implements_def emit_op_def append_result_def assms(2)
    by (intro allI exI [of _ "[op]"] exI conjI impI, simp) (use w in \<open>force split: sum.splits\<close>)
qed

text \<open>Calls that may fault, without and with a result.\<close>

lemma implements_call:
  assumes "\<And>s m. represents s m \<Longrightarrow> P s \<Longrightarrow> exec_op h exec s op = and_then (r m) (\<lambda>c. Inr (done_op None (s\<lparr>l_ctx := c\<rparr>)))"
  shows "implements h exec P (emit_effect op) (\<lambda>m. and_then (r m) (\<lambda>c. Inr (m\<lparr>m_ctx := c\<rparr>, ()))) (\<lambda>_ _ _. True)"
proof -
  have w: "case and_then (r m) (\<lambda>c. Inr (m\<lparr>m_ctx := c\<rparr>, ())) of
      Inl err \<Rightarrow> exec_ops h exec s [op] = Inl err
    | Inr (m', y) \<Rightarrow> \<exists>s'. exec_ops h exec s [op] = Inr s' \<and> represents s' m' \<and> extends s s' \<and> length (l_results s') = length (l_results s) + 1"
    if "represents s m" "P s" for s m
    using that assms [OF that] by (cases "r m") (auto simp: done_op_def represents_def load_global_def extends_def)
  show ?thesis unfolding implements_def emit_effect_def append_operation_def
    by (intro allI exI [of _ "[op]"] exI [of _ "()"] conjI impI) (use w in \<open>force split: sum.splits\<close>)+
qed

lemma implements_call_result:
  assumes "\<And>s m. represents s m \<Longrightarrow> P s \<Longrightarrow>
      exec_op h exec s op = and_then (r m) (\<lambda>(c, y). Inr (done_op (Some (enc y)) (s\<lparr>l_ctx := c\<rparr>)))"
    and "op_results op = [t]"
  shows "implements h exec P (emit_op op) (\<lambda>m. and_then (r m) (\<lambda>(c, y). Inr (m\<lparr>m_ctx := c\<rparr>, y))) (\<lambda>y v. holds v (enc y))"
proof -
  have w: "case and_then (r m) (\<lambda>(c, y). Inr (m\<lparr>m_ctx := c\<rparr>, y)) of
      Inl err \<Rightarrow> exec_ops h exec s [op] = Inl err
    | Inr (m', y) \<Rightarrow> \<exists>s'. exec_ops h exec s [op] = Inr s' \<and> represents s' m' \<and> extends s s' \<and>
        length (l_results s') = length (l_results s) + 1 \<and> holds (Op_result (length (l_results s)) t) (enc y) s'"
    if "represents s m" "P s" for s m
    using that assms(1) [OF that]
    by (cases "r m") (auto simp: done_op_def represents_def load_global_def extends_def holds_def nth_append)
  show ?thesis unfolding implements_def emit_op_def append_result_def assms(2)
    by (intro allI exI [of _ "[op]"] exI conjI impI, simp) (use w in \<open>force split: sum.splits\<close>)
qed

text \<open>An operation that writes bytes, which it may have read elsewhere.\<close>

lemma implements_write:
  assumes "\<And>s m. represents s m \<Longrightarrow> P s \<Longrightarrow> exec_op h exec s op =
      and_then (r m) (\<lambda>bs. or_undefined (write_bytes s (pointer_at p (sint off)) bs) (\<lambda>s. Inr (done_op None s)))"
  shows "implements h exec P (emit_effect op) (\<lambda>m. and_then (r m) (\<lambda>bs. and_then (write_via p m off bs) (\<lambda>m. Inr (m, ())))) (\<lambda>_ _ _. True)"
proof -
  have w: "case and_then (r m) (\<lambda>bs. and_then (write_via p m off bs) (\<lambda>m. Inr (m, ()))) of
      Inl err \<Rightarrow> exec_ops h exec s [op] = Inl err
    | Inr (m', x) \<Rightarrow> \<exists>s'. exec_ops h exec s [op] = Inr s' \<and> represents s' m' \<and> extends s s' \<and> length (l_results s') = length (l_results s) + 1"
    if "represents s m" "P s" for s m
  proof (cases "r m")
    case (Inl err)
    then show ?thesis using assms [OF that] by simp
  next
    case (Inr bs)
    then show ?thesis using assms [OF that] write_bytes_via [OF that(1), of p off bs]
      by (cases "write_via p m off bs") (auto simp: or_undefined_def done_op_def represents_results extends_def)
  qed
  show ?thesis unfolding implements_def emit_effect_def append_operation_def
    by (intro allI exI [of _ "[op]"] exI [of _ "()"] conjI impI) (use w in \<open>force split: sum.splits\<close>)+
qed

context main_function
begin

lemma gep_buffer_implemented:
  assumes "knows P (holds mp (Pointer (buffer_pointer p)))" and "knows P (holds off (wnum (y :: u32)))"
  shows "evaluates h exec P (emit_op (Get_element_ptr_dynamic mp off (Int_type 8))) (\<lambda>v. holds v (Pointer (pointer_at p (sint y))))"
  using assms signed_value_sint [of y] unat_less_pow [of y]
  by (cases p) (auto intro!: evaluates_op simp: knows_def holds_def wnum_def buffer_pointer_def pointer_at_def gep_index_def or_undefined_def)

lemma load_memory_implemented:
  assumes "knows P (holds v (Pointer (pointer_at p (sint off))))"
  shows "implements h exec P (emit_op (Load v (Int_type 256)))
     (\<lambda>m. and_then (and_then (read_via p m off 32) (\<lambda>bs. Inr (word_from_le bs :: u256))) (\<lambda>y. Inr (m, y)))
     (\<lambda>y v. holds v (wnum y))"
proof (rule implements_read)
  fix s m
  assume s: "represents s m" "P s"
  have "load_from s (pointer_at p (sint off)) (Int_type 256) =
      map_option (\<lambda>bs. wnum (word_from_le bs :: u256)) (read_bytes s (pointer_at p (sint off)) 32)"
    by (cases p) (auto simp: pointer_at_def intro!: wnum_word_from_le [symmetric])
  moreover have "eval_value s v = Some (Pointer (pointer_at p (sint off)))" using knowsD [OF assms s(2)] by (simp add: holds_def)
  moreover have "l_ctx s = m_ctx m" using s(1) by (simp add: represents_def)
  ultimately show "exec_op h exec s (Load v (Int_type 256)) =
      and_then (and_then (read_via p m off 32) (\<lambda>bs. Inr (word_from_le bs :: u256))) (\<lambda>y. Inr (done_op (Some (wnum y)) s))"
    unfolding read_bytes_via [symmetric, of s m p off 32]
    by (cases "read_bytes s (pointer_at p (sint off)) 32") (simp_all add: or_undefined_def read_bytes_via [symmetric])
qed simp

lemma store_memory_implemented:
  assumes "knows P (holds d (Pointer (pointer_at p (sint off))))"
  shows "knows P (holds v (wnum (y :: u256))) \<Longrightarrow> implements h exec P (emit_effect (Store v d))
      (\<lambda>m. and_then (write_via p m off (word_to_le y)) (\<lambda>m. Inr (m, ()))) (\<lambda>_ _ _. True)"
    and "knows P (holds v (wnum (b :: u8))) \<Longrightarrow> implements h exec P (emit_effect (Store v d))
      (\<lambda>m. and_then (write_via p m off [b]) (\<lambda>m. Inr (m, ()))) (\<lambda>_ _ _. True)"
proof -
  have "exec_op h exec s (Store v d) = or_undefined (write_bytes s (pointer_at p (sint off)) bs) (\<lambda>s. Inr (done_op None s))"
    if "P s" "eval_value s v = Some (Num w n)" "8 dvd w" "bs \<noteq> []" "bs = rev (nat_to_be (w div 8) n)" for s w n bs
    using that knowsD [OF assms that(1)] by (cases p) (auto simp: holds_def pointer_at_def or_undefined_def)
  then have w: "implements h exec P (emit_effect (Store v d)) (\<lambda>m. and_then (write_via p m off bs) (\<lambda>m. Inr (m, ()))) (\<lambda>_ _ _. True)"
    if "knows P (holds v (Num w n))" "8 dvd w" "bs \<noteq> []" "bs = rev (nat_to_be (w div 8) n)" for w n bs
    using that by (intro implements_write [where r = "\<lambda>_. Inr bs", simplified]) (auto simp: knows_def holds_def)
  have "length (word_to_le y) = 32" by (simp add: word_to_le_def word_to_be_def)
  then have "word_to_le y \<noteq> []" by (metis length_0_conv zero_neq_numeral)
  then show "knows P (holds v (wnum y)) \<Longrightarrow> implements h exec P (emit_effect (Store v d))
      (\<lambda>m. and_then (write_via p m off (word_to_le y)) (\<lambda>m. Inr (m, ()))) (\<lambda>_ _ _. True)"
    by (intro w [of 256 "unat y"]) (simp_all add: wnum_def store_bytes)
  show "knows P (holds v (wnum b)) \<Longrightarrow> implements h exec P (emit_effect (Store v d))
      (\<lambda>m. and_then (write_via p m off [b]) (\<lambda>m. Inr (m, ()))) (\<lambda>_ _ _. True)"
    using w [of 8 "unat b" "[b]"] store_bytes(2) [of b] by (simp add: wnum_def)
qed

lemma memset_implemented:
  assumes "knows P (holds d (Pointer (pointer_at p (sint off))))" and "knows P (holds v (wnum (b :: u8)))"
    and "knows P (holds n (wnum (sz :: u32)))"
  shows "implements h exec P (emit_effect (Intr_memset d v n))
    (\<lambda>m. and_then (write_via p m off (replicate (unat sz) b)) (\<lambda>m. Inr (m, ()))) (\<lambda>_ _ _. True)"
  using assms
  by (rule_tac implements_write [where r = "\<lambda>_. Inr _", simplified])
     (auto simp: knows_def holds_def wnum_def)

lemma memmove_implemented:
  assumes "knows P (holds d (Pointer (pointer_at p (sint off))))" and "knows P (holds v (Pointer (pointer_at q (sint src))))"
    and "knows P (holds n (wnum (sz :: u32)))"
  shows "implements h exec P (emit_effect (Intr_memmove d v n))
    (\<lambda>m. and_then (read_via q m src (unat sz)) (\<lambda>bs. and_then (write_via p m off bs) (\<lambda>m. Inr (m, ())))) (\<lambda>_ _ _. True)"
proof (rule implements_write)
  fix s m
  assume s: "represents s m" "P s"
  then have "l_ctx s = m_ctx m" by (simp add: represents_def)
  then show "exec_op h exec s (Intr_memmove d v n) = and_then (read_via q m src (unat sz))
      (\<lambda>bs. or_undefined (write_bytes s (pointer_at p (sint off)) bs) (\<lambda>s. Inr (done_op None s)))"
    using s(2) assms by (simp add: knows_def holds_def wnum_def exec_copy_def or_undefined_read [symmetric])
qed

lemma memcpy_calldata_implemented:
  assumes "knows P (holds d (Pointer (pointer_at p (sint off))))" and "knows P (holds v (Pointer (To_calldata (sint (src :: u32)))))"
    and "knows P (holds n (wnum (sz :: u32)))"
  shows "implements h exec P (emit_effect (Intr_memcpy d v n))
    (\<lambda>m. and_then (calldata_read m (sint src) (unat sz)) (\<lambda>bs. and_then (write_via p m off bs) (\<lambda>m. Inr (m, ())))) (\<lambda>_ _ _. True)"
proof (rule implements_write)
  fix s m
  assume s: "represents s m" "P s"
  then have "l_ctx s = m_ctx m" by (simp add: represents_def)
  then show "exec_op h exec s (Intr_memcpy d v n) = and_then (calldata_read m (sint src) (unat sz))
      (\<lambda>bs. or_undefined (write_bytes s (pointer_at p (sint off)) bs) (\<lambda>s. Inr (done_op None s)))"
    using s(2) assms
    by (cases "slice_of (m_calldata m) (sint src) (unat sz)")
       (simp_all add: knows_def holds_def wnum_def exec_copy_def read_calldata calldata_read_slice or_undefined_def del: read_bytes.simps)
qed

lemma calldata_pointer_implemented:
  "evaluates h exec P (opctx_get_calldata_ptr_syscall x) (\<lambda>v. holds v (Pointer (To_calldata 0)))"
  by (simp add: slot_call_defs ext_get_def)

lemma gep_calldata_implemented:
  assumes "knows P (holds ptr (Pointer (To_calldata 0)))" and "knows P (holds off (wnum (y :: u32)))"
  shows "evaluates h exec P (emit_op (Get_element_ptr_dynamic ptr off (Int_type 8))) (\<lambda>v. holds v (Pointer (To_calldata (sint y))))"
  using assms signed_value_sint [of y] unat_less_pow [of y]
  by (auto intro!: evaluates_op simp: knows_def holds_def wnum_def gep_index_def or_undefined_def)

lemma emit_effect_call: "emit_effect_of (\<lambda>b. append_operation b op) = emit_effect op"
  by (simp add: fun_eq_iff emit_effect_of_def emit_effect_def)

lemma emit_result_call: "(\<lambda>b. append_result b op) = emit_op op"
  by (simp add: fun_eq_iff emit_op_def)

lemmas call_defs = knows_def holds_def wnum_def represents_def or_undefined_def and_then_assoc case_prod_unfold

lemma copies_implemented:
  assumes "knows P (holds u (wnum a))" and "knows P (holds v (wnum b))" and "knows P (holds w (wnum c))"
  shows "implements h exec P (emit_effect_of (\<lambda>bl. opctx_copy_code_to_memory_syscall x bl u v w))
      (\<lambda>m. and_then (copy_code_to_memory (m_ctx m) a b c) (\<lambda>c. Inr (m\<lparr>m_ctx := c\<rparr>, ()))) (\<lambda>_ _ _. True)"
    and "implements h exec P (emit_effect_of (\<lambda>bl. opctx_copy_return_data_into_memory x bl u v w))
      (\<lambda>m. and_then (copy_return_data_into_memory (m_ctx m) a b c) (\<lambda>c. Inr (m\<lparr>m_ctx := c\<rparr>, ()))) (\<lambda>_ _ _. True)"
  unfolding opctx_defs mlir_defs emit_effect_call syscall_ctx
  by (rule implements_call, use assms in \<open>simp add: call_defs ext_copy_def\<close>)+

lemma copy_ext_code_implemented:
  assumes "knows P (slot_holds 256 (Some (wnum (y :: u256))) p)"
    and "knows P (holds u (wnum a))" and "knows P (holds v (wnum b))" and "knows P (holds w (wnum c))"
  shows "implements h exec P (\<lambda>bl. opctx_copy_ext_code_to_memory_syscall x bl p u v w)
      (\<lambda>m. and_then (copy_ext_code_to_memory (m_ctx m) (halves y) a b c) (\<lambda>(c, gas). Inr (m\<lparr>m_ctx := c\<rparr>, gas)))
      (\<lambda>y v. holds v (wnum y))"
proof -
  obtain i where i: "\<And>s. P s \<Longrightarrow> i s < length (l_slots s)" "\<And>s. P s \<Longrightarrow> eval_value s p = Some (Pointer (To_slot (i s)))"
    "\<And>s. P s \<Longrightarrow> l_slots s ! i s = (256, Some (wnum y))"
    using knows_slot [OF assms(1)] by metis
  show ?thesis
    unfolding opctx_defs mlir_defs emit_result_call syscall_ctx
    by (rule implements_call_result, use assms(2-4) i in \<open>simp add: call_defs ext_copy_ext_code_to_memory_def ref_u256_def slot_value_def\<close>) simp
qed

lemma keccak_implemented:
  assumes "knows P (holds u (wnum a))" and "knows P (holds v (wnum b))"
  shows "implements h exec P (emit_read_back (\<lambda>hash_ptr bl. opctx_keccak256_syscall x bl u v hash_ptr))
      (\<lambda>m. and_then (keccak256_hasher h (m_ctx m) a b) (\<lambda>(c, hash). Inr (m\<lparr>m_ctx := c\<rparr>, to_primitive_u256 hash)))
      (\<lambda>y v. holds v (wnum y))"
proof (rule implements_ctx)
  fix c
  show "implements h exec (\<lambda>s. P s \<and> l_ctx s = c) (emit_read_back (\<lambda>hash_ptr bl. opctx_keccak256_syscall x bl u v hash_ptr))
      (\<lambda>m. and_then (keccak256_hasher h (m_ctx m) a b) (\<lambda>(c, hash). Inr (m\<lparr>m_ctx := c\<rparr>, to_primitive_u256 hash)))
      (\<lambda>y v. holds v (wnum y))"
    using assms by (cases "keccak256_hasher h c a b") (auto simp: slot_call_defs ext_keccak256_hasher_def)
qed

lemmas memory_steps = code_extend_memory code_extend_memory [where g = 0, simplified]
  get_memory_pointer_implemented [THEN code_read] gep_buffer_implemented [THEN code_value] memset_implemented [THEN code_then]
  memmove_implemented [THEN code_then] compute_copy_cost_implemented [THEN code_value] copies_implemented [THEN code_then]
  copy_ext_code_implemented [THEN code_then] keccak_implemented [THEN code_then]
  env_steps

lemmas memory_simps = Let_def case_prod_unfold write_via_self and_then_assoc

lemma loads_and_stores_implemented:
  "code_implements h exec (\<lambda>_. True) (emit_codegen_mload x) (codegen_mload h)"
  "code_implements h exec (\<lambda>_. True) (emit_codegen_mstore x) (codegen_mstore h)"
  "code_implements h exec (\<lambda>_. True) (emit_codegen_mstore8 x) (codegen_mstore8 h)"
  "code_implements h exec (\<lambda>_. True) (emit_codegen_mcopy x) (codegen_mcopy h)"
  unfolding emit_codegen_mload_def codegen_mload_def emit_codegen_mstore_def codegen_mstore_def
    emit_codegen_mstore8_def codegen_mstore8_def emit_codegen_mcopy_def codegen_mcopy_def emit_checked_def
  subgoal by (rule code_implements_cong, ((rule load_memory_implemented [THEN code_then] memory_steps | (simp; fail))+)[1], simp add: memory_simps)
  subgoal by (rule code_implements_cong, ((rule store_memory_implemented(1) [THEN code_then] memory_steps | (simp; fail))+)[1], simp add: memory_simps)
  subgoal by (rule code_implements_cong, ((rule store_memory_implemented(2) [THEN code_then] memory_steps | (simp; fail))+)[1], simp add: memory_simps)
  subgoal by (rule code_implements_cong, ((rule memory_steps | (simp; fail))+)[1], simp add: memory_simps)
  done

lemma system_copies_implemented:
  "code_implements h exec (\<lambda>_. True) (emit_codegen_keccak256 x) (codegen_keccak256 h)"
  "code_implements h exec (\<lambda>_. True) (emit_codegen_codecopy x) (codegen_codecopy h)"
  "code_implements h exec (\<lambda>_. True) (emit_codegen_extcodecopy x) (codegen_extcodecopy h)"
  "code_implements h exec (\<lambda>_. True) (emit_codegen_returndatacopy x) (codegen_returndatacopy h)"
  unfolding emit_codegen_keccak256_def codegen_keccak256_def emit_codegen_codecopy_def codegen_codecopy_def
    emit_codegen_extcodecopy_def codegen_extcodecopy_def emit_codegen_returndatacopy_def codegen_returndatacopy_def emit_checked_def
  by ((rule code_implements_cong, ((rule memory_steps | (simp; fail))+)[1], simp add: memory_simps cong: if_cong)[1])+

text \<open>The destination of \<open>CALLDATACOPY\<close> is computed once, for two writes.\<close>

lemma write_after_write: "memory_write m a bs = Inr m' \<Longrightarrow> write_via (memory_ptr m) m' off bs' = memory_write m' off bs'"
  by (metis memory_write_ptr write_via_self)

lemma knows_drop: "knows (\<lambda>s. (P s \<and> Q s) \<and> R s) (\<lambda>s. P s \<and> R s)"
  by (simp add: knows_def)

lemma code_calldata_source:
  assumes off: "knows P (holds off (wnum (y :: u32)))" and P: "stable P"
    and k: "\<And>v. code_implements h exec (\<lambda>s. P s \<and> holds v (Pointer (To_calldata (sint y))) s) (k v) f"
  shows "code_implements h exec P (emit_then (opctx_get_calldata_ptr_syscall x) (\<lambda>p.
      emit_then (emit_op (Get_element_ptr_dynamic p off (Int_type 8))) k)) f"
  by (rule calldata_pointer_implemented [THEN code_value] gep_calldata_implemented [THEN code_value] code_weaken [OF k knows_drop]
        knows_last knows_before off stable_conj stable_holds P)+

lemma calldatacopy_implemented: "code_implements h exec (\<lambda>_. True) (emit_codegen_calldatacopy x) (codegen_calldatacopy h)"
  unfolding emit_codegen_calldatacopy_def codegen_calldatacopy_def
  apply (rule code_implements_cong)
  apply ((rule code_calldata_source memcpy_calldata_implemented [THEN code_then] memory_steps | (simp; fail))+)[1]
  apply (simp add: memory_simps write_after_write cong: if_cong and_then_cong)
  done

end

end
