(* ===== verification/Emit_World.thy ===== *)
theory Emit_World
  imports Emit_Memory
begin

text \<open>
  The blocks of the operations that change the state of the world, call and create contracts, or leave the straight
  line, as \<open>codegen/operations.rs\<close> and \<open>call_syscall\<close> of \<open>codegen/context.rs\<close> emit them, the table that
  dispatches an operation to its code, and the proofs that they implement the machine model of these operations.
\<close>

section \<open>Storage, logs, self-destruction\<close>

definition emit_codegen_sstore :: "operation_ctx \<Rightarrow> emit_code" where
  "emit_codegen_sstore x =
     emit_then emit_check_context_is_not_static (\<lambda>ok_context_flag.
     emit_then (emit_check_stack_has_at_least 2) (\<lambda>ok_stack_flag.
     emit_then (emit_op (Arith Andi ok_context_flag ok_stack_flag)) (\<lambda>ok_flag. emit_branch ok_flag
     (emit_then emit_stack_pop (\<lambda>key.
      emit_then emit_stack_pop (\<lambda>v.
      emit_then (emit_allocate_and_store_value key) (\<lambda>key_ptr.
      emit_then (emit_allocate_and_store_value v) (\<lambda>value_ptr.
      emit_then (\<lambda>b. opctx_storage_write_syscall x b key_ptr value_ptr) (\<lambda>gas_cost.
      emit_then (emit_op (Constant (unat gas_SSTORE_MIN_REMAINING_GAS) (Int_type 64))) (\<lambda>min_remaining_gas.
      emit_then (emit_load_global GAS_COUNTER_GLOBAL (Int_type 64)) (\<lambda>(gas_counter_ptr, gas_counter).
      emit_then (emit_op (Arith Subi gas_counter gas_cost)) (\<lambda>remaining_gas.
      emit_then (emit_op (Cmpi Pred_sge remaining_gas min_remaining_gas)) (\<lambda>flag. emit_branch flag
      (emit_then (emit_effect (Store remaining_gas gas_counter_ptr)) (\<lambda>_. emit_end)))))))))))))))"

definition emit_store_slot :: "mlir_value \<Rightarrow> mlir_value \<Rightarrow> mlir_value emit" where
  "emit_store_slot pointer_size v =
     emit_bind (emit_op (Alloca pointer_size (Int_type 256))) (\<lambda>ptr.
     emit_bind (emit_effect (Store v ptr)) (\<lambda>_. emit_value ptr))"

definition emit_codegen_tstore :: "operation_ctx \<Rightarrow> emit_code" where
  "emit_codegen_tstore x =
     emit_then (emit_constant_value_from_i64 1) (\<lambda>pointer_size.
     emit_guarded (emit_check_stack_has_at_least 2) gas_TSTORE
     (emit_then emit_stack_pop (\<lambda>key.
      emit_then emit_stack_pop (\<lambda>v.
      emit_then (emit_store_slot pointer_size key) (\<lambda>key_ptr.
      emit_then (emit_store_slot pointer_size v) (\<lambda>value_ptr.
      emit_then (emit_effect_of (\<lambda>b. opctx_transient_storage_write_syscall x b key_ptr value_ptr)) (\<lambda>_. emit_end)))))))"

text \<open>The topics are popped after the memory was extended, each into a cell of its own.\<close>

primrec emit_topics :: "nat \<Rightarrow> (mlir_value list \<Rightarrow> emit_code) \<Rightarrow> emit_code" where
  "emit_topics 0 k = k []"
| "emit_topics (Suc n) k =
     emit_then emit_stack_pop (\<lambda>topic.
     emit_then (emit_allocate_and_store_value topic) (\<lambda>topic_ptr.
     emit_topics n (\<lambda>topic_pointers. k (topic_ptr # topic_pointers))))"

definition emit_append_log :: "operation_ctx \<Rightarrow> u8 \<Rightarrow> mlir_value \<Rightarrow> mlir_value \<Rightarrow> mlir_value list \<Rightarrow> unit emit" where
  "emit_append_log x n off sz t =
     (if n = 0 then emit_effect_of (\<lambda>b. opctx_append_log_syscall x b off sz)
      else if n = 1 then emit_effect_of (\<lambda>b. opctx_append_log_with_one_topic_syscall x b off sz (t ! 0))
      else if n = 2 then emit_effect_of (\<lambda>b. opctx_append_log_with_two_topics_syscall x b off sz (t ! 0) (t ! 1))
      else if n = 3 then emit_effect_of (\<lambda>b. opctx_append_log_with_three_topics_syscall x b off sz (t ! 0) (t ! 1) (t ! 2))
      else if n = 4 then emit_effect_of (\<lambda>b. opctx_append_log_with_four_topics_syscall x b off sz (t ! 0) (t ! 1) (t ! 2) (t ! 3))
      else (\<lambda>b. Inl Panicked))"

definition emit_codegen_log :: "operation_ctx \<Rightarrow> u8 \<Rightarrow> emit_code" where
  "emit_codegen_log x n =
     emit_then (emit_check_stack_has_at_least (unat (2 + n))) (\<lambda>stack_flag.
     emit_then emit_check_context_is_not_static (\<lambda>context_flag.
     emit_then (emit_op (Arith Andi context_flag stack_flag)) (\<lambda>ok_flag. emit_branch ok_flag
     (emit_then emit_stack_pop (\<lambda>offset_u256.
      emit_then emit_stack_pop (\<lambda>size_u256.
      emit_then (emit_op (Trunci offset_u256 (Int_type 32))) (\<lambda>off.
      emit_then (emit_op (Trunci size_u256 (Int_type 32))) (\<lambda>sz.
      emit_then (emit_op (Arith Addi off sz)) (\<lambda>required_size.
      emit_then (emit_compute_log_dynamic_gas (unat n) size_u256) (\<lambda>dynamic_gas.
      emit_then (emit_consume_gas_as_value dynamic_gas) (\<lambda>_.
      emit_extend_memory x required_size (unat gas_LOG)
        (emit_topics (unat n) (\<lambda>topic_pointers.
         emit_then (emit_append_log x n off sz topic_pointers) (\<lambda>_. emit_end))))))))))))))"

definition emit_codegen_selfdestruct :: "operation_ctx \<Rightarrow> emit_code" where
  "emit_codegen_selfdestruct x =
     emit_then (emit_consume_gas (unat gas_SELFDESTRUCT)) (\<lambda>gas_flag.
     emit_then (emit_check_stack_has_at_least 1) (\<lambda>stack_flag.
     emit_then (emit_op (Arith Andi gas_flag stack_flag)) (\<lambda>gas_stack_flag.
     emit_then emit_check_context_is_not_static (\<lambda>context_flag.
     emit_then (emit_op (Arith Andi gas_stack_flag context_flag)) (\<lambda>condition. emit_branch condition
     (emit_then emit_stack_pop (\<lambda>address.
      emit_then (emit_allocate_and_store_value address) (\<lambda>address_ptr.
      emit_then (\<lambda>b. opctx_selfdestruct_syscall x b address_ptr) (\<lambda>gas_cost.
      emit_then (emit_consume_gas_as_value gas_cost) (\<lambda>gas_flag.
      emit_branch gas_flag emit_end))))))))))"

section \<open>Calls and creations\<close>

text \<open>\<open>call_syscall\<close> up to the load of the gas that the call consumed, and its two blocks.\<close>

definition emit_call ::
  "operation_ctx \<Rightarrow> mlir_value \<Rightarrow> mlir_value \<Rightarrow> mlir_value \<Rightarrow> mlir_value \<Rightarrow> mlir_value \<Rightarrow> mlir_value \<Rightarrow> mlir_value \<Rightarrow>
   call_type \<Rightarrow> (mlir_value \<times> mlir_value) emit" where
  "emit_call x gas address v args_offset args_size ret_offset ret_size ct =
     emit_bind emit_get_remaining_gas (\<lambda>available_gas.
     emit_bind (emit_allocate_and_store_value v) (\<lambda>value_ptr.
     emit_bind (emit_allocate_and_store_value address) (\<lambda>address_ptr.
     emit_bind (emit_constant_value_from_i64 1) (\<lambda>gas_pointer_size.
     emit_bind (emit_op (Alloca gas_pointer_size (Int_type 64))) (\<lambda>gas_return_ptr.
     emit_bind (emit_op (Constant (unat (call_type_u8 ct)) (Int_type 8))) (\<lambda>call_type_value.
     emit_bind (\<lambda>b. mlir_call_syscall (octx_syscall_ctx x) b gas address_ptr value_ptr args_offset args_size ret_offset
                  ret_size available_gas gas_return_ptr call_type_value) (\<lambda>return_value.
     emit_bind (emit_op (Load gas_return_ptr (Int_type 64))) (\<lambda>consumed_gas.
     emit_value (return_value, consumed_gas)))))))))"

definition emit_call_syscall ::
  "operation_ctx \<Rightarrow> mlir_value \<Rightarrow> mlir_value \<Rightarrow> mlir_value \<Rightarrow> mlir_value \<Rightarrow> mlir_value \<Rightarrow> mlir_value \<Rightarrow> mlir_value \<Rightarrow>
   call_type \<Rightarrow> (mlir_value \<Rightarrow> emit_code) \<Rightarrow> emit_code" where
  "emit_call_syscall x gas address v args_offset args_size ret_offset ret_size ct finish_block =
     emit_then (emit_call x gas address v args_offset args_size ret_offset ret_size ct) (\<lambda>(return_value, consumed_gas).
     emit_then (emit_consume_gas_as_value consumed_gas) (\<lambda>gas_flag. emit_branch gas_flag
     (emit_then (emit_op (Extui return_value (Int_type 256))) finish_block)))"

definition emit_codegen_call :: "operation_ctx \<Rightarrow> call_type \<Rightarrow> emit_code" where
  "emit_codegen_call x ct = emit_checked (if has_value ct then 7 else 6)
     (emit_then emit_stack_pop (\<lambda>gas.
      emit_then emit_stack_pop (\<lambda>address.
      emit_then (if has_value ct then emit_stack_pop else emit_constant_value_from_i64 0) (\<lambda>v.
      emit_then emit_stack_pop (\<lambda>args_offset.
      emit_then emit_stack_pop (\<lambda>args_size.
      emit_then emit_stack_pop (\<lambda>ret_offset.
      emit_then emit_stack_pop (\<lambda>ret_size.
      emit_then emit_context_is_static (\<lambda>ctx_is_static.
      emit_then (emit_constant_value_from_i64 0) (\<lambda>zero_value.
      emit_then (emit_op (Cmpi Pred_ne v zero_value)) (\<lambda>value_is_not_zero.
      emit_then (emit_op (Arith Andi ctx_is_static value_is_not_zero)) (\<lambda>revert_flag.
      emit_cond_br revert_flag (emit_target Revert_block) (emit_inner
     (emit_then (emit_op (Trunci gas (Int_type 64))) (\<lambda>gas.
      emit_then (emit_op (Trunci args_offset (Int_type 32))) (\<lambda>args_offset.
      emit_then (emit_op (Trunci args_size (Int_type 32))) (\<lambda>args_size.
      emit_then (emit_op (Trunci ret_offset (Int_type 32))) (\<lambda>ret_offset.
      emit_then (emit_op (Trunci ret_size (Int_type 32))) (\<lambda>ret_size.
      emit_then (emit_op (Arith Addi args_offset args_size)) (\<lambda>req_arg_mem_size.
      emit_then (emit_op (Arith Addi ret_offset ret_size)) (\<lambda>req_ret_mem_size.
      emit_then (emit_op (Arith Maxui req_arg_mem_size req_ret_mem_size)) (\<lambda>req_mem_size.
      emit_extend_memory x req_mem_size 0
        (emit_call_syscall x gas address v args_offset args_size ret_offset ret_size ct emit_push_end)))))))))))))))))))))))"

text \<open>The cells of a creation and the system call, which writes the address and the gas into two of them.\<close>

definition emit_create :: "operation_ctx \<Rightarrow> bool \<Rightarrow> mlir_value \<Rightarrow> mlir_value \<Rightarrow> mlir_value \<Rightarrow> (mlir_value \<times> mlir_value \<times> mlir_value) emit" where
  "emit_create x is_create2 v off sz =
     emit_bind (emit_allocate_and_store_value v) (\<lambda>value_ptr.
     emit_bind emit_allocate_gas_counter_ptr (\<lambda>gas_ptr.
     emit_bind
       (if is_create2
        then emit_bind emit_stack_pop (\<lambda>salt.
             emit_bind (emit_allocate_and_store_value salt) (\<lambda>salt_ptr b.
             opctx_create2_syscall x b sz off value_ptr gas_ptr salt_ptr))
        else (\<lambda>b. opctx_create_syscall x b sz off value_ptr gas_ptr)) (\<lambda>result.
     emit_value (result, gas_ptr, value_ptr))))"

definition emit_created :: "mlir_value \<Rightarrow> mlir_value \<Rightarrow> mlir_value \<Rightarrow> emit_code" where
  "emit_created result gas_ptr value_ptr =
     emit_then (emit_op (Constant (unat SUCCESS_RETURN_CODE) (Int_type 8))) (\<lambda>success_return_code.
     emit_then (emit_op (Cmpi Pred_eq success_return_code result)) (\<lambda>flag.
     emit_then (emit_op (Load gas_ptr (Int_type 64))) (\<lambda>gas_cost.
     emit_then (emit_consume_gas_as_value gas_cost) (\<lambda>gas_flag.
     emit_then (emit_op (Arith Andi gas_flag flag)) (\<lambda>condition. emit_branch condition
     (emit_then (emit_op (Load value_ptr (Int_type 256))) emit_push_end))))))"

definition emit_codegen_create :: "operation_ctx \<Rightarrow> bool \<Rightarrow> emit_code" where
  "emit_codegen_create x is_create2 =
     emit_then (emit_check_stack_has_at_least (if is_create2 then 4 else 3)) (\<lambda>stack_flag.
     emit_then emit_check_context_is_not_static (\<lambda>context_flag.
     emit_then (emit_op (Arith Andi context_flag stack_flag)) (\<lambda>ok_flag. emit_branch ok_flag
     (emit_then emit_stack_pop (\<lambda>v.
      emit_then emit_stack_pop (\<lambda>off.
      emit_then emit_stack_pop (\<lambda>sz.
      emit_then (emit_op (Trunci off (Int_type 32))) (\<lambda>offset_as_u32.
      emit_then (emit_op (Trunci sz (Int_type 32))) (\<lambda>size_as_u32.
      emit_then (emit_op (Arith Addi offset_as_u32 size_as_u32)) (\<lambda>req_mem_size.
      emit_extend_memory x req_mem_size (unat gas_CREATE)
        (emit_then (emit_create x is_create2 v offset_as_u32 size_as_u32) (\<lambda>(result, gas_ptr, value_ptr).
         emit_created result gas_ptr value_ptr))))))))))))"

section \<open>Control flow\<close>

text \<open>The blocks that the source opens after a jump, a return or a branch to the revert block are never reached.\<close>

definition emit_codegen_jumpdest :: "nat \<Rightarrow> emit_code" where
  "emit_codegen_jumpdest pc =
     emit_then (emit_consume_gas (unat gas_JUMPDEST)) (\<lambda>gas_flag. emit_branch gas_flag emit_end)"

definition emit_codegen_jump :: emit_code where
  "emit_codegen_jump = emit_guarded (emit_check_stack_has_at_least 1) gas_JUMP
     (emit_then emit_stack_pop emit_jump)"

definition emit_codegen_jumpi :: emit_code where
  "emit_codegen_jumpi = emit_guarded (emit_check_stack_has_at_least 2) gas_JUMPI
     (emit_then emit_stack_pop (\<lambda>pc.
      emit_then emit_stack_pop (\<lambda>condition.
      emit_then (emit_constant_value_from_i64 0) (\<lambda>zero.
      emit_then (emit_op (Cmpi Pred_ne condition zero)) (\<lambda>condition.
      emit_cond_br condition (emit_target (Jumptable_block pc)) (emit_target End_block))))))"

definition emit_codegen_return :: "operation_ctx \<Rightarrow> emit_code" where
  "emit_codegen_return x = emit_checked 2 (emit_return_result_from_stack x Exit_Return)"

definition emit_codegen_revert :: "operation_ctx \<Rightarrow> emit_code" where
  "emit_codegen_revert x = emit_checked 2 (emit_return_result_from_stack x Exit_Revert)"

definition emit_codegen_stop :: "operation_ctx \<Rightarrow> emit_code" where
  "emit_codegen_stop x = emit_return_empty_result x Exit_Stop"

definition emit_codegen_invalid :: emit_code where
  "emit_codegen_invalid = emit_revert"

section \<open>Dispatch\<close>

primrec emit_code_for_op :: "operation_ctx \<Rightarrow> program \<Rightarrow> operation \<Rightarrow> emit_code" where
  "emit_code_for_op x p Stop = emit_codegen_stop x"
| "emit_code_for_op x p Add = emit_codegen_add"
| "emit_code_for_op x p Mul = emit_codegen_mul"
| "emit_code_for_op x p Sub = emit_codegen_sub"
| "emit_code_for_op x p Div = emit_codegen_div"
| "emit_code_for_op x p Sdiv = emit_codegen_sdiv"
| "emit_code_for_op x p Mod = emit_codegen_mod"
| "emit_code_for_op x p SMod = emit_codegen_smod"
| "emit_code_for_op x p Addmod = emit_codegen_addmod"
| "emit_code_for_op x p Mulmod = emit_codegen_mulmod"
| "emit_code_for_op x p Exp = emit_codegen_exp"
| "emit_code_for_op x p SignExtend = emit_codegen_signextend"
| "emit_code_for_op x p Lt = emit_codegen_lt"
| "emit_code_for_op x p Gt = emit_codegen_gt"
| "emit_code_for_op x p Slt = emit_codegen_slt"
| "emit_code_for_op x p Sgt = emit_codegen_sgt"
| "emit_code_for_op x p Eq = emit_codegen_eq"
| "emit_code_for_op x p IsZero = emit_codegen_iszero"
| "emit_code_for_op x p And = emit_codegen_and"
| "emit_code_for_op x p Or = emit_codegen_or"
| "emit_code_for_op x p Xor = emit_codegen_xor"
| "emit_code_for_op x p operation.Not = emit_codegen_not"
| "emit_code_for_op x p Byte = emit_codegen_byte"
| "emit_code_for_op x p Shl = emit_codegen_shl"
| "emit_code_for_op x p Shr = emit_codegen_shr"
| "emit_code_for_op x p Sar = emit_codegen_sar"
| "emit_code_for_op x p Keccak256 = emit_codegen_keccak256 x"
| "emit_code_for_op x p Address = emit_codegen_address x"
| "emit_code_for_op x p Balance = emit_codegen_balance x"
| "emit_code_for_op x p Origin = emit_codegen_origin x"
| "emit_code_for_op x p Caller = emit_codegen_caller x"
| "emit_code_for_op x p Callvalue = emit_codegen_callvalue x"
| "emit_code_for_op x p CalldataLoad = emit_codegen_calldataload"
| "emit_code_for_op x p CallDataSize = emit_codegen_calldatasize x"
| "emit_code_for_op x p CallDataCopy = emit_codegen_calldatacopy x"
| "emit_code_for_op x p Codesize = emit_codegen_codesize p"
| "emit_code_for_op x p Codecopy = emit_codegen_codecopy x"
| "emit_code_for_op x p Gasprice = emit_codegen_gasprice x"
| "emit_code_for_op x p ExtcodeSize = emit_codegen_extcodesize x"
| "emit_code_for_op x p ExtcodeCopy = emit_codegen_extcodecopy x"
| "emit_code_for_op x p ReturnDataSize = emit_codegen_returndatasize x"
| "emit_code_for_op x p ReturnDataCopy = emit_codegen_returndatacopy x"
| "emit_code_for_op x p ExtcodeHash = emit_codegen_extcodehash x"
| "emit_code_for_op x p BlockHash = emit_codegen_blockhash x"
| "emit_code_for_op x p Coinbase = emit_codegen_coinbase x"
| "emit_code_for_op x p Timestamp = emit_codegen_timestamp x"
| "emit_code_for_op x p Number = emit_codegen_number x"
| "emit_code_for_op x p Prevrandao = emit_codegen_prevrandao x"
| "emit_code_for_op x p Gaslimit = emit_codegen_gaslimit x"
| "emit_code_for_op x p Chainid = emit_codegen_chaind x"
| "emit_code_for_op x p SelfBalance = emit_codegen_selfbalance x"
| "emit_code_for_op x p Basefee = emit_codegen_basefee x"
| "emit_code_for_op x p BlobHash = emit_codegen_blobhash x"
| "emit_code_for_op x p BlobBaseFee = emit_codegen_blobbasefee x"
| "emit_code_for_op x p Pop = emit_codegen_pop"
| "emit_code_for_op x p Mload = emit_codegen_mload x"
| "emit_code_for_op x p Mstore = emit_codegen_mstore x"
| "emit_code_for_op x p Mstore8 = emit_codegen_mstore8 x"
| "emit_code_for_op x p Sload = emit_codegen_sload x"
| "emit_code_for_op x p Sstore = emit_codegen_sstore x"
| "emit_code_for_op x p Jump = emit_codegen_jump"
| "emit_code_for_op x p Jumpi = emit_codegen_jumpi"
| "emit_code_for_op x p (PC pc) = emit_codegen_pc pc"
| "emit_code_for_op x p Msize = emit_codegen_msize"
| "emit_code_for_op x p Gas = emit_codegen_gas"
| "emit_code_for_op x p (Jumpdest pc) = emit_codegen_jumpdest pc"
| "emit_code_for_op x p Tload = emit_codegen_tload x"
| "emit_code_for_op x p Tstore = emit_codegen_tstore x"
| "emit_code_for_op x p Mcopy = emit_codegen_mcopy x"
| "emit_code_for_op x p Push0 = emit_codegen_push 0 True"
| "emit_code_for_op x p (Push n v) = emit_codegen_push v False"
| "emit_code_for_op x p (Dup n) = emit_codegen_dup n"
| "emit_code_for_op x p (Swap n) = emit_codegen_swap n"
| "emit_code_for_op x p (Log n) = emit_codegen_log x n"
| "emit_code_for_op x p Create = emit_codegen_create x False"
| "emit_code_for_op x p Call = emit_codegen_call x Call_Call"
| "emit_code_for_op x p CallCode = emit_codegen_call x Call_CallCode"
| "emit_code_for_op x p Return = emit_codegen_return x"
| "emit_code_for_op x p DelegateCall = emit_codegen_call x Call_DelegateCall"
| "emit_code_for_op x p Create2 = emit_codegen_create x True"
| "emit_code_for_op x p StaticCall = emit_codegen_call x Call_StaticCall"
| "emit_code_for_op x p Revert = emit_codegen_revert x"
| "emit_code_for_op x p operation.Invalid = emit_codegen_invalid"
| "emit_code_for_op x p SelfDestruct = emit_codegen_selfdestruct x"

section \<open>Storage, logs and self-destruction implemented\<close>

text \<open>The cells of the topics of a log.\<close>

definition knows_slots :: "(lstate \<Rightarrow> bool) \<Rightarrow> mlir_value list \<Rightarrow> u256 list \<Rightarrow> bool" where
  "knows_slots P = list_all2 (\<lambda>p y. knows P (slot_holds 256 (Some (wnum y)) p))"

lemma and_then_split: "P (and_then r f) \<longleftrightarrow> (\<forall>err. r = Inl err \<longrightarrow> P (Inl err)) \<and> (\<forall>y. r = Inr y \<longrightarrow> P (f y))"
  by (cases r) simp_all

lemma ref_u256_slot: "knows P (slot_holds 256 (Some (wnum (y :: u256))) p) \<Longrightarrow> P s \<Longrightarrow>
    \<exists>i. eval_value s p = Some (Pointer (To_slot i)) \<and> ref_u256 s i = Some (halves y)"
  unfolding knows_def slot_holds_def ref_u256_def slot_value_def by (fastforce simp: wnum_def)

context main_function
begin

lemmas world_call_defs = opctx_defs mlir_defs emit_result_call emit_effect_call syscall_ctx

lemma storage_write_implemented:
  assumes "knows P (slot_holds 256 (Some (wnum (y :: u256))) p)" and "knows P (slot_holds 256 (Some (wnum (z :: u256))) q)"
  shows "implements h exec P (\<lambda>b. opctx_storage_write_syscall x b p q)
      (\<lambda>m. and_then (syscall_write_storage (m_ctx m) (halves y) (halves z)) (\<lambda>(c, gas). Inr (m\<lparr>m_ctx := c\<rparr>, gas)))
      (\<lambda>y v. holds v (wnum y))"
    and "implements h exec P (emit_effect_of (\<lambda>b. opctx_transient_storage_write_syscall x b p q))
      (\<lambda>m. and_then (Inr (write_transient_storage (m_ctx m) (halves y) (halves z))) (\<lambda>c. Inr (m\<lparr>m_ctx := c\<rparr>, ()))) (\<lambda>_ _ _. True)"
  unfolding world_call_defs
  subgoal by (rule implements_call_result, use ref_u256_slot [OF assms(1)] ref_u256_slot [OF assms(2)] in
      \<open>fastforce simp: represents_def or_undefined_def wnum_def ext_write_storage_def and_then_assoc case_prod_unfold\<close>) simp
  subgoal by (rule implements_call, use ref_u256_slot [OF assms(1)] ref_u256_slot [OF assms(2)] in
      \<open>fastforce simp: represents_def or_undefined_def ext_write_transient_storage_def\<close>)
  done

lemma selfdestruct_implemented:
  assumes "knows P (slot_holds 256 (Some (wnum (y :: u256))) p)"
  shows "implements h exec P (\<lambda>b. opctx_selfdestruct_syscall x b p)
      (\<lambda>m. and_then (selfdestruct (m_ctx m) (halves y)) (\<lambda>(c, gas). Inr (m\<lparr>m_ctx := c\<rparr>, gas)))
      (\<lambda>y v. holds v (wnum y))"
  unfolding world_call_defs
  by (rule implements_call_result, use ref_u256_slot [OF assms(1)] in
      \<open>fastforce simp: represents_def or_undefined_def wnum_def ext_selfdestruct_def and_then_assoc case_prod_unfold\<close>) simp

lemma store_slot_implemented:
  assumes "knows P (holds pointer_size (wnum (of_int 1 :: u256)))" and "knows P (holds v (wnum (y :: u256)))"
  shows "evaluates h exec P (emit_store_slot pointer_size v) (slot_holds 256 (Some (wnum y)))"
  using assms by (simp add: slot_call_defs emit_store_slot_def)

lemma gas_counter_implemented:
  "implements h exec P (emit_load_global GAS_COUNTER_GLOBAL (Int_type 64)) (\<lambda>m. Inr (m, gas_counter m))
     (\<lambda>y v s. holds (fst v) (Pointer (To_global GAS_COUNTER_GLOBAL)) s \<and> holds (snd v) (wnum y) s)"
  "knows P (holds p (Pointer (To_global GAS_COUNTER_GLOBAL))) \<Longrightarrow> knows P (holds v (wnum g)) \<Longrightarrow>
     implements h exec P (emit_effect (Store v p)) (\<lambda>m. Inr (m\<lparr>gas_counter := g\<rparr>, ())) (\<lambda>_ _ _. True)"
  by (simp_all add: emit_defs emit_basics exec_defs fragment_defs)

lemma constant_unat_implemented:
  "evaluates h exec P (emit_op (Constant (unat (g :: u64)) (Int_type 64))) (\<lambda>v. holds v (wnum g))"
  "evaluates h exec P (emit_op (Constant (unat (r :: u8)) (Int_type 8))) (\<lambda>v. holds v (wnum r))"
  by (rule evaluates_op, simp_all add: wnum_def)+

lemmas world_steps = constant_unat_implemented [THEN code_value]
  check_context_is_not_static_implemented [THEN code_read] context_is_static_implemented [THEN code_read] and_flags
  storage_write_implemented [THEN code_then] selfdestruct_implemented [THEN code_then] store_slot_implemented [THEN code_value]
  gas_counter_implemented(1) [THEN code_read] gas_counter_implemented(2) [THEN code_then]
  memory_steps

lemma checks_charged:
  "at_least n (fst (consume_gas m g)) = at_least n m"
  "check_context_is_not_static (fst (consume_gas m g)) = check_context_is_not_static m"
  by (simp_all add: consume_gas_def check_stack_has_at_least_def check_context_is_not_static_def context_is_static_def)

lemma storage_operations_implemented:
  "code_implements h exec (\<lambda>_. True) (emit_codegen_sstore x) codegen_sstore"
  "code_implements h exec (\<lambda>_. True) (emit_codegen_tstore x) codegen_tstore"
  "code_implements h exec (\<lambda>_. True) (emit_codegen_selfdestruct x) codegen_selfdestruct"
  unfolding emit_codegen_sstore_def codegen_sstore_def emit_codegen_tstore_def codegen_tstore_def
    emit_codegen_selfdestruct_def codegen_selfdestruct_def guarded_def [of gas_SELFDESTRUCT]
  by ((rule code_implements_cong, ((rule op_compare [THEN code_value] world_steps | (simp; fail))+)[1],
       simp add: memory_simps checks_charged conj_assoc cong: if_cong)[1])+

lemma knows_trans: "knows P Q \<Longrightarrow> knows Q R \<Longrightarrow> knows P R"
  by (simp add: knows_def)

lemma code_topics:
  assumes "\<And>Q ts ys. knows Q P \<Longrightarrow> stable Q \<Longrightarrow> length ys = n \<Longrightarrow> knows_slots Q ts ys \<Longrightarrow> code_implements h exec Q (k ts) (f ys)"
    and "stable P"
  shows "code_implements h exec P (emit_topics n k) (\<lambda>m. pop_n n m f)"
  using assms
proof (induction n arbitrary: P k f)
  case 0
  then show ?case using knows_refl by (auto simp: knows_slots_def)
next
  case (Suc n)
  have next_topic: "code_implements h exec (\<lambda>s. (P s \<and> holds v (wnum y) s) \<and> slot_holds 256 (Some (wnum y)) p s)
      (emit_topics n (\<lambda>ts. k (p # ts))) (\<lambda>m. pop_n n m (\<lambda>ys. f (y # ys)))" for v y p
  proof (rule Suc.IH)
    fix Q ts ys
    assume q: "knows Q (\<lambda>s. (P s \<and> holds v (wnum y) s) \<and> slot_holds 256 (Some (wnum y)) p s)" "stable Q"
      "length ys = n" "knows_slots Q ts ys"
    have "knows Q P" "knows Q (slot_holds 256 (Some (wnum y)) p)" using q(1) by (simp_all add: knows_def)
    then show "code_implements h exec Q (k (p # ts)) (f (y # ys))"
      using q(2-4) by (intro Suc.prems(1)) (simp_all add: knows_slots_def)
  qed (intro stable_conj Suc.prems(2) stable_holds stable_slot_holds)
  show ?case
    by (simp, (rule code_pop allocate_and_store_value_implemented [THEN code_value] next_topic fact_rules stable_rules Suc.prems(2))+)
qed

lemma topics_read:
  assumes "knows_slots P ts ys" and "P s"
  shows "\<exists>vs is. those (map (eval_value s) ts) = Some vs \<and> slot_refs vs = Some is \<and>
    those (map (ref_u256 s) is) = Some (map halves ys) \<and> length vs = length ys"
  using assms(1) unfolding knows_slots_def
proof (induction rule: list_all2_induct)
  case Nil
  then show ?case by (simp add: slot_refs_def)
next
  case (Cons p ts y ys)
  obtain vs "is" where "those (map (eval_value s) ts) = Some vs" "slot_refs vs = Some is"
    "those (map (ref_u256 s) is) = Some (map halves ys)" "length vs = length ys"
    using Cons.IH by auto
  moreover obtain i where "eval_value s p = Some (Pointer (To_slot i))" "ref_u256 s i = Some (halves y)"
    using ref_u256_slot [OF Cons.hyps(1) assms(2)] by auto
  ultimately show ?case
    by (intro exI [of _ "Pointer (To_slot i) # vs"] exI [of _ "i # is"]) (simp add: slot_refs_def)
qed

lemma log_call_implemented:
  assumes "call_symbol g = Some (ext_append_log n f)" and "length ys = n" and "knows_slots P ts ys"
    and "knows P (holds off (wnum a))" and "knows P (holds sz (wnum b))"
  shows "implements h exec P (emit_effect (Func_call g (Argument 0 Ptr # off # sz # ts) []))
    (\<lambda>m. and_then (f (m_ctx m) a b (map halves ys)) (\<lambda>c. Inr (m\<lparr>m_ctx := c\<rparr>, ()))) (\<lambda>_ _ _. True)"
proof (rule implements_call)
  fix s m
  assume s: "represents s m" "P s"
  obtain vs "is" where "those (map (eval_value s) ts) = Some vs" "slot_refs vs = Some is"
    "those (map (ref_u256 s) is) = Some (map halves ys)" "length vs = length ys"
    using topics_read [OF assms(3) s(2)] by auto
  then show "exec_op h exec s (Func_call g (Argument 0 Ptr # off # sz # ts) []) =
      and_then (f (m_ctx m) a b (map halves ys)) (\<lambda>c. Inr (done_op None (s\<lparr>l_ctx := c\<rparr>)))"
    using s assms by (simp add: knows_def holds_def wnum_def represents_def or_undefined_def ext_append_log_def and_then_assoc)
qed

lemma append_log_implemented:
  assumes "n \<le> 4" and "length ys = unat n" and "knows_slots P ts ys"
    and "knows P (holds off (wnum a))" and "knows P (holds sz (wnum b))"
  shows "implements h exec P (emit_append_log x n off sz ts)
    (\<lambda>m. and_then (append_log_syscall n (m_ctx m) a b (map halves ys)) (\<lambda>c. Inr (m\<lparr>m_ctx := c\<rparr>, ()))) (\<lambda>_ _ _. True)"
proof -
  have n: "n \<in> {0, 1, 2, 3, 4}" using assms(1) by (simp add: word_le_nat_alt word_unat_eq_iff) linarith
  have l: "length ts = unat n" using assms(2,3) by (simp add: knows_slots_def list_all2_lengthD)
  have "length ts = 0 \<Longrightarrow> ts = []" "length ts = 1 \<Longrightarrow> ts = [ts ! 0]" "length ts = 2 \<Longrightarrow> ts = [ts ! 0, ts ! 1]"
    "length ts = 3 \<Longrightarrow> ts = [ts ! 0, ts ! 1, ts ! 2]" "length ts = 4 \<Longrightarrow> ts = [ts ! 0, ts ! 1, ts ! 2, ts ! 3]"
    by (auto simp: numeral_eq_Suc length_Suc_conv)
  then show ?thesis
    using n log_call_implemented [OF call_symbols(20) _ assms(3-5)] log_call_implemented [OF call_symbols(21) _ assms(3-5)]
      log_call_implemented [OF call_symbols(22) _ assms(3-5)] log_call_implemented [OF call_symbols(23) _ assms(3-5)]
      log_call_implemented [OF call_symbols(24) _ assms(3-5)] assms(2) l
    unfolding emit_append_log_def append_log_syscall_def world_call_defs
    by auto
qed

lemma code_append_log:
  assumes n: "n \<le> 4" and off: "knows P (holds off (wnum a))" and sz: "knows P (holds sz (wnum b))" and "stable P"
  shows "code_implements h exec P (emit_topics (unat n) (\<lambda>ts. emit_then (emit_append_log x n off sz ts) (\<lambda>_. emit_end)))
    (\<lambda>m. pop_n (unat n) m (\<lambda>ys m. and_then (append_log_syscall n (m_ctx m) a b (map halves ys)) (\<lambda>c. Inr (m\<lparr>m_ctx := c\<rparr>, Next))))"
proof (rule code_topics)
  fix Q ts ys
  assume q: "knows Q P" "stable Q" "length ys = unat n" "knows_slots Q ts ys"
  show "code_implements h exec Q (emit_then (emit_append_log x n off sz ts) (\<lambda>_. emit_end))
      (\<lambda>m. and_then (append_log_syscall n (m_ctx m) a b (map halves ys)) (\<lambda>c. Inr (m\<lparr>m_ctx := c\<rparr>, Next)))"
    by (rule code_implements_cong,
        rule append_log_implemented [OF n q(3,4) knows_trans [OF q(1) off] knows_trans [OF q(1) sz], THEN code_then],
        rule code_end, rule q(2), simp add: and_then_assoc)
qed fact

lemma log_implemented:
  assumes "n \<le> 4"
  shows "code_implements h exec (\<lambda>_. True) (emit_codegen_log x n) (codegen_log h n)"
  unfolding emit_codegen_log_def codegen_log_def
  by (rule code_implements_cong,
      ((rule code_append_log [OF assms] compute_log_dynamic_gas_implemented [THEN code_value] world_steps | (simp; fail))+)[1],
      simp add: memory_simps cong: if_cong)

section \<open>Calls and creations implemented\<close>

lemma call_implemented:
  assumes "knows P (holds gas (wnum (g :: u64)))" and "knows P (holds address (wnum (a :: u256)))" and "knows P (holds v (wnum (y :: u256)))"
    and "knows P (holds args_offset (wnum (ao :: u32)))" and "knows P (holds args_size (wnum (as :: u32)))"
    and "knows P (holds ret_offset (wnum (ro :: u32)))" and "knows P (holds ret_size (wnum (rs :: u32)))"
  shows "implements h exec P (emit_call x gas address v args_offset args_size ret_offset ret_size ct)
    (\<lambda>m. and_then (syscall_call h exec (m_ctx m) g (halves a) (halves y) ao as ro rs (get_remaining_gas m) None (call_type_u8 ct))
       (\<lambda>(c, gas_return, r). case gas_return of None \<Rightarrow> Inl Undefined_Behaviour | Some consumed \<Rightarrow> Inr (m\<lparr>m_ctx := c\<rparr>, consumed, r)))
    (\<lambda>q w s. holds (fst w) (wnum (snd q)) s \<and> holds (snd w) (wnum (fst q)) s)"
  using assms
  by (simp add: slot_call_defs emit_call_def ext_call_def get_remaining_gas_def case_prod_unfold and_then_assoc 
     split: and_then_split option.splits)

lemma create_implemented:
  assumes "knows P (holds v (wnum (y :: u256)))" and "knows P (holds off (wnum (a :: u32)))" and "knows P (holds sz (wnum (b :: u32)))"
  shows "implements h exec P (emit_create x False v off sz)
    (\<lambda>m. and_then (create h exec (m_ctx m) b a (halves y) (get_remaining_gas m)) (\<lambda>(c, q). Inr (m\<lparr>m_ctx := c\<rparr>, q)))
    (\<lambda>q w s. holds (fst w) (wnum (snd (snd q))) s \<and> slot_holds 64 (Some (wnum (fst (snd q)))) (fst (snd w)) s \<and>
        slot_holds 256 (Some (wnum (to_primitive_u256 (fst q)))) (snd (snd w)) s)"
  using assms
  by (simp add: slot_call_defs emit_create_def ext_create_def ext_created_def get_remaining_gas_def case_prod_unfold and_then_assoc 
     split: and_then_split option.splits)

lemma create2_implemented:
  assumes "knows P (holds v (wnum (y :: u256)))" and "knows P (holds off (wnum (a :: u32)))" and "knows P (holds sz (wnum (b :: u32)))"
  shows "implements h exec P (emit_create x True v off sz)
    (\<lambda>m. and_then (stack_pop m) (\<lambda>(m', salt).
       and_then (create2 h exec (m_ctx m') b a (halves y) (get_remaining_gas m) (halves salt)) (\<lambda>(c, q). Inr (m'\<lparr>m_ctx := c\<rparr>, q))))
    (\<lambda>q w s. holds (fst w) (wnum (snd (snd q))) s \<and> slot_holds 64 (Some (wnum (fst (snd q)))) (fst (snd w)) s \<and>
        slot_holds 256 (Some (wnum (to_primitive_u256 (fst q)))) (snd (snd w)) s)"
  using assms
  by (simp add: slot_call_defs emit_create_def ext_create2_def ext_created_def get_remaining_gas_def case_prod_unfold and_then_assoc 
     stack_pop_def nat_int_minus split: and_then_split option.splits)

lemma load_u64_implemented:
  assumes "knows P (slot_holds w (Some (wnum (y :: u64))) p)"
  shows "evaluates h exec P (emit_op (Load p (Int_type 64))) (\<lambda>v. holds v (wnum y))"
  using load_slot_implemented [of P w 64 "unat y" p] assms by (simp add: wnum_def)

lemma code_created:
  assumes "knows P (holds result (wnum r))" and "knows P (slot_holds 64 (Some (wnum g)) gas_ptr)"
    and "knows P (slot_holds 256 (Some (wnum (to_primitive_u256 a))) value_ptr)" and "stable P"
  shows "code_implements h exec P (emit_created result gas_ptr value_ptr) (\<lambda>m. created m (Inr (m_ctx m, a, g, r)))"
  unfolding emit_created_def
  by (rule code_implements_cong,
      ((rule op_compare [THEN code_value] load_u64_implemented [THEN code_value] world_steps assms)+)[1],
      simp add: created_def Let_def case_prod_unfold)

lemma knows_triple: "knows (\<lambda>s. P s \<and> A s \<and> B s \<and> C s) B" "knows (\<lambda>s. P s \<and> A s \<and> B s \<and> C s) C"
  by (simp_all add: knows_def)

lemma created_context: "and_then r (\<lambda>q. created (m\<lparr>m_ctx := fst q\<rparr>) (Inr q)) = created m r"
  by (cases r) (simp_all add: created_def case_prod_unfold Let_def)

lemma created_after_pop:
  "and_then (stack_pop m) (\<lambda>p. created (fst p) (create2 h exec (m_ctx (fst p)) sz off v gas (halves (snd p)))) =
   pop m (\<lambda>salt m. created m (create2 h exec (m_ctx m) sz off v gas (halves salt)))"
  by (simp add: pop_def case_prod_unfold)

lemma creations_implemented:
  "code_implements h exec (\<lambda>_. True) (emit_codegen_create x False) (codegen_create h exec False)"
  "code_implements h exec (\<lambda>_. True) (emit_codegen_create x True) (codegen_create h exec True)"
  unfolding emit_codegen_create_def codegen_create_def
  subgoal by (rule code_implements_cong,
      ((rule create_implemented [THEN code_then] knows_triple code_created world_steps | (simp; fail))+)[1],
      simp add: memory_simps created_context cong: if_cong)
  subgoal by (rule code_implements_cong,
      ((rule create2_implemented [THEN code_then] knows_triple code_created world_steps | (simp; fail))+)[1],
      simp add: memory_simps created_context created_after_pop cong: if_cong)
  done

lemma code_call_syscall:
  assumes "knows P (holds gas (wnum (g :: u64)))" and "knows P (holds address (wnum (a :: u256)))" and "knows P (holds v (wnum (y :: u256)))"
    and "knows P (holds args_offset (wnum (ao :: u32)))" and "knows P (holds args_size (wnum (as :: u32)))"
    and "knows P (holds ret_offset (wnum (ro :: u32)))" and "knows P (holds ret_size (wnum (rs :: u32)))" and "stable P"
  shows "code_implements h exec P (emit_call_syscall x gas address v args_offset args_size ret_offset ret_size ct emit_push_end)
    (\<lambda>m. call_syscall h exec m g a y ao as ro rs ct (\<lambda>r m. push_next m r))"
  unfolding emit_call_syscall_def
  by (rule code_implements_cong, ((rule call_implemented [OF assms(1-7), THEN code_then] world_steps assms(8) | (simp; fail))+)[1],
      simp add: call_syscall_def Let_def case_prod_unfold and_then_assoc cong: if_cong split: and_then_split option.splits)

lemma calls_implemented: "code_implements h exec (\<lambda>_. True) (emit_codegen_call x ct) (codegen_call h exec ct)"
  unfolding emit_codegen_call_def codegen_call_def emit_checked_def
  by (cases "has_value ct"; (simp only: if_True if_False, rule code_implements_cong,
      ((rule code_call_syscall op_compare [THEN code_value] target_revert world_steps | (simp; fail))+)[1],
      simp add: memory_simps cong: if_cong))

section \<open>Control flow implemented\<close>

lemma code_jump:
  assumes "knows P (holds v (wnum (y :: u256)))"
  shows "code_implements h exec P (emit_jump v) (\<lambda>m. Inr (m, To_jumptable y))"
  using assms by (simp add: code_implements_def runs_as_def emit_jump_def goto_table_def knows_def holds_def wnum_def)

lemma target_jumptable:
  assumes "knows P (holds v (wnum (y :: u256)))"
  shows "target_implements h exec P (emit_target (Jumptable_block v)) (\<lambda>m. Inr (m, To_jumptable y))"
  using assms by (simp add: target_implements_def runs_as_def emit_target_def goto_table_def knows_def holds_def wnum_def)

lemma code_return:
  assumes "knows P (holds v (wnum (y :: u8)))"
  shows "code_implements h exec P (emit_return v) (\<lambda>m. Inr (m, Returned y))"
  using assms by (simp add: code_implements_def runs_as_def emit_return_def knows_def holds_def wnum_def)

lemma write_result_implemented:
  assumes "knows P (holds off (wnum a))" and "knows P (holds sz (wnum b))" and "knows P (holds gas (wnum g))" and "knows P (holds reason (wnum r))"
  shows "implements h exec P (emit_effect_of (\<lambda>bl. opctx_write_result_syscall x bl off sz gas reason))
    (\<lambda>m. and_then (Inr (write_result (m_ctx m) a b g r)) (\<lambda>c. Inr (m\<lparr>m_ctx := c\<rparr>, ()))) (\<lambda>_ _ _. True)"
  unfolding world_call_defs by (rule implements_call, use assms in \<open>simp add: call_defs ext_write_result_def\<close>)

lemmas control_steps = code_jump target_jumptable target_end code_return write_result_implemented [THEN code_then]
  get_remaining_gas_implemented [THEN code_read] op_compare [THEN code_value] world_steps

lemma leave_either: "(if p then Inr (m, fl) else Inr (m, fl')) = (Inr (m, if p then fl else fl') :: step)"
  by simp

lemma jumps_implemented:
  "code_implements h exec (\<lambda>_. True) (emit_codegen_jumpdest pc) (codegen_jumpdest pc)"
  "code_implements h exec (\<lambda>_. True) emit_codegen_jump codegen_jump"
  "code_implements h exec (\<lambda>_. True) emit_codegen_jumpi codegen_jumpi"
  unfolding emit_codegen_jumpdest_def codegen_jumpdest_def emit_codegen_jump_def codegen_jump_def emit_codegen_jumpi_def codegen_jumpi_def
  by ((rule code_implements_cong, ((rule control_steps | (simp; fail))+)[1], simp add: memory_simps leave_either cong: if_cong)[1])+

lemma results_implemented:
  "code_implements h exec (\<lambda>_. True) (emit_codegen_return x) (codegen_return h)"
  "code_implements h exec (\<lambda>_. True) (emit_codegen_revert x) (codegen_revert h)"
  "code_implements h exec (\<lambda>_. True) (emit_codegen_stop x) codegen_stop"
  unfolding emit_codegen_return_def codegen_return_def emit_codegen_revert_def codegen_revert_def emit_codegen_stop_def codegen_stop_def
    emit_checked_def emit_code_defs(3-5) return_result_from_stack_def return_empty_result_def return_result_with_offset_and_size_def
  by ((rule code_implements_cong, ((rule control_steps | (simp; fail))+)[1], simp add: memory_simps cong: if_cong)[1])+

lemma invalid_implemented: "code_implements h exec (\<lambda>_. True) emit_codegen_invalid codegen_invalid"
  unfolding emit_codegen_invalid_def by (rule code_implements_cong [OF code_revert]) (simp add: codegen_invalid_def)

end

end
