(* ===== verification/Operation_Exec.thy ===== *)
theory Operation_Exec
  imports Emit_World
begin

text \<open>
  The blocks of every operation, and the blocks around them, implement the machine model: the setup block,
  the revert block, the return after the last operation, and the fragments that operations share.
\<close>

section \<open>The frame of the main function\<close>

text \<open>The state in which the main function is entered: its two arguments, and globals and stack cells that nothing
  has written yet.\<close>

definition entry_state :: "syscall_context \<Rightarrow> u64 \<Rightarrow> (nat \<Rightarrow> u256) \<Rightarrow> lstate" where
  "entry_state c initial_gas cells =
     \<lparr>l_args = [Pointer To_context, wnum initial_gas], l_results = [], l_globals = Map.empty,
      l_cells = cells, l_slots = [], l_ctx = c\<rparr>"

lemma setup_implemented:
  "\<exists>s. exec_ops h exec (entry_state c initial_gas cells) setup_ops = Inr s \<and> represents s (setup_code c initial_gas)"
  by (simp add: setup_ops_def entry_state_def exec_defs represents_def setup_code_eq ext_get_def wnum_def
      allocate_def gas_consts buffer_pointer_def)

context main_function
begin

lemma frame_syscall_implemented:
  assumes "knows P (holds off (wnum a))" and "knows P (holds sz (wnum b))" and "knows P (holds gas (wnum g))" and "knows P (holds reason (wnum r))"
  shows "implements h exec P (emit_effect_of (\<lambda>bl. mlir_write_result_syscall (octx_syscall_ctx x) bl off sz gas reason))
    (\<lambda>m. and_then (Inr (write_result (m_ctx m) a b g r)) (\<lambda>c. Inr (m\<lparr>m_ctx := c\<rparr>, ()))) (\<lambda>_ _ _. True)"
  using write_result_implemented [OF assms] by (simp add: opctx_write_result_syscall_def)

lemma revert_block_implemented:
  "code_implements h exec (\<lambda>_. True) (emit_revert_block (octx_syscall_ctx x))
     (\<lambda>m. case generate_revert_block m of (m, code) \<Rightarrow> Inr (m, Returned code))"
  unfolding emit_revert_block_def
  by (rule code_implements_cong, ((rule frame_syscall_implemented [THEN code_then] control_steps | (simp; fail))+)[1],
      simp add: generate_revert_block_def Let_def case_prod_unfold)

lemma return_block_implemented:
  "code_implements h exec (\<lambda>_. True) (emit_return_empty_result x reason) (\<lambda>m. return_empty_result m reason)"
  unfolding emit_code_defs(3-5) return_empty_result_def return_result_with_offset_and_size_def
  by (rule code_implements_cong, ((rule control_steps | (simp; fail))+)[1], simp)

text \<open>The operations that the code generator accepts as the parser writes them.\<close>

lemma operation_implemented:
  assumes "op_ok pc op"
  shows "code_implements h exec (\<lambda>_. True) (emit_code_for_op x p op) (generate_code_for_op h exec p op)"
proof (cases op)
  case (Push n v)
  then have "v < 2 ^ 256" using op_ok_compiles [OF assms] by (simp add: op_compiles_def)
  then show ?thesis using Push by (simp add: push_implemented)
next
  case (Log n)
  then have "n \<le> 4" using op_ok_compiles [OF assms] by (simp add: op_compiles_def)
  then show ?thesis using Log by (simp add: log_implemented)
next
  case (Dup n)
  then have "0 < unat n" using assms by (auto simp: op_ok_def word_le_nat_alt)
  then show ?thesis using Dup by (simp add: stack_operations_implemented)
next
  case (Swap n)
  then have "0 < unat (n + 1)" using assms by (auto simp: op_ok_def word_le_nat_alt unat_word_ariths)
  then show ?thesis using Swap by (simp add: stack_operations_implemented)
qed (simp_all add: arithmetic_implemented comparisons_implemented divisions_implemented modular_operations_implemented
    shifts_implemented exp_implemented not_implemented push_implemented stack_operations_implemented pushes_implemented
    msize_implemented codesize_implemented pc_implemented calldatasize_implemented account_operations_implemented
    lookup_operations_implemented calldataload_implemented loads_and_stores_implemented system_copies_implemented
    calldatacopy_implemented storage_operations_implemented log_implemented creations_implemented calls_implemented
    jumps_implemented results_implemented invalid_implemented)

end

interpretation generated: main_function h exec "\<lparr>octx_syscall_ctx = Argument 0 Ptr, octx_revert_block = revert_code\<rparr>" for h exec
  by unfold_locales simp

text \<open>C13: the emitted fragments implement the machine model: appended to any block and run in a state that
  represents a machine state, the code for gas, stack, memory prices, the memory pointer and the static flag ends in a state that represents
  the result of the machine's operation, yields its value, leaves earlier values alone, and is undefined exactly when
  the operation of the machine is. The revert block and the block that returns an empty result write the result
  of the machine model to the context and return its exit code.\<close>

theorem fragments_implemented:
  "implements h exec (\<lambda>_. True) emit_get_remaining_gas (\<lambda>m. Inr (m, get_remaining_gas m)) (\<lambda>y v. holds v (wnum y)) \<and>
   implements h exec (\<lambda>_. True) (emit_consume_gas (unat amount)) (\<lambda>m. Inr (consume_gas m amount)) (\<lambda>ok v. holds v (flag ok)) \<and>
   implements h exec (holds v (wnum g)) (emit_consume_gas_as_value v) (\<lambda>m. Inr (consume_gas_as_value m g))
     (\<lambda>ok v. holds v (flag ok)) \<and>
   evaluates h exec (holds v (wnum y)) (emit_compute_log_dynamic_gas (unat n) v) (\<lambda>v. holds v (wnum (compute_log_dynamic_gas n y))) \<and>
   implements h exec (\<lambda>_. True) emit_stack_pop stack_pop (\<lambda>y v. holds v (wnum y)) \<and>
   implements h exec (holds v (wnum y)) (emit_stack_push v) (\<lambda>m. and_then (stack_push m y) (\<lambda>m. Inr (m, ()))) (\<lambda>_ _ _. True) \<and>
   implements h exec (\<lambda>_. True) (emit_swap_stack_elements (Suc p) (Suc q))
     (\<lambda>m. and_then (swap_stack_elements m (Suc p) (Suc q)) (\<lambda>m. Inr (m, ()))) (\<lambda>_ _ _. True) \<and>
   implements h exec (\<lambda>_. True) (emit_get_nth_from_stack (Suc p))
     (\<lambda>m. and_then (get_nth_from_stack m (Suc p)) (\<lambda>r. Inr (m, r))) (\<lambda>r v. holds (fst v) (wnum (fst r))) \<and>
   implements h exec (\<lambda>_. True) (emit_check_stack_has_space_for k) (\<lambda>m. Inr (m, space_for k m)) (\<lambda>ok v. holds v (flag ok)) \<and>
   implements h exec (\<lambda>_. True) (emit_check_stack_has_at_least k) (\<lambda>m. Inr (m, at_least k m)) (\<lambda>ok v. holds v (flag ok)) \<and>
   implements h exec (\<lambda>_. True) emit_context_is_static (\<lambda>m. Inr (m, context_is_static m)) (\<lambda>b v. holds v (flag b)) \<and>
   implements h exec (\<lambda>_. True) emit_check_context_is_not_static (\<lambda>m. Inr (m, check_context_is_not_static m))
     (\<lambda>ok v. holds v (flag ok)) \<and>
   evaluates h exec (holds v (wnum sz)) (emit_round_up_32 v) (\<lambda>v. holds v (wnum (round_up_32 sz))) \<and>
   evaluates h exec (holds v (wnum sz)) (emit_compute_memory_cost v) (\<lambda>v. holds v (wnum (compute_memory_cost sz))) \<and>
   evaluates h exec (holds v (wnum sz)) (emit_compute_copy_cost v) (\<lambda>v. holds v (wnum (compute_copy_cost sz))) \<and>
   implements h exec (\<lambda>_. True) emit_get_memory_pointer (\<lambda>m. Inr (m, memory_ptr m)) (\<lambda>p v. holds v (Pointer (buffer_pointer p))) \<and>
   code_implements h exec (\<lambda>_. True) (emit_revert_block (Argument 0 Ptr))
     (\<lambda>m. case generate_revert_block m of (m, code) \<Rightarrow> Inr (m, Returned code)) \<and>
   code_implements h exec (\<lambda>_. True) (emit_return_empty_result \<lparr>octx_syscall_ctx = Argument 0 Ptr, octx_revert_block = revert_code\<rparr> reason)
     (\<lambda>m. return_empty_result m reason)"
  using generated.revert_block_implemented [of h exec]
  by (intro conjI generated.get_remaining_gas_implemented generated.consume_gas_implemented
      generated.consume_gas_as_value_implemented generated.compute_log_dynamic_gas_implemented
      generated.stack_pop_implemented generated.stack_push_implemented generated.swap_stack_elements_implemented
      generated.get_nth_from_stack_implemented generated.check_stack_has_space_for_implemented
      generated.check_stack_has_at_least_implemented generated.context_is_static_implemented
      generated.check_context_is_not_static_implemented generated.round_up_32_implemented
      generated.compute_memory_cost_implemented generated.compute_copy_cost_implemented
      generated.get_memory_pointer_implemented generated.return_block_implemented zero_less_Suc) (simp_all add: knows_def)

end
