(* ===== verification/Emit_Types.thy ===== *)
theory Emit_Types
  imports Operation_Exec
begin

text \<open>
  The blocks that are emitted for an operation pass the verifier: every operand is defined where it is used and has the
  type that its operation asks for, every call fits the declaration of its symbol, and every constant its type.
\<close>

definition verified :: "emit_code \<Rightarrow> bool" where
  "verified c \<longleftrightarrow> (\<exists>code. c [] = Inr code \<and> code_verifies main_module (Int_type 8) [Ptr, Int_type 64] [] code)"

lemma declared_calls_verify:
  "list_all (\<lambda>it. case it of Func s ps rs _ \<Rightarrow> call_verifies main_module s ps rs | _ \<Rightarrow> True) declared_symbols"
  unfolding list_all_iff using main_module_func declared_in_main by (fastforce split: mlir_item.split)

lemmas calls_verify = declared_calls_verify [unfolded declare_defs, simplified]

lemma constants_fit:
  "unat (g :: u64) < 2 ^ 64" "unat (r :: u8) < 2 ^ 8" "integer_constant_from_i64 i < 2 ^ 256"
  using unsigned_less [of g, where ?'a = nat] unsigned_less [of r, where ?'a = nat]
  by (simp_all add: integer_constant_from_i64_def nat_less_iff)

lemma code_size_fits: "unat (k :: u32) < 2 ^ 256"
  using unsigned_less [of k, where ?'a = nat] by simp

lemma mask_fits: "be_nat (replicate 32 (0xff :: u8)) < 2 ^ 256"
  using be_nat_bound [of "replicate 32 (0xff :: u8)"] by simp

lemmas code_emit_defs = emit_defs emit_basics emit_code_defs opctx_defs mlir_defs emit_branch_def emit_push_end_def
  emit_guarded_def emit_guarded_swapped_def emit_guarded_gas_first_def emit_checked_def emit_binary_def emit_compare_def
  emit_unless_zero_def emit_modular_def emit_shift_def emit_push_op_def emit_push_extended_def emit_blobbasefee_def emit_load_address_def
  emit_block_hash_def emit_lookup_def emit_lookup_op_def emit_code_size_of_def emit_code_hash_of_def emit_transient_read_def
  emit_calldata_slice_def emit_store_slot_def emit_append_log_def emit_call_def emit_call_syscall_def emit_create_def emit_created_def

lemmas verified_simps = verified_def code_emit_defs op_verifies_def setup_globals_verify calls_verify constants_fit [simplified] mask_fits [simplified]
  code_size_fits [simplified]

lemma emit_topics_numeral:
  "emit_topics (numeral k) c = emit_then emit_stack_pop (\<lambda>topic.
     emit_then (emit_allocate_and_store_value topic) (\<lambda>topic_ptr.
     emit_topics (pred_numeral k) (\<lambda>topic_pointers. c (topic_ptr # topic_pointers))))"
  by (simp add: numeral_eq_Suc)

context main_function
begin

lemma arithmetic_verified:
  "verified emit_codegen_add" "verified emit_codegen_sub" "verified emit_codegen_mul" "verified emit_codegen_and"
  "verified emit_codegen_or" "verified emit_codegen_xor" "verified emit_codegen_not" "verified emit_codegen_lt" "verified emit_codegen_gt"
  "verified emit_codegen_slt" "verified emit_codegen_sgt" "verified emit_codegen_eq" "verified emit_codegen_iszero"
  unfolding emit_codegen_add_def emit_codegen_sub_def emit_codegen_mul_def emit_codegen_and_def emit_codegen_or_def emit_codegen_xor_def
    emit_codegen_not_def emit_codegen_lt_def emit_codegen_gt_def emit_codegen_slt_def emit_codegen_sgt_def emit_codegen_eq_def emit_codegen_iszero_def
  by (simp add: verified_simps; fail)+

lemma divisions_verified:
  "verified emit_codegen_div" "verified emit_codegen_mod" "verified emit_codegen_sdiv" "verified emit_codegen_smod"
  "verified emit_codegen_addmod" "verified emit_codegen_mulmod"
  unfolding emit_codegen_div_def emit_codegen_mod_def emit_codegen_sdiv_def emit_codegen_smod_def emit_codegen_addmod_def emit_codegen_mulmod_def
  by (simp add: verified_simps; fail)+

lemma shifts_verified:
  "verified emit_codegen_shl" "verified emit_codegen_shr" "verified emit_codegen_sar" "verified emit_codegen_byte"
  "verified emit_codegen_signextend" "verified emit_codegen_exp"
  unfolding emit_codegen_shl_def emit_codegen_shr_def emit_codegen_sar_def emit_codegen_byte_def emit_codegen_signextend_def emit_codegen_exp_def
  by (simp add: verified_simps; fail)+

lemma stack_operations_verified:
  "v < 2 ^ 256 \<Longrightarrow> verified (emit_codegen_push v z)" "verified emit_codegen_pop" "verified (emit_codegen_dup n)" "verified (emit_codegen_swap n)"
  unfolding emit_codegen_push_def emit_codegen_pop_def emit_codegen_dup_def emit_codegen_swap_def
  by (simp add: verified_simps; fail)+

lemma environment_verified:
  "verified (emit_codegen_origin x)" "verified (emit_codegen_caller x)" "verified (emit_codegen_callvalue x)"
  "verified (emit_codegen_gasprice x)" "verified (emit_codegen_number x)" "verified (emit_codegen_timestamp x)"
  "verified (emit_codegen_basefee x)" "verified (emit_codegen_prevrandao x)" "verified (emit_codegen_chaind x)"
  "verified (emit_codegen_gaslimit x)" "verified (emit_codegen_blobbasefee x)" "verified (emit_codegen_coinbase x)"
  "verified (emit_codegen_address x)" "verified (emit_codegen_codesize p)" "verified (emit_codegen_returndatasize x)"
  "verified (emit_codegen_pc pc)" "verified emit_codegen_msize" "verified emit_codegen_gas" "verified (emit_codegen_calldatasize x)"
  unfolding emit_codegen_origin_def emit_codegen_caller_def emit_codegen_callvalue_def emit_codegen_gasprice_def emit_codegen_number_def
    emit_codegen_timestamp_def emit_codegen_basefee_def emit_codegen_prevrandao_def emit_codegen_chaind_def emit_codegen_gaslimit_def
    emit_codegen_blobbasefee_def emit_codegen_coinbase_def emit_codegen_address_def emit_codegen_codesize_def
    emit_codegen_returndatasize_def emit_codegen_pc_def emit_codegen_msize_def emit_codegen_gas_def emit_codegen_calldatasize_def
  by (simp add: verified_simps syscall_ctx; fail)+

lemma lookups_verified:
  "verified (emit_codegen_selfbalance x)" "verified (emit_codegen_blockhash x)" "verified (emit_codegen_blobhash x)"
  "verified (emit_codegen_tload x)" "verified (emit_codegen_balance x)" "verified (emit_codegen_sload x)"
  "verified (emit_codegen_extcodesize x)" "verified (emit_codegen_extcodehash x)" "verified emit_codegen_calldataload"
  unfolding emit_codegen_selfbalance_def emit_codegen_blockhash_def emit_codegen_blobhash_def emit_codegen_tload_def
    emit_codegen_balance_def emit_codegen_sload_def emit_codegen_extcodesize_def emit_codegen_extcodehash_def emit_codegen_calldataload_def
  by (simp add: verified_simps syscall_ctx; fail)+

lemma memory_operations_verified:
  "verified (emit_codegen_mload x)" "verified (emit_codegen_mstore x)" "verified (emit_codegen_mstore8 x)" "verified (emit_codegen_mcopy x)"
  "verified (emit_codegen_keccak256 x)" "verified (emit_codegen_calldatacopy x)" "verified (emit_codegen_codecopy x)"
  "verified (emit_codegen_extcodecopy x)" "verified (emit_codegen_returndatacopy x)"
  unfolding emit_codegen_mload_def emit_codegen_mstore_def emit_codegen_mstore8_def emit_codegen_mcopy_def emit_codegen_keccak256_def
    emit_codegen_calldatacopy_def emit_codegen_codecopy_def emit_codegen_extcodecopy_def emit_codegen_returndatacopy_def
  by (simp add: verified_simps syscall_ctx; fail)+

lemma world_operations_verified:
  "verified (emit_codegen_sstore x)" "verified (emit_codegen_tstore x)" "verified (emit_codegen_selfdestruct x)"
  "verified (emit_codegen_create x False)" "verified (emit_codegen_create x True)" "verified (emit_codegen_jumpdest pc)"
  "verified emit_codegen_jump" "verified emit_codegen_jumpi" "verified (emit_codegen_return x)" "verified (emit_codegen_revert x)"
  "verified (emit_codegen_stop x)" "verified emit_codegen_invalid" "verified (emit_return_empty_result x reason)"
  unfolding emit_codegen_sstore_def emit_codegen_tstore_def emit_codegen_selfdestruct_def emit_codegen_create_def emit_codegen_jumpdest_def
    emit_codegen_jump_def emit_codegen_jumpi_def emit_codegen_return_def emit_codegen_revert_def emit_codegen_stop_def emit_codegen_invalid_def
  by (simp add: verified_simps syscall_ctx; fail)+

lemma calls_verified: "verified (emit_codegen_call x ct)"
  unfolding emit_codegen_call_def by (cases "has_value ct") (simp_all add: verified_simps syscall_ctx)

lemma logs_verified:
  assumes "n \<le> 4"
  shows "verified (emit_codegen_log x n)"
proof -
  have "n \<in> {0, 1, 2, 3, 4}" using assms by (simp add: word_le_nat_alt word_unat_eq_iff) linarith
  then show ?thesis unfolding emit_codegen_log_def
    by (elim insertE emptyE; simp add: verified_simps syscall_ctx emit_topics_numeral)
qed

lemma operation_verified:
  assumes "op_ok pc op"
  shows "verified (emit_code_for_op x p op)"
proof (cases op)
  case (Push n v)
  then have "v < 2 ^ 256" using op_ok_compiles [OF assms] by (simp add: op_compiles_def)
  then show ?thesis using Push stack_operations_verified(1) by simp
next
  case (Log n)
  then have "n \<le> 4" using op_ok_compiles [OF assms] by (simp add: op_compiles_def)
  then show ?thesis using Log logs_verified by simp
next
  case Push0
  then show ?thesis using stack_operations_verified(1) [of 0] by simp
qed (simp_all add: arithmetic_verified divisions_verified shifts_verified stack_operations_verified environment_verified
    lookups_verified memory_operations_verified world_operations_verified calls_verified)

end

section \<open>The operations\<close>

abbreviation main_ctx :: operation_ctx where
  "main_ctx \<equiv> \<lparr>octx_syscall_ctx = Argument 0 Ptr, octx_revert_block = revert_code\<rparr>"

text \<open>C2: for every operation that the parser can produce, the blocks that the code generator emits verify in the module of the program
  and implement the machine model of
  the operation: run in a state that represents a machine state they end as the operation does, in the next
  operation, in the jump table, in the revert block or in a return, in a state that represents its result, and with a fault exactly when the
  operation has that fault.\<close>

theorem operations_implemented:
  assumes "op_ok pc op"
  shows "\<exists>code. emit_code_for_op main_ctx p op [] = Inr code \<and>
    code_verifies main_module (Int_type 8) [Ptr, Int_type 64] [] code \<and>
    (\<forall>s m. represents s m \<and> l_results s = [] \<longrightarrow> runs_as (exec_code h exec code) (generate_code_for_op h exec p op) s m)"
proof -
  obtain code where "emit_code_for_op main_ctx p op [] = Inr code"
    "code_verifies main_module (Int_type 8) [Ptr, Int_type 64] [] code"
    using generated.operation_verified [OF assms] by (auto simp: verified_def)
  moreover have "runs_as (exec_code h exec code) (generate_code_for_op h exec p op) s m"
    if "emit_code_for_op main_ctx p op [] = Inr code" "represents s m" "l_results s = []" for code s m
    using generated.operation_implemented [OF assms, of h exec p, unfolded code_implements_def, rule_format, of "[]"] that
    by fastforce
  ultimately show ?thesis by blast
qed

theorem operations_implemented_witness:
  "\<exists>code. emit_codegen_sload main_ctx [] = Inr code \<and>
     code_verifies main_module (Int_type 8) [Ptr, Int_type 64] [] code \<and>
     (\<forall>s m. represents s m \<and> l_results s = [] \<longrightarrow> runs_as (exec_code sample_host (\<lambda>_ c _. Inr c) code) codegen_sload s m)"
  using operations_implemented [of 0 Sload "program_from []" sample_host "\<lambda>_ c _. Inr c"] by (simp add: op_ok_def)

end
