(* ===== verification/Program_Exec.thy ===== *)
theory Program_Exec
  imports Emit_Types
begin

text \<open>
  Whole programs: what \<open>compile_program\<close> (\<open>context.rs\<close>) writes into the main function, its execution
  block by block with the contracts it calls compiled and run in the same way, and the proof that it does
  what the machine model of the program does.
\<close>

section \<open>Emission of the main function\<close>

text \<open>The blocks of the main function. The last block of an operation goes on in the first of the next, the last of
  all in the return block; a jump goes through the table.\<close>

record mlir_main =
  main_setup :: mlir_block
  main_operations :: "mlir_code list"
  main_return :: mlir_code
  main_jumptable :: "(u256 \<times> nat) list"
  main_revert :: mlir_code

primrec emit_operations :: "operation_ctx \<Rightarrow> program \<Rightarrow> operation list \<Rightarrow> mlir_code list cg" where
  "emit_operations x p [] = Inr []"
| "emit_operations x p (op # ops) =
     and_then (emit_code_for_op x p op []) (\<lambda>c. and_then (emit_operations x p ops) (\<lambda>cs. Inr (c # cs)))"

text \<open>The switch of the jump table is asserted to verify, with as many cases as destinations.\<close>

definition emit_main :: "program \<Rightarrow> (mlir_module \<times> mlir_main) cg" where
  "emit_main p =
     and_then (operation_ctx_new [] []) (\<lambda>(M, setup_block, x).
     and_then (emit_operations x p (operations p)) (\<lambda>ops.
     if length (jumpdest_pcs p) \<noteq> length (jumpdest_blocks p) then Inl Panicked
     else and_then (emit_return_empty_result x Exit_Stop []) (\<lambda>return_block.
     Inr (M @ [main_func], \<lparr>main_setup = setup_block, main_operations = ops, main_return = return_block,
       main_jumptable = populate_jumptable p, main_revert = octx_revert_block x\<rparr>))))"

section \<open>Execution\<close>

text \<open>Values do not go from one operation to another.\<close>

definition exec_block :: "host \<Rightarrow> executor \<Rightarrow> mlir_code \<Rightarrow> lstate \<Rightarrow> (lstate \<times> flow) res" where
  "exec_block h exec c s = exec_code h exec c (s\<lparr>l_results := []\<rparr>)"

definition main_block :: "mlir_main \<Rightarrow> nat \<Rightarrow> mlir_code" where
  "main_block f i = (if i < length (main_operations f) then main_operations f ! i else main_return f)"

definition exec_revert :: "host \<Rightarrow> executor \<Rightarrow> mlir_main \<Rightarrow> lstate \<Rightarrow> (lstate \<times> u8) res" where
  "exec_revert h exec f s =
     and_then (exec_block h exec (main_revert f) s) (\<lambda>(s, fl). case fl of
        Returned code \<Rightarrow> Inr (s, code)
      | _ \<Rightarrow> Inl Undefined_Behaviour)"

text \<open>The setup block calls no contract; a program that does not compile makes \<open>expect\<close> panic.\<close>

definition enter_main :: "host \<Rightarrow> (nat \<Rightarrow> u256) \<Rightarrow> mlir_main \<Rightarrow> syscall_context \<Rightarrow> u64 \<Rightarrow> lstate res" where
  "enter_main h cells f c initial_gas =
     exec_ops h (\<lambda>_ _ _. Inl Undefined_Behaviour) (entry_state c initial_gas cells) (main_setup f)"

definition compiled :: "program \<Rightarrow> mlir_main res" where
  "compiled p = (case emit_main p of Inl _ \<Rightarrow> Inl Panic | Inr (_, f) \<Rightarrow> Inr f)"

primrec run_main_blocks :: "host \<Rightarrow> (nat \<Rightarrow> u256) \<Rightarrow> nat \<Rightarrow> mlir_main \<Rightarrow> nat \<Rightarrow> lstate \<Rightarrow> (lstate \<times> u8) res" where
  "run_main_blocks h cells 0 f i s = Inl Out_Of_Fuel"
| "run_main_blocks h cells (Suc n) f i s =
     (let exec = (\<lambda>p c gas.
         and_then (compiled p) (\<lambda>f.
         and_then (enter_main h cells f c gas) (\<lambda>s.
         and_then (run_main_blocks h cells n f 0 s) (\<lambda>(s, _). Inr (l_ctx s)))))
      in and_then (exec_block h exec (main_block f i) s) (\<lambda>(s, fl). case fl of
           Next \<Rightarrow> run_main_blocks h cells n f (Suc i) s
         | To_revert \<Rightarrow> exec_revert h exec f s
         | To_jumptable pc \<Rightarrow> (case map_of (main_jumptable f) pc of
              Some j \<Rightarrow> run_main_blocks h cells n f j s
            | None \<Rightarrow> exec_revert h exec f s)
         | Returned code \<Rightarrow> Inr (s, code)))"

definition execute_main :: "host \<Rightarrow> (nat \<Rightarrow> u256) \<Rightarrow> nat \<Rightarrow> executor" where
  "execute_main h cells n p c initial_gas =
     and_then (compiled p) (\<lambda>f.
     and_then (enter_main h cells f c initial_gas) (\<lambda>s.
     and_then (run_main_blocks h cells n f 0 s) (\<lambda>(s, _). Inr (l_ctx s))))"

lemma run_main_blocks_Suc:
  "run_main_blocks h cells (Suc n) f i s =
     and_then (exec_block h (execute_main h cells n) (main_block f i) s) (\<lambda>(s, fl). case fl of
           Next \<Rightarrow> run_main_blocks h cells n f (Suc i) s
         | To_revert \<Rightarrow> exec_revert h (execute_main h cells n) f s
         | To_jumptable pc \<Rightarrow> (case map_of (main_jumptable f) pc of
              Some j \<Rightarrow> run_main_blocks h cells n f j s
            | None \<Rightarrow> exec_revert h (execute_main h cells n) f s)
         | Returned code \<Rightarrow> Inr (s, code))"
  unfolding execute_main_def [abs_def] by (simp only: run_main_blocks.simps Let_def)

section \<open>Executors that agree\<close>

text \<open>Contracts are run on the result of the parser only, so what an executor does to other programs does not matter.\<close>

definition agree :: "executor \<Rightarrow> executor \<Rightarrow> bool" where
  "agree e e' \<longleftrightarrow> (\<forall>p c gas. canonical 0 (operations p) \<longrightarrow> e p c gas = e' p c gas)"

lemma agree_parsed: "agree e e' \<Longrightarrow> e (program_from (ops_from bs 0)) = e' (program_from (ops_from bs 0))"
  using canonical_ops_from [of 0 bs] by (intro ext) (simp add: agree_def program_from_def)

lemma calls_agree:
  assumes "agree e e'"
  shows "syscall_call h e = syscall_call h e'"
proof -
  have "run_callee e = run_callee e'"
    by (intro ext) (simp add: run_callee_def from_bytecode_eq agree_parsed [OF assms] cong: if_cong)
  then have "call_contract e = call_contract e'" by (intro ext) (simp only: call_contract_def)
  then show ?thesis by (intro ext) (simp only: syscall_call_def)
qed

lemma creations_agree:
  assumes "agree e e'"
  shows "create h e = create h e'" "create2 h e = create2 h e'"
proof -
  have "run_init_code h e c off k v g (program_from (ops_from bs 0)) = run_init_code h e' c off k v g (program_from (ops_from bs 0))"
    for c off k v g bs
    by (intro ext) (simp only: run_init_code_def agree_parsed [OF assms])
  then have "create_aux h e = create_aux h e'"
    by (intro ext) (simp only: create_aux_def from_bytecode_eq and_then.simps)
  then show "create h e = create h e'" "create2 h e = create2 h e'" by (auto simp: fun_eq_iff create_def create2_def)
qed

lemma extern_calls_agree:
  assumes "agree e e'"
  shows "ext_call h e = ext_call h e'" "ext_create h e = ext_create h e'" "ext_create2 h e = ext_create2 h e'"
  unfolding fun_eq_iff ext_call_def ext_create_def ext_create2_def calls_agree [OF assms] creations_agree [OF assms] by simp_all

lemma extern_others_agree:
  "ext_store g h e = ext_store g h e'" "ext_get k h e = ext_get k h e'"
  "ext_store_in_blobbasefee_ptr h e = ext_store_in_blobbasefee_ptr h e'"
  "ext_store_in_selfbalance_ptr h e = ext_store_in_selfbalance_ptr h e'" "ext_write_result h e = ext_write_result h e'"
  "ext_extend_memory h e = ext_extend_memory h e'" "ext_keccak256_hasher h e = ext_keccak256_hasher h e'"
  "ext_copy u h e = ext_copy u h e'" "ext_copy_ext_code_to_memory h e = ext_copy_ext_code_to_memory h e'"
  "ext_append_log n v h e = ext_append_log n v h e'" "ext_lookup w h e = ext_lookup w h e'"
  "ext_get_code_hash h e = ext_get_code_hash h e'" "ext_get_codesize_from_address h e = ext_get_codesize_from_address h e'"
  "ext_get_block_hash h e = ext_get_block_hash h e'" "ext_read r h e = ext_read r h e'"
  "ext_write_storage h e = ext_write_storage h e'" "ext_write_transient_storage h e = ext_write_transient_storage h e'"
  "ext_selfdestruct h e = ext_selfdestruct h e'"
  unfolding fun_eq_iff ext_store_def ext_get_def ext_store_in_blobbasefee_ptr_def ext_store_in_selfbalance_ptr_def
      ext_write_result_def ext_extend_memory_def ext_keccak256_hasher_def ext_copy_def ext_copy_ext_code_to_memory_def
      ext_append_log_def ext_lookup_def ext_get_code_hash_def ext_get_codesize_from_address_def ext_get_block_hash_def
      ext_read_def ext_write_storage_def ext_write_transient_storage_def ext_selfdestruct_def by simp_all

lemma externs_agree:
  assumes "agree e e'" and "call_symbol g = Some f"
  shows "f h e = f h e'"
proof -
  have "\<forall>(n, f) \<in> set externs. f h e = f h e'"
    unfolding externs_def list.set using extern_calls_agree [OF assms(1)] extern_others_agree by simp
  then show ?thesis
    using assms(2) by (auto simp: call_symbol_def split: option.splits target.splits dest!: map_of_SomeD)
qed

lemma exec_op_agree: "agree e e' \<Longrightarrow> exec_op h e s op = exec_op h e' s op"
  by (cases op) (auto simp: or_undefined_def externs_agree split: option.split)

lemma exec_ops_agree: "agree e e' \<Longrightarrow> exec_ops h e s ops = exec_ops h e' s ops"
  by (induction ops arbitrary: s) (simp_all add: exec_op_agree)

lemma exec_code_agree:
  assumes "agree e e'"
  shows "exec_code h e c s = exec_code h e' c s" and "exec_terminator h e t s = exec_terminator h e' t s"
    and "exec_target h e g s = exec_target h e' g s"
  by (induction c and t and g arbitrary: s and s and s)
     (auto simp: exec_ops_agree [OF assms] take_branch_def intro!: and_then_cong split: flow.split)

section \<open>Simulation\<close>

definition simulates :: "(lstate \<times> 'a) res \<Rightarrow> (mstate \<times> 'a) res \<Rightarrow> bool" where
  "simulates r q \<longleftrightarrow> (case q of Inl err \<Rightarrow> r = Inl err | Inr (m, y) \<Rightarrow> \<exists>s. r = Inr (s, y) \<and> represents s m)"

lemma simulates_Inr [simp]: "simulates (Inr (s, y)) (Inr (m, z)) \<longleftrightarrow> y = z \<and> represents s m"
  by (auto simp: simulates_def)

lemma simulates_then:
  assumes "simulates r q" and "\<And>s m y. represents s m \<Longrightarrow> simulates (f (s, y)) (g (m, y))"
  shows "simulates (and_then r f) (and_then q g)"
proof (cases q)
  case (Inl err)
  then show ?thesis using assms(1) by (simp add: simulates_def)
next
  case (Inr p)
  obtain m y where p: "p = (m, y)" by fastforce
  then obtain s where "r = Inr (s, y)" "represents s m" using assms(1) Inr by (auto simp: simulates_def)
  then show ?thesis using assms(2) [of s m y] Inr p by simp
qed

lemma block_simulates:
  assumes "\<And>h exec. code_implements h exec (\<lambda>_. True) c (f h exec)"
  shows "\<exists>code. c [] = Inr code \<and> (\<forall>h exec s m. represents s m \<longrightarrow> simulates (exec_block h exec code s) (f h exec m))"
proof -
  obtain code where c: "c [] = Inr code" using assms [of undefined undefined] unfolding code_implements_def by blast
  have "simulates (exec_block h exec code s) (f h exec m)" if "represents s m" for h exec s m
  proof -
    have "represents (s\<lparr>l_results := []\<rparr>) m" using that by (simp add: represents_results)
    then have "runs_as (exec_code h exec code) (f h exec) (s\<lparr>l_results := []\<rparr>) m"
      using assms [of h exec, unfolded code_implements_def, rule_format, of "[]"] c by auto
    then show ?thesis by (auto simp: simulates_def runs_as_def exec_block_def split: sum.splits)
  qed
  then show ?thesis using c by blast
qed

definition op_code :: "program \<Rightarrow> operation \<Rightarrow> mlir_code \<Rightarrow> bool" where
  "op_code p op code \<longleftrightarrow> code_verifies main_module (Int_type 8) [Ptr, Int_type 64] [] code \<and>
     (\<forall>h exec s m. represents s m \<longrightarrow> simulates (exec_block h exec code s) (generate_code_for_op h exec p op m))"

lemma emit_operations_simulate:
  "canonical pc ops \<Longrightarrow> \<exists>cs. emit_operations main_ctx p ops = Inr cs \<and> list_all2 (op_code p) ops cs"
proof (induction ops arbitrary: pc)
  case (Cons op ops)
  have ok: "op_ok pc op" using Cons.prems by simp
  obtain c where "emit_code_for_op main_ctx p op [] = Inr c" "op_code p op c"
    using block_simulates [OF generated.operation_implemented [OF ok, of _ _ p]] generated.operation_verified [OF ok, of p]
    by (auto simp: op_code_def verified_def)
  moreover obtain cs where "emit_operations main_ctx p ops = Inr cs" "list_all2 (op_code p) ops cs"
    using Cons.IH [of "pc + op_size op"] Cons.prems by auto
  ultimately show ?case by simp
qed simp

lemma emit_revert_block_eq: "emit_revert_block (Argument 0 Ptr) [] = Inr revert_code"
  by (simp add: setup_emit_defs emit_defs emit_basics revert_code_def)

lemma revert_simulates:
  assumes "represents s m" and "main_revert f = revert_code"
  shows "simulates (exec_revert h exec f s) (Inr (generate_revert_block m))"
proof -
  have "simulates (exec_block h exec revert_code s) (case generate_revert_block m of (m, code) \<Rightarrow> Inr (m, Returned code))"
    using block_simulates [OF generated.revert_block_implemented] assms(1) by (auto simp: emit_revert_block_eq)
  then show ?thesis using assms(2) by (auto simp: exec_revert_def simulates_def split: prod.splits)
qed

text \<open>The blocks of a main function verify in its module.\<close>

definition main_verifies :: "mlir_main \<Rightarrow> bool" where
  "main_verifies f \<longleftrightarrow> block_verifies main_module [Ptr, Int_type 64] (main_setup f) \<and>
     list_all (code_verifies main_module (Int_type 8) [Ptr, Int_type 64] []) (main_operations f @ [main_return f, main_revert f])"

definition main_implements :: "mlir_main \<Rightarrow> program \<Rightarrow> bool" where
  "main_implements f p \<longleftrightarrow> main_verifies f \<and> length (main_operations f) = length (operations p) \<and> main_setup f = setup_ops \<and> main_revert f = revert_code \<and> main_jumptable f = populate_jumptable p \<and>
     (\<forall>h exec i s m. represents s m \<longrightarrow> simulates (exec_block h exec (main_block f i) s)
        (if i < length (operations p) then generate_code_for_op h exec p (operations p ! i) m else return_empty_result m Exit_Stop))"

lemma emit_main_implements:
  assumes "canonical 0 (operations p)"
  shows "\<exists>f. emit_main p = Inr (main_module, f) \<and> main_implements f p"
proof -
  obtain cs where cs: "emit_operations main_ctx p (operations p) = Inr cs" "list_all2 (op_code p) (operations p) cs"
    using emit_operations_simulate [OF assms] by blast
  obtain rb where rb: "emit_return_empty_result main_ctx Exit_Stop [] = Inr rb"
    "\<And>h exec s m. represents s m \<Longrightarrow> simulates (exec_block h exec rb s) (return_empty_result m Exit_Stop)"
    "code_verifies main_module (Int_type 8) [Ptr, Int_type 64] [] rb"
    using block_simulates [OF generated.return_block_implemented [of _ _ Exit_Stop]] generated.world_operations_verified(13) [of Exit_Stop]
    by (auto simp: verified_def)
  let ?f = "\<lparr>main_setup = setup_ops, main_operations = cs, main_return = rb, main_jumptable = populate_jumptable p, main_revert = revert_code\<rparr>"
  have "emit_main p = Inr (main_module, ?f)"
    using cs(1) rb(1) jump_target_canonical(2) [OF assms] by (simp add: emit_main_def operation_ctx_new_eq)
  moreover have "main_implements ?f p"
  proof -
    have "list_all (code_verifies main_module (Int_type 8) [Ptr, Int_type 64] []) cs"
      using cs(2) by (auto simp: list_all2_conv_all_nth list_all_length op_code_def)
    then have "main_verifies ?f" using rb(3) setup_verifies revert_verifies by (simp add: main_verifies_def)
    then show ?thesis using cs(2) rb(2) by (auto simp: main_implements_def main_block_def list_all2_conv_all_nth op_code_def)
  qed
  ultimately show ?thesis by blast
qed

lemma compiled_canonical:
  fixes p :: program
  assumes "canonical 0 (operations p)"
  obtains f where "compiled p = Inr f" "main_implements f p" "compile_program p = Inr ()"
  using emit_main_implements [OF assms] canonical_compiles [OF assms] jump_target_canonical(2) [OF assms] that
  by (auto simp: compiled_def compile_program_def)

lemma execute_agrees:
  assumes "\<And>p f s m. canonical 0 (operations p) \<Longrightarrow> main_implements f p \<Longrightarrow> represents s m \<Longrightarrow>
    simulates (run_main_blocks h cells n f 0 s) (run h n p 0 m)"
  shows "agree (execute_main h cells n) (execute h n)"
  unfolding agree_def
proof (intro allI impI)
  fix p :: program and c gas
  assume p: "canonical 0 (operations p)"
  then obtain f where f: "compiled p = Inr f" "main_implements f p" "compile_program p = Inr ()" by (rule compiled_canonical)
  obtain s where s: "enter_main h cells f c gas = Inr s" "represents s (setup_code c gas)"
    using setup_implemented f(2) unfolding enter_main_def main_implements_def by metis
  have "simulates (run_main_blocks h cells n f 0 s) (run h n p 0 (setup_code c gas))" by (rule assms [OF p f(2) s(2)])
  then show "execute_main h cells n p c gas = execute h n p c gas"
    using f(1,3) s(1) by (auto simp: execute_main_def execute_def simulates_def represents_def split: sum.splits)
qed

lemma run_main_blocks_simulates:
  assumes "canonical 0 (operations p)" and "main_implements f p" and "represents s m"
  shows "simulates (run_main_blocks h cells n f i s) (run h n p i m)"
  using assms
proof (induction n arbitrary: p f i s m)
  case 0
  then show ?case by (simp add: simulates_def)
next
  case (Suc n)
  have agrees: "agree (execute_main h cells n) (execute h n)" by (rule execute_agrees) (rule Suc.IH)
  have rev: "simulates (exec_revert h (execute_main h cells n) f s) (Inr (generate_revert_block m))" if "represents s m" for s m
    using that Suc.prems(2) by (intro revert_simulates) (simp_all add: main_implements_def)
  have blk: "simulates (exec_block h (execute_main h cells n) (main_block f i) s)
     (if i < length (operations p) then generate_code_for_op h (execute h n) p (operations p ! i) m else return_empty_result m Exit_Stop)"
    using Suc.prems(2,3) exec_code_agree(1) [OF agrees] by (auto simp: main_implements_def exec_block_def)
  show ?case
    unfolding run_main_blocks_Suc run_Suc run_block_def and_then_assoc
  proof (rule simulates_then [OF blk])
    fix s m fl
    assume s: "represents s m"
    have jt: "jump_target p pc = map_of (main_jumptable f) pc" for pc
      using Suc.prems(2) by (simp add: jump_target_def main_implements_def)
    show "simulates (case (s, fl) of (s, fl) \<Rightarrow> case fl of
           Next \<Rightarrow> run_main_blocks h cells n f (Suc i) s
         | To_revert \<Rightarrow> exec_revert h (execute_main h cells n) f s
         | To_jumptable pc \<Rightarrow> (case map_of (main_jumptable f) pc of
              Some j \<Rightarrow> run_main_blocks h cells n f j s
            | None \<Rightarrow> exec_revert h (execute_main h cells n) f s)
         | Returned code \<Rightarrow> Inr (s, code))
        (and_then (Inr (follow p i (m, fl))) (\<lambda>b. case b of Block j m \<Rightarrow> run h n p j m | Leave m code \<Rightarrow> Inr (m, code)))"
      using s Suc.IH [OF Suc.prems(1,2) s] rev [OF s]
      by (auto simp: follow_def jt split: flow.splits option.splits prod.splits)
  qed
qed

lemma enter_main_implemented:
  "main_implements f p \<Longrightarrow> \<exists>s. enter_main h cells f c gas = Inr s \<and> represents s (setup_code c gas)"
  using setup_implemented by (simp add: enter_main_def main_implements_def)

lemma return_block_simulates:
  assumes "main_implements f p" and "represents s m"
  shows "simulates (exec_block h exec (main_return f) s) (return_empty_result m Exit_Stop)"
proof -
  have "simulates (exec_block h exec (main_block f i) s)
      (if i < length (operations p) then generate_code_for_op h exec p (operations p ! i) m else return_empty_result m Exit_Stop)" for i
    using assms unfolding main_implements_def by blast
  from this [of "length (operations p)"]
  have "simulates (exec_block h exec (main_block f (length (operations p))) s) (return_empty_result m Exit_Stop)" by simp
  then show ?thesis using assms(1) by (simp add: main_block_def main_implements_def)
qed

text \<open>C12: compiling any byte string gives a module whose blocks verify and whose main function does exactly what the machine model
  of the program does. The setup block, run on any stack contents, ends in the initial state of the machine; the revert block and the block
  after the last operation write the result of the machine model to the context and return its exit code; and the whole function, entered
  with any context and any gas, with the contracts that it calls compiled and run in the same way, ends in the same context or
  in the same fault as \<open>execute\<close>.\<close>

theorem program_implemented:
  "\<exists>p f. from_bytecode bs = Inr p \<and> emit_main p = Inr (main_module, f) \<and> main_verifies f \<and>
     (\<exists>s. enter_main h cells f c gas = Inr s \<and> represents s (setup_code c gas)) \<and>
     (\<forall>s m. represents s m \<longrightarrow> simulates (exec_revert h exec f s) (Inr (generate_revert_block m)) \<and>
        simulates (exec_block h exec (main_return f) s) (return_empty_result m Exit_Stop)) \<and>
     execute_main h cells n p c gas = execute h n p c gas"
proof -
  obtain p where p: "from_bytecode bs = Inr p" "canonical 0 (operations p)"
    using canonical_ops_from [of 0 bs] by (simp add: from_bytecode_eq program_from_def)
  obtain f where f: "emit_main p = Inr (main_module, f)" "main_implements f p" using emit_main_implements [OF p(2)] by blast
  have "agree (execute_main h cells n) (execute h n)" by (rule execute_agrees) (rule run_main_blocks_simulates)
  then have "execute_main h cells n p c gas = execute h n p c gas" using p(2) by (simp add: agree_def)
  moreover have "main_verifies f" "main_revert f = revert_code" using f(2) by (simp_all add: main_implements_def)
  ultimately show ?thesis
    using p(1) f enter_main_implemented [OF f(2)] return_block_simulates [OF f(2)] revert_simulates
    by (intro exI [of _ p] exI [of _ f]) simp
qed

theorem program_implemented_witness:
  "\<exists>p f s. from_bytecode [0x60, 5, 0x56] = Inr p \<and> emit_main p = Inr (main_module, f) \<and>
     enter_main sample_host (\<lambda>_. 7) f sample_ctx 100 = Inr s \<and> represents s (setup_code sample_ctx 100) \<and>
     simulates (exec_revert sample_host (\<lambda>_ c _. Inr c) f s) (Inr (generate_revert_block (setup_code sample_ctx 100))) \<and>
     execute_main sample_host (\<lambda>_. 7) 3 p sample_ctx 100 = execute sample_host 3 p sample_ctx 100"
  using program_implemented [of "[0x60, 5, 0x56]" sample_host "\<lambda>_. 7" sample_ctx 100 "\<lambda>_ c _. Inr c" 3] by blast

end
