(* ===== verification/Aot.thy ===== *)
theory Aot
  imports Fragments
begin

text \<open>
  Compilation to files: \<open>Context::compile\<close> (\<open>context.rs\<close>), the object file and the linker command lines
  (\<open>codegen/mod.rs\<close>), the pass pipeline (\<open>codegen/pass_manager.rs\<close>), and the builder and the command line program.
  What LLVM, MLIR and the operating system answer is a parameter, the record \<open>toolchain\<close>; the files and the commands that a
  compilation leaves behind are in the record \<open>world\<close>.
\<close>

section \<open>Paths\<close>

text \<open>A path with a last component, as \<open>std::path\<close> splits it.\<close>

record path =
  path_dir :: string
  path_name :: string

definition rsplit_at_dot :: "string \<Rightarrow> string \<times> string option" where
  "rsplit_at_dot name =
     (let r = rev name;
          after = rev (takeWhile (\<lambda>c. c \<noteq> CHR ''.'') r);
          before = rev (tl (dropWhile (\<lambda>c. c \<noteq> CHR ''.'') r))
      in if name = ''..'' \<or> CHR ''.'' \<notin> set name \<or> before = [] then (name, None) else (before, Some after))"

definition with_extension :: "path \<Rightarrow> string \<Rightarrow> path" where
  "with_extension p ext = p\<lparr>path_name := fst (rsplit_at_dot (path_name p)) @ (if ext = [] then [] else CHR ''.'' # ext)\<rparr>"

definition extension :: "path \<Rightarrow> string option" where
  "extension p = snd (rsplit_at_dot (path_name p))"

definition path_string :: "path \<Rightarrow> string" where
  "path_string p = path_dir p @ path_name p"

section \<open>The world of a compilation\<close>

datatype os = Macos | Linux | Windows | Other_os

text \<open>The content of a file; \<open>'m\<close> is a module, of MLIR or of LLVM.\<close>

datatype 'm artefact = Mlir_text string | Llvm_ir 'm | Object 'm | Assembly 'm

record 'm world =
  files :: "path \<rightharpoonup> 'm artefact"
  commands :: "(string \<times> string list) list"

record 'm toolchain =
  target_os :: os
  default_triple :: string
  target_error :: "string \<Rightarrow> string option"
  data_layout :: string
  new_module :: "string \<Rightarrow> string \<Rightarrow> 'm"
  emit_program :: "'m \<Rightarrow> program \<Rightarrow> 'm"
  mlir_verify :: "'m \<Rightarrow> bool"
  mlir_to_string :: "'m \<Rightarrow> string"
  set_data_layout :: "'m \<Rightarrow> string \<Rightarrow> 'm"
  run_passes :: "bool \<Rightarrow> string list \<Rightarrow> 'm \<Rightarrow> 'm option"
  translate_to_llvm :: "'m \<Rightarrow> 'm"
  llvm_run_passes :: "'m \<Rightarrow> string \<Rightarrow> string + 'm"
  write_error :: "path \<Rightarrow> string option"
  emit_error :: "path \<Rightarrow> string option"
  linker :: "string list \<Rightarrow> string + bool"
  path_exists :: "string \<Rightarrow> bool"

type_synonym ('m, 'a) io = "'m world \<Rightarrow> ((codegen_error + 'a) \<times> 'm world) res"

definition io_return :: "'a \<Rightarrow> ('m, 'a) io" where
  "io_return x w = Inr (Inr x, w)"

definition io_then :: "('m, 'a) io \<Rightarrow> ('a \<Rightarrow> ('m, 'b) io) \<Rightarrow> ('m, 'b) io" where
  "io_then a k w = and_then (a w) (\<lambda>(r, w). case r of Inl e \<Rightarrow> Inr (Inl e, w) | Inr x \<Rightarrow> k x w)"

definition io_try :: "codegen_error + 'a \<Rightarrow> ('m, 'a) io" where
  "io_try r w = Inr (r, w)"

definition io_assert :: "bool \<Rightarrow> ('m, unit) io" where
  "io_assert b w = (if b then Inr (Inr (), w) else Inl Panic)"

section \<open>Compilation to MLIR\<close>

record session =
  raw_mlir_path :: "path option"
  after_pass_mlir_path :: "path option"

definition pass_pipeline :: "string list" where
  "pass_pipeline =
     [''create_canonicalizer'', ''create_scf_to_control_flow'', ''create_arith_to_llvm'', ''create_math_to_llvm'',
      ''create_math_to_funcs'', ''create_control_flow_to_llvm'', ''create_index_to_llvm'',
      ''create_finalize_mem_ref_to_llvm'', ''create_func_to_llvm'', ''create_reconcile_unrealized_casts'']"

definition run_pass_manager :: "'m toolchain \<Rightarrow> 'm \<Rightarrow> codegen_error + 'm" where
  "run_pass_manager tc m = (case run_passes tc True pass_pipeline m of None \<Rightarrow> Inl MeliorError | Some m \<Rightarrow> Inr m)"

definition get_data_layout_rep :: "'m toolchain \<Rightarrow> codegen_error + string" where
  "get_data_layout_rep tc =
     (case target_error tc (default_triple tc) of
        Some err \<Rightarrow> Inl (LLVMCompileError err)
      | None \<Rightarrow> Inr (data_layout tc))"

text \<open>\<open>std::fs::write\<close>; the question mark turns an I/O error into \<open>LinkError\<close>.\<close>

definition write_mlir :: "'m toolchain \<Rightarrow> path \<Rightarrow> 'm \<Rightarrow> ('m, unit) io" where
  "write_mlir tc filename m w =
     (case write_error tc filename of
        Some err \<Rightarrow> Inr (Inl (LinkError err), w)
      | None \<Rightarrow> Inr (Inr (), w\<lparr>files := (files w)(filename \<mapsto> Mlir_text (mlir_to_string tc m))\<rparr>))"

definition write_optional :: "'m toolchain \<Rightarrow> path option \<Rightarrow> string \<Rightarrow> 'm \<Rightarrow> ('m, unit) io" where
  "write_optional tc p ext m =
     (case p of None \<Rightarrow> io_return () | Some path \<Rightarrow> write_mlir tc (with_extension path ext) m)"

definition context_compile :: "'m toolchain \<Rightarrow> program \<Rightarrow> session \<Rightarrow> ('m, 'm) io" where
  "context_compile tc p config =
     io_then (io_try (get_data_layout_rep tc)) (\<lambda>data_layout_ret.
     let m = new_module tc (default_triple tc) data_layout_ret
     in io_then (io_assert (mlir_verify tc m)) (\<lambda>_.
        io_then (\<lambda>w. and_then (compile_program p) (\<lambda>_. io_return (emit_program tc m p) w)) (\<lambda>m.
        io_then (io_assert (mlir_verify tc m)) (\<lambda>_.
        io_then (write_optional tc (raw_mlir_path config) ''mlir'' m) (\<lambda>_.
        io_then (io_try (run_pass_manager tc m)) (\<lambda>m.
        let m = set_data_layout tc m data_layout_ret
        in io_then (write_optional tc (after_pass_mlir_path config) ''after-pass.mlir'' m) (\<lambda>_.
           io_return m)))))))"

section \<open>Object files\<close>

text \<open>A call of LLVM that writes a file or fails with a message.\<close>

definition llvm_emit :: "'m toolchain \<Rightarrow> path \<Rightarrow> 'm artefact \<Rightarrow> ('m, unit) io" where
  "llvm_emit tc filename content w =
     (case emit_error tc filename of
        Some err \<Rightarrow> Inr (Inl (LLVMCompileError err), w)
      | None \<Rightarrow> Inr (Inr (), w\<lparr>files := (files w)(filename \<mapsto> content)\<rparr>))"

definition compile_to_object :: "'m toolchain \<Rightarrow> 'm \<Rightarrow> path \<Rightarrow> ('m, path) io" where
  "compile_to_object tc m output_file =
     (let target_file = with_extension output_file ''o'';
          llvm_module = translate_to_llvm tc m
      in io_then (io_try (case target_error tc (default_triple tc) of
             Some err \<Rightarrow> Inl (LLVMCompileError err) | None \<Rightarrow> Inr ())) (\<lambda>_.
         io_then (io_try (case llvm_run_passes tc llvm_module ''default<O0>'' of
             Inl err \<Rightarrow> Inl (LLVMCompileError err) | Inr l \<Rightarrow> Inr l)) (\<lambda>llvm_module.
         io_then (llvm_emit tc (with_extension target_file ''ll'') (Llvm_ir llvm_module)) (\<lambda>_.
         io_then (llvm_emit tc target_file (Object llvm_module)) (\<lambda>_.
         io_then (llvm_emit tc (with_extension target_file ''asm'') (Assembly llvm_module)) (\<lambda>_.
         io_return target_file))))))"

definition compile :: "'m toolchain \<Rightarrow> program \<Rightarrow> path \<Rightarrow> ('m, path) io" where
  "compile tc p output_file =
     io_then (context_compile tc p \<lparr>raw_mlir_path = Some output_file, after_pass_mlir_path = None\<rparr>) (\<lambda>mlir_module.
     compile_to_object tc mlir_module output_file)"

section \<open>Linking\<close>

definition link_binary_args :: "'m toolchain \<Rightarrow> path list \<Rightarrow> path \<Rightarrow> string list res" where
  "link_binary_args tc objects output_filename =
     (case target_os tc of
        Macos \<Rightarrow> Inr ([''-L/usr/local/lib'', ''-L/Library/Developer/CommandLineTools/SDKs/MacOSX.sdk/usr/lib''] @
                   map path_string objects @ [''-o'', path_string output_filename, ''-lSystem''])
      | Linux \<Rightarrow>
          (let (scrt1, crti, crtn) =
             (if path_exists tc ''/usr/lib64/Scrt1.o''
              then (''/usr/lib64/Scrt1.o'', ''/usr/lib64/crti.o'', ''/usr/lib64/crtn.o'')
              else (''/lib/x86_64-linux-gnu/Scrt1.o'', ''/lib/x86_64-linux-gnu/crti.o'', ''/lib/x86_64-linux-gnu/crtn.o''))
           in Inr ([''-pie'', ''--hash-style=gnu'', ''--eh-frame-hdr'', ''--dynamic-linker'',
                    ''/lib/x86_64-linux-gnu/ld-linux-x86-64.so.2'', ''-m'', ''elf_x86_64'', scrt1, crti] @
                   [''-o'', path_string output_filename] @
                   [''-L/lib64'', ''-L/usr/lib64'', ''-L/lib/x86_64-linux-gnu'', ''-zrelro'', ''--no-as-needed'', ''-lc'',
                    ''-O1'', crtn] @
                   map path_string objects))
      | _ \<Rightarrow> Inl Panic)"

text \<open>Running \<open>ld\<close>: an I/O error, or whether it succeeded.\<close>

definition run_linker :: "'m toolchain \<Rightarrow> string list \<Rightarrow> ('m, bool) io" where
  "run_linker tc args w =
     (let w = w\<lparr>commands := commands w @ [(''ld'', args)]\<rparr>
      in case linker tc args of Inl err \<Rightarrow> Inr (Inl (LinkError err), w) | Inr ok \<Rightarrow> Inr (Inr ok, w))"

definition link_binary :: "'m toolchain \<Rightarrow> path list \<Rightarrow> path \<Rightarrow> ('m, unit) io" where
  "link_binary tc objects output_filename w =
     and_then (link_binary_args tc objects output_filename) (\<lambda>args.
     io_then (run_linker tc args) io_assert w)"

definition compile_binary :: "'m toolchain \<Rightarrow> program \<Rightarrow> path \<Rightarrow> ('m, unit) io" where
  "compile_binary tc p output_file =
     io_then (compile tc p output_file) (\<lambda>object_file. link_binary tc [object_file] output_file)"

definition get_platform_library_ext :: "'m toolchain \<Rightarrow> string" where
  "get_platform_library_ext tc =
     (case target_os tc of Macos \<Rightarrow> ''dylib'' | Windows \<Rightarrow> ''dll'' | _ \<Rightarrow> ''so'')"

definition link_shared_lib_args :: "'m toolchain \<Rightarrow> path list \<Rightarrow> path \<Rightarrow> string list res" where
  "link_shared_lib_args tc objects output_filename =
     (let output_filename = (if extension output_filename = None
            then with_extension output_filename (get_platform_library_ext tc) else output_filename)
      in case target_os tc of
           Macos \<Rightarrow> Inr ([''-demangle'', ''-no_deduplicate'', ''-dynamic'', ''-dylib'', ''-L/usr/local/lib'',
                       ''-L/Library/Developer/CommandLineTools/SDKs/MacOSX.sdk/usr/lib''] @
                      map path_string objects @ [''-o'', path_string output_filename, ''-lSystem''])
         | Linux \<Rightarrow> Inr ([''--hash-style=gnu'', ''--eh-frame-hdr'', ''-shared''] @
                      [''-o'', path_string output_filename] @
                      [''-L/lib/../lib64'', ''-L/usr/lib/../lib64'', ''-lc'', ''-O1''] @
                      map path_string objects)
         | _ \<Rightarrow> Inl Panic)"

text \<open>The exit status of the linker is not looked at.\<close>

definition link_shared_lib :: "'m toolchain \<Rightarrow> path list \<Rightarrow> path \<Rightarrow> ('m, unit) io" where
  "link_shared_lib tc objects output_filename w =
     and_then (link_shared_lib_args tc objects output_filename) (\<lambda>args.
     io_then (run_linker tc args) (\<lambda>_. io_return ()) w)"

definition compile_shared_lib :: "'m toolchain \<Rightarrow> program \<Rightarrow> path \<Rightarrow> ('m, unit) io" where
  "compile_shared_lib tc p output_file =
     io_then (compile tc p output_file) (\<lambda>object_file. link_shared_lib tc [object_file] output_file)"

section \<open>The command line program\<close>

datatype opt_level = Opt_None | Opt_Less | Opt_Default | Opt_Aggressive

text \<open>\<open>opt_level\<close> of \<open>main\<close>: absent or \<open>2\<close> is the default, anything else but a level panics.\<close>

definition main_opt_level :: "string option \<Rightarrow> opt_level res" where
  "main_opt_level arg =
     (if arg = None \<or> arg = Some ''2'' then Inr Opt_Default
      else if arg = Some ''0'' then Inr Opt_None
      else if arg = Some ''1'' then Inr Opt_Less
      else if arg = Some ''3'' then Inr Opt_Aggressive
      else Inl Panic)"

text \<open>The symbol that \<open>Executor::execute\<close> looks up.\<close>

definition get_main_entrypoint :: string where
  "get_main_entrypoint = ''_mlir_ciface_'' @ MAIN_ENTRYPOINT"

definition arg :: "string list \<Rightarrow> nat \<Rightarrow> string option" where
  "arg args i = (if i < length args then Some (args ! i) else None)"

text \<open>\<open>main\<close>; \<open>read_file\<close> stands for the file system, the result is the printed exit code.\<close>

definition run_main ::
  "'m toolchain \<Rightarrow> host \<Rightarrow> nat \<Rightarrow> (string \<Rightarrow> bytes option) \<Rightarrow> string list \<Rightarrow> 'm world \<Rightarrow> (u8 \<times> 'm world) res" where
  "run_main tc h n read_file args w =
     (case arg args 1 of None \<Rightarrow> Inl Panic | Some path \<Rightarrow>
      and_then (main_opt_level (arg args 2)) (\<lambda>_.
      case read_file path of None \<Rightarrow> Inl Panic | Some bytecode \<Rightarrow>
      and_then (from_bytecode bytecode) (\<lambda>p.
      and_then (context_compile tc p
          \<lparr>raw_mlir_path = Some \<lparr>path_dir = [], path_name = ''output''\<rparr>, after_pass_mlir_path = None\<rparr> w) (\<lambda>(r, w).
      case r of Inl _ \<Rightarrow> Inl Panic | Inr _ \<Rightarrow>
      let e = env_default; initial_gas = gas_limit (tx e);
          c = syscall_context_new e (journal_new db_new) (call_frame_new 0) initial_gas
      in and_then (run h n p 0 (setup_code c initial_gas)) (\<lambda>(_, code). Inr (code, w))))))"

section \<open>Paths of the files\<close>

lemma rsplit_append_ext:
  assumes "stem \<noteq> []" and "CHR ''.'' \<notin> set ext" and "ext \<noteq> []"
  shows "rsplit_at_dot (stem @ CHR ''.'' # ext) = (stem, Some ext)"
proof -
  have "takeWhile (\<lambda>c. c \<noteq> CHR ''.'') (rev ext @ CHR ''.'' # rev stem) = rev ext"
    "dropWhile (\<lambda>c. c \<noteq> CHR ''.'') (rev ext @ CHR ''.'' # rev stem) = CHR ''.'' # rev stem"
    using assms(2) by (auto simp: takeWhile_append dropWhile_append)
  moreover have "stem @ CHR ''.'' # ext \<noteq> ''..''"
    using assms by (cases stem) (auto simp: append_eq_Cons_conv Cons_eq_append_conv)
  ultimately show ?thesis using assms(1) by (simp add: rsplit_at_dot_def)
qed

lemma stem_nonempty: "name \<noteq> [] \<Longrightarrow> fst (rsplit_at_dot name) \<noteq> []"
  by (simp add: rsplit_at_dot_def Let_def)

lemma with_extension_again:
  assumes "path_name p \<noteq> []" and "CHR ''.'' \<notin> set ext" and "ext \<noteq> []"
  shows "with_extension (with_extension p ext) ext' = with_extension p ext'"
  using rsplit_append_ext [OF stem_nonempty [OF assms(1)] assms(2,3)] assms(3) by (simp add: with_extension_def)

lemma with_extension_inject [simp]: "with_extension p e = with_extension p e' \<longleftrightarrow> e = e'"
proof
  assume "with_extension p e = with_extension p e'"
  from arg_cong [OF this, of path_name] show "e = e'" by (simp add: with_extension_def split: if_splits)
qed simp

section \<open>What a compilation leaves behind\<close>

lemma io_then_result:
  "io_then a k w = Inr (r, w') \<longleftrightarrow>
     (\<exists>e. a w = Inr (Inl e, w') \<and> r = Inl e) \<or> (\<exists>x w1. a w = Inr (Inr x, w1) \<and> k x w1 = Inr (r, w'))"
  by (cases "a w") (auto simp: io_then_def split: sum.splits)

lemmas io_results = io_then_result io_return_def io_try_def io_assert_def write_optional_def

text \<open>Up to its object file a compilation runs no command and touches no file but its own four; when it succeeds, the three that
  LLVM writes are of the same module.\<close>

definition untouched :: "path \<Rightarrow> 'm world \<Rightarrow> 'm world \<Rightarrow> bool" where
  "untouched out w w' \<longleftrightarrow> commands w' = commands w \<and>
     (\<forall>f. f \<notin> with_extension out ` {''mlir'', ''ll'', ''o'', ''asm''} \<longrightarrow> files w' f = files w f)"

lemma context_compile_effect:
  assumes "context_compile tc p \<lparr>raw_mlir_path = Some out, after_pass_mlir_path = None\<rparr> w = Inr (r, w')"
  shows "untouched out w w' \<and> (\<forall>m. r = Inr m \<longrightarrow> (\<exists>t. files w' (with_extension out ''mlir'') = Some (Mlir_text t)))"
  using assms
  by (auto simp: context_compile_def io_results write_mlir_def untouched_def result_simps Let_def
      split: option.splits if_splits)

lemma compile_to_object_effect:
  assumes "compile_to_object tc m out w = Inr (r, w')" and "path_name out \<noteq> []"
  shows "untouched out w w' \<and> files w' (with_extension out ''mlir'') = files w (with_extension out ''mlir'') \<and>
    (\<forall>obj. r = Inr obj \<longrightarrow> obj = with_extension out ''o'' \<and> (\<exists>l. files w' (with_extension out ''ll'') = Some (Llvm_ir l) \<and>
       files w' (with_extension out ''o'') = Some (Object l) \<and> files w' (with_extension out ''asm'') = Some (Assembly l)))"
  using assms(1) with_extension_again [OF assms(2), of "''o''"]
  by (auto simp: compile_to_object_def io_results llvm_emit_def untouched_def Let_def split: option.splits sum.splits)

lemma compile_effect:
  assumes "compile tc p out w = Inr (r, w')" and "path_name out \<noteq> []"
  shows "untouched out w w' \<and> (\<forall>obj. r = Inr obj \<longrightarrow> obj = with_extension out ''o'' \<and>
    (\<exists>t l. files w' (with_extension out ''mlir'') = Some (Mlir_text t) \<and> files w' (with_extension out ''ll'') = Some (Llvm_ir l) \<and>
       files w' (with_extension out ''o'') = Some (Object l) \<and> files w' (with_extension out ''asm'') = Some (Assembly l)))"
proof -
  consider e where "context_compile tc p \<lparr>raw_mlir_path = Some out, after_pass_mlir_path = None\<rparr> w = Inr (Inl e, w')" "r = Inl e"
    | m w1 where "context_compile tc p \<lparr>raw_mlir_path = Some out, after_pass_mlir_path = None\<rparr> w = Inr (Inr m, w1)"
        "compile_to_object tc m out w1 = Inr (r, w')"
    using assms(1) by (auto simp: compile_def io_then_result)
  then show ?thesis
  proof cases
    case 1
    then show ?thesis using context_compile_effect [OF 1(1)] by simp
  next
    case 2
    then show ?thesis
      using context_compile_effect [OF 2(1)] compile_to_object_effect [OF 2(2) assms(2)] by (auto simp: untouched_def)
  qed
qed

lemma link_args_object:
  "link_binary_args tc [obj] out = Inr args \<Longrightarrow> path_string obj \<in> set args"
  "link_shared_lib_args tc [obj] out = Inr args \<Longrightarrow> path_string obj \<in> set args"
  by (auto simp: link_binary_args_def link_shared_lib_args_def Let_def split: os.splits if_splits prod.splits)

text \<open>C36: how an ahead-of-time compilation ends. When the compilation fails, both builds report its error, and no command has
  run. When it succeeds, the object file holds the module of the program, and one \<open>ld\<close> command runs whose arguments name that file. A linker that
  cannot be started is reported as an error by both. A linker that fails makes the build of a binary
  panic, while the build of a shared library reports success.\<close>

theorem link_outcome:
  assumes "path_name out \<noteq> []" and "compile tc p out w = Inr (r, w1)"
  defines "after \<equiv> \<lambda>args. w1\<lparr>commands := commands w @ [(''ld'', args)]\<rparr>"
  shows "(\<forall>e. r = Inl e \<longrightarrow> compile_binary tc p out w = Inr (Inl e, w1) \<and> compile_shared_lib tc p out w = Inr (Inl e, w1) \<and>
            commands w1 = commands w) \<and>
    (\<forall>obj. r = Inr obj \<longrightarrow> obj = with_extension out ''o'' \<and> (\<exists>l. files w1 obj = Some (Object l)) \<and>
       (\<forall>args. link_binary_args tc [obj] out = Inr args \<longrightarrow> path_string obj \<in> set args \<and>
          compile_binary tc p out w = (case linker tc args of
            Inl err \<Rightarrow> Inr (Inl (LinkError err), after args)
          | Inr ok \<Rightarrow> if ok then Inr (Inr (), after args) else Inl Panic)) \<and>
       (\<forall>args. link_shared_lib_args tc [obj] out = Inr args \<longrightarrow> path_string obj \<in> set args \<and>
          compile_shared_lib tc p out w = (case linker tc args of
            Inl err \<Rightarrow> Inr (Inl (LinkError err), after args)
          | Inr _ \<Rightarrow> Inr (Inr (), after args))))"
proof -
  have c: "commands w1 = commands w" using compile_effect [OF assms(2,1)] by (simp add: untouched_def)
  have "compile_binary tc p out w = (case linker tc args of
      Inl err \<Rightarrow> Inr (Inl (LinkError err), after args) | Inr ok \<Rightarrow> if ok then Inr (Inr (), after args) else Inl Panic)"
    if "r = Inr obj" "link_binary_args tc [obj] out = Inr args" for obj args
    using assms(2) that c
    by (auto simp: compile_binary_def link_binary_def io_then_def run_linker_def io_assert_def after_def split: sum.splits)
  moreover have "compile_shared_lib tc p out w = (case linker tc args of
      Inl err \<Rightarrow> Inr (Inl (LinkError err), after args) | Inr _ \<Rightarrow> Inr (Inr (), after args))"
    if "r = Inr obj" "link_shared_lib_args tc [obj] out = Inr args" for obj args
    using assms(2) that c
    by (auto simp: compile_shared_lib_def link_shared_lib_def io_then_def run_linker_def io_return_def after_def split: sum.splits)
  moreover have "compile_binary tc p out w = Inr (Inl e, w1) \<and> compile_shared_lib tc p out w = Inr (Inl e, w1)"
    if "r = Inl e" for e
    using assms(2) that by (simp add: compile_binary_def compile_shared_lib_def io_then_def)
  ultimately show ?thesis using compile_effect [OF assms(2,1)] link_args_object c by auto
qed

definition sample_toolchain :: "unit toolchain" where
  "sample_toolchain = \<lparr>target_os = Linux, default_triple = ''x86_64'', target_error = (\<lambda>_. None), data_layout = [],
     new_module = (\<lambda>_ _. ()), emit_program = (\<lambda>m _. m), mlir_verify = (\<lambda>_. True), mlir_to_string = (\<lambda>_. []),
     set_data_layout = (\<lambda>m _. m), run_passes = (\<lambda>_ _ m. Some m), translate_to_llvm = (\<lambda>m. m),
     llvm_run_passes = (\<lambda>m _. Inr m), write_error = (\<lambda>_. None), emit_error = (\<lambda>_. None),
     linker = (\<lambda>_. Inr False), path_exists = (\<lambda>_. False)\<rparr>"

theorem link_outcome_witness:
  "\<exists>w'. compile_shared_lib sample_toolchain (program_from []) \<lparr>path_dir = ''out/'', path_name = ''prog''\<rparr>
       \<lparr>files = Map.empty, commands = []\<rparr> = Inr (Inr (), w') \<and> length (commands w') = 1 \<and>
     compile_binary sample_toolchain (program_from []) \<lparr>path_dir = ''out/'', path_name = ''prog''\<rparr>
       \<lparr>files = Map.empty, commands = []\<rparr> = Inl Panic"
proof -
  let ?out = "\<lparr>path_dir = ''out/'', path_name = ''prog''\<rparr>" and ?w = "\<lparr>files = Map.empty, commands = []\<rparr>"
  obtain obj w1 where c: "compile sample_toolchain (program_from []) ?out ?w = Inr (Inr obj, w1)"
    by (simp add: compile_def context_compile_def compile_to_object_def io_then_def io_return_def io_try_def io_assert_def
        write_optional_def write_mlir_def llvm_emit_def get_data_layout_rep_def run_pass_manager_def sample_toolchain_def
        compile_program_def program_from_def jumpdest_pcs_def jumpdest_blocks_def map_filter_simps Let_def)
  obtain args args' where "link_binary_args sample_toolchain [obj] ?out = Inr args"
    "link_shared_lib_args sample_toolchain [obj] ?out = Inr args'"
    by (auto simp: link_binary_args_def link_shared_lib_args_def sample_toolchain_def)
  then show ?thesis
    using link_outcome [OF _ c] by (auto simp: sample_toolchain_def)
qed

end
