(* ===== verification/Spec2Isabelle.thy ===== *)
theory Spec2Isabelle
  imports Runaway Machine_Types Evm Env_Spec Output_Spec Create_Spec Program_Exec Aot
begin

text \<open>
  A verification development of \<^verbatim>\<open>evm_mlir\<close>, an Ethereum virtual machine that compiles bytecode to
  MLIR and runs the compiled code against a database of accounts.

  \<^bold>\<open>The program.\<close> A transaction enters at \<^verbatim>\<open>Evm::transact\<close> (\<^verbatim>\<open>src/src/lib.rs\<close>). It is validated and
  charged (\<^verbatim>\<open>env.rs\<close>), the bytecode of its target is parsed (\<^verbatim>\<open>program.rs\<close>), compiled
  to one function (\<^verbatim>\<open>context.rs\<close>, \<^verbatim>\<open>codegen/\<close>, \<^verbatim>\<open>utils/\<close>) and run (\<^verbatim>\<open>executor.rs\<close>). The compiled
  code keeps its stack, gas counter and memory size in globals and calls back into Rust for everything
  else: the system calls (\<^verbatim>\<open>syscall.rs\<close>) work on a context that holds the environment, the
  memory, the logs and the journal (\<^verbatim>\<open>journal.rs\<close>), an overlay over the database (\<^verbatim>\<open>db.rs\<close>,
  \<^verbatim>\<open>state.rs\<close>). A call or a creation compiles and runs another program in a context of its own; the
  addresses 1 to 9 are precompiled contracts (\<^verbatim>\<open>precompiles.rs\<close>). The result (\<^verbatim>\<open>result.rs\<close>) carries the
  final state, which \<^verbatim>\<open>transact_commit\<close> writes to the database.

  \<^bold>\<open>The theories,\<close> in the order of their imports:

  \<^item> \<open>Prelude\<close>: results with the faults \<open>Panic\<close>, \<open>Undefined_Behaviour\<close> and \<open>Out_Of_Fuel\<close>, machine
    integers, byte strings, slices, and the interface \<open>kv_store\<close> of a store of slots.
  \<^item> \<open>Program\<close>: opcodes, operations, both parsers and the printer. They are inverse where they can be,
    parsing is total, and the jump destinations are those of the scan that skips push data.
  \<^item> \<open>Constants\<close>: the constants and cost functions at the width of the source.
  \<^item> \<open>State_Db\<close>: accounts, status flags and the in-memory database; the commit does not depend on the
    order of the hash map.
  \<^item> \<open>Result\<close>, \<open>Env\<close>: results and errors; environments, validation, intrinsic gas, blob price,
    contract addresses.
  \<^item> \<open>Journal\<close>: every operation of the journal, its step relation, the coherence invariant, the
    revert, and that a commit stores what the journal shows. The accounts of an access list are outside the invariant: the prefetch
    hides what the database holds for them.
  \<^item> \<open>Precompiles\<close>: the nine precompiled contracts and their gas.
  \<^item> \<open>Syscall\<close>: the context and every system call; calls and creations take the executor of the
    callee as a parameter.
  \<^item> \<open>Machine\<close>: the state of the compiled code and the code fragments of \<^verbatim>\<open>utils/\<close>; the stack as an
    instance of the interface \<open>lifo\<close>.
  \<^item> \<open>Codegen_Alu\<close>, \<open>Codegen_Env\<close>, \<open>Codegen_Memory\<close>, \<open>Codegen_World\<close>: the code of every operation
    (\<^verbatim>\<open>codegen/operations.rs\<close>), one definition for each \<^verbatim>\<open>codegen_*\<close> function, and their dispatch.
  \<^item> \<open>Exec\<close>: the jump table, compilation, and running a program block by block; calls run through
    the same function.
  \<^item> \<open>Evm\<close>: transactions, their gas, and that a commit stores their final state.
  \<^item> \<open>Alu_Spec\<close>: a table of what the EVM says of the arithmetic, comparison, bitwise and shift operations;
    the code refines it, with the operands where it does not.
  \<^item> \<open>Effects\<close>: what an execution may do to its context. The interfaces \<open>context_relation\<close> and
    \<open>machine_relation\<close> carry a relation from the system calls to whole programs; an execution changes
    the journal only by its operations, and a static one changes nothing.
  \<^item> \<open>Machine_Types\<close>: the invariant of the machine, and the effect of every operation on the height of the stack. \<open>Call_Spec\<close>: value and gas of calls.
    \<open>Memory_Spec\<close>: stores and loads. \<open>Env_Spec\<close>: the table of the operations that push values of the
    environment, and exponentiation. \<open>World_Spec\<close>: what a failed call leaves, storage. \<open>Create_Spec\<close>: what a creation
    leaves. \<open>Output_Spec\<close>: what \<^verbatim>\<open>RETURN\<close> and \<^verbatim>\<open>REVERT\<close> report. \<open>Progress\<close>: programs without calls and logs end within a number
    of blocks that their gas bounds. \<open>Runaway\<close>: a program with logs that never ends.
  \<^item> \<open>Mlir\<close>, \<open>Binding\<close>: the intermediate representation with the checks of its verifier, and the binding of the
    system calls: symbol names, signatures of the Rust functions (\<^verbatim>\<open>syscall.rs\<close>), registration with the
    engine, declaration in the module, and the wrappers of \<^verbatim>\<open>codegen/context.rs\<close>.
  \<^item> \<open>Fragments\<close>: the operations that the fragments of \<^verbatim>\<open>utils/\<close>, the setup blocks and the revert block
    emit. Every wrapper of a system call is well typed, declared and registered.
  \<^item> \<open>Mlir_Exec\<close>: a semantics of the emitted operations on globals, stack cells, cells of the frame and values, with what
    every call of a Rust function does to them. \<open>Implements\<close>, \<open>Emit_Rules\<close>, \<open>Code_Rules\<close>: what it means that emitted code
    implements a definition on the machine, and the rules that compose such facts.
  \<^item> \<open>Fragment_Exec\<close>, \<open>Emit_Alu\<close>, \<open>Emit_Env\<close>, \<open>Emit_Memory\<close>, \<open>Emit_World\<close>: the blocks that are emitted for the fragments
    and for every operation (\<^verbatim>\<open>codegen/operations.rs\<close>), and that they implement the machine model above: they run in step with
    it, and have a fault exactly where it has. The locale \<open>main_function\<close> holds what the emitters know of the function they
    write into; \<open>Operation_Exec\<close> interprets it on the context that \<^verbatim>\<open>OperationCtx::new\<close> makes.
  \<^item> \<open>Emit_Types\<close>: the emitted blocks of every operation pass the verifier. \<open>Program_Exec\<close>: whole programs, as
    \<^verbatim>\<open>compile_program\<close> emits them and the engine runs them, end as the machine model does.
  \<^item> \<open>Aot\<close>: compilation to files: \<^verbatim>\<open>Context::compile\<close>, the pass pipeline, the object file and the linker
    (\<^verbatim>\<open>codegen/mod.rs\<close>), and \<^verbatim>\<open>main.rs\<close>; what they leave behind is a map of files and a list of commands.

  \<^bold>\<open>Conventions.\<close> A Rust function that may panic returns a \<open>res\<close>; a \<open>Result\<close> of the source is a sum inside
  it. A pointer argument that is written is a further result. Words keep their width and wrap as in a
  release build; a signed comparison of the generated code is a comparison of \<open>sint\<close>. A block of generated
  code is a function from the machine to the machine and the way it goes on (\<open>flow\<close>). A load or store outside
  an allocation, the overflowing signed division and the read of an uninitialized cell are
  \<open>Undefined_Behaviour\<close>. Crates that are not part of the repository (hash functions, elliptic curves, the
  allocator's answer to \<^verbatim>\<open>try_reserve\<close>, \<^verbatim>\<open>math.ipowi\<close> of a negative exponent, the bytes behind a dangling
  pointer) are fields of the parameter \<open>host\<close>; the properties hold for every \<open>host\<close>, and where an allocation may fail they say
  what happens then. Panics inside these crates are not represented.

  \<^bold>\<open>Fuel.\<close> \<open>run\<close> takes one unit for each block and for each level of calls. Running out of it is the fault
  \<open>Out_Of_Fuel\<close>, which no other part of the model produces. \<open>Progress\<close> shows that more fuel than gas is enough for a program
  without calls and logs; \<open>Runaway\<close> shows that no bound exists with logs. Properties of executions with calls
  speak of every execution that returns.

  \<^bold>\<open>Not modelled.\<close> LLVM, MLIR, the linker and the file system are outside the repository: they are the parameter
  \<open>toolchain\<close> of \<open>Aot\<close>, and the lowering of MLIR to machine code has no counterpart. The branch from the last block of an operation to the
  first of the next, and the switch of the jump table, are the control flow of \<open>run_main_blocks\<close>, not operations of a block. The module wrapper (\<^verbatim>\<open>module.rs\<close>),
  the initialization of MLIR and \<^verbatim>\<open>primitives.rs\<close> hand values through. The \<open>Display\<close>
  implementations of \<^verbatim>\<open>result.rs\<close> produce text. The release of LLVM objects is not tracked.
\<close>

end
